(* ===== verification/Prelude.thy ===== *)
theory Prelude
  imports Main "HOL-Library.Sublist"
begin

text \<open>
  Shared vocabulary of the development.

  A Go function that may return an error, may panic and works on mutable objects is a
  \<open>proc\<close>: a function from a state to an outcome and the state it leaves behind. The
  outcome keeps the three ways such a function ends apart: a value, an error value that
  the caller inspects, and a panic (a nil dereference or an index out of range), which
  no function of this program recovers from. The state survives an error, as the objects
  a Go function has already mutated do.

  \<open>wp\<close> is the weakest precondition of a \<open>proc\<close>. The equations of \<open>wp_simps\<close> compute
  it over the combinators, so that a property of a handler is a few rewriting steps over
  the specifications of the functions it calls.
\<close>

named_theorems wp_simps \<open>equations that compute the weakest precondition of a procedure\<close>
named_theorems pres_rules \<open>rules that a procedure keeps a relation between its states\<close>
named_theorems yields_rules \<open>rules for the values a procedure returns\<close>

section \<open>Error values\<close>

text \<open>
  An error of the API server carries a reason. \<open>fmt.Errorf\<close> with \<open>%v\<close> prints the cause
  into a fresh error, which hides the reason (\<open>EOpaque\<close>); \<open>errors.Wrapf\<close> and \<open>%w\<close>
  keep the cause reachable (\<open>EWrap\<close>).
\<close>

datatype apierr = NotFound | AlreadyExists | Conflict | OtherApi string

datatype goerr =
    EApi apierr
  | EMsg string
  | EOpaque string goerr
  | EWrap string goerr
  | EAggregate "goerr list"

fun isNotFound :: "goerr \<Rightarrow> bool" where
  "isNotFound (EApi e) = (e = NotFound)"
| "isNotFound (EWrap _ e) = isNotFound e"
| "isNotFound (EMsg _) = False"
| "isNotFound (EOpaque _ _) = False"
| "isNotFound (EAggregate _) = False"

fun isAlreadyExists :: "goerr \<Rightarrow> bool" where
  "isAlreadyExists (EApi e) = (e = AlreadyExists)"
| "isAlreadyExists (EWrap _ e) = isAlreadyExists e"
| "isAlreadyExists (EMsg _) = False"
| "isAlreadyExists (EOpaque _ _) = False"
| "isAlreadyExists (EAggregate _) = False"

section \<open>Procedures\<close>

datatype 'a outcome = Ok 'a | Err goerr | Panic

type_synonym ('s, 'a) proc = "'s \<Rightarrow> 'a outcome \<times> 's"

definition retP :: "'a \<Rightarrow> ('s, 'a) proc" where
  "retP x s = (Ok x, s)"

definition failP :: "goerr \<Rightarrow> ('s, 'a) proc" where
  "failP e s = (Err e, s)"

definition panicP :: "('s, 'a) proc" where
  "panicP s = (Panic, s)"

definition bindP :: "('s, 'a) proc \<Rightarrow> ('a \<Rightarrow> ('s, 'b) proc) \<Rightarrow> ('s, 'b) proc" where
  "bindP m f s = (case m s of
       (Ok x, s') \<Rightarrow> f x s'
     | (Err e, s') \<Rightarrow> (Err e, s')
     | (Panic, s') \<Rightarrow> (Panic, s'))"

definition seqP :: "('s, 'a) proc \<Rightarrow> ('s, 'b) proc \<Rightarrow> ('s, 'b) proc" where
  "seqP m n = bindP m (\<lambda>_. n)"

text \<open>\<open>onErr m h\<close> is \<open>if x, err := m(); err != nil { h(err) }\<close>: \<open>h\<close> decides what is returned.\<close>

definition onErr :: "('s, 'a) proc \<Rightarrow> (goerr \<Rightarrow> ('s, 'a) proc) \<Rightarrow> ('s, 'a) proc" where
  "onErr m h s = (case m s of
       (Ok x, s') \<Rightarrow> (Ok x, s')
     | (Err e, s') \<Rightarrow> h e s'
     | (Panic, s') \<Rightarrow> (Panic, s'))"

text \<open>\<open>tryP m f\<close> hands both returned values of \<open>m\<close> to \<open>f\<close>, an error as a value.\<close>

definition tryP :: "('s, 'a) proc \<Rightarrow> (goerr + 'a \<Rightarrow> ('s, 'b) proc) \<Rightarrow> ('s, 'b) proc" where
  "tryP m f s = (case m s of
       (Ok x, s') \<Rightarrow> f (Inr x) s'
     | (Err e, s') \<Rightarrow> f (Inl e) s'
     | (Panic, s') \<Rightarrow> (Panic, s'))"

definition getP :: "('s \<Rightarrow> 'a) \<Rightarrow> ('s, 'a) proc" where
  "getP f s = (Ok (f s), s)"

definition modifyP :: "('s \<Rightarrow> 's) \<Rightarrow> ('s, unit) proc" where
  "modifyP f s = (Ok (), f s)"

definition ifP :: "bool \<Rightarrow> ('s, unit) proc \<Rightarrow> ('s, unit) proc" where
  "ifP b m = (if b then m else retP ())"

text \<open>A pointer that is dereferenced: nil panics.\<close>

definition derefP :: "'a option \<Rightarrow> ('s, 'a) proc" where
  "derefP p = (case p of None \<Rightarrow> panicP | Some x \<Rightarrow> retP x)"

text \<open>A slice that is indexed: an index out of range panics.\<close>

definition indexO :: "'a list \<Rightarrow> nat \<Rightarrow> 'a option" where
  "indexO xs i = (if i < length xs then Some (xs ! i) else None)"

fun forEach :: "'a list \<Rightarrow> ('a \<Rightarrow> ('s, unit) proc) \<Rightarrow> ('s, unit) proc" where
  "forEach [] f = retP ()"
| "forEach (x # xs) f = seqP (f x) (forEach xs f)"

text \<open>\<open>defer f()\<close>: \<open>f\<close> runs when the function ends, whatever way it ends.\<close>

definition finallyP :: "('s, 'a) proc \<Rightarrow> ('s, unit) proc \<Rightarrow> ('s, 'a) proc" where
  "finallyP m f s = (case m s of (r, s') \<Rightarrow> (r, snd (f s')))"

text \<open>
  The deferred patch of a reconciler: its error is aggregated with the error the function
  returns. \<open>NewAggregate\<close> drops nil errors.
\<close>

definition deferErr :: "('s, 'a) proc \<Rightarrow> ('s, unit) proc \<Rightarrow> ('s, 'a) proc" where
  "deferErr m d s = (case m s of (r, s') \<Rightarrow>
     (case d s' of
        (Ok _, s'') \<Rightarrow> (r, s'')
      | (Err e, s'') \<Rightarrow>
          (case r of Ok _ \<Rightarrow> Err (EAggregate [e]) | Err e0 \<Rightarrow> Err (EAggregate [e0, e]) | Panic \<Rightarrow> Panic, s'')
      | (Panic, s'') \<Rightarrow> (Panic, s'')))"

section \<open>Functions without state, and loops with results\<close>

text \<open>Results of functions without state: a value, an error or a panic.\<close>

fun bindO :: "'a outcome \<Rightarrow> ('a \<Rightarrow> 'b outcome) \<Rightarrow> 'b outcome" where
  "bindO (Ok x) f = f x"
| "bindO (Err e) f = Err e"
| "bindO Panic f = Panic"

definition sumO :: "goerr + 'a \<Rightarrow> 'a outcome" where
  "sumO r = (case r of Inl e \<Rightarrow> Err e | Inr x \<Rightarrow> Ok x)"

definition derefO :: "'a option \<Rightarrow> 'a outcome" where
  "derefO p = (case p of None \<Rightarrow> Panic | Some x \<Rightarrow> Ok x)"

definition liftE :: "goerr + 'a \<Rightarrow> ('s, 'a) proc" where
  "liftE r = (case r of Inl e \<Rightarrow> failP e | Inr x \<Rightarrow> retP x)"

definition liftO :: "'a outcome \<Rightarrow> ('s, 'a) proc" where
  "liftO r s = (r, s)"

text \<open>The results of a loop in the order of its rounds.\<close>

fun mapP :: "'a list \<Rightarrow> ('a \<Rightarrow> ('s, 'b) proc) \<Rightarrow> ('s, 'b list) proc" where
  "mapP [] f = retP []"
| "mapP (x # xs) f = bindP (f x) (\<lambda>y. bindP (mapP xs f) (\<lambda>ys. retP (y # ys)))"

section \<open>Weakest preconditions\<close>

definition wp :: "('s, 'a) proc \<Rightarrow> ('a outcome \<Rightarrow> 's \<Rightarrow> bool) \<Rightarrow> 's \<Rightarrow> bool" where
  "wp m Q s = (case m s of (r, s') \<Rightarrow> Q r s')"

lemma wp_retP [wp_simps]: "wp (retP x) Q s = Q (Ok x) s"
  by (simp add: wp_def retP_def)

lemma wp_failP [wp_simps]: "wp (failP e) Q s = Q (Err e) s"
  by (simp add: wp_def failP_def)

lemma wp_panicP [wp_simps]: "wp panicP Q s = Q Panic s"
  by (simp add: wp_def panicP_def)

lemma wp_bindP [wp_simps]:
  "wp (bindP m f) Q s =
     wp m (\<lambda>r s'. case r of Ok x \<Rightarrow> wp (f x) Q s' | Err e \<Rightarrow> Q (Err e) s' | Panic \<Rightarrow> Q Panic s') s"
  by (simp add: wp_def bindP_def split: outcome.splits prod.splits)

lemma wp_seqP [wp_simps]:
  "wp (seqP m n) Q s =
     wp m (\<lambda>r s'. case r of Ok x \<Rightarrow> wp n Q s' | Err e \<Rightarrow> Q (Err e) s' | Panic \<Rightarrow> Q Panic s') s"
  by (simp add: seqP_def wp_bindP)

lemma wp_onErr [wp_simps]:
  "wp (onErr m h) Q s =
     wp m (\<lambda>r s'. case r of Ok x \<Rightarrow> Q (Ok x) s' | Err e \<Rightarrow> wp (h e) Q s' | Panic \<Rightarrow> Q Panic s') s"
  by (simp add: wp_def onErr_def split: outcome.splits prod.splits)

lemma wp_tryP [wp_simps]:
  "wp (tryP m f) Q s =
     wp m (\<lambda>r s'. case r of Ok x \<Rightarrow> wp (f (Inr x)) Q s' | Err e \<Rightarrow> wp (f (Inl e)) Q s'
                          | Panic \<Rightarrow> Q Panic s') s"
  by (simp add: wp_def tryP_def split: outcome.splits prod.splits)

lemma wp_getP [wp_simps]: "wp (getP f) Q s = Q (Ok (f s)) s"
  by (simp add: wp_def getP_def)

lemma wp_modifyP [wp_simps]: "wp (modifyP f) Q s = Q (Ok ()) (f s)"
  by (simp add: wp_def modifyP_def)

lemma wp_ifP [wp_simps]: "wp (ifP b m) Q s = (if b then wp m Q s else Q (Ok ()) s)"
  by (simp add: ifP_def wp_retP)

lemma wp_derefP [wp_simps]:
  "wp (derefP p) Q s = (case p of None \<Rightarrow> Q Panic s | Some x \<Rightarrow> Q (Ok x) s)"
  by (simp add: derefP_def wp_retP wp_panicP split: option.splits)

lemma wp_finallyP [wp_simps]:
  "wp (finallyP m f) Q s = wp m (\<lambda>r s'. wp f (\<lambda>_. Q r) s') s"
  by (simp add: wp_def finallyP_def split: prod.splits)

lemma wp_deferErr [wp_simps]:
  "wp (deferErr m d) Q s = wp m (\<lambda>r s'. wp d (\<lambda>r' s''. case r' of
       Ok _ \<Rightarrow> Q r s''
     | Err e \<Rightarrow> Q (case r of Ok _ \<Rightarrow> Err (EAggregate [e]) | Err e0 \<Rightarrow> Err (EAggregate [e0, e]) | Panic \<Rightarrow> Panic) s''
     | Panic \<Rightarrow> Q Panic s'') s') s"
  by (simp add: wp_def deferErr_def split: prod.splits outcome.splits)

lemma wp_liftE [wp_simps]: "wp (liftE r) Q s = (case r of Inl e \<Rightarrow> Q (Err e) s | Inr x \<Rightarrow> Q (Ok x) s)"
  by (simp add: liftE_def wp_simps split: sum.splits)

lemma wp_liftO [wp_simps]: "wp (liftO r) Q s = Q r s"
  by (simp add: wp_def liftO_def)

lemma wp_mapP_Cons:
  "wp (mapP (x # xs) f) Q s = wp (f x) (\<lambda>r s'. case r of
     Ok y \<Rightarrow> wp (mapP xs f) (\<lambda>r' s''. Q (case r' of Ok ys \<Rightarrow> Ok (y # ys) | Err e \<Rightarrow> Err e | Panic \<Rightarrow> Panic) s'') s'
   | Err e \<Rightarrow> Q (Err e) s' | Panic \<Rightarrow> Q Panic s') s"
  by (simp add: wp_def bindP_def retP_def split: prod.splits outcome.splits)

lemma wp_mono:
  assumes "wp m P s" and "\<And>r s'. P r s' \<Longrightarrow> Q r s'"
  shows "wp m Q s"
  using assms by (auto simp: wp_def split: prod.splits)

lemma wpD: "wp m Q s \<Longrightarrow> m s = (r, s') \<Longrightarrow> Q r s'"
  by (simp add: wp_def)

lemma wpI: "(\<And>r s'. m s = (r, s') \<Longrightarrow> Q r s') \<Longrightarrow> wp m Q s"
  by (auto simp: wp_def split: prod.splits)

lemma wp_conj: "wp m (\<lambda>r s'. P r s' \<and> Q r s') s \<longleftrightarrow> wp m P s \<and> wp m Q s"
  by (auto simp: wp_def split: prod.splits)

text \<open>A loop over a slice, with an invariant between iterations.\<close>

lemma wp_forEach:
  assumes "I s"
    and step: "\<And>x s. x \<in> set xs \<Longrightarrow> I s \<Longrightarrow>
      wp (f x) (\<lambda>r s'. case r of Ok _ \<Rightarrow> I s' | Err e \<Rightarrow> Q (Err e) s' | Panic \<Rightarrow> Q Panic s') s"
    and "\<And>s. I s \<Longrightarrow> Q (Ok ()) s"
  shows "wp (forEach xs f) Q s"
  using assms
proof (induction xs arbitrary: s)
  case Nil
  then show ?case by (simp add: wp_retP)
next
  case (Cons x xs)
  have "wp (f x) (\<lambda>r s'. case r of Ok _ \<Rightarrow> I s' | Err e \<Rightarrow> Q (Err e) s' | Panic \<Rightarrow> Q Panic s') s"
    using Cons.prems by simp
  then show ?case
    by (auto simp: wp_seqP intro!: Cons.IH Cons.prems elim!: wp_mono split: outcome.splits)
qed

section \<open>Values a procedure returns\<close>

text \<open>\<open>yields P m\<close>: whatever the state, a run of \<open>m\<close> that returns a value returns one with \<open>P\<close>.\<close>

definition yields :: "('a \<Rightarrow> bool) \<Rightarrow> ('s, 'a) proc \<Rightarrow> bool" where
  "yields P m = (\<forall>s x t. m s = (Ok x, t) \<longrightarrow> P x)"

lemma yieldsD: "yields P m \<Longrightarrow> m s = (Ok x, t) \<Longrightarrow> P x"
  by (auto simp: yields_def)

lemma yields_retP [yields_rules]: "P x \<Longrightarrow> yields P (retP x)"
  by (simp add: yields_def retP_def)

lemma yields_failP [yields_rules]: "yields P (failP e)"
  by (simp add: yields_def failP_def)

lemma yields_bindP [yields_rules]: "(\<And>x. yields P (f x)) \<Longrightarrow> yields P (bindP m f)"
  by (auto simp: yields_def bindP_def split: prod.splits outcome.splits)

lemma yields_seqP [yields_rules]: "yields P n \<Longrightarrow> yields P (seqP m n)"
  by (simp add: seqP_def yields_bindP)

lemma yields_if [yields_rules]: "\<lbrakk>b \<Longrightarrow> yields P m; \<not> b \<Longrightarrow> yields P n\<rbrakk> \<Longrightarrow> yields P (if b then m else n)"
  by simp

lemma yields_option [yields_rules]:
  "\<lbrakk>yields P m; \<And>y. yields P (f y)\<rbrakk> \<Longrightarrow> yields P (case x of None \<Rightarrow> m | Some y \<Rightarrow> f y)"
  by (cases x) simp_all

lemma yields_prod [yields_rules]: "(\<And>y z. yields P (f y z)) \<Longrightarrow> yields P (case x of (y, z) \<Rightarrow> f y z)"
  by (cases x) simp

lemma yields_Let [yields_rules]: "yields P (f t) \<Longrightarrow> yields P (let x = t in f x)"
  by simp

section \<open>Relations a procedure keeps\<close>

text \<open>
  \<open>pres R m\<close>: every run of \<open>m\<close>, also one that fails or panics, leads from a state to one
  related by \<open>R\<close>. For a reflexive and transitive \<open>R\<close> the rules go through the combinators,
  so that \<open>intro pres_rules\<close> reduces a procedure to its basic steps.
\<close>

definition pres :: "('s \<Rightarrow> 's \<Rightarrow> bool) \<Rightarrow> ('s, 'a) proc \<Rightarrow> bool" where
  "pres R m = (\<forall>s. wp m (\<lambda>_ s'. R s s') s)"

lemma presD: "pres R m \<Longrightarrow> m s = (r, s') \<Longrightarrow> R s s'"
  by (auto simp: pres_def dest: wpD)

lemma presI: "(\<And>s r s'. m s = (r, s') \<Longrightarrow> R s s') \<Longrightarrow> pres R m"
  by (auto simp: pres_def intro: wpI)

lemma pres_if [pres_rules]: "\<lbrakk>b \<Longrightarrow> pres R m; \<not> b \<Longrightarrow> pres R n\<rbrakk> \<Longrightarrow> pres R (if b then m else n)"
  by simp

lemma pres_option [pres_rules]:
  "\<lbrakk>x = None \<Longrightarrow> pres R m; \<And>y. x = Some y \<Longrightarrow> pres R (f y)\<rbrakk> \<Longrightarrow> pres R (case x of None \<Rightarrow> m | Some y \<Rightarrow> f y)"
  by (cases x) auto

lemma pres_sum [pres_rules]:
  "\<lbrakk>\<And>y. x = Inl y \<Longrightarrow> pres R (f y); \<And>y. x = Inr y \<Longrightarrow> pres R (g y)\<rbrakk> \<Longrightarrow>
     pres R (case x of Inl y \<Rightarrow> f y | Inr y \<Rightarrow> g y)"
  by (cases x) auto

lemma pres_prod [pres_rules]: "(\<And>y z. x = (y, z) \<Longrightarrow> pres R (f y z)) \<Longrightarrow> pres R (case x of (y, z) \<Rightarrow> f y z)"
  by (cases x) auto

lemma pres_Let [pres_rules]: "pres R (f t) \<Longrightarrow> pres R (let x = t in f x)"
  by simp

locale frame_rule =
  fixes R :: "'s \<Rightarrow> 's \<Rightarrow> bool"
  assumes R_refl: "R s s"
    and R_trans: "\<lbrakk>R s t; R t u\<rbrakk> \<Longrightarrow> R s u"
begin

lemma pres_retP [pres_rules]: "pres R (retP x)"
  by (simp add: pres_def wp_retP R_refl)

lemma pres_failP [pres_rules]: "pres R (failP e)"
  by (simp add: pres_def wp_failP R_refl)

lemma pres_panicP [pres_rules]: "pres R panicP"
  by (simp add: pres_def wp_panicP R_refl)

lemma pres_getP [pres_rules]: "pres R (getP f)"
  by (simp add: pres_def wp_getP R_refl)

lemma pres_derefP [pres_rules]: "pres R (derefP p)"
  by (simp add: pres_def wp_derefP R_refl split: option.splits)

lemma pres_modifyP [pres_rules]: "(\<And>s. R s (f s)) \<Longrightarrow> pres R (modifyP f)"
  by (simp add: pres_def wp_modifyP)

lemma pres_bindP [pres_rules]:
  assumes "pres R m" and "\<And>x. pres R (f x)"
  shows "pres R (bindP m f)"
proof (rule presI)
  fix s r s'
  assume run: "bindP m f s = (r, s')"
  obtain o' t where t: "m s = (o', t)" by (cases "m s")
  then have "R s t" using assms(1) presD by metis
  with run t show "R s s'"
    using assms(2) by (cases o') (auto simp: bindP_def intro: R_trans dest: presD)
qed

lemma pres_seqP [pres_rules]: "\<lbrakk>pres R m; pres R n\<rbrakk> \<Longrightarrow> pres R (seqP m n)"
  by (simp add: seqP_def pres_bindP)

lemma pres_tryP [pres_rules]:
  assumes "pres R m" and "\<And>x. pres R (f x)"
  shows "pres R (tryP m f)"
proof (rule presI)
  fix s r s'
  assume run: "tryP m f s = (r, s')"
  obtain o' t where t: "m s = (o', t)" by (cases "m s")
  then have "R s t" using assms(1) presD by metis
  with run t show "R s s'"
    using assms(2) by (cases o') (auto simp: tryP_def intro: R_trans dest: presD)
qed

lemma pres_onErr [pres_rules]:
  assumes "pres R m" and "\<And>e. pres R (h e)"
  shows "pres R (onErr m h)"
proof (rule presI)
  fix s r s'
  assume run: "onErr m h s = (r, s')"
  obtain o' t where t: "m s = (o', t)" by (cases "m s")
  then have "R s t" using assms(1) presD by metis
  with run t show "R s s'"
    using assms(2) by (cases o') (auto simp: onErr_def intro: R_trans dest: presD)
qed

lemma pres_ifP [pres_rules]: "(b \<Longrightarrow> pres R m) \<Longrightarrow> pres R (ifP b m)"
  by (simp add: ifP_def pres_retP)

lemma pres_finallyP [pres_rules]:
  assumes "pres R m" and "pres R f"
  shows "pres R (finallyP m f)"
proof (rule presI)
  fix s r s'
  assume run: "finallyP m f s = (r, s')"
  obtain o' t where t: "m s = (o', t)" by (cases "m s")
  obtain p u where u: "f t = (p, u)" by (cases "f t")
  have "R s t" "R t u" using assms presD t u by metis+
  then show "R s s'" using run t u by (auto simp: finallyP_def intro: R_trans)
qed

lemma pres_deferErr [pres_rules]:
  assumes "pres R m" and "pres R d"
  shows "pres R (deferErr m d)"
proof (rule presI)
  fix s r s'
  assume run: "deferErr m d s = (r, s')"
  obtain o' t where t: "m s = (o', t)" by (cases "m s")
  obtain p u where u: "d t = (p, u)" by (cases "d t")
  have "R s t" "R t u" using assms presD t u by metis+
  moreover have "s' = u" using run t u by (auto simp: deferErr_def split: outcome.splits)
  ultimately show "R s s'" by (auto intro: R_trans)
qed

lemma pres_liftE [pres_rules]: "pres R (liftE r)"
  by (simp add: pres_def wp_liftE R_refl split: sum.splits)

lemma pres_liftO [pres_rules]: "pres R (liftO r)"
  by (simp add: pres_def wp_liftO R_refl)

lemma pres_mapP [pres_rules]: "(\<And>x. x \<in> set xs \<Longrightarrow> pres R (f x)) \<Longrightarrow> pres R (mapP xs f)"
  by (induction xs) (auto intro: pres_retP pres_bindP)

lemma pres_forEach [pres_rules]: "(\<And>x. x \<in> set xs \<Longrightarrow> pres R (f x)) \<Longrightarrow> pres R (forEach xs f)"
  by (induction xs) (auto intro: pres_retP pres_seqP)

end

section \<open>Lists and maps\<close>

lemma indexO_Some [simp]: "indexO xs i = Some x \<longleftrightarrow> i < length xs \<and> xs ! i = x"
  by (simp add: indexO_def)

lemma indexO_None [simp]: "indexO xs i = None \<longleftrightarrow> length xs \<le> i"
  by (simp add: indexO_def)

lemma indexO_Nil [simp]: "indexO [] i = None"
  by (simp add: indexO_def)

lemma indexO_Cons_0 [simp]: "indexO (x # xs) 0 = Some x"
  by (simp add: indexO_def)

lemma indexO_Cons_Suc [simp]: "indexO (x # xs) (Suc i) = indexO xs i"
  by (simp add: indexO_def)

text \<open>
  Iterating over \<open>xs\<close> and storing \<open>g x\<close> under \<open>k x\<close>: the last element with a key wins.
  With distinct keys the table is a lookup in the list of pairs.
\<close>

definition tableOf :: "('a \<Rightarrow> 'k) \<Rightarrow> ('a \<Rightarrow> 'v) \<Rightarrow> 'a list \<Rightarrow> ('k \<rightharpoonup> 'v)" where
  "tableOf k g xs = foldl (\<lambda>m x. m(k x \<mapsto> g x)) Map.empty xs"

lemma foldl_upd_notin:
  "key \<notin> k ` set xs \<Longrightarrow> foldl (\<lambda>m x. m(k x \<mapsto> g x)) m xs key = m key"
  by (induction xs arbitrary: m) auto

lemma tableOf_lookup:
  assumes "distinct (map k xs)" and "x \<in> set xs"
  shows "tableOf k g xs (k x) = Some (g x)"
proof -
  have "foldl (\<lambda>m x. m(k x \<mapsto> g x)) m xs (k x) = Some (g x)" for m
    using assms by (induction xs arbitrary: m) (auto simp: foldl_upd_notin)
  then show ?thesis by (simp add: tableOf_def)
qed

lemma map_tableOf:
  assumes "distinct (map k xs)" and "set ys \<subseteq> set xs"
  shows "map (\<lambda>y. tableOf k g xs (k y)) ys = map (\<lambda>y. Some (g y)) ys"
  using assms by (auto simp: tableOf_lookup)

end
