(* ===== verification/GoStrings.thy ===== *)
theory GoStrings
  imports Prelude
begin

text \<open>
  The functions of Go's \<open>strings\<close> and \<open>regexp\<close> packages that the program uses, on byte
  strings. White space is ASCII white space: \<open>strings.TrimSpace\<close> also removes the
  Unicode spaces beyond ASCII, which no theorem of this development applies it to.

  Every regular expression of the program is an alternation of literals (a character
  class of single characters is one too), so \<open>(*Regexp).Split(s, -1)\<close> is \<open>splitLits\<close>:
  at each position the first literal of the alternation that matches is a separator.
\<close>

abbreviation nl :: char where "nl \<equiv> CHR 0x0A"

definition isSpace :: "char \<Rightarrow> bool" where
  "isSpace c = (c \<in> {CHR 0x09, CHR 0x0A, CHR 0x0B, CHR 0x0C, CHR 0x0D, CHR '' ''})"

definition trimSpace :: "string \<Rightarrow> string" where
  "trimSpace s = rev (dropWhile isSpace (rev (dropWhile isSpace s)))"

definition trimPrefix :: "string \<Rightarrow> string \<Rightarrow> string" where
  "trimPrefix s p = (if prefix p s then drop (length p) s else s)"

fun joinS :: "string \<Rightarrow> string list \<Rightarrow> string" where
  "joinS sep [] = []"
| "joinS sep [x] = x"
| "joinS sep (x # y # ys) = x @ sep @ joinS sep (y # ys)"

text \<open>\<open>strings.Replace(s, old, new, -1)\<close>: left to right, without overlaps.\<close>

function replaceGo :: "string \<Rightarrow> string \<Rightarrow> string \<Rightarrow> string" where
  "replaceGo [] old new = []"
| "replaceGo (c # cs) old new =
     (if prefix old (c # cs) then new @ replaceGo (drop (length old - 1) cs) old new
      else c # replaceGo cs old new)"
  by pat_completeness auto
termination
  by (relation "measure (\<lambda>(s, _, _). length s)") auto

definition replaceAll :: "string \<Rightarrow> string \<Rightarrow> string \<Rightarrow> string" where
  "replaceAll s old new =
     (if old = [] then new @ concat (map (\<lambda>c. c # new) s) else replaceGo s old new)"

fun prependS :: "string \<Rightarrow> string list \<Rightarrow> string list" where
  "prependS a [] = [a]"
| "prependS a (p # ps) = (a @ p) # ps"

function splitLits :: "string list \<Rightarrow> string \<Rightarrow> string list" where
  "splitLits lits [] = [[]]"
| "splitLits lits (c # cs) =
     (case find (\<lambda>l. prefix l (c # cs)) lits of
        Some l \<Rightarrow> [] # splitLits lits (drop (length l - 1) cs)
      | None \<Rightarrow> prependS [c] (splitLits lits cs))"
  by pat_completeness auto
termination
  by (relation "measure (\<lambda>(_, s). length s)") auto

declare splitLits.simps(2) [simp del] replaceGo.simps(2) [simp del]

section \<open>Splitting\<close>

lemma prependS_Nil [simp]: "ps \<noteq> [] \<Longrightarrow> prependS [] ps = ps"
  by (cases ps) auto

lemma prependS_prependS [simp]: "prependS a (prependS b ps) = prependS (a @ b) ps"
  by (cases ps) auto

lemma splitLits_neq_Nil [simp]: "splitLits lits s \<noteq> []"
proof (cases s)
  case (Cons c cs)
  then show ?thesis
    by (cases "splitLits lits cs") (auto simp: splitLits.simps(2) split: option.splits)
qed simp

text \<open>No literal starts in \<open>a\<close>: the text \<open>a\<close> stays in front of the first piece.\<close>

definition startFree :: "string list \<Rightarrow> string \<Rightarrow> bool" where
  "startFree lits a = (\<forall>c \<in> set a. \<forall>l \<in> set lits. l \<noteq> [] \<and> hd l \<noteq> c)"

lemma startFree_append [simp]: "startFree lits (a @ b) \<longleftrightarrow> startFree lits a \<and> startFree lits b"
  by (auto simp: startFree_def)

lemma startFree_Nil [simp]: "startFree lits []"
  by (simp add: startFree_def)

lemma startFree_Cons:
  "startFree lits (c # a) \<longleftrightarrow> (\<forall>l \<in> set lits. l \<noteq> [] \<and> hd l \<noteq> c) \<and> startFree lits a"
  by (auto simp: startFree_def)

lemma startFree_concat [simp]:
  "startFree lits (concat xs) \<longleftrightarrow> (\<forall>x \<in> set xs. startFree lits x)"
  by (induction xs) auto

lemma prefix_Cons_hd: "prefix l (c # cs) \<Longrightarrow> l \<noteq> [] \<Longrightarrow> hd l = c"
  by (cases l) auto

lemma splitLits_skip:
  "startFree lits a \<Longrightarrow> splitLits lits (a @ s) = prependS a (splitLits lits s)"
proof (induction a)
  case (Cons c a)
  then have "find (\<lambda>l. prefix l ((c # a) @ s)) lits = None"
    by (auto simp: find_None_iff startFree_Cons dest: prefix_Cons_hd)
  with Cons show ?case
    by (simp add: splitLits.simps(2) startFree_Cons)
qed simp

lemma splitLits_free: "startFree lits a \<Longrightarrow> splitLits lits a = [a]"
  using splitLits_skip [of lits a "[]"] by simp

lemma splitLits_hit:
  assumes "l \<noteq> []" and "find (\<lambda>l'. prefix l' (l @ s)) lits = Some l"
  shows "splitLits lits (l @ s) = [] # splitLits lits s"
  using assms by (cases l) (simp_all add: splitLits.simps(2))

text \<open>A literal whose first character matches no separator beyond its own text.\<close>

lemma splitLits_at:
  assumes "startFree lits a" and "l \<noteq> []" and "find (\<lambda>l'. prefix l' (l @ s)) lits = Some l"
  shows "splitLits lits (a @ l @ s) = a # splitLits lits s"
  using assms by (simp add: splitLits_skip splitLits_hit)

section \<open>Splitting at white space characters\<close>

text \<open>The class \<open>[\t\n\f\r]\<close>.\<close>

definition lineSeps :: "string list" where
  "lineSeps = [[CHR 0x09], [nl], [CHR 0x0C], [CHR 0x0D]]"

definition lineFree :: "string \<Rightarrow> bool" where
  "lineFree s = (\<forall>c \<in> set s. c \<notin> {CHR 0x09, nl, CHR 0x0C, CHR 0x0D})"

lemma startFree_lineSeps [simp]: "startFree lineSeps s \<longleftrightarrow> lineFree s"
  by (auto simp: startFree_def lineSeps_def lineFree_def)

lemma lineFree_simps [simp]:
  "lineFree []"
  "lineFree (a @ b) \<longleftrightarrow> lineFree a \<and> lineFree b"
  "lineFree (c # a) \<longleftrightarrow> c \<notin> {CHR 0x09, nl, CHR 0x0C, CHR 0x0D} \<and> lineFree a"
  by (auto simp: lineFree_def)

lemma splitLits_line:
  assumes "lineFree a"
  shows "splitLits lineSeps (a @ nl # s) = a # splitLits lineSeps s"
proof -
  have "find (\<lambda>l'. prefix l' ([nl] @ s)) lineSeps = Some [nl]"
    by (simp add: lineSeps_def)
  then show ?thesis
    using splitLits_at [of lineSeps a "[nl]" s] assms by simp
qed

definition nonEmpty :: "string list \<Rightarrow> string list" where
  "nonEmpty = filter (\<lambda>l. l \<noteq> [])"

lemma nonEmpty_simps [simp]:
  "nonEmpty [] = []" "nonEmpty ([] # xs) = nonEmpty xs"
  "x \<noteq> [] \<Longrightarrow> nonEmpty (x # xs) = x # nonEmpty xs"
  "nonEmpty (xs @ ys) = nonEmpty xs @ nonEmpty ys"
  by (simp_all add: nonEmpty_def)

text \<open>A block of lines each on its own: the non-empty pieces are the lines.\<close>

definition blockOf :: "string list \<Rightarrow> string" where
  "blockOf vs = concat (map (\<lambda>v. nl # v @ [nl]) vs)"

definition linesOf :: "string list \<Rightarrow> string" where
  "linesOf vs = concat (map (\<lambda>v. v @ [nl]) vs)"

definition goodLine :: "string \<Rightarrow> bool" where
  "goodLine v \<longleftrightarrow> v \<noteq> [] \<and> lineFree v"

lemma split_blockOf:
  assumes "\<forall>v \<in> set vs. goodLine v"
  shows "nonEmpty (splitLits lineSeps (blockOf vs @ s)) = vs @ nonEmpty (splitLits lineSeps s)"
  using assms
proof (induction vs)
  case (Cons v vs)
  have "splitLits lineSeps (blockOf (v # vs) @ s) =
      [] # v # splitLits lineSeps (blockOf vs @ s)"
    using Cons.prems splitLits_line [of "[]"] splitLits_line [of v]
    by (simp add: blockOf_def goodLine_def)
  with Cons show ?case by (simp add: goodLine_def)
qed (simp add: blockOf_def)

lemma split_linesOf:
  assumes "\<forall>v \<in> set vs. goodLine v"
  shows "nonEmpty (splitLits lineSeps (linesOf vs @ s)) = vs @ nonEmpty (splitLits lineSeps s)"
  using assms
proof (induction vs)
  case (Cons v vs)
  have "splitLits lineSeps (linesOf (v # vs) @ s) = v # splitLits lineSeps (linesOf vs @ s)"
    using Cons.prems splitLits_line [of v] by (simp add: linesOf_def goodLine_def)
  with Cons show ?case by (simp add: goodLine_def)
qed (simp add: linesOf_def)

lemma split_nls [simp]: "nonEmpty (splitLits lineSeps (nl # s)) = nonEmpty (splitLits lineSeps s)"
  using splitLits_line [of "[]" s] by simp

section \<open>Trimming\<close>

lemma trimSpace_id:
  assumes "s \<noteq> []" and "\<not> isSpace (hd s)" and "\<not> isSpace (last s)"
  shows "trimSpace s = s"
proof -
  have "dropWhile isSpace s = s" using assms by (cases s) auto
  moreover have "dropWhile isSpace (rev s) = rev s"
    using assms by (cases "rev s") (auto simp: last_rev hd_rev [symmetric])
  ultimately show ?thesis by (simp add: trimSpace_def)
qed

lemma trimSpace_free: "\<forall>c \<in> set s. \<not> isSpace c \<Longrightarrow> trimSpace s = s"
  by (cases "s = []") (auto simp: trimSpace_id, simp add: trimSpace_def)

lemma trimSpace_nl_end:
  assumes "s \<noteq> []" and "\<not> isSpace (hd s)" and "\<not> isSpace (last s)"
  shows "trimSpace (s @ [nl]) = s"
proof -
  have "dropWhile isSpace (s @ [nl]) = s @ [nl]" using assms by (cases s) auto
  moreover have "dropWhile isSpace (rev s) = rev s"
    using assms by (cases "rev s") (auto simp: hd_rev [symmetric])
  ultimately show ?thesis by (simp add: trimSpace_def isSpace_def)
qed

section \<open>Joining\<close>

lemma joinS_Cons: "joinS sep (x # xs) = x @ concat (map (\<lambda>y. sep @ y) xs)"
  by (induction xs arbitrary: x) auto

section \<open>Trimming at the end and replacing\<close>

definition trimRight :: "string \<Rightarrow> string" where
  "trimRight s = rev (dropWhile isSpace (rev s))"

lemma trimSpace_right:
  assumes "a \<noteq> []" and "\<not> isSpace (hd a)" and "\<not> isSpace (last a)"
  shows "trimSpace (a @ s) = a @ trimRight s"
proof -
  have 1: "dropWhile isSpace (a @ s) = a @ s" using assms(1,2) by (cases a) auto
  have 2: "dropWhile isSpace (rev a) = rev a" 
    using assms(1,3) by (cases "rev a") (auto simp: hd_rev [symmetric])
  show ?thesis
  proof (cases "\<exists>x \<in> set s. \<not> isSpace x")
    case True
    then show ?thesis by (auto simp: trimSpace_def trimRight_def 1 dropWhile_append1)
  next
    case False
    then have "dropWhile isSpace (rev s) = []" by auto
    moreover have "dropWhile isSpace (rev s @ rev a) = rev a"
      using False 2 by (subst dropWhile_append2) auto
    ultimately show ?thesis by (simp add: trimSpace_def trimRight_def 1)
  qed
qed

lemma trimRight_head: "s = [] \<or> hd s = nl \<Longrightarrow> trimRight s = [] \<or> hd (trimRight s) = nl"
proof -
  have "prefix (trimRight s) s"
    by (metis prefixI rev_append rev_rev_ident takeWhile_dropWhile_id trimRight_def)
  then show "s = [] \<or> hd s = nl \<Longrightarrow> ?thesis" by (cases "trimRight s") (auto simp: prefix_def)
qed

lemma trimRight_idem [simp]: "trimRight (trimRight s) = trimRight s"
  by (simp add: trimRight_def)

lemma replaceGo_hit: "old \<noteq> [] \<Longrightarrow> replaceGo (old @ s) old new = new @ replaceGo s old new"
  by (cases old) (simp_all add: replaceGo.simps(2))

lemma replaceGo_head:
  assumes "old \<noteq> []" and "hd old \<noteq> nl" and "s = [] \<or> hd s = nl"
  shows "replaceGo s old new = [] \<or> hd (replaceGo s old new) = nl"
  using assms by (cases s) (auto simp: replaceGo.simps(2) dest: prefix_Cons_hd)

lemma replaceGo_none: "\<not> sublist old s \<Longrightarrow> replaceGo s old new = s"
  by (induction s) (auto simp: replaceGo.simps(2) sublist_Cons_right)

lemma trimPrefix_v [simp]: "trimPrefix (''v'' @ s) ''v'' = s"
  by (simp add: trimPrefix_def)

section \<open>Decimal numbers\<close>

definition digitChar :: "nat \<Rightarrow> char" where
  "digitChar d = char_of (48 + d)"

fun showNat :: "nat \<Rightarrow> string" where
  "showNat n = (if n < 10 then [digitChar n] else showNat (n div 10) @ [digitChar (n mod 10)])"

declare showNat.simps [simp del]

definition digitVal :: "char \<Rightarrow> nat" where
  "digitVal c = of_char c - 48"

definition isDigit :: "char \<Rightarrow> bool" where
  "isDigit c = (48 \<le> (of_char c :: nat) \<and> (of_char c :: nat) \<le> 57)"

definition readNat :: "string \<Rightarrow> nat option" where
  "readNat s = (if s \<noteq> [] \<and> list_all isDigit s then Some (foldl (\<lambda>a c. 10 * a + digitVal c) 0 s) else None)"

lemma digitChar_simps [simp]:
  "d < 10 \<Longrightarrow> isDigit (digitChar d)" "d < 10 \<Longrightarrow> digitVal (digitChar d) = d"
  by (simp_all add: isDigit_def digitVal_def digitChar_def)

lemma showNat_digits: "list_all isDigit (showNat n)"
  by (induction n rule: showNat.induct) (subst showNat.simps, auto)

lemma showNat_neq_Nil [simp]: "showNat n \<noteq> []"
  by (subst showNat.simps) auto

lemma showNat_value: "foldl (\<lambda>a c. 10 * a + digitVal c) 0 (showNat n) = n"
proof (induction n rule: showNat.induct)
  case (1 n)
  show ?case
  proof (cases "n < 10")
    case True
    then show ?thesis by (subst showNat.simps) simp
  next
    case False
    then have "foldl (\<lambda>a c. 10 * a + digitVal c) 0 (showNat (n div 10)) = n div 10" using 1 by simp
    then show ?thesis using False by (subst showNat.simps) simp
  qed
qed

lemma readNat_showNat [simp]: "readNat (showNat n) = Some n"
  by (simp add: readNat_def showNat_digits showNat_value)

lemma isDigit_neq: "isDigit c \<Longrightarrow> c \<noteq> CHR ''.''" "isDigit c \<Longrightarrow> c \<noteq> CHR ''v''"
  by (auto simp: isDigit_def)

end
