(* ===== verification/Kube.thy ===== *)
theory Kube
  imports GoStrings
begin

text \<open>
  Kubernetes objects and the clients the controllers are given.

  The API server and the helper libraries of the controllers (controller-runtime, Cluster
  API) are not part of this repository. A client is a record of functions over an
  arbitrary world \<open>'w\<close>: every call may return any answer and change the world, so a
  theorem about a controller holds for every behaviour of the server and of whoever else
  works on it. \<open>reqs\<close> records the requests the controller sent, in order; the code never
  reads it.

  The helper functions are the record \<open>capilib\<close>. Where a theorem needs what they
  document, it assumes \<open>capilib_laws\<close>; \<open>stdLib\<close> is an instance.
\<close>

section \<open>Object metadata\<close>

record objkey =
  k_namespace :: string
  k_name :: string

record OwnerReference =
  or_apiVersion :: string
  or_kind :: string
  or_name :: string
  or_uid :: string

record ObjectReference =
  r_kind :: string
  r_apiVersion :: string
  r_namespace :: string
  r_name :: string

text \<open>A nil map is \<open>None\<close>: reading it gives nothing, writing to it panics.\<close>

type_synonym gomap = "(string \<rightharpoonup> string) option"

definition mapAt :: "gomap \<Rightarrow> string \<Rightarrow> string" where
  "mapAt m k = (case m of None \<Rightarrow> [] | Some f \<Rightarrow> (case f k of None \<Rightarrow> [] | Some v \<Rightarrow> v))"

definition mapHas :: "gomap \<Rightarrow> string \<Rightarrow> bool" where
  "mapHas m k = (case m of None \<Rightarrow> False | Some f \<Rightarrow> f k \<noteq> None)"

record ObjectMeta =
  m_name :: string
  m_namespace :: string
  m_uid :: string
  m_labels :: gomap
  m_annotations :: gomap
  m_ownerRefs :: "OwnerReference list"
  m_finalizers :: "string list"
  m_deletionTimestamp :: "int option"

definition newMeta :: "string \<Rightarrow> string \<Rightarrow> ObjectMeta" where
  "newMeta name namespace = \<lparr>m_name = name, m_namespace = namespace, m_uid = [], m_labels = None,
     m_annotations = None, m_ownerRefs = [], m_finalizers = [], m_deletionTimestamp = None\<rparr>"

definition keyOf :: "ObjectMeta \<Rightarrow> objkey" where
  "keyOf m = \<lparr>k_namespace = m_namespace m, k_name = m_name m\<rparr>"

section \<open>Core objects\<close>

record ConfigMap =
  cm_meta :: ObjectMeta
  cm_data :: gomap

record Secret =
  sec_meta :: ObjectMeta
  sec_data :: gomap

datatype PodPhase = PodSucceeded | PodFailed | PodOther string

record VolumeMount =
  vm_name :: string
  vm_mountPath :: string
  vm_readOnly :: bool

datatype VolumeSource = ConfigMapVolume string | SecretVolume string int

record Volume =
  vol_name :: string
  vol_source :: VolumeSource

record Container =
  ct_name :: string
  ct_image :: string
  ct_command :: "string list"
  ct_args :: "string list"
  ct_volumeMounts :: "VolumeMount list"

datatype RestartPolicy = RestartPolicyNever | RestartPolicyOther string

record PodSpec =
  ps_containers :: "Container list"
  ps_volumes :: "Volume list"
  ps_serviceAccountName :: string
  ps_restartPolicy :: RestartPolicy

record Pod =
  pod_meta :: ObjectMeta
  pod_spec :: PodSpec
  pod_phase :: PodPhase

section \<open>Clients\<close>

record ('w, 'o) api =
  api_get :: "objkey \<Rightarrow> 'w \<Rightarrow> (apierr + 'o) \<times> 'w"
  api_list :: "string \<Rightarrow> (string \<times> string) list \<Rightarrow> 'w \<Rightarrow> (apierr + 'o list) \<times> 'w"
  api_create :: "'o \<Rightarrow> 'w \<Rightarrow> (apierr + 'o) \<times> 'w"
  api_update :: "'o \<Rightarrow> 'w \<Rightarrow> (apierr + 'o) \<times> 'w"
  api_delete :: "'o \<Rightarrow> 'w \<Rightarrow> (apierr + unit) \<times> 'w"
  api_newHelper :: "'o \<Rightarrow> 'w \<Rightarrow> (apierr + unit) \<times> 'w"
  api_patch :: "'o \<Rightarrow> 'o \<Rightarrow> 'w \<Rightarrow> (apierr + unit) \<times> 'w"

datatype request =
    RGet string objkey
  | RList string string "(string \<times> string) list"
  | RCreate string ObjectMeta
  | RUpdate string ObjectMeta
  | RDelete string ObjectMeta
  | RDeleteWith string string ObjectMeta
  | RPatch string ObjectMeta
  | RExternal string "string list"

text \<open>The part of the state every controller has; each extends it with the objects it mutates.\<close>

record 'w kst =
  world :: 'w
  reqs :: "request list"

definition callP ::
  "request \<Rightarrow> ('w \<Rightarrow> (apierr + 'a) \<times> 'w) \<Rightarrow> (('w, 'm) kst_scheme, 'a) proc" where
  "callP q f s = (case f (world s) of (r, w') \<Rightarrow>
     (let s' = s\<lparr>world := w', reqs := reqs s @ [q]\<rparr>
      in (case r of Inl e \<Rightarrow> Err (EApi e) | Inr x \<Rightarrow> Ok x, s')))"

text \<open>A call outside the API server (the network, a name generator): no request is recorded.\<close>

definition extP :: "('w \<Rightarrow> 'a \<times> 'w) \<Rightarrow> (('w, 'm) kst_scheme, 'a) proc" where
  "extP f s = (case f (world s) of (x, w') \<Rightarrow> (Ok x, s\<lparr>world := w'\<rparr>))"

definition extE :: "('w \<Rightarrow> (goerr + 'a) \<times> 'w) \<Rightarrow> (('w, 'm) kst_scheme, 'a) proc" where
  "extE f s = (case f (world s) of (r, w') \<Rightarrow>
     (case r of Inl e \<Rightarrow> Err e | Inr x \<Rightarrow> Ok x, s\<lparr>world := w'\<rparr>))"

text \<open>A recorded call that runs code of the caller, which can fail or panic.\<close>

definition callO ::
  "request \<Rightarrow> ('w \<Rightarrow> 'a outcome \<times> 'w) \<Rightarrow> (('w, 'm) kst_scheme, 'a) proc" where
  "callO q f s = (case f (world s) of (r, w') \<Rightarrow> (r, s\<lparr>world := w', reqs := reqs s @ [q]\<rparr>))"

definition getK :: "string \<Rightarrow> ('w, 'o) api \<Rightarrow> objkey \<Rightarrow> (('w, 'm) kst_scheme, 'o) proc" where
  "getK kind c k = callP (RGet kind k) (api_get c k)"

definition listK ::
  "string \<Rightarrow> ('w, 'o) api \<Rightarrow> string \<Rightarrow> (string \<times> string) list \<Rightarrow> (('w, 'm) kst_scheme, 'o list) proc" where
  "listK kind c ns labels = callP (RList kind ns labels) (api_list c ns labels)"

definition createK ::
  "string \<Rightarrow> ('o \<Rightarrow> ObjectMeta) \<Rightarrow> ('w, 'o) api \<Rightarrow> 'o \<Rightarrow> (('w, 'm) kst_scheme, 'o) proc" where
  "createK kind meta c x = callP (RCreate kind (meta x)) (api_create c x)"

definition updateK ::
  "string \<Rightarrow> ('o \<Rightarrow> ObjectMeta) \<Rightarrow> ('w, 'o) api \<Rightarrow> 'o \<Rightarrow> (('w, 'm) kst_scheme, 'o) proc" where
  "updateK kind meta c x = callP (RUpdate kind (meta x)) (api_update c x)"

definition deleteK ::
  "string \<Rightarrow> ('o \<Rightarrow> ObjectMeta) \<Rightarrow> ('w, 'o) api \<Rightarrow> 'o \<Rightarrow> (('w, 'm) kst_scheme, unit) proc" where
  "deleteK kind meta c x = callP (RDelete kind (meta x)) (api_delete c x)"

text \<open>A deletion with a propagation policy.\<close>

definition deleteWithK ::
  "string \<Rightarrow> ('o \<Rightarrow> ObjectMeta) \<Rightarrow> string \<Rightarrow> ('w, 'o) api \<Rightarrow> 'o \<Rightarrow> (('w, 'm) kst_scheme, unit) proc" where
  "deleteWithK kind meta policy c x = callP (RDeleteWith kind policy (meta x)) (api_delete c x)"

definition patchK ::
  "string \<Rightarrow> ('o \<Rightarrow> ObjectMeta) \<Rightarrow> ('w, 'o) api \<Rightarrow> 'o \<Rightarrow> 'o \<Rightarrow> (('w, 'm) kst_scheme, unit) proc" where
  "patchK kind meta c old new = callP (RPatch kind (meta new)) (api_patch c old new)"

lemmas apiK_defs = getK_def listK_def createK_def updateK_def deleteK_def patchK_def

text \<open>The answers to the deletion of several objects, one after the other, were all accepted.\<close>

fun deletes :: "('w, 'o) api \<Rightarrow> (apierr + unit \<Rightarrow> bool) \<Rightarrow> 'o list \<Rightarrow> 'w \<Rightarrow> 'w \<Rightarrow> bool" where
  "deletes c accepted [] w w' \<longleftrightarrow> w' = w"
| "deletes c accepted (x # xs) w w' \<longleftrightarrow> (case api_delete c x w of (r, w1) \<Rightarrow> accepted r \<and> deletes c accepted xs w1 w')"

lemma wp_callP [wp_simps]:
  "wp (callP q f) Q s = (case f (world s) of (r, w') \<Rightarrow>
      (case r of Inl e \<Rightarrow> Q (Err (EApi e)) (s\<lparr>world := w', reqs := reqs s @ [q]\<rparr>)
       | Inr x \<Rightarrow> Q (Ok x) (s\<lparr>world := w', reqs := reqs s @ [q]\<rparr>)))"
  by (simp add: wp_def callP_def Let_def split: prod.splits sum.splits)

text \<open>Whatever the server answers: an error or a value, in some new world.\<close>

lemma wp_callP_any:
  assumes "\<And>e w'. Q (Err (EApi e)) (s\<lparr>world := w', reqs := reqs s @ [q]\<rparr>)"
    and "\<And>x w'. Q (Ok x) (s\<lparr>world := w', reqs := reqs s @ [q]\<rparr>)"
  shows "wp (callP q f) Q s"
  using assms by (simp add: wp_callP split: prod.splits sum.splits)

lemma wp_extP [wp_simps]:
  "wp (extP f) Q s = (case f (world s) of (x, w') \<Rightarrow> Q (Ok x) (s\<lparr>world := w'\<rparr>))"
  by (simp add: wp_def extP_def split: prod.splits)

lemma wp_extP_any: "(\<And>x w'. Q (Ok x) (s\<lparr>world := w'\<rparr>)) \<Longrightarrow> wp (extP f) Q s"
  by (simp add: wp_extP split: prod.splits)

lemma wp_extE [wp_simps]:
  "wp (extE f) Q s = (case f (world s) of (r, w') \<Rightarrow>
      (case r of Inl e \<Rightarrow> Q (Err e) (s\<lparr>world := w'\<rparr>) | Inr x \<Rightarrow> Q (Ok x) (s\<lparr>world := w'\<rparr>)))"
  by (simp add: wp_def extE_def split: prod.splits sum.splits)

lemma wp_extE_any:
  "\<lbrakk>\<And>e w'. Q (Err e) (s\<lparr>world := w'\<rparr>); \<And>x w'. Q (Ok x) (s\<lparr>world := w'\<rparr>)\<rbrakk> \<Longrightarrow> wp (extE f) Q s"
  by (simp add: wp_extE split: prod.splits sum.splits)

lemma wp_callO [wp_simps]:
  "wp (callO q f) Q s = (case f (world s) of (r, w') \<Rightarrow> Q r (s\<lparr>world := w', reqs := reqs s @ [q]\<rparr>))"
  by (simp add: wp_def callO_def split: prod.splits)

text \<open>Relations that the calls of a client keep: those whose request is \<open>allowed\<close>.\<close>

locale client_frame = frame_rule R
  for R :: "('w, 'm) kst_scheme \<Rightarrow> ('w, 'm) kst_scheme \<Rightarrow> bool" +
  fixes allowed :: "request \<Rightarrow> bool"
  assumes R_call: "allowed q \<Longrightarrow> R s (s\<lparr>world := w', reqs := reqs s @ [q]\<rparr>)"
    and R_ext: "R s (s\<lparr>world := w'\<rparr>)"
begin

lemma pres_callP [pres_rules]: "allowed q \<Longrightarrow> pres R (callP q f)"
  by (simp add: pres_def wp_callP R_call split: prod.splits sum.splits)

lemma pres_callO [pres_rules]: "allowed q \<Longrightarrow> pres R (callO q f)"
  by (simp add: pres_def wp_callO R_call split: prod.splits)

lemma pres_extP [pres_rules]: "pres R (extP f)"
  by (simp add: pres_def wp_extP R_ext split: prod.splits)

lemma pres_extE [pres_rules]: "pres R (extE f)"
  by (simp add: pres_def wp_extE R_ext split: prod.splits sum.splits)

end

text \<open>The requests sent are appended, and all of them satisfy \<open>P\<close>.\<close>

definition sends :: "(request \<Rightarrow> bool) \<Rightarrow> ('w, 'm) kst_scheme \<Rightarrow> ('w, 'm) kst_scheme \<Rightarrow> bool" where
  "sends P s s' = (\<exists>qs. reqs s' = reqs s @ qs \<and> list_all P qs)"

interpretation sends: client_frame "sends P" P for P
proof unfold_locales
  show "\<lbrakk>sends P s t; sends P t u\<rbrakk> \<Longrightarrow> sends P s u" for s t u :: "('a, 'b) kst_scheme"
    by (auto simp: sends_def)
qed (auto simp: sends_def)

lemmas wp_steps = wp_retP wp_failP wp_panicP wp_bindP wp_seqP wp_onErr wp_tryP wp_getP wp_modifyP wp_ifP
  wp_finallyP wp_deferErr

lemmas wp_any = wp_callP_any wp_extP_any wp_extE_any

section \<open>What an API server documents\<close>

text \<open>
  The objects of one kind that the server stores are \<open>view w\<close>. Reading returns what is
  stored, updating replaces an object that exists, creating adds one that does not, deleting
  removes one without finalizers. \<open>frame\<close> says what the calls leave alone. The theorems that
  assume this are about a server nobody else writes to in between.
\<close>

definition serves ::
  "('o \<Rightarrow> ObjectMeta) \<Rightarrow> ('w, 'o) api \<Rightarrow> ('w \<Rightarrow> objkey \<rightharpoonup> 'o) \<Rightarrow> ('w \<Rightarrow> 'w \<Rightarrow> bool) \<Rightarrow> bool" where
  "serves meta c view frame \<longleftrightarrow>
     (\<forall>k w. api_get c k w = (case view w k of None \<Rightarrow> Inl NotFound | Some x \<Rightarrow> Inr x, w)) \<and>
     (\<forall>x w. view w (keyOf (meta x)) = None \<longrightarrow>
        api_update c x w = (Inl NotFound, w) \<and> api_delete c x w = (Inl NotFound, w)) \<and>
     (\<forall>x w. view w (keyOf (meta x)) \<noteq> None \<longrightarrow>
        (\<exists>w'. api_update c x w = (Inr x, w') \<and> view w' = (view w)(keyOf (meta x) \<mapsto> x) \<and> frame w w')) \<and>
     (\<forall>x y w. view w (keyOf (meta x)) = Some y \<longrightarrow>
        (\<exists>w'. api_delete c x w = (Inr (), w') \<and> frame w w' \<and>
          (m_finalizers (meta y) = [] \<longrightarrow> view w' = (view w)(keyOf (meta x) := None)))) \<and>
     (\<forall>x w. view w (keyOf (meta x)) = None \<longrightarrow>
        (\<exists>w'. api_create c x w = (Inr x, w') \<and> view w' = (view w)(keyOf (meta x) \<mapsto> x) \<and> frame w w'))"

lemma servesD:
  assumes "serves meta c view frame"
  shows "api_get c k w = (case view w k of None \<Rightarrow> Inl NotFound | Some x \<Rightarrow> Inr x, w)"
    and "view w (keyOf (meta x)) = None \<Longrightarrow> api_update c x w = (Inl NotFound, w)"
    and "view w (keyOf (meta x)) = Some y \<Longrightarrow>
      \<exists>w'. api_update c x w = (Inr x, w') \<and> view w' = (view w)(keyOf (meta x) \<mapsto> x) \<and> frame w w'"
    and "\<lbrakk>view w (keyOf (meta x)) = Some y; m_finalizers (meta y) = []\<rbrakk> \<Longrightarrow>
      \<exists>w'. api_delete c x w = (Inr (), w') \<and> view w' = (view w)(keyOf (meta x) := None) \<and> frame w w'"
    and "view w (keyOf (meta x)) = None \<Longrightarrow>
      \<exists>w'. api_create c x w = (Inr x, w') \<and> view w' = (view w)(keyOf (meta x) \<mapsto> x) \<and> frame w w'"
proof -
  note S = assms [unfolded serves_def]
  show "api_get c k w = (case view w k of None \<Rightarrow> Inl NotFound | Some x \<Rightarrow> Inr x, w)"
    using S [THEN conjunct1] by blast
  show "view w (keyOf (meta x)) = None \<Longrightarrow> api_update c x w = (Inl NotFound, w)"
    using S [THEN conjunct2, THEN conjunct1] by blast
  show "view w (keyOf (meta x)) = Some y \<Longrightarrow>
      \<exists>w'. api_update c x w = (Inr x, w') \<and> view w' = (view w)(keyOf (meta x) \<mapsto> x) \<and> frame w w'"
    using S [THEN conjunct2, THEN conjunct2, THEN conjunct1, rule_format, of w x] by simp
  show "\<lbrakk>view w (keyOf (meta x)) = Some y; m_finalizers (meta y) = []\<rbrakk> \<Longrightarrow>
      \<exists>w'. api_delete c x w = (Inr (), w') \<and> view w' = (view w)(keyOf (meta x) := None) \<and> frame w w'"
    using S [THEN conjunct2, THEN conjunct2, THEN conjunct2, THEN conjunct1, rule_format, of w x y] by blast
  show "view w (keyOf (meta x)) = None \<Longrightarrow>
      \<exists>w'. api_create c x w = (Inr x, w') \<and> view w' = (view w)(keyOf (meta x) \<mapsto> x) \<and> frame w w'"
    using S [THEN conjunct2, THEN conjunct2, THEN conjunct2, THEN conjunct2, rule_format, of w x] by blast
qed

text \<open>A server that keeps the objects of a kind in a list, the part \<open>sel\<close> of its state.\<close>

definition labelsMatch :: "(string \<times> string) list \<Rightarrow> ObjectMeta \<Rightarrow> bool" where
  "labelsMatch labels m = list_all (\<lambda>(k, v). mapHas (m_labels m) k \<and> mapAt (m_labels m) k = v) labels"

definition lookupKey :: "('o \<Rightarrow> ObjectMeta) \<Rightarrow> 'o list \<Rightarrow> objkey \<rightharpoonup> 'o" where
  "lookupKey meta xs k = find (\<lambda>x. keyOf (meta x) = k) xs"

definition memApi ::
  "('o \<Rightarrow> ObjectMeta) \<Rightarrow> ('w \<Rightarrow> 'o list) \<Rightarrow> (('o list \<Rightarrow> 'o list) \<Rightarrow> 'w \<Rightarrow> 'w) \<Rightarrow> ('w, 'o) api" where
  "memApi meta sel upd = \<lparr>
     api_get = (\<lambda>k w. (case lookupKey meta (sel w) k of None \<Rightarrow> Inl NotFound | Some x \<Rightarrow> Inr x, w)),
     api_list = (\<lambda>ns labels w. (Inr (filter (\<lambda>x. (ns = [] \<or> m_namespace (meta x) = ns) \<and> labelsMatch labels (meta x)) (sel w)), w)),
     api_create = (\<lambda>x w. if lookupKey meta (sel w) (keyOf (meta x)) = None
        then (Inr x, upd (\<lambda>xs. xs @ [x]) w) else (Inl AlreadyExists, w)),
     api_update = (\<lambda>x w. if lookupKey meta (sel w) (keyOf (meta x)) = None then (Inl NotFound, w)
        else (Inr x, upd (map (\<lambda>y. if keyOf (meta y) = keyOf (meta x) then x else y)) w)),
     api_delete = (\<lambda>x w. case lookupKey meta (sel w) (keyOf (meta x)) of None \<Rightarrow> (Inl NotFound, w)
        | Some y \<Rightarrow> (Inr (), if m_finalizers (meta y) = [] then upd (filter (\<lambda>y. keyOf (meta y) \<noteq> keyOf (meta x))) w else w)),
     api_newHelper = (\<lambda>x w. (Inr (), w)),
     api_patch = (\<lambda>old new w. if lookupKey meta (sel w) (keyOf (meta new)) = None then (Inl NotFound, w)
        else (Inr (), upd (map (\<lambda>y. if keyOf (meta y) = keyOf (meta new) then new else y)) w))\<rparr>"

lemma lookupKey_map:
  "lookupKey meta (map (\<lambda>y. if keyOf (meta y) = keyOf (meta x) then x else y) xs) k =
     (if k = keyOf (meta x) \<and> lookupKey meta xs k \<noteq> None then Some x else lookupKey meta xs k)"
  by (induction xs) (auto simp: lookupKey_def)

lemma lookupKey_update:
  "lookupKey meta xs (keyOf (meta x)) \<noteq> None \<Longrightarrow>
   lookupKey meta (map (\<lambda>y. if keyOf (meta y) = keyOf (meta x) then x else y) xs) = (lookupKey meta xs)(keyOf (meta x) \<mapsto> x)"
  by (rule ext) (auto simp: lookupKey_map)

lemma lookupKey_filter:
  "lookupKey meta (filter (\<lambda>y. keyOf (meta y) \<noteq> key) xs) = (lookupKey meta xs)(key := None)"
  by (rule ext, induction xs) (auto simp: lookupKey_def)

lemma lookupKey_append:
  "lookupKey meta xs (keyOf (meta x)) = None \<Longrightarrow>
   lookupKey meta (xs @ [x]) = (lookupKey meta xs)(keyOf (meta x) \<mapsto> x)"
  by (rule ext, induction xs) (auto simp: lookupKey_def split: if_splits)

lemma memApi_serves:
  assumes "\<And>f w. sel (upd f w) = f (sel w)" and "\<And>f w. frame w (upd f w)" and "\<And>w. frame w w"
  shows "serves meta (memApi meta sel upd) (\<lambda>w. lookupKey meta (sel w)) frame"
  using assms
  by (auto simp: serves_def memApi_def lookupKey_update lookupKey_filter lookupKey_append)

text \<open>A server that answers every request with the same object.\<close>

definition yesApi :: "'o \<Rightarrow> (unit, 'o) api" where
  "yesApi x = \<lparr>api_get = (\<lambda>k w. (Inr x, w)), api_list = (\<lambda>ns labels w. (Inr [x], w)),
     api_create = (\<lambda>y w. (Inr y, w)), api_update = (\<lambda>y w. (Inr y, w)), api_delete = (\<lambda>y w. (Inr (), w)),
     api_newHelper = (\<lambda>y w. (Inr (), w)), api_patch = (\<lambda>y z w. (Inr (), w))\<rparr>"

lemma yes_calls:
  "wp (getK k (yesApi x) key) Q s = Q (Ok x) (s\<lparr>world := (), reqs := reqs s @ [RGet k key]\<rparr>)"
  "wp (listK k (yesApi x) ns ls) Q2 s = Q2 (Ok [x]) (s\<lparr>world := (), reqs := reqs s @ [RList k ns ls]\<rparr>)"
  "wp (createK k m (yesApi x) y) Q s = Q (Ok y) (s\<lparr>world := (), reqs := reqs s @ [RCreate k (m y)]\<rparr>)"
  "wp (updateK k m (yesApi x) y) Q s = Q (Ok y) (s\<lparr>world := (), reqs := reqs s @ [RUpdate k (m y)]\<rparr>)"
  by (simp_all add: apiK_defs wp_callP yesApi_def)

text \<open>A server that knows no object and accepts every new one.\<close>

definition goneApi :: "('w, 'o) api" where
  "goneApi = \<lparr>api_get = (\<lambda>k w. (Inl NotFound, w)), api_list = (\<lambda>ns labels w. (Inr [], w)),
     api_create = (\<lambda>y w. (Inr y, w)), api_update = (\<lambda>y w. (Inl NotFound, w)), api_delete = (\<lambda>y w. (Inl NotFound, w)),
     api_newHelper = (\<lambda>y w. (Inr (), w)), api_patch = (\<lambda>y z w. (Inl NotFound, w))\<rparr>"

section \<open>Create or update\<close>

text \<open>
  \<open>CreateOrUpdate\<close> of controller-runtime takes an object and the function that sets its desired
  state, and returns the object it wrote.
\<close>

type_synonym ('w, 'o) upsert = "'o \<Rightarrow> ('o \<Rightarrow> 'o outcome) \<Rightarrow> 'w \<Rightarrow> 'o outcome \<times> 'w"

definition upsertK ::
  "string \<Rightarrow> ('o \<Rightarrow> ObjectMeta) \<Rightarrow> ('w, 'o) upsert \<Rightarrow> 'o \<Rightarrow> ('o \<Rightarrow> 'o outcome) \<Rightarrow> (('w, 'm) kst_scheme, 'o) proc" where
  "upsertK kind meta sync x f =
     callO (RExternal ''CreateOrUpdate'' [kind, m_namespace (meta x), m_name (meta x)]) (sync x f)"

text \<open>
  \<open>CreateOrUpdate\<close> applies the function to the stored object, or to the given one when there is
  none, and stores the result.
\<close>

definition upserts ::
  "('o \<Rightarrow> ObjectMeta) \<Rightarrow> ('w, 'o) upsert \<Rightarrow> ('w \<Rightarrow> objkey \<rightharpoonup> 'o) \<Rightarrow> ('w \<Rightarrow> 'w \<Rightarrow> bool) \<Rightarrow> bool" where
  "upserts meta sync view frame \<longleftrightarrow> (\<forall>x f w.
     case f (case view w (keyOf (meta x)) of None \<Rightarrow> x | Some old \<Rightarrow> old) of
       Ok y \<Rightarrow> \<exists>w'. sync x f w = (Ok y, w') \<and> view w' = (view w)(keyOf (meta x) \<mapsto> y) \<and> frame w w'
     | r \<Rightarrow> sync x f w = (r, w))"

lemma upsertsD:
  assumes "upserts meta sync view frame" and "f (case view w (keyOf (meta x)) of None \<Rightarrow> x | Some old \<Rightarrow> old) = Ok y"
  shows "\<exists>w'. sync x f w = (Ok y, w') \<and> view w' = (view w)(keyOf (meta x) \<mapsto> y) \<and> frame w w'"
  using assms(1) [unfolded upserts_def, THEN spec, of x, THEN spec, of f, THEN spec, of w] assms(2) by simp

section \<open>Results of a reconciler\<close>

record Result =
  Requeue :: bool
  RequeueAfter :: int

definition noRequeue :: Result where
  "noRequeue = \<lparr>Requeue = False, RequeueAfter = 0\<rparr>"

text \<open>\<open>RequeueAfter\<close> in seconds.\<close>

definition requeueAfter :: "int \<Rightarrow> Result" where
  "requeueAfter n = \<lparr>Requeue = False, RequeueAfter = n\<rparr>"

section \<open>Helper libraries\<close>

datatype CondStatus = CondTrue | CondFalse | CondUnknown

datatype CondSeverity = SeverityError | SeverityWarning | SeverityInfo | SeverityNone

record Condition =
  cond_type :: string
  cond_status :: CondStatus
  cond_severity :: CondSeverity
  cond_reason :: string
  cond_message :: string

record capilib =
  addFinalizer :: "string list \<Rightarrow> string \<Rightarrow> string list"
  removeFinalizer :: "string list \<Rightarrow> string \<Rightarrow> string list"
  ensureOwnerRef :: "OwnerReference list \<Rightarrow> OwnerReference \<Rightarrow> OwnerReference list"
  removeOwnerRef :: "OwnerReference list \<Rightarrow> OwnerReference \<Rightarrow> OwnerReference list"
  markTrue :: "Condition list \<Rightarrow> string \<Rightarrow> Condition list"
  markFalse :: "Condition list \<Rightarrow> string \<Rightarrow> string \<Rightarrow> CondSeverity \<Rightarrow> string \<Rightarrow> Condition list"

definition statusOf :: "Condition list \<Rightarrow> string \<Rightarrow> CondStatus option" where
  "statusOf cs t = map_option cond_status (find (\<lambda>c. cond_type c = t) cs)"

definition reasonOf :: "Condition list \<Rightarrow> string \<Rightarrow> string option" where
  "reasonOf cs t = map_option cond_reason (find (\<lambda>c. cond_type c = t) cs)"

text \<open>
  What the libraries document: finalizers behave as sets; marking a condition sets its
  status and leaves the conditions of other types alone.
\<close>

definition capilib_laws :: "capilib \<Rightarrow> bool" where
  "capilib_laws L \<longleftrightarrow>
     (\<forall>fs f. set (addFinalizer L fs f) = insert f (set fs)) \<and>
     (\<forall>fs f. set (removeFinalizer L fs f) = set fs - {f}) \<and>
     (\<forall>cs t. statusOf (markTrue L cs t) t = Some CondTrue) \<and>
     (\<forall>cs t r v m. statusOf (markFalse L cs t r v m) t = Some CondFalse) \<and>
     (\<forall>cs t r v m. reasonOf (markFalse L cs t r v m) t = Some r) \<and>
     (\<forall>cs t t'. t' \<noteq> t \<longrightarrow> statusOf (markTrue L cs t) t' = statusOf cs t') \<and>
     (\<forall>cs t r v m t'. t' \<noteq> t \<longrightarrow> statusOf (markFalse L cs t r v m) t' = statusOf cs t')"

definition setCondition :: "Condition list \<Rightarrow> Condition \<Rightarrow> Condition list" where
  "setCondition cs c = c # filter (\<lambda>d. cond_type d \<noteq> cond_type c) cs"

definition stdLib :: capilib where
  "stdLib = \<lparr>addFinalizer = (\<lambda>fs f. if f \<in> set fs then fs else fs @ [f]),
     removeFinalizer = (\<lambda>fs f. filter (\<lambda>g. g \<noteq> f) fs),
     ensureOwnerRef = (\<lambda>os r. if r \<in> set os then os else os @ [r]),
     removeOwnerRef = (\<lambda>os r. filter (\<lambda>q. q \<noteq> r) os),
     markTrue = (\<lambda>cs t. setCondition cs \<lparr>cond_type = t, cond_status = CondTrue,
        cond_severity = SeverityNone, cond_reason = [], cond_message = []\<rparr>),
     markFalse = (\<lambda>cs t r v m. setCondition cs \<lparr>cond_type = t, cond_status = CondFalse,
        cond_severity = v, cond_reason = r, cond_message = m\<rparr>)\<rparr>"

lemma find_filter_other:
  "(\<And>d. P d \<Longrightarrow> Q d) \<Longrightarrow> find P (filter Q cs) = find P cs"
  by (induction cs) auto

lemma stdLib_laws: "capilib_laws stdLib"
  by (auto simp: capilib_laws_def stdLib_def setCondition_def statusOf_def reasonOf_def
      find_filter_other)

end
