(* ===== verification/InfraTypes.thy ===== *)
theory InfraTypes
  imports Kube
begin

text \<open>
  The API types of \<open>pkg/apis/infra/v1alpha1\<close> (CustomCluster, CustomMachine) and the fields
  of the Cluster API objects (Cluster, KubeadmControlPlane) that the operator reads.
  A pointer field is an \<open>option\<close>.
\<close>

section \<open>CustomMachine\<close>

record Machine =
  HostName :: string
  PrivateIP :: string
  PublicIP :: string
  Region :: "string option"
  Zone :: "string option"
  SSHKey :: "ObjectReference option"
  MachineLabels :: gomap

record CustomMachineSpec =
  Master :: "Machine list"
  Nodes :: "Machine list"

record CustomMachineStatus =
  MachineReady :: "bool option"

record CustomMachine =
  cmach_meta :: ObjectMeta
  cmach_spec :: CustomMachineSpec
  cmach_status :: CustomMachineStatus

section \<open>CustomCluster\<close>

record CNIConfig =
  CNIType :: string

record ControlPlaneConfig =
  Address :: string
  CertSANs :: "string list"
  LoadBalancerDomainName :: string

record CustomClusterSpec =
  MachineRef :: "ObjectReference option"
  CNI :: CNIConfig
  ControlPlaneConf :: "ControlPlaneConfig option"

text \<open>\<open>NoPhase\<close> is the empty string of an object whose status was never written.\<close>

datatype CustomClusterPhase =
    NoPhase
  | PendingPhase
  | ProvisioningPhase
  | ProvisionedPhase
  | DeletingPhase
  | ProvisionFailedPhase
  | UnknownPhase
  | ScalingUpPhase
  | ScalingDownPhase
  | UpgradingPhase

record CustomClusterStatus =
  CCConditions :: "Condition list"
  CCPhase :: CustomClusterPhase
  APIEndpoint :: string
  KubeconfigSecretRef :: string

record CustomCluster =
  cc_kind :: string
  cc_apiVersion :: string
  cc_meta :: ObjectMeta
  cc_spec :: CustomClusterSpec
  cc_status :: CustomClusterStatus

definition ReadyCondition :: string where "ReadyCondition = ''Ready''"
definition FailedCreateInitWorker :: string where "FailedCreateInitWorker = ''InitWorkerFailedCreate''"
definition InitWorkerRunFailedReason :: string where "InitWorkerRunFailedReason = ''InitWorkerRunFailed''"
definition ScaledUpCondition :: string where "ScaledUpCondition = ''ScaledUp''"
definition FailedCreateScaleUpWorker :: string where "FailedCreateScaleUpWorker = ''ScaleUpWorkerFailedCreate''"
definition ScaleUpWorkerRunFailedReason :: string where "ScaleUpWorkerRunFailedReason = ''ScaleUpWorkerRunFailed''"
definition ScaledDownCondition :: string where "ScaledDownCondition = ''ScaledDown''"
definition FailedCreateScaleDownWorker :: string where "FailedCreateScaleDownWorker = ''ScaleDownWorkerFailedCreate''"
definition ScaleDownWorkerRunFailedReason :: string where "ScaleDownWorkerRunFailedReason = ''ScaleDownWorkerRunFailed''"
definition UpgradeCondition :: string where "UpgradeCondition = ''Upgraded''"
definition UpgradeWorkerCreateFailed :: string where "UpgradeWorkerCreateFailed = ''UpgradeWorkerFailedCreate''"
definition UpgradeWorkerRunFailedReason :: string where "UpgradeWorkerRunFailedReason = ''UpgradeWorkerRunFailed''"
definition TerminatedCondition :: string where "TerminatedCondition = ''Terminated''"
definition FailedCreateTerminateWorker :: string where "FailedCreateTerminateWorker = ''TerminateWorkerFailedCreate''"
definition TerminateWorkerRunFailedReason :: string where "TerminateWorkerRunFailedReason = ''TerminateWorkerRunFailed''"
definition ObtainedKubeConfigCondition :: string where "ObtainedKubeConfigCondition = ''ObtainedKubeConfig''"
definition FailedFetchKubeConfigReason :: string where "FailedFetchKubeConfigReason = ''FailedFetchKubeConfig''"

section \<open>Cluster API objects\<close>

record ClusterNetwork =
  PodsCIDR :: "string list option"
  ServicesCIDR :: "string list option"
  ServiceDomain :: string

record CapiCluster =
  cl_meta :: ObjectMeta
  cl_network :: "ClusterNetwork option"
  cl_controlPlaneRef :: "ObjectReference option"
  cl_infrastructureRef :: "ObjectReference option"

record ClusterConfiguration =
  KcpClusterName :: string
  ImageRepository :: string
  FeatureGates :: "(string \<times> bool) list"

record KubeadmControlPlane =
  kcp_meta :: ObjectMeta
  kcp_version :: string
  kcp_clusterConfiguration :: "ClusterConfiguration option"

end
