(* ===== verification/Inventory.thy ===== *)
theory Inventory
  imports InfraTypes
begin

text \<open>
  The kubespray inventory (\<open>cluster-hosts\<close>) as text: how the operator writes it from a
  CustomMachine (\<open>customcluster_helper.go\<close> and \<open>customcluster_clusterhosts.template\<close>), reads
  the provisioned worker nodes back from it and adds nodes to it
  (\<open>customcluster_scale.go\<close>). A function that panics on some text is an \<open>option\<close>.

  The inventory is the operator's only record of the nodes a cluster was provisioned with,
  so the locale \<open>node_store\<close> states what its clients need: reading gives what was written,
  adding appends. It is interpreted on the text functions.
\<close>

section \<open>Definitions\<close>

record NodeInfo =
  NodeName :: string
  NodePublicIP :: string
  NodePrivateIP :: string

definition zeroNode :: NodeInfo where
  "zeroNode = \<lparr>NodeName = [], NodePublicIP = [], NodePrivateIP = []\<rparr>"

definition ClusterHostsName :: string where "ClusterHostsName = ''cluster-hosts''"
definition ClusterConfigName :: string where "ClusterConfigName = ''cluster-config''"
definition SecreteName :: string where "SecreteName = ''cluster-secret''"

record HostTemplateContent =
  NodeAndIP :: "string list"
  MasterName :: "string list"
  HostNodeName :: "string list"
  EtcdNodeName :: "string list"

text \<open>\<open>fmt.Sprintf("%s ansible_host=%s ip=%s", ...)\<close>\<close>

definition nodeAndIp :: "string \<Rightarrow> string \<Rightarrow> string \<Rightarrow> string" where
  "nodeAndIp name publicIP privateIP = name @ '' ansible_host='' @ publicIP @ '' ip='' @ privateIP"

fun hostsOfMasters :: "Machine list \<Rightarrow> nat \<Rightarrow> nat \<Rightarrow> HostTemplateContent \<Rightarrow> nat \<times> HostTemplateContent" where
  "hostsOfMasters [] i count h = (count, h)"
| "hostsOfMasters (m # ms) i count h = hostsOfMasters ms (Suc i) (Suc count)
     (h\<lparr>MasterName := (MasterName h)[i := HostName m],
        EtcdNodeName := (EtcdNodeName h)[count := HostName m],
        NodeAndIP := (NodeAndIP h)[count := nodeAndIp (HostName m) (PublicIP m) (PrivateIP m)]\<rparr>)"

fun hostsOfNodes :: "Machine list \<Rightarrow> nat \<Rightarrow> nat \<Rightarrow> HostTemplateContent \<Rightarrow> nat \<times> HostTemplateContent" where
  "hostsOfNodes [] i count h = (count, h)"
| "hostsOfNodes (m # ms) i count h = hostsOfNodes ms (Suc i) (Suc count)
     (h\<lparr>HostNodeName := (HostNodeName h)[i := HostName m],
        NodeAndIP := (NodeAndIP h)[count := nodeAndIp (HostName m) (PublicIP m) (PrivateIP m)]\<rparr>)"

definition GetHostsContent :: "CustomMachine \<Rightarrow> HostTemplateContent" where
  "GetHostsContent customMachine =
     (let masterMachine = Master (cmach_spec customMachine);
          nodeMachine = Nodes (cmach_spec customMachine);
          hostVar = \<lparr>NodeAndIP = replicate (length masterMachine + length nodeMachine) [],
                     MasterName = replicate (length masterMachine) [],
                     HostNodeName = replicate (length nodeMachine) [],
                     EtcdNodeName = replicate (length masterMachine) []\<rparr>;
          (count, hostVar1) = hostsOfMasters masterMachine 0 0 hostVar;
          (_, hostVar2) = hostsOfNodes nodeMachine 0 count hostVar1
      in hostVar2)"

text \<open>Executing \<open>customcluster_clusterhosts.template\<close>.\<close>

definition renderHosts :: "HostTemplateContent \<Rightarrow> string" where
  "renderHosts h =
     ''[all]\<newline>'' @ concat (map (\<lambda>v. ''\<newline>'' @ v @ ''\<newline>'') (NodeAndIP h)) @
     ''\<newline>[kube_control_plane]\<newline>'' @ concat (map (\<lambda>v. ''\<newline>'' @ v @ ''\<newline>'') (MasterName h)) @
     ''\<newline>[etcd]'' @ concat (map (\<lambda>v. ''\<newline>'' @ v @ ''\<newline>'') (EtcdNodeName h)) @
     ''\<newline>[kube_node]'' @ concat (map (\<lambda>v. ''\<newline>'' @ v @ ''\<newline>'') (HostNodeName h)) @
     ''\<newline>[k8s-cluster:children]\<newline>kube_node\<newline>kube_control_plane\<newline>''"

definition getNodeInfoFromNodeStr :: "string \<Rightarrow> (string \<times> NodeInfo) option" where
  "getNodeInfoFromNodeStr nodeStr =
     (let strArr = splitLits ['' ansible_host='', '' ip=''] (trimSpace nodeStr)
      in case (indexO strArr 0, indexO strArr 1, indexO strArr 2) of
           (Some hostName, Some publicIP, Some privateIP) \<Rightarrow>
             Some (hostName, \<lparr>NodeName = hostName, NodePublicIP = publicIP, NodePrivateIP = privateIP\<rparr>)
         | _ \<Rightarrow> None)"

fun collectNodes :: "string list \<Rightarrow> (string \<rightharpoonup> NodeInfo) \<Rightarrow> (string \<rightharpoonup> NodeInfo) option" where
  "collectNodes [] allNodes = Some allNodes"
| "collectNodes (nodeStr # rest) allNodes =
     (if nodeStr = [] then collectNodes rest allNodes
      else case getNodeInfoFromNodeStr (trimSpace nodeStr) of
             None \<Rightarrow> None
           | Some (curName, cruNodeInfo) \<Rightarrow> collectNodes rest (allNodes(curName \<mapsto> cruNodeInfo)))"

fun chooseWorkers :: "string list \<Rightarrow> (string \<rightharpoonup> NodeInfo) \<Rightarrow> NodeInfo list" where
  "chooseWorkers [] allNodes = []"
| "chooseWorkers (workerNodeName # rest) allNodes =
     (if workerNodeName = [] then chooseWorkers rest allNodes
      else (case allNodes (trimSpace workerNodeName) of None \<Rightarrow> zeroNode | Some n \<Rightarrow> n)
           # chooseWorkers rest allNodes)"

definition hostsSections :: "string list" where
  "hostsSections = [''[all]'', ''[kube_control_plane]'', ''[kube_node]'', ''[k8s-cluster:children]'']"

definition workerNodesOfText :: "string \<Rightarrow> NodeInfo list option" where
  "workerNodesOfText text =
     (let arr = splitLits hostsSections (trimSpace text)
      in case (indexO arr 1, indexO arr 3) of
           (Some allNodesStr, Some workerNodesStr) \<Rightarrow>
             map_option (chooseWorkers (splitLits lineSeps workerNodesStr))
               (collectNodes (splitLits lineSeps allNodesStr) Map.empty)
         | _ \<Rightarrow> None)"

definition getWorkerNodeInfoFromClusterHosts :: "ConfigMap \<Rightarrow> NodeInfo list option" where
  "getWorkerNodeInfoFromClusterHosts clusterHost =
     workerNodesOfText (mapAt (cm_data clusterHost) ClusterHostsName)"

fun getWorkerNodesFromMachines :: "Machine list \<Rightarrow> NodeInfo list" where
  "getWorkerNodesFromMachines [] = []"
| "getWorkerNodesFromMachines (m # ms) =
     \<lparr>NodeName = HostName m, NodePublicIP = PublicIP m, NodePrivateIP = PrivateIP m\<rparr>
     # getWorkerNodesFromMachines ms"

definition getWorkerNodesFromCustomMachine :: "CustomMachine \<Rightarrow> NodeInfo list" where
  "getWorkerNodesFromCustomMachine customMachine = getWorkerNodesFromMachines (Nodes (cmach_spec customMachine))"

fun scaleUpLines :: "NodeInfo list \<Rightarrow> string \<Rightarrow> string \<Rightarrow> string \<times> string" where
  "scaleUpLines [] nodeAndIP nodeName = (nodeAndIP, nodeName)"
| "scaleUpLines (node # rest) nodeAndIP nodeName = scaleUpLines rest
     (nodeAndIP @ nodeAndIp (NodeName node) (NodePublicIP node) (NodePrivateIP node) @ ''\<newline>'')
     (nodeName @ NodeName node @ ''\<newline>'')"

definition getScaleUpConfigMapData :: "string \<Rightarrow> NodeInfo list \<Rightarrow> string option" where
  "getScaleUpConfigMapData data scaleUpWorkerNodes =
     (let dateParts = splitLits [''[kube_control_plane]'', ''[k8s-cluster:children]''] data;
          (nodeAndIP, nodeName) = scaleUpLines scaleUpWorkerNodes ''\<newline>'' ''\<newline>''
      in case (indexO dateParts 0, indexO dateParts 1, indexO dateParts 2) of
           (Some p0, Some p1, Some p2) \<Rightarrow>
             Some (p0 @ nodeAndIP @ ''[kube_control_plane]'' @ p1 @ nodeName @ ''[k8s-cluster:children]'' @ p2)
         | _ \<Rightarrow> None)"

definition findAdditionalWorkerNodes :: "NodeInfo list \<Rightarrow> NodeInfo list \<Rightarrow> NodeInfo list" where
  "findAdditionalWorkerNodes firstWorkerNodes secondWorkersNodes =
     (if secondWorkersNodes = [] then []
      else if firstWorkerNodes = [] then secondWorkersNodes
      else let names = foldl (\<lambda>s firstNode. insert (NodeName firstNode) s) {} firstWorkerNodes
           in filter (\<lambda>secondNode. NodeName secondNode \<notin> names) secondWorkersNodes)"

definition findScaleUpWorkerNodes :: "NodeInfo list \<Rightarrow> NodeInfo list \<Rightarrow> NodeInfo list" where
  "findScaleUpWorkerNodes provisionedWorkerNodes curWorkerNodes =
     findAdditionalWorkerNodes provisionedWorkerNodes curWorkerNodes"

definition findScaleDownWorkerNodes :: "NodeInfo list \<Rightarrow> NodeInfo list \<Rightarrow> NodeInfo list" where
  "findScaleDownWorkerNodes provisionedWorkerNodes curWorkerNodes =
     findAdditionalWorkerNodes curWorkerNodes provisionedWorkerNodes"

section \<open>Well-formed inventories\<close>

definition lineOf :: "Machine \<Rightarrow> string" where
  "lineOf m = nodeAndIp (HostName m) (PublicIP m) (PrivateIP m)"

definition inventoryText :: "string \<Rightarrow> string \<Rightarrow> string \<Rightarrow> string" where
  "inventoryText a m w = ''[all]'' @ a @ ''[kube_control_plane]'' @ m @ ''[kube_node]'' @ w @
     ''[k8s-cluster:children]'' @ ''\<newline>kube_node\<newline>kube_control_plane''"

definition bracketFree :: "string \<Rightarrow> bool" where
  "bracketFree s = (CHR ''['' \<notin> set s)"

definition controlSection :: "string \<Rightarrow> bool" where
  "controlSection m \<longleftrightarrow> (\<exists>x y. m = x @ ''[etcd]'' @ y \<and> bracketFree x \<and> bracketFree y)"

definition goodWord :: "string \<Rightarrow> bool" where
  "goodWord s = (\<forall>c \<in> set s. \<not> isSpace c \<and> c \<noteq> CHR ''['')"

definition wordNode :: "NodeInfo \<Rightarrow> bool" where
  "wordNode n \<longleftrightarrow> goodWord (NodeName n) \<and> goodWord (NodePublicIP n) \<and> goodWord (NodePrivateIP n)"

definition goodNode :: "NodeInfo \<Rightarrow> bool" where
  "goodNode n \<longleftrightarrow> NodeName n \<noteq> [] \<and> wordNode n"

definition nodeLine :: "NodeInfo \<Rightarrow> string" where
  "nodeLine n = nodeAndIp (NodeName n) (NodePublicIP n) (NodePrivateIP n)"

definition machineNode :: "Machine \<Rightarrow> NodeInfo" where
  "machineNode m = \<lparr>NodeName = HostName m, NodePublicIP = PublicIP m, NodePrivateIP = PrivateIP m\<rparr>"

definition goodInventory :: "NodeInfo list \<Rightarrow> NodeInfo list \<Rightarrow> bool" where
  "goodInventory ms ws \<longleftrightarrow> (\<forall>n \<in> set (ms @ ws). goodNode n) \<and> distinct (map NodeName (ms @ ws))"

text \<open>
  The text \<open>t\<close> is an inventory of the control plane nodes \<open>ms\<close> and the workers \<open>ws\<close>: every
  node has its line in the first section, the workers are the names of the third.
\<close>

definition holdsInventory :: "string \<Rightarrow> NodeInfo list \<Rightarrow> NodeInfo list \<Rightarrow> bool" where
  "holdsInventory t ms ws \<longleftrightarrow> goodInventory ms ws \<and>
     (\<exists>a m w ns. t = inventoryText a m w \<and> bracketFree a \<and> controlSection m \<and> bracketFree w \<and>
        nonEmpty (splitLits lineSeps a) = map nodeLine ns \<and> set ns = set (ms @ ws) \<and>
        nonEmpty (splitLits lineSeps w) = map NodeName ws)"

text \<open>The three sections of the text written for the nodes \<open>ms\<close> and \<open>ws\<close>.\<close>

definition allSection :: "NodeInfo list \<Rightarrow> string" where
  "allSection ns = nl # blockOf (map nodeLine ns) @ [nl]"

definition masterSection :: "NodeInfo list \<Rightarrow> string" where
  "masterSection ms = nl # blockOf (map NodeName ms) @ nl # ''[etcd]'' @ blockOf (map NodeName ms) @ [nl]"

definition workerSection :: "NodeInfo list \<Rightarrow> string" where
  "workerSection ws = blockOf (map NodeName ws) @ [nl]"

definition nodesOf :: "Machine list \<Rightarrow> NodeInfo list" where
  "nodesOf ms = map machineNode ms"

definition templateConfigMap :: "string \<Rightarrow> string \<Rightarrow> string \<Rightarrow> string \<Rightarrow> ConfigMap" where
  "templateConfigMap name namespace fileName configMapData =
     \<lparr>cm_meta = newMeta name namespace, cm_data = Some [fileName \<mapsto> trimSpace configMapData]\<rparr>"

fun scaleUps :: "string \<Rightarrow> NodeInfo list list \<Rightarrow> string option" where
  "scaleUps text [] = Some text"
| "scaleUps text (ns # nss) =
     (case getScaleUpConfigMapData text ns of None \<Rightarrow> None | Some text' \<Rightarrow> scaleUps text' nss)"

section \<open>The host content\<close>

lemma fill_update:
  "length xs < n \<Longrightarrow>
     (xs @ replicate (n - length xs) d)[length xs := y] = (xs @ [y]) @ replicate (n - length (xs @ [y])) d"
  by (cases "n - length xs") (auto simp: list_update_append)

lemma hostsOfMasters_fill:
  assumes "MasterName h = ns @ replicate (length ms) []"
    and "EtcdNodeName h = ns @ replicate (length ms) []"
    and "NodeAndIP h = ls @ replicate (length ms + k) []"
    and "length ls = length ns"
  shows "hostsOfMasters ms (length ns) (length ns) h =
    (length ns + length ms,
     h\<lparr>MasterName := ns @ map HostName ms, EtcdNodeName := ns @ map HostName ms,
       NodeAndIP := ls @ map lineOf ms @ replicate k []\<rparr>)"
  using assms
proof (induction ms arbitrary: ns ls h)
  case Nil
  then show ?case by simp
next
  case (Cons m ms)
  let ?h = "h\<lparr>MasterName := (MasterName h)[length ns := HostName m],
        EtcdNodeName := (EtcdNodeName h)[length ns := HostName m],
        NodeAndIP := (NodeAndIP h)[length ns := lineOf m]\<rparr>"
  have "hostsOfMasters ms (length (ns @ [HostName m])) (length (ns @ [HostName m])) ?h =
    (length (ns @ [HostName m]) + length ms,
     ?h\<lparr>MasterName := (ns @ [HostName m]) @ map HostName ms,
        EtcdNodeName := (ns @ [HostName m]) @ map HostName ms,
        NodeAndIP := (ls @ [lineOf m]) @ map lineOf ms @ replicate k []\<rparr>)"
    by (rule Cons.IH) (use Cons.prems in \<open>auto simp: list_update_append\<close>)
  then show ?case by (simp add: lineOf_def)
qed

lemma hostsOfNodes_fill:
  assumes "HostNodeName h = ns @ replicate (length ms) []"
    and "NodeAndIP h = ls @ replicate (length ms) []"
  shows "hostsOfNodes ms (length ns) (length ls) h =
    (length ls + length ms,
     h\<lparr>HostNodeName := ns @ map HostName ms, NodeAndIP := ls @ map lineOf ms\<rparr>)"
  using assms
proof (induction ms arbitrary: ns ls h)
  case Nil
  then show ?case by simp
next
  case (Cons m ms)
  let ?h = "h\<lparr>HostNodeName := (HostNodeName h)[length ns := HostName m],
        NodeAndIP := (NodeAndIP h)[length ls := lineOf m]\<rparr>"
  have "hostsOfNodes ms (length (ns @ [HostName m])) (length (ls @ [lineOf m])) ?h =
    (length (ls @ [lineOf m]) + length ms,
     ?h\<lparr>HostNodeName := (ns @ [HostName m]) @ map HostName ms,
        NodeAndIP := (ls @ [lineOf m]) @ map lineOf ms\<rparr>)"
    by (rule Cons.IH) (use Cons.prems in \<open>auto simp: list_update_append\<close>)
  then show ?case by (simp add: lineOf_def)
qed

lemma GetHostsContent_eq:
  "GetHostsContent customMachine =
     (let ms = Master (cmach_spec customMachine); ns = Nodes (cmach_spec customMachine)
      in \<lparr>NodeAndIP = map lineOf (ms @ ns), MasterName = map HostName ms,
          HostNodeName = map HostName ns, EtcdNodeName = map HostName ms\<rparr>)"
  using hostsOfMasters_fill [of _ "[]" "Master (cmach_spec customMachine)" "[]" "length (Nodes (cmach_spec customMachine))"]
    hostsOfNodes_fill [of _ "[]" "Nodes (cmach_spec customMachine)" "map lineOf (Master (cmach_spec customMachine))"]
  by (simp add: GetHostsContent_def Let_def)

section \<open>The shape of an inventory\<close>

lemma startFree_sections [simp]:
  "startFree hostsSections s \<longleftrightarrow> bracketFree s"
  "startFree [''[kube_control_plane]'', ''[k8s-cluster:children]''] s \<longleftrightarrow> bracketFree s"
  by (auto simp: startFree_def hostsSections_def bracketFree_def)

lemma split_etcd:
  "splitLits hostsSections (''[etcd]'' @ s) = prependS ''[etcd]'' (splitLits hostsSections s)"
  by (simp add: splitLits.simps(2) hostsSections_def)

lemma split_etcd2:
  "splitLits [''[kube_control_plane]'', ''[k8s-cluster:children]''] (''[etcd]'' @ s) =
   prependS ''[etcd]'' (splitLits [''[kube_control_plane]'', ''[k8s-cluster:children]''] s)"
  by (simp add: splitLits.simps(2))

lemma split_kube_node2:
  "splitLits [''[kube_control_plane]'', ''[k8s-cluster:children]''] (''[kube_node]'' @ s) =
   prependS ''[kube_node]'' (splitLits [''[kube_control_plane]'', ''[k8s-cluster:children]''] s)"
  by (simp add: splitLits.simps(2))

lemma split_all2:
  "splitLits [''[kube_control_plane]'', ''[k8s-cluster:children]''] (''[all]'' @ s) =
   prependS ''[all]'' (splitLits [''[kube_control_plane]'', ''[k8s-cluster:children]''] s)"
  by (simp add: splitLits.simps(2))

lemmas split_literals = split_etcd split_etcd2 split_kube_node2 split_all2

lemma find_section:
  "find (\<lambda>l'. prefix l' (''[all]'' @ s)) hostsSections = Some ''[all]''"
  "find (\<lambda>l'. prefix l' (''[kube_control_plane]'' @ s)) hostsSections = Some ''[kube_control_plane]''"
  "find (\<lambda>l'. prefix l' (''[kube_node]'' @ s)) hostsSections = Some ''[kube_node]''"
  "find (\<lambda>l'. prefix l' (''[k8s-cluster:children]'' @ s)) hostsSections = Some ''[k8s-cluster:children]''"
  by (simp_all add: hostsSections_def)

lemma find_section2:
  "find (\<lambda>l'. prefix l' (''[kube_control_plane]'' @ s)) [''[kube_control_plane]'', ''[k8s-cluster:children]''] = Some ''[kube_control_plane]''"
  "find (\<lambda>l'. prefix l' (''[k8s-cluster:children]'' @ s)) [''[kube_control_plane]'', ''[k8s-cluster:children]''] = Some ''[k8s-cluster:children]''"
  by simp_all

lemmas split_sections = splitLits_at [OF _ _ find_section(1)] splitLits_at [OF _ _ find_section(2)]
  splitLits_at [OF _ _ find_section(3)] splitLits_at [OF _ _ find_section(4)]
  splitLits_at [OF _ _ find_section2(1)] splitLits_at [OF _ _ find_section2(2)]

lemma split_inventory:
  assumes "bracketFree a" and "controlSection m" and "bracketFree w"
  shows "splitLits hostsSections (inventoryText a m w) =
    [[], a, m, w, ''\<newline>kube_node\<newline>kube_control_plane'']"
proof -
  obtain x y where m: "m = x @ ''[etcd]'' @ y" and xy: "bracketFree x" "bracketFree y"
    using assms(2) by (auto simp: controlSection_def)
  let ?t = "''\<newline>kube_node\<newline>kube_control_plane''"
  have t: "splitLits hostsSections ?t = [?t]"
    by (rule splitLits_free) (simp add: bracketFree_def)
  have "splitLits hostsSections (w @ ''[k8s-cluster:children]'' @ ?t) = [w, ?t]"
    using assms(3) by (simp only: split_sections startFree_sections list.distinct t not_False_eq_True)
  then have "splitLits hostsSections (y @ ''[kube_node]'' @ w @ ''[k8s-cluster:children]'' @ ?t) = [y, w, ?t]"
    using xy(2) by (simp only: split_sections startFree_sections list.distinct not_False_eq_True)
  then have "splitLits hostsSections (m @ ''[kube_node]'' @ w @ ''[k8s-cluster:children]'' @ ?t) = [m, w, ?t]"
    using xy(1) unfolding m append_assoc by (simp only: splitLits_skip startFree_sections split_etcd prependS.simps)
  then have "splitLits hostsSections ([] @ ''[all]'' @ a @ ''[kube_control_plane]'' @ m @ ''[kube_node]'' @ w @ ''[k8s-cluster:children]'' @ ?t) = [[], a, m, w, ?t]"
    using assms(1) by (simp only: split_sections startFree_sections startFree_Nil list.distinct not_False_eq_True)
  then show ?thesis
    unfolding inventoryText_def by (simp only: append_Nil)
qed

lemma split_inventory2:
  assumes "bracketFree a" and "controlSection m" and "bracketFree w"
  shows "splitLits [''[kube_control_plane]'', ''[k8s-cluster:children]''] (inventoryText a m w) =
    [''[all]'' @ a, m @ ''[kube_node]'' @ w, ''\<newline>kube_node\<newline>kube_control_plane'']"
proof -
  obtain x y where m: "m = x @ ''[etcd]'' @ y" and xy: "bracketFree x" "bracketFree y"
    using assms(2) by (auto simp: controlSection_def)
  let ?L = "[''[kube_control_plane]'', ''[k8s-cluster:children]'']"
  let ?t = "''\<newline>kube_node\<newline>kube_control_plane''"
  have t: "splitLits ?L ?t = [?t]"
    by (rule splitLits_free) (simp add: bracketFree_def)
  have "splitLits ?L (w @ ''[k8s-cluster:children]'' @ ?t) = [w, ?t]"
    using assms(3) by (simp only: split_sections startFree_sections list.distinct t not_False_eq_True)
  then have "splitLits ?L (m @ ''[kube_node]'' @ w @ ''[k8s-cluster:children]'' @ ?t) = [m @ ''[kube_node]'' @ w, ?t]"
    using xy unfolding m append_assoc
    by (simp only: splitLits_skip startFree_sections split_literals prependS.simps append_assoc)
  then have "splitLits ?L (a @ ''[kube_control_plane]'' @ m @ ''[kube_node]'' @ w @ ''[k8s-cluster:children]'' @ ?t) =
      [a, m @ ''[kube_node]'' @ w, ?t]"
    using assms(1) by (simp only: split_sections startFree_sections list.distinct not_False_eq_True)
  then show ?thesis
    unfolding inventoryText_def by (simp only: split_all2 prependS.simps)
qed

lemma trim_inventory: "trimSpace (inventoryText a m w) = inventoryText a m w"
  by (rule trimSpace_id) (simp_all add: inventoryText_def isSpace_def)

section \<open>Node lines\<close>

lemma goodWord_lineFree: "goodWord s \<Longrightarrow> lineFree s"
  by (auto simp: goodWord_def lineFree_def isSpace_def)

lemma goodWord_bracketFree: "goodWord s \<Longrightarrow> bracketFree s"
  by (auto simp: goodWord_def bracketFree_def)

lemma wordNode_lines:
  assumes "wordNode n"
  shows "goodLine (nodeLine n)" and "bracketFree (nodeLine n)" and "bracketFree (NodeName n)"
  using assms
  by (auto simp: wordNode_def nodeLine_def nodeAndIp_def goodLine_def goodWord_lineFree bracketFree_def goodWord_def)

lemma goodNode_lines:
  assumes "goodNode n"
  shows "goodLine (nodeLine n)" and "goodLine (NodeName n)"
    and "bracketFree (nodeLine n)" and "bracketFree (NodeName n)"
  using assms wordNode_lines [of n]
  by (auto simp: goodNode_def wordNode_def goodLine_def goodWord_lineFree)

lemma find_nodeSep:
  "find (\<lambda>l'. prefix l' ('' ansible_host='' @ s)) ['' ansible_host='', '' ip=''] = Some '' ansible_host=''"
  "find (\<lambda>l'. prefix l' ('' ip='' @ s)) ['' ansible_host='', '' ip=''] = Some '' ip=''"
  by simp_all

lemma goodWord_sep: "goodWord s \<Longrightarrow> startFree ['' ansible_host='', '' ip=''] s"
  by (auto simp: startFree_def goodWord_def isSpace_def)

lemma trim_nodeLine: "goodNode n \<Longrightarrow> trimSpace (nodeLine n) = nodeLine n"
  by (rule trimSpace_id)
    (auto simp: nodeLine_def nodeAndIp_def goodNode_def wordNode_def goodWord_def isSpace_def hd_append last_append)

lemma parse_nodeLine:
  assumes "goodNode n"
  shows "getNodeInfoFromNodeStr (nodeLine n) = Some (NodeName n, n)"
proof -
  let ?S = "['' ansible_host='', '' ip='']"
  note w = goodWord_sep
  have "splitLits ?S (NodePublicIP n @ '' ip='' @ NodePrivateIP n) = [NodePublicIP n, NodePrivateIP n]"
    using assms w splitLits_at [OF _ _ find_nodeSep(2), of "NodePublicIP n" "NodePrivateIP n"]
    by (simp add: goodNode_def wordNode_def splitLits_free)
  then have "splitLits ?S (nodeLine n) = [NodeName n, NodePublicIP n, NodePrivateIP n]"
    using assms w splitLits_at [OF _ _ find_nodeSep(1), of "NodeName n"]
    by (simp add: goodNode_def wordNode_def nodeLine_def nodeAndIp_def)
  then show ?thesis
    using assms by (simp add: getNodeInfoFromNodeStr_def trim_nodeLine numeral_2_eq_2)
qed

lemma collectNodes_nonEmpty: "collectNodes ls m = collectNodes (nonEmpty ls) m"
  by (induction ls m rule: collectNodes.induct) (auto simp del: fun_upd_apply split: option.splits)

lemma chooseWorkers_nonEmpty: "chooseWorkers ls m = chooseWorkers (nonEmpty ls) m"
  by (induction ls m rule: chooseWorkers.induct) auto

lemma collectNodes_nodeLines:
  "\<forall>n \<in> set ns. goodNode n \<Longrightarrow>
     collectNodes (map nodeLine ns) m = Some (foldl (\<lambda>m n. m(NodeName n \<mapsto> n)) m ns)"
proof (induction ns arbitrary: m)
  case (Cons n ns)
  then have "nodeLine n \<noteq> []" using goodNode_lines(1) [of n] by (auto simp: goodLine_def)
  with Cons show ?case by (simp add: parse_nodeLine trim_nodeLine del: fun_upd_apply)
qed simp

lemma chooseWorkers_names:
  assumes "\<forall>n \<in> set ns. goodNode n" and "\<forall>n \<in> set ns. m (NodeName n) = Some n"
  shows "chooseWorkers (map NodeName ns) m = ns"
  using assms
  by (induction ns) (auto simp: goodNode_def wordNode_def goodWord_def trimSpace_free)

section \<open>What an inventory holds\<close>

lemma holdsInventoryI:
  assumes "goodInventory ms ws" and "bracketFree a" and "controlSection m" and "bracketFree w"
    and "nonEmpty (splitLits lineSeps a) = map nodeLine ns" and "set ns = set (ms @ ws)"
    and "nonEmpty (splitLits lineSeps w) = map NodeName ws"
  shows "holdsInventory (inventoryText a m w) ms ws"
  using assms unfolding holdsInventory_def by blast

lemma prependS_append: "xs \<noteq> [] \<Longrightarrow> prependS a (xs @ ys) = prependS a xs @ ys"
  by (cases xs) auto

lemma splitLits_append_line:
  "splitLits lineSeps (a @ nl # b) = splitLits lineSeps a @ splitLits lineSeps b"
proof (induction a)
  case Nil
  then show ?case using splitLits_line [of "[]" b] by simp
next
  case (Cons c a)
  show ?case
  proof (cases "c \<in> {CHR 0x09, nl, CHR 0x0C, CHR 0x0D}")
    case True
    have find1: "find (\<lambda>l'. prefix l' ([c] @ s)) lineSeps = Some [c]" for s
      using True by (auto simp: lineSeps_def)
    have "splitLits lineSeps ([c] @ s) = [] # splitLits lineSeps s" for s
      by (rule splitLits_hit [OF _ find1]) simp
    then show ?thesis using Cons by simp
  next
    case False
    then have "splitLits lineSeps (c # s) = prependS [c] (splitLits lineSeps s)" for s
      using splitLits_skip [of lineSeps "[c]" s] by simp
    then show ?thesis using Cons by (simp add: prependS_append)
  qed
qed

lemma bracketFree_simps [simp]:
  "bracketFree []" "bracketFree (c # s) \<longleftrightarrow> c \<noteq> CHR ''['' \<and> bracketFree s"
  "bracketFree (s @ t) \<longleftrightarrow> bracketFree s \<and> bracketFree t"
  by (auto simp: bracketFree_def)

lemma bracketFree_block:
  "\<forall>v \<in> set vs. bracketFree v \<Longrightarrow> bracketFree (blockOf vs)"
  "\<forall>v \<in> set vs. bracketFree v \<Longrightarrow> bracketFree (linesOf vs)"
  by (auto simp: blockOf_def linesOf_def bracketFree_def)

lemma trim_renderHosts:
  "trimSpace (renderHosts h) =
     inventoryText (nl # blockOf (NodeAndIP h) @ [nl])
       (nl # blockOf (MasterName h) @ nl # ''[etcd]'' @ blockOf (EtcdNodeName h) @ [nl])
       (blockOf (HostNodeName h) @ [nl])"
proof -
  have "renderHosts h =
     inventoryText (nl # blockOf (NodeAndIP h) @ [nl])
       (nl # blockOf (MasterName h) @ nl # ''[etcd]'' @ blockOf (EtcdNodeName h) @ [nl])
       (blockOf (HostNodeName h) @ [nl]) @ [nl]"
    by (simp add: renderHosts_def inventoryText_def blockOf_def)
  then show ?thesis
    by (simp only:) (rule trimSpace_nl_end, simp_all add: inventoryText_def isSpace_def)
qed

lemma getWorkerNodesFromMachines_map: "getWorkerNodesFromMachines ms = nodesOf ms"
  by (induction ms) (auto simp: machineNode_def nodesOf_def)

lemma created_text:
  "trimSpace (renderHosts (GetHostsContent cm)) =
     inventoryText (allSection (nodesOf (Master (cmach_spec cm)) @ nodesOf (Nodes (cmach_spec cm))))
       (masterSection (nodesOf (Master (cmach_spec cm)))) (workerSection (nodesOf (Nodes (cmach_spec cm))))"
  by (simp add: trim_renderHosts GetHostsContent_eq Let_def nodesOf_def allSection_def masterSection_def
      workerSection_def lineOf_def [abs_def] nodeLine_def machineNode_def comp_def)

lemma created_sections:
  assumes "\<forall>n \<in> set (ms @ ws). wordNode n"
  shows "bracketFree (allSection (ms @ ws))" and "controlSection (masterSection ms)"
    and "bracketFree (workerSection ws)"
    and "nonEmpty (splitLits lineSeps (allSection (ms @ ws))) = map nodeLine (ms @ ws)"
proof -
  have ms: "bracketFree (blockOf (map NodeName ms))"
    using assms by (auto intro!: bracketFree_block wordNode_lines)
  then show "controlSection (masterSection ms)"
    unfolding controlSection_def masterSection_def
    by (intro exI [of _ "nl # blockOf (map NodeName ms) @ [nl]"] exI [of _ "blockOf (map NodeName ms) @ [nl]"]) simp
  show "bracketFree (allSection (ms @ ws))" "bracketFree (workerSection ws)"
    using assms unfolding allSection_def workerSection_def
    by (auto intro!: bracketFree_block wordNode_lines)
  have "\<forall>v \<in> set (map nodeLine (ms @ ws)). goodLine v"
    using assms wordNode_lines(1) by auto
  then show "nonEmpty (splitLits lineSeps (allSection (ms @ ws))) = map nodeLine (ms @ ws)"
    unfolding allSection_def by (simp only: split_nls split_blockOf) simp
qed

lemma create_holds:
  assumes "goodInventory (nodesOf (Master (cmach_spec cm))) (nodesOf (Nodes (cmach_spec cm)))"
  shows "holdsInventory (trimSpace (renderHosts (GetHostsContent cm)))
    (nodesOf (Master (cmach_spec cm))) (nodesOf (Nodes (cmach_spec cm)))"
proof -
  define ms ws where "ms = nodesOf (Master (cmach_spec cm))" and "ws = nodesOf (Nodes (cmach_spec cm))"
  have good: "\<forall>n \<in> set (ms @ ws). goodNode n" and word: "\<forall>n \<in> set (ms @ ws). wordNode n"
    using assms by (auto simp: goodInventory_def goodNode_def ms_def ws_def)
  have "nonEmpty (splitLits lineSeps (workerSection ws)) = map NodeName ws"
    using good split_blockOf [of "map NodeName ws" "[nl]"] goodNode_lines(2) by (simp add: workerSection_def)
  then show ?thesis
    using assms created_sections [OF word] unfolding created_text ms_def [symmetric] ws_def [symmetric]
    by (intro holdsInventoryI [where ns = "ms @ ws"]) (simp_all only:)
qed

lemma foldl_upd_set:
  "\<lbrakk>n \<in> set ns; inj_on NodeName (set ns)\<rbrakk> \<Longrightarrow> foldl (\<lambda>m n. m(NodeName n \<mapsto> n)) m ns (NodeName n) = Some n"
proof (induction ns arbitrary: m)
  case (Cons x ns)
  show ?case
  proof (cases "n \<in> set ns")
    case False
    with Cons.prems have "n = x" and "NodeName n \<notin> NodeName ` set ns"
      by (auto simp: inj_on_def)
    then show ?thesis
      using foldl_upd_notin [of "NodeName n" NodeName ns "\<lambda>n. n"] by (simp del: fun_upd_apply add: fun_upd_same)
  qed (use Cons in \<open>auto simp: inj_on_def simp del: fun_upd_apply\<close>)
qed simp

lemma parse_holds:
  assumes "holdsInventory t ms ws"
  shows "workerNodesOfText t = Some ws"
proof -
  obtain a m w ns where t: "t = inventoryText a m w" and free: "bracketFree a" "controlSection m" "bracketFree w"
    and ns: "nonEmpty (splitLits lineSeps a) = map nodeLine ns" "set ns = set (ms @ ws)"
    and w: "nonEmpty (splitLits lineSeps w) = map NodeName ws"
    and good: "\<forall>n \<in> set (ms @ ws). goodNode n" and dist: "distinct (map NodeName (ms @ ws))"
    using assms by (auto simp: holdsInventory_def goodInventory_def)
  let ?m = "foldl (\<lambda>m n. m(NodeName n \<mapsto> n)) Map.empty ns"
  have "collectNodes (splitLits lineSeps a) Map.empty = Some ?m"
    using ns good by (subst collectNodes_nonEmpty) (simp add: collectNodes_nodeLines)
  moreover have "chooseWorkers (splitLits lineSeps w) ?m = ws"
  proof -
    have "inj_on NodeName (set ns)" using dist ns(2) by (simp only: distinct_map)
    then show ?thesis
      using ns(2) good w by (subst chooseWorkers_nonEmpty) (auto intro!: chooseWorkers_names foldl_upd_set)
  qed
  ultimately show ?thesis
    using free by (simp add: workerNodesOfText_def t trim_inventory split_inventory numeral_3_eq_3)
qed

lemma scaleUpLines_eq:
  "scaleUpLines ns x y = (x @ linesOf (map nodeLine ns), y @ linesOf (map NodeName ns))"
  by (induction ns arbitrary: x y) (auto simp: linesOf_def nodeLine_def)

lemma add_holds:
  assumes "holdsInventory t ms ws" and "goodInventory ms (ws @ ns)"
  shows "\<exists>t'. getScaleUpConfigMapData t ns = Some t' \<and> holdsInventory t' ms (ws @ ns)"
proof -
  obtain a m w os where t: "t = inventoryText a m w" and free: "bracketFree a" "controlSection m" "bracketFree w"
    and a: "nonEmpty (splitLits lineSeps a) = map nodeLine os" "set os = set (ms @ ws)"
    and w: "nonEmpty (splitLits lineSeps w) = map NodeName ws"
    using assms(1) by (auto simp: holdsInventory_def)
  let ?a = "a @ nl # linesOf (map nodeLine ns)" and ?w = "w @ nl # linesOf (map NodeName ns)"
  have good: "\<forall>n \<in> set ns. goodNode n" using assms(2) by (simp add: goodInventory_def)
  have "getScaleUpConfigMapData t ns = Some (inventoryText ?a m ?w)"
    using free by (simp add: getScaleUpConfigMapData_def t split_inventory2 scaleUpLines_eq numeral_2_eq_2)
      (simp add: inventoryText_def)
  moreover have "bracketFree ?a" "bracketFree ?w"
    using free good by (auto intro!: bracketFree_block goodNode_lines)
  moreover have "nonEmpty (splitLits lineSeps (linesOf (map nodeLine ns))) = map nodeLine ns"
    "nonEmpty (splitLits lineSeps (linesOf (map NodeName ns))) = map NodeName ns"
    using good split_linesOf [of "map nodeLine ns" "[]"] split_linesOf [of "map NodeName ns" "[]"]
    by (auto simp: goodNode_lines)
  ultimately have "holdsInventory (inventoryText ?a m ?w) ms (ws @ ns)"
    using assms(2) free(2) a w
    by (intro holdsInventoryI [where ns = "os @ ns"]) (auto simp: splitLits_append_line)
  with \<open>getScaleUpConfigMapData t ns = _\<close> show ?thesis by blast
qed

section \<open>Differences between desired and provisioned workers\<close>

lemma nameSet: "foldl (\<lambda>s n. insert (NodeName n) s) S ns = NodeName ` set ns \<union> S"
  by (induction ns arbitrary: S) auto

lemma findAdditionalWorkerNodes_filter:
  "findAdditionalWorkerNodes first second = filter (\<lambda>n. NodeName n \<notin> NodeName ` set first) second"
  by (simp add: findAdditionalWorkerNodes_def nameSet Let_def)

lemma scaleUp_done:
  "findScaleUpWorkerNodes (prov @ findScaleUpWorkerNodes prov cur) cur = []"
  by (auto simp: findScaleUpWorkerNodes_def findAdditionalWorkerNodes_filter filter_empty_conv)

lemma scaleUp_keeps_down:
  "findScaleDownWorkerNodes (prov @ findScaleUpWorkerNodes prov cur) cur = findScaleDownWorkerNodes prov cur"
  by (auto simp: findScaleUpWorkerNodes_def findScaleDownWorkerNodes_def findAdditionalWorkerNodes_filter filter_empty_conv)

lemma diff_self [simp]:
  "findScaleUpWorkerNodes ns ns = []" "findScaleDownWorkerNodes ns ns = []"
  by (auto simp: findScaleUpWorkerNodes_def findScaleDownWorkerNodes_def findAdditionalWorkerNodes_filter filter_empty_conv)

lemma goodInventory_grow:
  assumes "goodInventory ms prov" and "goodInventory ms cur"
  shows "goodInventory ms (prov @ findScaleUpWorkerNodes prov cur)"
  using assms
  by (auto simp: goodInventory_def findScaleUpWorkerNodes_def findAdditionalWorkerNodes_filter distinct_map_filter)
    (metis image_eqI)

section \<open>The record of provisioned nodes\<close>

text \<open>
  What the scaling code relies on: a store \<open>t\<close> that \<open>holds\<close> control plane nodes and workers,
  \<open>create\<close>d from a machine list, \<open>read\<close> back and extended by \<open>add\<close>.
\<close>

locale node_store =
  fixes holds :: "'t \<Rightarrow> NodeInfo list \<Rightarrow> NodeInfo list \<Rightarrow> bool"
    and read :: "'t \<Rightarrow> NodeInfo list option"
    and add :: "'t \<Rightarrow> NodeInfo list \<Rightarrow> 't option"
    and create :: "CustomMachine \<Rightarrow> 't"
  assumes read_holds: "holds t ms ws \<Longrightarrow> read t = Some ws"
    and holds_good: "holds t ms ws \<Longrightarrow> goodInventory ms ws"
    and add_extends: "\<lbrakk>holds t ms ws; goodInventory ms (ws @ ns)\<rbrakk> \<Longrightarrow>
      \<exists>t'. add t ns = Some t' \<and> holds t' ms (ws @ ns)"
    and create_holds_nodes: "goodInventory (nodesOf (Master (cmach_spec cm))) (nodesOf (Nodes (cmach_spec cm))) \<Longrightarrow>
      holds (create cm) (nodesOf (Master (cmach_spec cm))) (nodesOf (Nodes (cmach_spec cm)))"
begin

lemma scale_up_converges:
  assumes "holds t ms prov" and "goodInventory ms cur"
  shows "\<exists>t' ws. add t (findScaleUpWorkerNodes prov cur) = Some t' \<and> holds t' ms ws \<and> read t' = Some ws \<and>
    findScaleUpWorkerNodes ws cur = [] \<and> findScaleDownWorkerNodes ws cur = findScaleDownWorkerNodes prov cur"
proof -
  have "goodInventory ms (prov @ findScaleUpWorkerNodes prov cur)"
    using goodInventory_grow [OF holds_good] assms by blast
  then show ?thesis
    using add_extends [OF assms(1)] read_holds scaleUp_done scaleUp_keeps_down by blast
qed

lemma rewrite_converges:
  assumes "goodInventory (nodesOf (Master (cmach_spec cm))) (nodesOf (Nodes (cmach_spec cm)))"
  shows "read (create cm) = Some (getWorkerNodesFromCustomMachine cm)"
  using read_holds [OF create_holds_nodes [OF assms]]
  by (simp add: getWorkerNodesFromCustomMachine_def getWorkerNodesFromMachines_map)

end

interpretation inventory: node_store holdsInventory workerNodesOfText getScaleUpConfigMapData
  "\<lambda>cm. trimSpace (renderHosts (GetHostsContent cm))"
proof unfold_locales
  show "holdsInventory t ms ws \<Longrightarrow> goodInventory ms ws" for t ms ws
    by (simp add: holdsInventory_def)
qed (simp_all add: parse_holds add_holds create_holds)

section \<open>Sequences of scale-ups and unreadable lines\<close>

lemma goodInventory_prefix: "goodInventory ms (ws @ ns) \<Longrightarrow> goodInventory ms ws"
  by (auto simp: goodInventory_def)

lemma scaleUps_holds:
  assumes "holdsInventory t ms ws" and "goodInventory ms (ws @ concat nss)"
  shows "\<exists>t'. scaleUps t nss = Some t' \<and> holdsInventory t' ms (ws @ concat nss)"
  using assms
proof (induction nss arbitrary: t ws)
  case (Cons ns nss)
  then have good: "goodInventory ms ((ws @ ns) @ concat nss)" by simp
  then obtain t' where t': "getScaleUpConfigMapData t ns = Some t'" "holdsInventory t' ms (ws @ ns)"
    using add_holds Cons.prems(1) goodInventory_prefix by blast
  then show ?case using Cons.IH [OF t'(2) good] by simp
qed simp

text \<open>A line that starts with the address: the node name was empty.\<close>

lemma nameless_line:
  assumes "NodeName n = []" and "goodWord (NodePublicIP n)" and "goodWord (NodePrivateIP n)"
  shows "getNodeInfoFromNodeStr (trimSpace (nodeLine n)) = None"
proof -
  let ?S = "['' ansible_host='', '' ip='']"
  let ?l = "''ansible_host='' @ NodePublicIP n @ '' ip='' @ NodePrivateIP n"
  have trim: "trimSpace ?l = ?l"
    using assms(3) by (intro trimSpace_id) (auto simp: isSpace_def goodWord_def last_append)
  moreover have "trimSpace (nodeLine n) = trimSpace ?l"
    using assms(1) by (simp add: nodeLine_def nodeAndIp_def trimSpace_def isSpace_def)
  ultimately have line: "trimSpace (trimSpace (nodeLine n)) = ?l" by (simp only:)
  have "startFree ?S (''ansible_host='' @ NodePublicIP n)" "startFree ?S (NodePrivateIP n)"
    using assms goodWord_sep [of "NodePublicIP n"] goodWord_sep [of "NodePrivateIP n"]
    by (simp_all add: startFree_Cons)
  then have "splitLits ?S ((''ansible_host='' @ NodePublicIP n) @ '' ip='' @ NodePrivateIP n) =
      [''ansible_host='' @ NodePublicIP n, NodePrivateIP n]"
    by (subst splitLits_at [OF _ _ find_nodeSep(2)]) (simp_all add: splitLits_free)
  then show ?thesis
    unfolding getNodeInfoFromNodeStr_def line append_assoc by (simp add: numeral_2_eq_2 indexO_def)
qed

lemma collectNodes_panic:
  "\<lbrakk>l \<in> set ls; l \<noteq> []; getNodeInfoFromNodeStr (trimSpace l) = None\<rbrakk> \<Longrightarrow> collectNodes ls m = None"
  by (induction ls m rule: collectNodes.induct) (auto simp del: fun_upd_apply split: option.splits)

section \<open>Sample machines\<close>

definition demoMachine :: "string \<Rightarrow> string \<Rightarrow> Machine" where
  "demoMachine name ip = \<lparr>HostName = name, PrivateIP = ip, PublicIP = ip, Region = None, Zone = None,
     SSHKey = None, MachineLabels = None\<rparr>"

definition demoCustomMachine :: CustomMachine where
  "demoCustomMachine = \<lparr>cmach_meta = newMeta ''cc-custommachine'' ''default'',
     cmach_spec = \<lparr>Master = [demoMachine ''master1'' ''200.1.1.1''],
       Nodes = [demoMachine ''node1'' ''200.1.1.2'', demoMachine ''node2'' ''200.1.1.3'']\<rparr>,
     cmach_status = \<lparr>MachineReady = None\<rparr>\<rparr>"

definition demoMasters :: "NodeInfo list" where
  "demoMasters = nodesOf (Master (cmach_spec demoCustomMachine))"

definition demoWorkers :: "NodeInfo list" where
  "demoWorkers = nodesOf (Nodes (cmach_spec demoCustomMachine))"

definition demoNode :: "string \<Rightarrow> string \<Rightarrow> NodeInfo" where
  "demoNode name ip = machineNode (demoMachine name ip)"

definition namelessCustomMachine :: CustomMachine where
  "namelessCustomMachine = demoCustomMachine\<lparr>cmach_spec := \<lparr>Master = [demoMachine [] ''200.1.1.1''],
     Nodes = [demoMachine ''node1'' ''200.1.1.2'']\<rparr>\<rparr>"

lemmas good_simps = goodInventory_def goodNode_def wordNode_def goodWord_def machineNode_def isSpace_def

lemmas demo_simps = nodesOf_def demoMasters_def demoWorkers_def demoCustomMachine_def demoMachine_def

section \<open>Properties\<close>

text \<open>C12. Reading the workers back from the inventory written for a CustomMachine gives the
  worker machines of its spec, in order, for machines whose names are non-empty and pairwise
  distinct and whose names and addresses contain neither white space nor an opening bracket.\<close>

theorem hosts_roundtrip:
  assumes "goodInventory (nodesOf (Master (cmach_spec customMachine)))
    (nodesOf (Nodes (cmach_spec customMachine)))"
  shows "getWorkerNodeInfoFromClusterHosts
      (templateConfigMap name namespace ClusterHostsName (renderHosts (GetHostsContent customMachine))) =
    Some (getWorkerNodesFromCustomMachine customMachine)"
  using inventory.rewrite_converges [OF assms]
  by (simp add: getWorkerNodeInfoFromClusterHosts_def templateConfigMap_def mapAt_def)

theorem hosts_roundtrip_witness:
  "getWorkerNodeInfoFromClusterHosts
      (templateConfigMap ''cc-cluster-hosts'' ''default'' ClusterHostsName (renderHosts (GetHostsContent demoCustomMachine))) =
    Some (getWorkerNodesFromCustomMachine demoCustomMachine) \<and>
   map NodeName (getWorkerNodesFromCustomMachine demoCustomMachine) = [''node1'', ''node2'']"
proof
  show "getWorkerNodeInfoFromClusterHosts
      (templateConfigMap ''cc-cluster-hosts'' ''default'' ClusterHostsName (renderHosts (GetHostsContent demoCustomMachine))) =
    Some (getWorkerNodesFromCustomMachine demoCustomMachine)"
    by (rule hosts_roundtrip) (simp add: demo_simps good_simps)
  show "map NodeName (getWorkerNodesFromCustomMachine demoCustomMachine) = [''node1'', ''node2'']"
    by (simp add: demo_simps getWorkerNodesFromCustomMachine_def)
qed

text \<open>C24. Scaling up any number of times keeps the inventory readable: the workers read from
  the text are the ones it was created with followed by every batch added since.\<close>

theorem scale_ups_roundtrip:
  assumes "goodInventory (nodesOf (Master (cmach_spec customMachine)))
    (nodesOf (Nodes (cmach_spec customMachine)) @ concat batches)"
  shows "\<exists>text. scaleUps (trimSpace (renderHosts (GetHostsContent customMachine))) batches = Some text \<and>
    workerNodesOfText text = Some (getWorkerNodesFromCustomMachine customMachine @ concat batches)"
  using scaleUps_holds [OF create_holds [OF goodInventory_prefix [OF assms]] assms] parse_holds
  by (auto simp: getWorkerNodesFromCustomMachine_def getWorkerNodesFromMachines_map)

theorem scale_ups_roundtrip_witness:
  "\<exists>text. scaleUps (trimSpace (renderHosts (GetHostsContent demoCustomMachine)))
      [[demoNode ''node3'' ''200.1.1.4''], [], [demoNode ''node4'' ''200.1.1.5'']] = Some text \<and>
    map_option (map NodeName) (workerNodesOfText text) = Some [''node1'', ''node2'', ''node3'', ''node4'']"
proof -
  have "goodInventory (nodesOf (Master (cmach_spec demoCustomMachine)))
    (nodesOf (Nodes (cmach_spec demoCustomMachine)) @
     concat [[demoNode ''node3'' ''200.1.1.4''], [], [demoNode ''node4'' ''200.1.1.5'']])"
    by (simp add: demo_simps good_simps demoNode_def)
  from scale_ups_roundtrip [OF this] show ?thesis
    by (auto simp: demo_simps getWorkerNodesFromCustomMachine_def demoNode_def machineNode_def)
qed

text \<open>Scaling up converges: after the nodes that are desired and not provisioned were added
  to the inventory, nothing is left to scale up and exactly the nodes that had to be scaled down
  before still have to be.\<close>

theorem scale_up_then_down:
  assumes "holdsInventory text masters provisioned" and "goodInventory masters desired"
  shows "\<exists>text' workers.
    getScaleUpConfigMapData text (findScaleUpWorkerNodes provisioned desired) = Some text' \<and>
    workerNodesOfText text' = Some workers \<and>
    findScaleUpWorkerNodes workers desired = [] \<and>
    findScaleDownWorkerNodes workers desired = findScaleDownWorkerNodes provisioned desired"
  using inventory.scale_up_converges [OF assms] by blast

text \<open>A machine without a host name makes the inventory unreadable: reading the nodes back
  indexes a missing piece of its line and panics. The webhook of CustomMachine does not
  look at host names.\<close>

theorem nameless_machine_panics:
  assumes "m \<in> set (Master (cmach_spec customMachine) @ Nodes (cmach_spec customMachine))" and "HostName m = []"
    and "\<forall>n \<in> set (nodesOf (Master (cmach_spec customMachine) @ Nodes (cmach_spec customMachine))). wordNode n"
  shows "getWorkerNodeInfoFromClusterHosts
      (templateConfigMap name namespace ClusterHostsName (renderHosts (GetHostsContent customMachine))) = None"
proof -
  define ms ws where "ms = nodesOf (Master (cmach_spec customMachine))" and "ws = nodesOf (Nodes (cmach_spec customMachine))"
  have word: "\<forall>n \<in> set (ms @ ws). wordNode n" using assms(3) by (simp add: ms_def ws_def nodesOf_def)
  have m: "machineNode m \<in> set (ms @ ws)" using assms(1) by (auto simp: ms_def ws_def nodesOf_def)
  have "NodeName (machineNode m) = []" using assms(2) by (simp add: machineNode_def)
  then have "getNodeInfoFromNodeStr (trimSpace (nodeLine (machineNode m))) = None"
    using nameless_line m word by (simp add: wordNode_def)
  moreover have "nodeLine (machineNode m) \<noteq> []" by (simp add: nodeLine_def nodeAndIp_def)
  ultimately have "collectNodes (map nodeLine (ms @ ws)) Map.empty = None"
    using m collectNodes_panic by (metis imageI set_map)
  then have "collectNodes (splitLits lineSeps (allSection (ms @ ws))) Map.empty = None"
    using created_sections(4) [OF word] by (subst collectNodes_nonEmpty) simp
  then have "workerNodesOfText (trimSpace (renderHosts (GetHostsContent customMachine))) = None"
    using created_sections [OF word]
    by (simp add: workerNodesOfText_def created_text trim_inventory split_inventory numeral_3_eq_3
        flip: ms_def ws_def)
  then show ?thesis
    by (simp add: getWorkerNodeInfoFromClusterHosts_def templateConfigMap_def mapAt_def)
qed

end
