(* ===== verification/ClusterConfig.thy ===== *)
theory ClusterConfig
  imports Inventory
begin

text \<open>
  The kubespray configuration (\<open>cluster-config\<close>) as text, the kubernetes version it records,
  the commands of the manage workers, and the version checks
  (\<open>customcluster_helper.go\<close>, \<open>customcluster_upgrade.go\<close>, \<open>customcluster_scale.go\<close>).

  Versions are parsed and compared by the package \<open>go-semver\<close>, the record \<open>semverlib\<close>;
  what its documentation promises is \<open>semver_laws\<close>, and \<open>stdSemver\<close> is an instance.

  The configuration text is the operator's only record of the version a cluster runs. The
  locale \<open>version_store\<close> states what upgrading needs of it and is interpreted on the text.
\<close>

section \<open>Constants\<close>

definition ProvisionedKubeConfigPath :: string where
  "ProvisionedKubeConfigPath = ''/etc/kubernetes/admin.conf''"
definition ClusterKind :: string where "ClusterKind = ''Cluster''"
definition CustomClusterKind :: string where "CustomClusterKind = ''CustomCluster''"
definition ManageActionLabel :: string where
  "ManageActionLabel = ''customcluster.kurator.dev/action''"
definition KubesprayCMDPrefix :: string where
  "KubesprayCMDPrefix = ''ansible-playbook -i inventory/'' @ ClusterHostsName @
     '' --private-key /root/.ssh/ssh-privatekey ''"
definition CustomClusterInitAction :: string where "CustomClusterInitAction = ''init''"
definition KubesprayInitCMD :: string where
  "KubesprayInitCMD = KubesprayCMDPrefix @ ''cluster.yml -vvv ''"
definition CustomClusterTerminateAction :: string where "CustomClusterTerminateAction = ''terminate''"
definition KubesprayTerminateCMD :: string where
  "KubesprayTerminateCMD = KubesprayCMDPrefix @ ''reset.yml -vvv -e reset_confirmation=yes''"
definition CustomClusterScaleUpAction :: string where "CustomClusterScaleUpAction = ''scale-up''"
definition KubesprayScaleUpCMD :: string where
  "KubesprayScaleUpCMD = KubesprayCMDPrefix @ ''scale.yml -vvv ''"
definition CustomClusterScaleDownAction :: string where "CustomClusterScaleDownAction = ''scale-down''"
definition KubesprayScaleDownCMDPrefix :: string where
  "KubesprayScaleDownCMDPrefix = KubesprayCMDPrefix @ ''remove-node.yml -vvv -e skip_confirmation=yes''"
definition CustomClusterUpgradeAction :: string where "CustomClusterUpgradeAction = ''upgrade''"
definition KubesprayUpgradeCMDPrefix :: string where
  "KubesprayUpgradeCMDPrefix = KubesprayCMDPrefix @ ''upgrade-cluster.yml -vvv ''"
definition CustomClusterFinalizer :: string where
  "CustomClusterFinalizer = ''customcluster.cluster.kurator.dev''"
definition CustomClusterConfigMapFinalizer :: string where
  "CustomClusterConfigMapFinalizer = CustomClusterFinalizer @ ''/configmap''"
definition KubeVersionPrefix :: string where "KubeVersionPrefix = ''kube_version: ''"

section \<open>The configuration file\<close>

record ConfigTemplateContent =
  KubeVersion :: string
  ServiceCIDR :: string
  PodCIDR :: string
  ConfigCNIType :: string
  ControlPlaneAddress :: string
  ControlPlaneCertSANs :: string
  ConfigClusterName :: string
  DnsDomain :: string
  KubeImageRepo :: string
  ConfigFeatureGates :: "(string \<times> bool) list"
  ConfigLoadBalancerDomainName :: string

text \<open>A nil \<open>ClusterNetwork\<close>, \<open>Pods\<close>, \<open>Services\<close> or \<open>ClusterConfiguration\<close> panics, as
  does an empty list of CIDR blocks.\<close>

definition GetConfigContent ::
  "CapiCluster \<Rightarrow> KubeadmControlPlane \<Rightarrow> CustomCluster \<Rightarrow> ConfigTemplateContent option" where
  "GetConfigContent c kcp cc =
     (case cl_network c of None \<Rightarrow> None | Some net \<Rightarrow>
      (case Option.bind (PodsCIDR net) (\<lambda>bs. indexO bs 0) of None \<Rightarrow> None | Some pod \<Rightarrow>
       (case Option.bind (ServicesCIDR net) (\<lambda>bs. indexO bs 0) of None \<Rightarrow> None | Some svc \<Rightarrow>
        (case kcp_clusterConfiguration kcp of None \<Rightarrow> None | Some conf \<Rightarrow>
          let configContent = \<lparr>KubeVersion = kcp_version kcp, ServiceCIDR = svc, PodCIDR = pod,
                ConfigCNIType = CNIType (CNI (cc_spec cc)), ControlPlaneAddress = [],
                ControlPlaneCertSANs = [], ConfigClusterName = KcpClusterName conf,
                DnsDomain = ServiceDomain net, KubeImageRepo = ImageRepository conf,
                ConfigFeatureGates = FeatureGates conf, ConfigLoadBalancerDomainName = []\<rparr>
          in Some (case ControlPlaneConf (cc_spec cc) of
               None \<Rightarrow> configContent
             | Some cp \<Rightarrow> configContent\<lparr>ControlPlaneCertSANs := joinS '','' (CertSANs cp),
                  ControlPlaneAddress := Address cp,
                  ConfigLoadBalancerDomainName := LoadBalancerDomainName cp\<rparr>)))))"

text \<open>
  Executing \<open>customcluster_clusterconfig.template\<close>. A map is ranged over in the order of its
  keys, so \<open>FeatureGates\<close> is the list of its entries sorted by key.
\<close>

definition ifText :: "string \<Rightarrow> string \<Rightarrow> string" where
  "ifText v t = (if v = [] then [] else t)"

definition renderVip :: "ConfigTemplateContent \<Rightarrow> string" where
  "renderVip h = ifText (ControlPlaneAddress h)
     (''\<newline>kube_vip_enabled: true\<newline>kube_proxy_strict_arp: true\<newline>kube_vip_controlplane_enabled: true\<newline>kube_vip_address: '' @
      ControlPlaneAddress h @ ''\<newline>loadbalancer_apiserver:\<newline>  address: '' @ ControlPlaneAddress h @
      ''\<newline>  port: 6443\<newline>kube_vip_services_enabled: false\<newline>kube_vip_arp_enabled: true\<newline>supplementary_addresses_in_ssl_keys: ['' @
      ControlPlaneCertSANs h @ '']\<newline>kube_vip_lb_enable: true\<newline>'' @
      ''\<newline>apiserver_loadbalancer_domain_name: '' @
      (if ConfigLoadBalancerDomainName h \<noteq> [] then ConfigLoadBalancerDomainName h else ControlPlaneAddress h) @
      ''\<newline>'' @ ''\<newline>'')"

definition renderGate :: "string \<times> bool \<Rightarrow> string" where
  "renderGate g = ''- '' @ fst g @ ''='' @ (if snd g then ''true'' else ''false'') @ ''\<newline>''"

definition renderSettings :: "ConfigTemplateContent \<Rightarrow> string" where
  "renderSettings h =
     ''download_run_once: true\<newline>download_container: false\<newline>download_localhost: true\<newline># network\<newline>kube_pods_subnet: '' @
     PodCIDR h @ ''\<newline>kube_network_plugin: '' @ ConfigCNIType h @ ''\<newline>\<newline>'' @
     renderVip h @ ''\<newline>\<newline>'' @
     ifText (ConfigClusterName h) (''\<newline>cluster_name: '' @ ConfigClusterName h @ ''\<newline>'') @ ''\<newline>\<newline>'' @
     ifText (DnsDomain h) (''\<newline>dns_domain: '' @ DnsDomain h @ ''\<newline>'') @ ''\<newline>\<newline>'' @
     ifText (KubeImageRepo h) (''\<newline>kube_image_repo: '' @ KubeImageRepo h @ ''\<newline>'') @ ''\<newline>\<newline>'' @
     ''kube_feature_gates:\<newline>'' @ concat (map renderGate (ConfigFeatureGates h)) @ ''\<newline>\<newline>'' @
     ifText (ServiceCIDR h) (''\<newline>kube_service_addresses: '' @ ServiceCIDR h @ ''\<newline>'') @ ''\<newline>''"

definition renderConfig :: "ConfigTemplateContent \<Rightarrow> string" where
  "renderConfig h = ''kube_version: '' @ KubeVersion h @ ''\<newline>'' @ renderSettings h"

section \<open>The version in the configuration file\<close>

fun versionLine :: "string list \<Rightarrow> string" where
  "versionLine [] = []"
| "versionLine (configStr # rest) =
     (if prefix KubeVersionPrefix configStr then trimSpace (replaceAll configStr KubeVersionPrefix [])
      else versionLine rest)"

definition kubeVersionOfText :: "string \<Rightarrow> string" where
  "kubeVersionOfText text = versionLine (splitLits lineSeps (trimSpace text))"

definition getKubeVersionFromCM :: "ConfigMap \<Rightarrow> string" where
  "getKubeVersionFromCM clusterConfig = kubeVersionOfText (mapAt (cm_data clusterConfig) ClusterConfigName)"

definition updatedVersionText :: "string \<Rightarrow> string \<Rightarrow> string" where
  "updatedVersionText text newKubeVersion =
     (let clusterConfigData = trimSpace text;
          oldStr = KubeVersionPrefix @ kubeVersionOfText text;
          newStr = KubeVersionPrefix @ newKubeVersion
      in trimSpace (replaceAll clusterConfigData oldStr newStr))"

definition getUpdatedKubeVersionConfigData :: "ConfigMap \<Rightarrow> string \<Rightarrow> string" where
  "getUpdatedKubeVersionConfigData clusterConfig newKubeVersion =
     updatedVersionText (mapAt (cm_data clusterConfig) ClusterConfigName) newKubeVersion"

section \<open>Commands of the manage workers\<close>

definition generateUpgradeManageCMD :: "string \<Rightarrow> string" where
  "generateUpgradeManageCMD kubeVersion =
     (if kubeVersion = [] then []
      else KubesprayUpgradeCMDPrefix @ '' -e kube_version=v'' @ trimPrefix kubeVersion ''v'')"

fun appendNames :: "string \<Rightarrow> NodeInfo list \<Rightarrow> string" where
  "appendNames cmd [] = cmd"
| "appendNames cmd (n # ns) = appendNames (cmd @ '','' @ NodeName n) ns"

definition generateScaleDownManageCMD :: "NodeInfo list \<Rightarrow> string" where
  "generateScaleDownManageCMD nodesNeedDelete =
     (case nodesNeedDelete of
        [] \<Rightarrow> []
      | n # ns \<Rightarrow>
          let cmd = KubesprayScaleDownCMDPrefix @ '' --extra-vars \"node='' @ NodeName n
          in if ns = [] then cmd @ ''\" '' else appendNames cmd ns @ ''\" '')"

section \<open>Versions\<close>

record Version =
  Major :: int
  Minor :: int
  Patch :: int
  PreRelease :: string

record semverlib =
  newVersion :: "string \<Rightarrow> Version option"
  compareV :: "Version \<Rightarrow> Version \<Rightarrow> int"

text \<open>Subtraction of two \<open>int64\<close>.\<close>

definition sub64 :: "int \<Rightarrow> int \<Rightarrow> int" where
  "sub64 a b = (a - b + 2 ^ 63) mod 2 ^ 64 - 2 ^ 63"

definition isSupportedVersion :: "semverlib \<Rightarrow> string \<Rightarrow> string \<Rightarrow> string \<Rightarrow> bool" where
  "isSupportedVersion V desiredVersion minVersion maxVersion =
     (case newVersion V (trimPrefix desiredVersion ''v'') of None \<Rightarrow> False | Some desired \<Rightarrow>
      (case newVersion V (trimPrefix minVersion ''v'') of None \<Rightarrow> False | Some vmin \<Rightarrow>
       (case newVersion V (trimPrefix maxVersion ''v'') of None \<Rightarrow> False | Some vmax \<Rightarrow>
          \<not> (compareV V desired vmin < 0 \<or> compareV V desired vmax > 0))))"

definition isKubeadmUpgradeSupported :: "semverlib \<Rightarrow> string \<Rightarrow> string \<Rightarrow> bool" where
  "isKubeadmUpgradeSupported V originVersion targetVersion =
     (case newVersion V (trimPrefix originVersion ''v'') of None \<Rightarrow> False | Some origin \<Rightarrow>
      (case newVersion V (trimPrefix targetVersion ''v'') of None \<Rightarrow> False | Some target \<Rightarrow>
         if Major origin \<noteq> Major target then False
         else if sub64 (Minor origin) (Minor target) > 1 \<or> sub64 (Minor target) (Minor origin) > 1
         then False else True))"

text \<open>The error of parsing the constant \<open>1.24.0\<close> is ignored, so its result is dereferenced.\<close>

definition getKubesprayImage :: "semverlib \<Rightarrow> string \<Rightarrow> string option" where
  "getKubesprayImage V kubeVersion =
     (case newVersion V (trimPrefix kubeVersion ''v'') of
        None \<Rightarrow> Some []
      | Some targetVersion \<Rightarrow>
          (case newVersion V ''1.24.0'' of
             None \<Rightarrow> None
           | Some midVersion \<Rightarrow>
               let kubesprayVersion = (if compareV V targetVersion midVersion \<ge> 0 then ''v2.22.1'' else ''v2.20.0'')
               in Some (''quay.io/kubespray/kubespray:'' @ kubesprayVersion)))"

section \<open>What go-semver documents\<close>

definition dotted :: "nat \<Rightarrow> nat \<Rightarrow> nat \<Rightarrow> string" where
  "dotted a b c = showNat a @ ''.'' @ showNat b @ ''.'' @ showNat c"

definition semver_laws :: "semverlib \<Rightarrow> bool" where
  "semver_laws V \<longleftrightarrow>
     newVersion V [] = None \<and>
     (\<forall>a b c. a < 2 ^ 63 \<longrightarrow> b < 2 ^ 63 \<longrightarrow> c < 2 ^ 63 \<longrightarrow>
        newVersion V (dotted a b c) = Some \<lparr>Major = int a, Minor = int b, Patch = int c, PreRelease = []\<rparr>) \<and>
     (\<forall>v w. PreRelease v = [] \<longrightarrow> PreRelease w = [] \<longrightarrow>
        sgn (compareV V v w) =
          (if Major v \<noteq> Major w then sgn (Major v - Major w)
           else if Minor v \<noteq> Minor w then sgn (Minor v - Minor w)
           else sgn (Patch v - Patch w)))"

definition stdSemver :: semverlib where
  "stdSemver = \<lparr>newVersion = (\<lambda>s. case map readNat (splitLits [''.''] s) of
        [Some a, Some b, Some c] \<Rightarrow>
          (if a < 2 ^ 63 \<and> b < 2 ^ 63 \<and> c < 2 ^ 63
           then Some \<lparr>Major = int a, Minor = int b, Patch = int c, PreRelease = []\<rparr> else None)
      | _ \<Rightarrow> None),
     compareV = (\<lambda>v w. if Major v \<noteq> Major w then sgn (Major v - Major w)
           else if Minor v \<noteq> Minor w then sgn (Minor v - Minor w)
           else sgn (Patch v - Patch w))\<rparr>"

section \<open>Well-formed configurations\<close>

definition goodVersion :: "string \<Rightarrow> bool" where
  "goodVersion v \<longleftrightarrow> v \<noteq> [] \<and> (\<forall>c \<in> set v. \<not> isSpace c)"

text \<open>The text starts with the line of the version \<open>v\<close>.\<close>

definition holdsVersion :: "string \<Rightarrow> string \<Rightarrow> bool" where
  "holdsVersion t v \<longleftrightarrow> goodVersion v \<and>
     (\<exists>rest. t = KubeVersionPrefix @ v @ rest \<and> (rest = [] \<or> hd rest = nl) \<and> trimRight rest = rest)"

definition demoConfig :: ConfigTemplateContent where
  "demoConfig = \<lparr>KubeVersion = ''v1.24.6'', ServiceCIDR = ''10.233.0.0/18'', PodCIDR = ''10.233.64.0/18'',
     ConfigCNIType = ''calico'', ControlPlaneAddress = [], ControlPlaneCertSANs = [], ConfigClusterName = ''kurator'',
     DnsDomain = ''cluster.local'', KubeImageRepo = [], ConfigFeatureGates = [], ConfigLoadBalancerDomainName = []\<rparr>"

section \<open>Versions as text\<close>

lemma startFree_digits: "startFree [''.''] (showNat n)"
  using showNat_digits [of n] isDigit_neq(1) by (auto simp: startFree_def list_all_iff)

lemma split_dotted: "splitLits [''.''] (dotted a b c) = [showNat a, showNat b, showNat c]"
proof -
  have dot: "find (\<lambda>l'. prefix l' (''.'' @ s)) [''.''] = Some ''.''" for s by simp
  have "splitLits [''.''] (showNat b @ ''.'' @ showNat c) = [showNat b, showNat c]"
    using splitLits_at [OF startFree_digits _ dot] splitLits_free [OF startFree_digits] by simp
  then show ?thesis
    unfolding dotted_def using splitLits_at [OF startFree_digits _ dot, of a] by simp
qed

lemma stdSemver_laws: "semver_laws stdSemver"
  by (auto simp: semver_laws_def stdSemver_def split_dotted readNat_def [of "[]"])

lemma trimPrefix_dotted: "trimPrefix (dotted a b c) ''v'' = dotted a b c"
  using showNat_digits [of a] isDigit_neq(2)
  by (cases "showNat a") (auto simp: trimPrefix_def dotted_def)

lemma sub64_exact: "\<bar>a - b\<bar> < 2 ^ 63 \<Longrightarrow> sub64 a b = a - b"
  by (simp add: sub64_def)

section \<open>Version lines\<close>

lemma KubeVersionPrefix_neq [simp]: "KubeVersionPrefix \<noteq> []" "hd KubeVersionPrefix \<noteq> nl"
  by (simp_all add: KubeVersionPrefix_def)

lemma versionHead:
  assumes "goodVersion v"
  shows "KubeVersionPrefix @ v \<noteq> []" "\<not> isSpace (hd (KubeVersionPrefix @ v))" "\<not> isSpace (last (KubeVersionPrefix @ v))"
  using assms by (auto simp: KubeVersionPrefix_def goodVersion_def isSpace_def)

lemma trim_version:
  "goodVersion v \<Longrightarrow> trimSpace (KubeVersionPrefix @ v @ rest) = KubeVersionPrefix @ v @ trimRight rest"
  using trimSpace_right [OF versionHead, of v rest] by simp

lemma goodVersion_lineFree: "goodVersion v \<Longrightarrow> lineFree (KubeVersionPrefix @ v)"
  by (auto simp: goodVersion_def lineFree_def isSpace_def KubeVersionPrefix_def)

lemma notin_version: "goodVersion v \<Longrightarrow> \<not> sublist KubeVersionPrefix v"
proof
  assume "goodVersion v" and "sublist KubeVersionPrefix v"
  then have "set KubeVersionPrefix \<subseteq> set v" by (rule_tac set_mono_sublist)
  moreover have "CHR '' '' \<in> set KubeVersionPrefix" by (simp add: KubeVersionPrefix_def)
  ultimately show False using \<open>goodVersion v\<close> by (auto simp: goodVersion_def isSpace_def)
qed

lemma read_version:
  assumes "holdsVersion t v"
  shows "kubeVersionOfText t = v"
proof -
  obtain rest where t: "t = KubeVersionPrefix @ v @ rest" and rest: "rest = [] \<or> hd rest = nl" "trimRight rest = rest"
    and good: "goodVersion v"
    using assms by (auto simp: holdsVersion_def)
  have "\<exists>ls. splitLits lineSeps ((KubeVersionPrefix @ v) @ rest) = (KubeVersionPrefix @ v) # ls"
    using rest(1) goodVersion_lineFree [OF good] splitLits_line [of "KubeVersionPrefix @ v" "tl rest"]
    by (cases rest) (auto simp: splitLits_free)
  then obtain ls where ls: "splitLits lineSeps (trimSpace t) = (KubeVersionPrefix @ v) # ls"
    by (auto simp: t trim_version good rest(2))
  have "replaceAll (KubeVersionPrefix @ v) KubeVersionPrefix [] = v"
    using notin_version [OF good] by (simp add: replaceAll_def replaceGo_hit replaceGo_none)
  then show ?thesis
    using good by (simp add: kubeVersionOfText_def ls trimSpace_free goodVersion_def)
qed

lemma update_version:
  assumes "holdsVersion t v" and "goodVersion new"
  shows "holdsVersion (updatedVersionText t new) new"
proof -
  obtain rest where t: "t = KubeVersionPrefix @ v @ rest" and rest: "rest = [] \<or> hd rest = nl" "trimRight rest = rest"
    and good: "goodVersion v"
    using assms(1) by (auto simp: holdsVersion_def)
  let ?old = "KubeVersionPrefix @ v" and ?r = "replaceGo rest (KubeVersionPrefix @ v) (KubeVersionPrefix @ new)"
  have "trimSpace t = ?old @ rest" by (simp add: t trim_version good rest(2))
  then have "updatedVersionText t new = trimSpace (KubeVersionPrefix @ new @ ?r)"
    using replaceGo_hit [of ?old rest] by (simp add: Let_def updatedVersionText_def read_version [OF assms(1)] replaceAll_def)
  moreover have "?r = [] \<or> hd ?r = nl"
    using rest(1) by (intro replaceGo_head) simp_all
  ultimately show ?thesis
    using assms(2) trimRight_head [of ?r] by (auto simp: holdsVersion_def trim_version)
qed

lemma update_version_frame:
  assumes "goodVersion v" and "goodVersion new" and "rest = [] \<or> hd rest = nl" and "trimRight rest = rest"
    and "\<not> sublist (KubeVersionPrefix @ v) rest"
  shows "updatedVersionText (KubeVersionPrefix @ v @ rest) new = KubeVersionPrefix @ new @ rest"
proof -
  have "holdsVersion (KubeVersionPrefix @ v @ rest) v" using assms by (auto simp: holdsVersion_def)
  then show ?thesis
    using assms replaceGo_hit [of "KubeVersionPrefix @ v" rest] replaceGo_none [OF assms(5)]
    by (simp add: Let_def updatedVersionText_def read_version trim_version replaceAll_def)
qed

lemma create_version:
  assumes "goodVersion (KubeVersion h)"
  shows "holdsVersion (trimSpace (renderConfig h)) (KubeVersion h)"
proof -
  have r: "renderConfig h = KubeVersionPrefix @ KubeVersion h @ nl # renderSettings h"
    by (simp add: renderConfig_def KubeVersionPrefix_def)
  show ?thesis
    unfolding r using assms trimRight_head [of "nl # renderSettings h"] by (auto simp: holdsVersion_def trim_version)
qed

section \<open>The record of the provisioned version\<close>

locale version_store =
  fixes holds :: "'t \<Rightarrow> string \<Rightarrow> bool"
    and version :: "'t \<Rightarrow> string"
    and upgrade :: "'t \<Rightarrow> string \<Rightarrow> 't"
  assumes version_held: "holds t v \<Longrightarrow> version t = v"
    and upgrade_holds: "\<lbrakk>holds t v; goodVersion new\<rbrakk> \<Longrightarrow> holds (upgrade t new) new"
begin

lemma upgrades_hold:
  "\<lbrakk>holds t v; \<forall>new \<in> set vs. goodVersion new\<rbrakk> \<Longrightarrow> holds (foldl upgrade t vs) (last (v # vs))"
  by (induction vs arbitrary: t v) (auto simp: upgrade_holds)

lemma upgrades_read:
  "\<lbrakk>holds t v; \<forall>new \<in> set vs. goodVersion new\<rbrakk> \<Longrightarrow> version (foldl upgrade t vs) = last (v # vs)"
  using upgrades_hold version_held by blast

end

interpretation config: version_store holdsVersion kubeVersionOfText updatedVersionText
  by unfold_locales (simp_all add: read_version update_version)

section \<open>Properties\<close>

text \<open>C25. The version read from the configuration is the one it was rendered with, and after
  any sequence of upgrades the last one written, for versions without white space.\<close>

theorem version_roundtrip:
  assumes "goodVersion (KubeVersion content)" and "\<forall>v \<in> set upgrades. goodVersion v"
  shows "kubeVersionOfText (foldl updatedVersionText (trimSpace (renderConfig content)) upgrades) =
    last (KubeVersion content # upgrades)"
  using config.upgrades_read [OF create_version] assms by blast

theorem version_roundtrip_witness:
  "kubeVersionOfText (foldl updatedVersionText (trimSpace (renderConfig demoConfig)) [''v1.25.0'', ''v1.26.5'']) = ''v1.26.5''"
  using version_roundtrip [of demoConfig "[''v1.25.0'', ''v1.26.5'']"]
  by (simp add: demoConfig_def goodVersion_def isSpace_def)

text \<open>An upgrade changes nothing but the version: the rest of the configuration stays byte
  for byte, unless it repeats the line of the old version.\<close>

theorem upgrade_keeps_rest:
  assumes "goodVersion old" and "goodVersion new" and "trimRight (nl # rest) = nl # rest"
    and "\<not> sublist (KubeVersionPrefix @ old) (nl # rest)"
  shows "getUpdatedKubeVersionConfigData
      (templateConfigMap name namespace ClusterConfigName (KubeVersionPrefix @ old @ nl # rest)) new =
    KubeVersionPrefix @ new @ nl # rest"
  using update_version_frame [OF assms(1,2) _ assms(3,4)] assms
  by (simp add: getUpdatedKubeVersionConfigData_def templateConfigMap_def mapAt_def trim_version)

text \<open>A version as users write it, with the letter \<open>v\<close> in front or without.\<close>

definition versionText :: "bool \<Rightarrow> nat \<Rightarrow> nat \<Rightarrow> nat \<Rightarrow> string" where
  "versionText v a b c = (if v then ''v'' else []) @ dotted a b c"

lemma trimPrefix_versionText: "trimPrefix (versionText v a b c) ''v'' = dotted a b c"
  using trimPrefix_v [of "dotted a b c"] by (cases v) (simp_all add: versionText_def trimPrefix_dotted)

text \<open>C26. An upgrade is supported exactly between versions of the same major number whose minor
  numbers differ by at most one, whether either of them is written with a leading \<open>v\<close> or without, for
  versions of three numbers below 2^63; the comparison of the minor numbers does not overflow.\<close>

theorem kubeadm_upgrade_iff:
  assumes "semver_laws V" and "a < 2 ^ 63" and "b < 2 ^ 63" and "c < 2 ^ 63"
    and "a' < 2 ^ 63" and "b' < 2 ^ 63" and "c' < 2 ^ 63"
  shows "isKubeadmUpgradeSupported V (versionText v a b c) (versionText v' a' b' c') \<longleftrightarrow>
    a = a' \<and> \<bar>int b - int b'\<bar> \<le> 1"
proof -
  have "newVersion V (dotted a b c) = Some \<lparr>Major = int a, Minor = int b, Patch = int c, PreRelease = []\<rparr>"
    "newVersion V (dotted a' b' c') = Some \<lparr>Major = int a', Minor = int b', Patch = int c', PreRelease = []\<rparr>"
    using assms by (auto simp: semver_laws_def)
  moreover have "sub64 (int b) (int b') = int b - int b'" "sub64 (int b') (int b) = int b' - int b"
    using assms by (auto intro!: sub64_exact)
  ultimately show ?thesis
    by (simp only: isKubeadmUpgradeSupported_def trimPrefix_versionText) auto
qed

lemma dotted_examples:
  "dotted 1 24 6 = ''1.24.6''" "dotted 1 25 0 = ''1.25.0''" "dotted 1 26 5 = ''1.26.5''" "dotted 1 24 0 = ''1.24.0''"
  "dotted 1 23 9 = ''1.23.9''"
  by code_simp+

theorem kubeadm_upgrade_iff_witness:
  "isKubeadmUpgradeSupported stdSemver ''v1.24.6'' ''v1.25.0'' \<and>
   \<not> isKubeadmUpgradeSupported stdSemver ''v1.24.6'' ''v1.26.5'' \<and>
   isKubeadmUpgradeSupported stdSemver ''1.24.6'' ''v1.25.0''"
  using kubeadm_upgrade_iff [OF stdSemver_laws, of 1 24 6 1 25 0 True True, unfolded versionText_def dotted_examples]
    kubeadm_upgrade_iff [OF stdSemver_laws, of 1 24 6 1 26 5 True True, unfolded versionText_def dotted_examples]
    kubeadm_upgrade_iff [OF stdSemver_laws, of 1 24 6 1 25 0 False True, unfolded versionText_def dotted_examples]
  by simp

text \<open>The kubespray image is the one documented for the kubernetes version: v2.22.1 from
  1.24.0 on, v2.20.0 before.\<close>

theorem kubespray_image:
  assumes "semver_laws V" and "a < 2 ^ 63" and "b < 2 ^ 63" and "c < 2 ^ 63"
  shows "getKubesprayImage V (''v'' @ dotted a b c) =
    Some (''quay.io/kubespray/kubespray:'' @
      (if a > 1 \<or> a = 1 \<and> b \<ge> 24 then ''v2.22.1'' else ''v2.20.0''))"
proof -
  define v where "v = \<lparr>Major = int a, Minor = int b, Patch = int c, PreRelease = []\<rparr>"
  define m where "m = \<lparr>Major = 1, Minor = 24, Patch = 0, PreRelease = []\<rparr>"
  have 1: "newVersion V (dotted a b c) = Some v" using assms by (auto simp: semver_laws_def v_def)
  have "newVersion V (dotted 1 24 0) = Some m"
    using assms(1) [unfolded semver_laws_def, THEN conjunct2, THEN conjunct1, rule_format, of 1 24 0]
    by (simp add: m_def)
  then have 2: "newVersion V ''1.24.0'' = Some m" by (simp only: dotted_examples)
  have "sgn (compareV V v m) =
      (if Major v \<noteq> Major m then sgn (Major v - Major m)
       else if Minor v \<noteq> Minor m then sgn (Minor v - Minor m) else sgn (Patch v - Patch m))"
    using assms(1) by (simp add: semver_laws_def v_def m_def)
  then have "compareV V v m \<ge> 0 \<longleftrightarrow> a > 1 \<or> a = 1 \<and> b \<ge> 24"
    by (auto simp: v_def m_def sgn_if split: if_splits)
  then show ?thesis
    by (simp only: getKubesprayImage_def trimPrefix_v 1 2 option.case Let_def)
qed

text \<open>The command that removes nodes names every node of the list, in order, separated by
  commas, in one quoted variable; for no node there is no command.\<close>

theorem scale_down_command:
  "generateScaleDownManageCMD nodes =
     (if nodes = [] then []
      else KubesprayScaleDownCMDPrefix @ '' --extra-vars \"node='' @ joinS '','' (map NodeName nodes) @ ''\" '')"
proof -
  have names: "appendNames cmd ns = cmd @ concat (map (\<lambda>n. '','' @ NodeName n) ns)" for cmd ns
    by (induction ns arbitrary: cmd) auto
  show ?thesis
    by (cases nodes) (auto simp: generateScaleDownManageCMD_def names joinS_Cons comp_def Let_def)
qed

end
