(* ===== verification/CustomCluster.thy ===== *)
theory CustomCluster
  imports ClusterConfig
begin

text \<open>
  The CustomCluster controller (\<open>customcluster_controller.go\<close>, \<open>customcluster_helper.go\<close>,
  \<open>customcluster_scale.go\<close>, \<open>customcluster_upgrade.go\<close>): provisioning, scaling, upgrading
  and deleting a cluster on virtual machines by running kubespray in manage worker pods.

  The state is the world behind the client and the three objects the handlers mutate
  through pointers: the CustomCluster, its CustomMachine and the KubeadmControlPlane. A
  client call that succeeds replaces the object by what the server returned.
\<close>

section \<open>State and environment\<close>

record 'w ccstate = "'w kst" +
  s_cc :: CustomCluster
  s_machine :: CustomMachine
  s_kcp :: KubeadmControlPlane

text \<open>
  The packages \<open>crypto/ssh\<close> and \<open>sftp\<close> of the controller. A signer, a connection, an sftp
  client and a remote file are opaque handles.
\<close>

record sshConfig =
  ssh_user :: string
  ssh_signer :: string

record 'w sshlib =
  ssh_parsePrivateKey :: "string \<Rightarrow> goerr + string"
  ssh_dial :: "string \<Rightarrow> sshConfig \<Rightarrow> 'w \<Rightarrow> (goerr + string) \<times> 'w"
  sftp_newClient :: "string \<Rightarrow> 'w \<Rightarrow> (goerr + string) \<times> 'w"
  ssh_close :: "string \<Rightarrow> 'w \<Rightarrow> unit \<times> 'w"
  sftp_open :: "string \<Rightarrow> string \<Rightarrow> 'w \<Rightarrow> (goerr + string) \<times> 'w"
  sftp_read :: "string \<Rightarrow> 'w \<Rightarrow> (goerr + string) \<times> 'w"

record 'w ccenv =
  e_cm :: "('w, ConfigMap) api"
  e_pod :: "('w, Pod) api"
  e_secret :: "('w, Secret) api"
  e_machine :: "('w, CustomMachine) api"
  e_kcp :: "('w, KubeadmControlPlane) api"
  e_cc :: "('w, CustomCluster) api"
  e_cluster :: "('w, CapiCluster) api"
  e_generateName :: "string \<Rightarrow> 'w \<Rightarrow> string \<times> 'w"
  e_ssh :: "'w sshlib"
  e_semver :: semverlib
  e_lib :: capilib

record ClusterInfo =
  WorkerNodes :: "NodeInfo list"
  InfoKubeVersion :: string

type_synonym ('w, 'a) ccproc = "('w ccstate, 'a) proc"

definition setPhase :: "CustomClusterPhase \<Rightarrow> ('w, unit) ccproc" where
  "setPhase p = modifyP (\<lambda>s. s\<lparr>s_cc := s_cc s\<lparr>cc_status := cc_status (s_cc s)\<lparr>CCPhase := p\<rparr>\<rparr>\<rparr>)"

definition setConditions :: "(Condition list \<Rightarrow> Condition list) \<Rightarrow> ('w, unit) ccproc" where
  "setConditions f = modifyP (\<lambda>s. s\<lparr>s_cc := s_cc s\<lparr>cc_status :=
     cc_status (s_cc s)\<lparr>CCConditions := f (CCConditions (cc_status (s_cc s)))\<rparr>\<rparr>\<rparr>)"

definition markTrueP :: "'w ccenv \<Rightarrow> string \<Rightarrow> ('w, unit) ccproc" where
  "markTrueP E t = setConditions (\<lambda>cs. markTrue (e_lib E) cs t)"

text \<open>\<open>conditions.MarkFalse(customCluster, t, reason, severity, "... %s/%s", namespace, name)\<close>\<close>

definition markFalseP :: "'w ccenv \<Rightarrow> string \<Rightarrow> string \<Rightarrow> string \<Rightarrow> string \<Rightarrow> ('w, unit) ccproc" where
  "markFalseP E t reason msg ending = bindP (getP s_cc) (\<lambda>cc.
     setConditions (\<lambda>cs. markFalse (e_lib E) cs t reason SeverityWarning
       (msg @ '' '' @ m_namespace (cc_meta cc) @ ''/'' @ m_name (cc_meta cc) @ ending)))"

section \<open>Names\<close>

definition generateClusterHostsName :: "CustomCluster \<Rightarrow> string" where
  "generateClusterHostsName cc = m_name (cc_meta cc) @ ''-'' @ ClusterHostsName"

definition generateClusterConfigName :: "CustomCluster \<Rightarrow> string" where
  "generateClusterConfigName cc = m_name (cc_meta cc) @ ''-'' @ ClusterConfigName"

definition generateScaleUpHostsName :: "CustomCluster \<Rightarrow> string" where
  "generateScaleUpHostsName cc = m_name (cc_meta cc) @ ''-'' @ ClusterHostsName @ ''-scale-up''"

definition generateClusterHostsKey :: "CustomCluster \<Rightarrow> objkey" where
  "generateClusterHostsKey cc = \<lparr>k_namespace = m_namespace (cc_meta cc), k_name = generateClusterHostsName cc\<rparr>"

definition generateClusterConfigKey :: "CustomCluster \<Rightarrow> objkey" where
  "generateClusterConfigKey cc = \<lparr>k_namespace = m_namespace (cc_meta cc), k_name = generateClusterConfigName cc\<rparr>"

definition generateScaleUpHostsKey :: "CustomCluster \<Rightarrow> objkey" where
  "generateScaleUpHostsKey cc = \<lparr>k_namespace = m_namespace (cc_meta cc), k_name = generateScaleUpHostsName cc\<rparr>"

definition generateOwnerRefFromCustomCluster :: "CustomCluster \<Rightarrow> OwnerReference" where
  "generateOwnerRefFromCustomCluster cc = \<lparr>or_apiVersion = cc_apiVersion cc, or_kind = cc_kind cc,
     or_name = m_name (cc_meta cc), or_uid = m_uid (cc_meta cc)\<rparr>"

section \<open>Manage worker pods\<close>

definition manageWorkerPod :: "CustomCluster \<Rightarrow> string \<Rightarrow> string \<Rightarrow> string \<Rightarrow> string \<Rightarrow> string \<Rightarrow> string \<Rightarrow> Pod" where
  "manageWorkerPod cc podName manageAction manageCMD hostsName configName kubesprayImage =
     \<lparr>pod_meta = (newMeta podName (m_namespace (cc_meta cc)))\<lparr>m_labels := Some [ManageActionLabel \<mapsto> manageAction]\<rparr>,
      pod_spec = \<lparr>ps_containers =
          [\<lparr>ct_name = podName, ct_image = kubesprayImage, ct_command = [''/bin/sh'', ''-c''], ct_args = [manageCMD],
            ct_volumeMounts =
              [\<lparr>vm_name = ClusterHostsName, vm_mountPath = ''/kubespray/inventory'', vm_readOnly = False\<rparr>,
               \<lparr>vm_name = ClusterConfigName, vm_mountPath = ''/kubespray/inventory/group_vars/all'', vm_readOnly = False\<rparr>,
               \<lparr>vm_name = SecreteName, vm_mountPath = ''/root/.ssh'', vm_readOnly = True\<rparr>]\<rparr>],
        ps_volumes =
          [\<lparr>vol_name = ClusterHostsName, vol_source = ConfigMapVolume hostsName\<rparr>,
           \<lparr>vol_name = ClusterConfigName, vol_source = ConfigMapVolume configName\<rparr>,
           \<lparr>vol_name = SecreteName, vol_source = SecretVolume SecreteName 384\<rparr>],
        ps_serviceAccountName = [], ps_restartPolicy = RestartPolicyNever\<rparr>,
      pod_phase = PodOther []\<rparr>"

definition generateClusterManageWorker ::
  "'w ccenv \<Rightarrow> string \<Rightarrow> string \<Rightarrow> string \<Rightarrow> string \<Rightarrow> string \<Rightarrow> ('w, Pod) ccproc" where
  "generateClusterManageWorker E manageAction manageCMD hostsName configName kubesprayImage =
     bindP (getP s_cc) (\<lambda>cc.
     bindP (extP (e_generateName E (m_name (cc_meta cc) @ ''-'' @ manageAction @ ''-''))) (\<lambda>podName.
     retP (manageWorkerPod cc podName manageAction manageCMD hostsName configName kubesprayImage)))"

text \<open>The first pod whose first owner is the cluster; \<open>None\<close> is the panic of indexing no owner.\<close>

fun firstOwnedPod :: "string \<Rightarrow> Pod list \<Rightarrow> Pod option option" where
  "firstOwnedPod uid [] = Some None"
| "firstOwnedPod uid (pod # pods) =
     (case indexO (m_ownerRefs (pod_meta pod)) 0 of
        None \<Rightarrow> None
      | Some owner \<Rightarrow> if or_uid owner = uid then Some (Some pod) else firstOwnedPod uid pods)"

definition findManageWorkerPod :: "'w ccenv \<Rightarrow> string \<Rightarrow> ('w, Pod option) ccproc" where
  "findManageWorkerPod E manageAction =
     bindP (getP s_cc) (\<lambda>cc.
     tryP (listK ''Pod'' (e_pod E) [] [(ManageActionLabel, manageAction)]) (\<lambda>r. case r of
        Inl e \<Rightarrow> if isNotFound e then retP None
                 else failP (EOpaque ''failed to get worker pod when it should be deleted: '' e)
      | Inr pods \<Rightarrow> derefP (firstOwnedPod (m_uid (cc_meta cc)) pods)))"

definition ensureWorkerPodDeleted :: "'w ccenv \<Rightarrow> string \<Rightarrow> ('w, unit) ccproc" where
  "ensureWorkerPodDeleted E manageAction =
     bindP (onErr (findManageWorkerPod E manageAction)
         (\<lambda>e. failP (EOpaque ''failed find customCluster manager worker pod: '' e))) (\<lambda>workerPod.
     case workerPod of
       None \<Rightarrow> retP ()
     | Some pod \<Rightarrow> onErr (deleteK ''Pod'' pod_meta (e_pod E) pod)
         (\<lambda>e. failP (EOpaque ''failed to delete workerPod: '' e)))"

definition createWorkerPod ::
  "'w ccenv \<Rightarrow> string \<Rightarrow> string \<Rightarrow> string \<Rightarrow> string \<Rightarrow> string \<Rightarrow> ('w, Pod) ccproc" where
  "createWorkerPod E manageAction manageCMD hostName configName kubeVersion =
     bindP (derefP (getKubesprayImage (e_semver E) kubeVersion)) (\<lambda>kubesprayImage.
     bindP (generateClusterManageWorker E manageAction manageCMD hostName configName kubesprayImage) (\<lambda>pod.
     bindP (getP s_cc) (\<lambda>cc.
     let newWorkerPod = pod\<lparr>pod_meta := pod_meta pod\<lparr>m_ownerRefs := [generateOwnerRefFromCustomCluster cc]\<rparr>\<rparr>
     in onErr (createK ''Pod'' pod_meta (e_pod E) newWorkerPod)
          (\<lambda>e. failP (EOpaque ''failed to create customCluster manager worker pod: '' e)))))"

definition ensureWorkerPodCreated ::
  "'w ccenv \<Rightarrow> string \<Rightarrow> string \<Rightarrow> string \<Rightarrow> string \<Rightarrow> string \<Rightarrow> ('w, Pod) ccproc" where
  "ensureWorkerPodCreated E manageAction manageCMD hostName configName kubeVersion =
     bindP (onErr (findManageWorkerPod E manageAction)
         (\<lambda>e. failP (EOpaque ''failed find customCluster manager worker pod: '' e))) (\<lambda>workerPod.
     case workerPod of
       Some pod \<Rightarrow> retP pod
     | None \<Rightarrow> createWorkerPod E manageAction manageCMD hostName configName kubeVersion)"

section \<open>Config maps\<close>

definition CreateConfigMapWithTemplate ::
  "'w ccenv \<Rightarrow> string \<Rightarrow> string \<Rightarrow> string \<Rightarrow> string \<Rightarrow> ('w, ConfigMap) ccproc" where
  "CreateConfigMapWithTemplate E name namespace fileName configMapData =
     createK ''ConfigMap'' cm_meta (e_cm E) (templateConfigMap name namespace fileName configMapData)"

definition CreateClusterHosts :: "'w ccenv \<Rightarrow> ('w, ConfigMap) ccproc" where
  "CreateClusterHosts E =
     bindP (getP s_machine) (\<lambda>customMachine. bindP (getP s_cc) (\<lambda>customCluster.
     CreateConfigMapWithTemplate E (generateClusterHostsName customCluster) (m_namespace (cc_meta customCluster))
       ClusterHostsName (renderHosts (GetHostsContent customMachine))))"

definition CreateClusterConfig :: "'w ccenv \<Rightarrow> CapiCluster \<Rightarrow> ('w, ConfigMap) ccproc" where
  "CreateClusterConfig E c =
     bindP (getP s_kcp) (\<lambda>kcp. bindP (getP s_cc) (\<lambda>cc.
     bindP (derefP (GetConfigContent c kcp cc)) (\<lambda>configContent.
     CreateConfigMapWithTemplate E (generateClusterConfigName cc) (m_namespace (cc_meta cc))
       ClusterConfigName (renderConfig configContent))))"

definition ensureClusterHostsCreated :: "'w ccenv \<Rightarrow> ('w, ConfigMap) ccproc" where
  "ensureClusterHostsCreated E = bindP (getP s_cc) (\<lambda>cc.
     onErr (getK ''ConfigMap'' (e_cm E) (generateClusterHostsKey cc))
       (\<lambda>e. if isNotFound e then CreateClusterHosts E else failP e))"

definition ensureClusterConfigCreated :: "'w ccenv \<Rightarrow> CapiCluster \<Rightarrow> ('w, ConfigMap) ccproc" where
  "ensureClusterConfigCreated E cluster = bindP (getP s_cc) (\<lambda>cc.
     onErr (getK ''ConfigMap'' (e_cm E) (generateClusterConfigKey cc))
       (\<lambda>e. if isNotFound e then CreateClusterConfig E cluster else failP e))"

definition ensureConfigMapDeleted :: "'w ccenv \<Rightarrow> objkey \<Rightarrow> ('w, unit) ccproc" where
  "ensureConfigMapDeleted E cmKey =
     tryP (getK ''ConfigMap'' (e_cm E) cmKey) (\<lambda>r. case r of
       Inl e \<Rightarrow> if isNotFound e then retP ()
                else failP (EOpaque ''failed to get cm when it should be deleted: '' e)
     | Inr cm0 \<Rightarrow>
         let cm = cm0\<lparr>cm_meta := cm_meta cm0\<lparr>m_finalizers :=
               removeFinalizer (e_lib E) (m_finalizers (cm_meta cm0)) CustomClusterConfigMapFinalizer\<rparr>\<rparr>
         in bindP (onErr (updateK ''ConfigMap'' cm_meta (e_cm E) cm)
              (\<lambda>e. if isNotFound e then retP cm
                   else failP (EOpaque ''failed to remove finalizer of cm when it should be deleted: '' e))) (\<lambda>cm'.
            onErr (deleteK ''ConfigMap'' cm_meta (e_cm E) cm')
              (\<lambda>e. if isNotFound e then retP ()
                   else failP (EOpaque ''failed to delete cm when it should be deleted: '' e))))"

definition recreateClusterHosts :: "'w ccenv \<Rightarrow> ('w, ConfigMap) ccproc" where
  "recreateClusterHosts E = bindP (getP s_cc) (\<lambda>cc.
     seqP (ensureConfigMapDeleted E (generateClusterHostsKey cc)) (CreateClusterHosts E))"

definition createScaleUpConfigMap :: "'w ccenv \<Rightarrow> NodeInfo list \<Rightarrow> ('w, ConfigMap) ccproc" where
  "createScaleUpConfigMap E scaleUpWorkerNodes = bindP (getP s_cc) (\<lambda>cc.
     bindP (getK ''ConfigMap'' (e_cm E) (generateClusterHostsKey cc)) (\<lambda>curCM.
     bindP (derefP (getScaleUpConfigMapData (mapAt (cm_data curCM) ClusterHostsName) scaleUpWorkerNodes)) (\<lambda>hosts.
     createK ''ConfigMap'' cm_meta (e_cm E)
       (templateConfigMap (generateScaleUpHostsName cc) (m_namespace (cc_meta cc)) ClusterHostsName hosts))))"

definition ensureScaleUpHostsCreated :: "'w ccenv \<Rightarrow> NodeInfo list \<Rightarrow> ('w, ConfigMap) ccproc" where
  "ensureScaleUpHostsCreated E scaleUpWorkerNodes = bindP (getP s_cc) (\<lambda>cc.
     onErr (getK ''ConfigMap'' (e_cm E) (generateScaleUpHostsKey cc))
       (\<lambda>e. if isNotFound e then createScaleUpConfigMap E scaleUpWorkerNodes else failP e))"

text \<open>Assigning to an entry of a nil map panics.\<close>

definition updateClusterNodes :: "'w ccenv \<Rightarrow> NodeInfo list \<Rightarrow> ('w, unit) ccproc" where
  "updateClusterNodes E scaleUpWorkerNodes = bindP (getP s_cc) (\<lambda>cc.
     bindP (getK ''ConfigMap'' (e_cm E) (generateClusterHostsKey cc)) (\<lambda>cm.
     bindP (derefP (getScaleUpConfigMapData (mapAt (cm_data cm) ClusterHostsName) scaleUpWorkerNodes)) (\<lambda>hosts.
     bindP (derefP (cm_data cm)) (\<lambda>data.
     bindP (updateK ''ConfigMap'' cm_meta (e_cm E) (cm\<lparr>cm_data := Some (data(ClusterHostsName \<mapsto> hosts))\<rparr>)) (\<lambda>_.
     retP ())))))"

definition updateKubeVersion :: "'w ccenv \<Rightarrow> string \<Rightarrow> ('w, unit) ccproc" where
  "updateKubeVersion E newKubeVersion = bindP (getP s_cc) (\<lambda>cc.
     bindP (getK ''ConfigMap'' (e_cm E) (generateClusterConfigKey cc)) (\<lambda>cm.
     bindP (derefP (cm_data cm)) (\<lambda>data.
     bindP (updateK ''ConfigMap'' cm_meta (e_cm E) (cm\<lparr>cm_data :=
         Some (data(ClusterConfigName \<mapsto> getUpdatedKubeVersionConfigData cm newKubeVersion))\<rparr>)) (\<lambda>_.
     retP ()))))"

section \<open>Desired and provisioned clusters\<close>

definition getDesiredClusterInfo :: "CustomMachine \<Rightarrow> KubeadmControlPlane \<Rightarrow> ClusterInfo" where
  "getDesiredClusterInfo customMachine kcp =
     \<lparr>WorkerNodes = getWorkerNodesFromCustomMachine customMachine, InfoKubeVersion = kcp_version kcp\<rparr>"

definition getProvisionedClusterInfo :: "'w ccenv \<Rightarrow> ('w, ClusterInfo) ccproc" where
  "getProvisionedClusterInfo E = bindP (getP s_cc) (\<lambda>cc.
     bindP (getK ''ConfigMap'' (e_cm E) (generateClusterHostsKey cc)) (\<lambda>clusterHosts.
     bindP (derefP (getWorkerNodeInfoFromClusterHosts clusterHosts)) (\<lambda>workerNodes.
     bindP (getK ''ConfigMap'' (e_cm E) (generateClusterConfigKey cc)) (\<lambda>clusterConfig.
     retP \<lparr>WorkerNodes = workerNodes, InfoKubeVersion = getKubeVersionFromCM clusterConfig\<rparr>))))"

definition hasProvisionClusterInfo :: "CustomClusterPhase \<Rightarrow> bool" where
  "hasProvisionClusterInfo phase =
     (phase = ProvisionedPhase \<or> phase = ScalingDownPhase \<or> phase = ScalingUpPhase \<or> phase = UpgradingPhase)"

section \<open>The kubeconfig of a provisioned cluster\<close>

definition getSSHKeySecret :: "'w ccenv \<Rightarrow> string \<Rightarrow> string \<Rightarrow> ('w, Secret) ccproc" where
  "getSSHKeySecret E namespace name = getK ''Secret'' (e_secret E) \<lparr>k_namespace = namespace, k_name = name\<rparr>"

definition buildSSHClientConfig :: "'w ccenv \<Rightarrow> Secret \<Rightarrow> ('w, sshConfig) ccproc" where
  "buildSSHClientConfig E sshKeySecret =
     (if \<not> mapHas (sec_data sshKeySecret) ''ssh-privatekey''
      then failP (EMsg ''ssh-privatekey not found in secret'')
      else case ssh_parsePrivateKey (e_ssh E) (mapAt (sec_data sshKeySecret) ''ssh-privatekey'') of
             Inl e \<Rightarrow> failP (EOpaque ''failed to parse SSH private key: '' e)
           | Inr signer \<Rightarrow> retP \<lparr>ssh_user = ''root'', ssh_signer = signer\<rparr>)"

definition buildSFTPClient :: "'w ccenv \<Rightarrow> string \<Rightarrow> sshConfig \<Rightarrow> ('w, string) ccproc" where
  "buildSFTPClient E addr config =
     bindP (onErr (extE (ssh_dial (e_ssh E) addr config)) (\<lambda>e. failP (EOpaque ''failed to connect: '' e))) (\<lambda>conn.
     onErr (extE (sftp_newClient (e_ssh E) conn)) (\<lambda>e.
       seqP (extP (ssh_close (e_ssh E) conn)) (failP (EOpaque ''failed to create SFTP client: '' e))))"

definition fetchRemoteKubeConfig :: "'w ccenv \<Rightarrow> string \<Rightarrow> string \<Rightarrow> ('w, string) ccproc" where
  "fetchRemoteKubeConfig E sftpClient path =
     bindP (onErr (extE (sftp_open (e_ssh E) sftpClient path)) (\<lambda>e. failP (EOpaque ''failed to open remote file: '' e))) (\<lambda>remoteFile.
     finallyP
       (onErr (extE (sftp_read (e_ssh E) remoteFile)) (\<lambda>e. failP (EOpaque ''failed to read remote file: '' e)))
       (extP (ssh_close (e_ssh E) remoteFile)))"

definition createKubeConfigSecret :: "'w ccenv \<Rightarrow> string \<Rightarrow> string \<Rightarrow> string \<Rightarrow> ('w, unit) ccproc" where
  "createKubeConfigSecret E name namespace kubeConfigData =
     bindP (onErr (createK ''Secret'' sec_meta (e_secret E)
         \<lparr>sec_meta = newMeta name namespace, sec_data = Some [''admin.conf'' \<mapsto> kubeConfigData]\<rparr>)
       (\<lambda>e. failP (EOpaque ''failed to create new secret: '' e))) (\<lambda>_. retP ())"

definition getKubeConfigSecretName :: "'w ccenv \<Rightarrow> ('w, string) ccproc" where
  "getKubeConfigSecretName E = bindP (getP s_cc) (\<lambda>cc.
     extP (e_generateName E (m_name (cc_meta cc) @ ''-kubeconfig-'')))"

definition fetchProvisionedClusterKubeConfig :: "'w ccenv \<Rightarrow> ('w, unit) ccproc" where
  "fetchProvisionedClusterKubeConfig E =
     bindP (getP s_machine) (\<lambda>customMachine.
     bindP (derefP (indexO (Master (cmach_spec customMachine)) 0)) (\<lambda>master.
     bindP (derefP (SSHKey master)) (\<lambda>remoteMachineSSHKey.
     bindP (getSSHKeySecret E (m_namespace (cmach_meta customMachine)) (r_name remoteMachineSSHKey)) (\<lambda>sshKeySecret.
     bindP (buildSSHClientConfig E sshKeySecret) (\<lambda>config.
     bindP (buildSFTPClient E (PublicIP master @ '':22'') config) (\<lambda>sftpClient.
     finallyP
       (bindP (fetchRemoteKubeConfig E sftpClient ProvisionedKubeConfigPath) (\<lambda>kubeConfigData.
        bindP (getKubeConfigSecretName E) (\<lambda>name.
        bindP (getP s_cc) (\<lambda>cc.
        createKubeConfigSecret E name (m_namespace (cc_meta cc)) kubeConfigData))))
       (extP (ssh_close (e_ssh E) sftpClient))))))))"

section \<open>Provisioning\<close>

definition addFinalizerTo :: "'w ccenv \<Rightarrow> string \<Rightarrow> ObjectMeta \<Rightarrow> ObjectMeta" where
  "addFinalizerTo E f m = m\<lparr>m_finalizers := addFinalizer (e_lib E) (m_finalizers m) f\<rparr>"

definition ensureOwner :: "'w ccenv \<Rightarrow> OwnerReference \<Rightarrow> ObjectMeta \<Rightarrow> ObjectMeta" where
  "ensureOwner E ref m = m\<lparr>m_ownerRefs := ensureOwnerRef (e_lib E) (m_ownerRefs m) ref\<rparr>"

definition ensureFinalizerAndOwnerRef :: "'w ccenv \<Rightarrow> ConfigMap \<Rightarrow> ConfigMap \<Rightarrow> ('w, unit) ccproc" where
  "ensureFinalizerAndOwnerRef E clusterHosts clusterConfig =
     seqP (modifyP (\<lambda>s. s\<lparr>
         s_cc := s_cc s\<lparr>cc_meta := addFinalizerTo E CustomClusterFinalizer (cc_meta (s_cc s))\<rparr>,
         s_machine := s_machine s\<lparr>cmach_meta := addFinalizerTo E CustomClusterFinalizer (cmach_meta (s_machine s))\<rparr>,
         s_kcp := s_kcp s\<lparr>kcp_meta := addFinalizerTo E CustomClusterFinalizer (kcp_meta (s_kcp s))\<rparr>\<rparr>))
     (bindP (getP s_cc) (\<lambda>cc.
      let ownerRefs = generateOwnerRefFromCustomCluster cc;
          hosts = clusterHosts\<lparr>cm_meta :=
            ensureOwner E ownerRefs (addFinalizerTo E CustomClusterConfigMapFinalizer (cm_meta clusterHosts))\<rparr>;
          config = clusterConfig\<lparr>cm_meta :=
            ensureOwner E ownerRefs (addFinalizerTo E CustomClusterConfigMapFinalizer (cm_meta clusterConfig))\<rparr>
      in seqP (modifyP (\<lambda>s. s\<lparr>s_machine := s_machine s\<lparr>cmach_meta := ensureOwner E ownerRefs (cmach_meta (s_machine s))\<rparr>\<rparr>))
         (bindP (getP s_machine) (\<lambda>machine.
          bindP (onErr (updateK ''CustomMachine'' cmach_meta (e_machine E) machine)
            (\<lambda>e. failP (EOpaque ''failed to set finalizer or ownerRef of customMachine: '' e))) (\<lambda>machine'.
          seqP (modifyP (\<lambda>s. s\<lparr>s_machine := machine'\<rparr>))
          (seqP (onErr (updateK ''ConfigMap'' cm_meta (e_cm E) hosts)
            (\<lambda>e. failP (EOpaque ''failed to set finalizer or ownerRef of clusterHosts: '' e)))
          (seqP (onErr (updateK ''ConfigMap'' cm_meta (e_cm E) config)
            (\<lambda>e. failP (EOpaque ''failed to set finalizer or ownerRef of clusterConfig: '' e)))
          (bindP (getP s_kcp) (\<lambda>kcp.
           bindP (onErr (updateK ''KubeadmControlPlane'' kcp_meta (e_kcp E) kcp)
             (\<lambda>e. failP (EOpaque ''failed to set finalizer of kcp: '' e))) (\<lambda>kcp'.
           modifyP (\<lambda>s. s\<lparr>s_kcp := kcp'\<rparr>)))))))))))"

definition initWorkerDone :: "'w ccenv \<Rightarrow> Pod \<Rightarrow> ('w, Result) ccproc" where
  "initWorkerDone E initWorker =
     (if pod_phase initWorker = PodSucceeded
      then seqP (onErr (fetchProvisionedClusterKubeConfig E) (\<lambda>e.
               seqP (markFalseP E ObtainedKubeConfigCondition FailedFetchKubeConfigReason
                 ''failed to fetch provisioned cluster KubeConfig'' []) (failP e)))
           (seqP (markTrueP E ObtainedKubeConfigCondition)
           (seqP (setPhase ProvisionedPhase)
           (seqP (markTrueP E ReadyCondition) (retP noRequeue))))
      else if pod_phase initWorker = PodFailed
      then seqP (setPhase ProvisionFailedPhase)
           (seqP (markFalseP E ReadyCondition InitWorkerRunFailedReason ''init worker run failed'' [])
             (retP noRequeue))
      else retP noRequeue)"

definition reconcileProvision :: "'w ccenv \<Rightarrow> CapiCluster \<Rightarrow> ('w, Result) ccproc" where
  "reconcileProvision E cluster =
     bindP (ensureClusterHostsCreated E) (\<lambda>clusterHosts.
     bindP (ensureClusterConfigCreated E cluster) (\<lambda>clusterConfig.
     bindP (getP s_cc) (\<lambda>cc. bindP (getP s_kcp) (\<lambda>kcp.
     bindP (onErr (ensureWorkerPodCreated E CustomClusterInitAction KubesprayInitCMD
         (generateClusterHostsName cc) (generateClusterConfigName cc) (kcp_version kcp))
       (\<lambda>e. seqP (markFalseP E ReadyCondition FailedCreateInitWorker ''init worker is failed to create'' [])
              (failP e))) (\<lambda>initWorker.
     seqP (ensureFinalizerAndOwnerRef E clusterHosts clusterConfig)
     (seqP (setPhase ProvisioningPhase) (initWorkerDone E initWorker)))))))"

section \<open>Scaling\<close>

definition reconcileScaleUp :: "'w ccenv \<Rightarrow> NodeInfo list \<Rightarrow> ('w, Result) ccproc" where
  "reconcileScaleUp E scaleUpWorkerNodes =
     seqP (ensureScaleUpHostsCreated E scaleUpWorkerNodes)
     (bindP (getP s_cc) (\<lambda>cc. bindP (getP s_kcp) (\<lambda>kcp.
      bindP (onErr (ensureWorkerPodCreated E CustomClusterScaleUpAction KubesprayScaleUpCMD
          (generateScaleUpHostsName cc) (generateClusterConfigName cc) (kcp_version kcp))
        (\<lambda>e. seqP (markFalseP E ScaledUpCondition FailedCreateScaleUpWorker ''scale up worker is failed to create'' ''.'')
               (failP e))) (\<lambda>workerPod.
      seqP (setPhase ScalingUpPhase)
      (if pod_phase workerPod = PodSucceeded
       then seqP (updateClusterNodes E scaleUpWorkerNodes)
            (seqP (setPhase ProvisionedPhase)
            (seqP (ensureConfigMapDeleted E (generateScaleUpHostsKey cc))
            (seqP (ensureWorkerPodDeleted E CustomClusterScaleUpAction)
            (seqP (markTrueP E ScaledUpCondition) (retP noRequeue)))))
       else if pod_phase workerPod = PodFailed
       then seqP (setPhase ProvisionedPhase)
            (seqP (markFalseP E ScaledUpCondition ScaleUpWorkerRunFailedReason ''scale up worker run failed'' [])
              (retP noRequeue))
       else retP noRequeue)))))"

definition reconcileScaleDown :: "'w ccenv \<Rightarrow> NodeInfo list \<Rightarrow> ('w, Result) ccproc" where
  "reconcileScaleDown E scaleDownWorkerNodes =
     bindP (getP s_cc) (\<lambda>cc. bindP (getP s_kcp) (\<lambda>kcp.
     bindP (onErr (ensureWorkerPodCreated E CustomClusterScaleDownAction (generateScaleDownManageCMD scaleDownWorkerNodes)
         (generateClusterHostsName cc) (generateClusterConfigName cc) (kcp_version kcp))
       (\<lambda>e. seqP (markFalseP E ScaledDownCondition FailedCreateScaleDownWorker ''scale down worker is failed to create'' ''.'')
              (failP e))) (\<lambda>workerPod.
     seqP (setPhase ScalingDownPhase)
     (if pod_phase workerPod = PodSucceeded
      then seqP (recreateClusterHosts E)
           (seqP (setPhase ProvisionedPhase)
           (seqP (ensureWorkerPodDeleted E CustomClusterScaleDownAction)
           (seqP (markTrueP E ScaledDownCondition) (retP noRequeue))))
      else if pod_phase workerPod = PodFailed
      then seqP (setPhase ProvisionedPhase)
           (seqP (markFalseP E ScaledDownCondition ScaleDownWorkerRunFailedReason ''scale down worker run failed'' [])
             (retP noRequeue))
      else retP noRequeue))))"

section \<open>Upgrading\<close>

definition reconcileUpgrade :: "'w ccenv \<Rightarrow> string \<Rightarrow> ('w, Result) ccproc" where
  "reconcileUpgrade E targetVersion =
     bindP (getP s_cc) (\<lambda>cc.
     bindP (onErr (ensureWorkerPodCreated E CustomClusterUpgradeAction (generateUpgradeManageCMD targetVersion)
         (generateClusterHostsName cc) (generateClusterConfigName cc) targetVersion)
       (\<lambda>e. seqP (markFalseP E UpgradeCondition UpgradeWorkerCreateFailed ''upgrade worker is failed to create'' ''.'')
              (failP e))) (\<lambda>workerPod.
     seqP (setPhase UpgradingPhase)
     (if pod_phase workerPod = PodSucceeded
      then seqP (updateKubeVersion E targetVersion)
           (seqP (setPhase ProvisionedPhase)
           (seqP (ensureWorkerPodDeleted E CustomClusterUpgradeAction)
           (seqP (markTrueP E UpgradeCondition) (retP noRequeue))))
      else if pod_phase workerPod = PodFailed
      then seqP (setPhase UnknownPhase)
           (seqP (markFalseP E UpgradeCondition UpgradeWorkerRunFailedReason ''upgrade worker run failed'' [])
             (retP noRequeue))
      else retP noRequeue)))"

section \<open>Deleting\<close>

definition deleteWorkerPods :: "'w ccenv \<Rightarrow> ('w, unit) ccproc" where
  "deleteWorkerPods E =
     seqP (ensureWorkerPodDeleted E CustomClusterInitAction)
     (seqP (ensureWorkerPodDeleted E CustomClusterScaleUpAction)
     (ensureWorkerPodDeleted E CustomClusterScaleDownAction))"

definition dropFinalizer :: "'w ccenv \<Rightarrow> ObjectMeta \<Rightarrow> ObjectMeta" where
  "dropFinalizer E m = m\<lparr>m_finalizers := removeFinalizer (e_lib E) (m_finalizers m) CustomClusterFinalizer\<rparr>"

text \<open>\<open>Update\<close> whose NotFound error is ignored: the object in memory stays as it is.\<close>

definition updateIgnoreNotFound ::
  "string \<Rightarrow> ('o \<Rightarrow> ObjectMeta) \<Rightarrow> ('w, 'o) api \<Rightarrow> 'o \<Rightarrow> ('w, 'o) ccproc" where
  "updateIgnoreNotFound kind meta c x =
     onErr (updateK kind meta c x) (\<lambda>e. if isNotFound e then retP x else failP e)"

definition deleteResource :: "'w ccenv \<Rightarrow> ('w, unit) ccproc" where
  "deleteResource E =
     bindP (getP s_cc) (\<lambda>cc0.
     seqP (ensureConfigMapDeleted E (generateClusterHostsKey cc0))
     (seqP (ensureConfigMapDeleted E (generateClusterConfigKey cc0))
     (seqP (modifyP (\<lambda>s. s\<lparr>s_machine := s_machine s\<lparr>cmach_meta := dropFinalizer E (cmach_meta (s_machine s))\<rparr>\<rparr>))
     (bindP (getP s_machine) (\<lambda>machine.
      bindP (updateIgnoreNotFound ''CustomMachine'' cmach_meta (e_machine E) machine) (\<lambda>machine'.
      seqP (modifyP (\<lambda>s. s\<lparr>s_machine := machine', s_kcp := s_kcp s\<lparr>kcp_meta := dropFinalizer E (kcp_meta (s_kcp s))\<rparr>\<rparr>))
      (bindP (getP s_kcp) (\<lambda>kcp.
       bindP (updateIgnoreNotFound ''KubeadmControlPlane'' kcp_meta (e_kcp E) kcp) (\<lambda>kcp'.
       seqP (modifyP (\<lambda>s. s\<lparr>s_kcp := kcp', s_cc := s_cc s\<lparr>cc_meta := dropFinalizer E (cc_meta (s_cc s))\<rparr>\<rparr>))
       (bindP (getP s_cc) (\<lambda>cc.
        bindP (updateIgnoreNotFound ''CustomCluster'' cc_meta (e_cc E) cc) (\<lambda>cc'.
        modifyP (\<lambda>s. s\<lparr>s_cc := cc'\<rparr>)))))))))))))"

definition terminateWorkerDone :: "'w ccenv \<Rightarrow> Pod \<Rightarrow> ('w, Result) ccproc" where
  "terminateWorkerDone E terminateWorker =
     (if pod_phase terminateWorker = PodSucceeded
      then seqP (deleteResource E) (retP noRequeue)
      else if pod_phase terminateWorker = PodFailed
      then seqP (setPhase UnknownPhase)
           (seqP (markFalseP E TerminatedCondition TerminateWorkerRunFailedReason ''terminate worker run failed'' ''.'')
             (retP noRequeue))
      else retP noRequeue)"

definition terminateWorkerError :: "'w ccenv \<Rightarrow> goerr \<Rightarrow> ('w, Pod) ccproc" where
  "terminateWorkerError E e =
     seqP (markFalseP E TerminatedCondition FailedCreateTerminateWorker ''terminate worker is failed to create'' ''.'')
       (failP e)"

definition reconcileDelete :: "'w ccenv \<Rightarrow> ('w, Result) ccproc" where
  "reconcileDelete E =
     seqP (deleteWorkerPods E)
     (bindP (getP s_cc) (\<lambda>cc. bindP (getP s_kcp) (\<lambda>kcp.
      bindP (onErr (ensureWorkerPodCreated E CustomClusterTerminateAction KubesprayTerminateCMD
          (generateClusterHostsName cc) (generateClusterConfigName cc) (kcp_version kcp))
        (terminateWorkerError E)) (terminateWorkerDone E))))"

section \<open>Reconciling\<close>

definition clusterChanges ::
  "'w ccenv \<Rightarrow> CustomClusterPhase \<Rightarrow> ClusterInfo \<Rightarrow> ('w, NodeInfo list \<times> NodeInfo list \<times> string) ccproc" where
  "clusterChanges E phase desiredClusterInfo =
     (if hasProvisionClusterInfo phase
      then bindP (getProvisionedClusterInfo E) (\<lambda>info.
        retP (findScaleUpWorkerNodes (WorkerNodes info) (WorkerNodes desiredClusterInfo),
              findScaleDownWorkerNodes (WorkerNodes info) (WorkerNodes desiredClusterInfo),
              InfoKubeVersion info))
      else retP ([], [], []))"

definition handleChanges ::
  "'w ccenv \<Rightarrow> string \<Rightarrow> NodeInfo list \<times> NodeInfo list \<times> string \<Rightarrow> ('w, Result) ccproc" where
  "handleChanges E desiredVersion changes =
     (case changes of (scaleUpWorkerNodes, scaleDownWorkerNodes, provisionedVersion) \<Rightarrow>
        if scaleUpWorkerNodes \<noteq> [] then reconcileScaleUp E scaleUpWorkerNodes
        else if scaleDownWorkerNodes \<noteq> [] then reconcileScaleDown E scaleDownWorkerNodes
        else if desiredVersion \<noteq> provisionedVersion
        then if \<not> isKubeadmUpgradeSupported (e_semver E) provisionedVersion desiredVersion
             then retP noRequeue
             else reconcileUpgrade E desiredVersion
        else retP noRequeue)"

definition reconcileCC :: "'w ccenv \<Rightarrow> CapiCluster \<Rightarrow> ('w, Result) ccproc" where
  "reconcileCC E cluster =
     bindP (getP (\<lambda>s. CCPhase (cc_status (s_cc s)))) (\<lambda>phase.
     bindP (getP (\<lambda>s. getDesiredClusterInfo (s_machine s) (s_kcp s))) (\<lambda>desiredClusterInfo.
     if phase = PendingPhase \<or> phase = ProvisionFailedPhase \<or> phase = ProvisioningPhase
     then reconcileProvision E cluster
     else bindP (clusterChanges E phase desiredClusterInfo)
       (handleChanges E (InfoKubeVersion desiredClusterInfo))))"

text \<open>An object that is fetched: when it does not exist the function returns without an error.\<close>

definition fetchOr :: "('w, Result) ccproc \<Rightarrow> ('w, 'o) ccproc \<Rightarrow> ('o \<Rightarrow> ('w, Result) ccproc) \<Rightarrow> ('w, Result) ccproc" where
  "fetchOr gone m f = tryP m (\<lambda>r. case r of
     Inl e \<Rightarrow> if isNotFound e then gone else failP e
   | Inr x \<Rightarrow> f x)"

definition ownerClusterName :: "OwnerReference list \<Rightarrow> string" where
  "ownerClusterName owners = (case find (\<lambda>o'. or_kind o' = ClusterKind) owners of None \<Rightarrow> [] | Some o' \<Rightarrow> or_name o')"

definition reconcileFetched :: "'w ccenv \<Rightarrow> CapiCluster \<Rightarrow> ('w, Result) ccproc" where
  "reconcileFetched E cluster =
     (if m_deletionTimestamp (cl_meta cluster) \<noteq> None
      then seqP (setPhase DeletingPhase) (reconcileDelete E)
      else reconcileCC E cluster)"

definition reconcileWithPatch :: "'w ccenv \<Rightarrow> CapiCluster \<Rightarrow> ('w, Result) ccproc" where
  "reconcileWithPatch E cluster =
     bindP (getP s_cc) (\<lambda>before.
     seqP (onErr (callP (RExternal ''NewHelper'' []) (api_newHelper (e_cc E) before))
       (\<lambda>e. failP (EWrap ''failed to init patch helper for customCluster'' e)))
     (deferErr (reconcileFetched E cluster)
       (bindP (getP s_cc) (\<lambda>after.
        onErr (patchK ''CustomCluster'' cc_meta (e_cc E) before after)
          (\<lambda>e. failP (EWrap ''failed to patch customCluster'' e))))))"

definition ReconcileCC :: "'w ccenv \<Rightarrow> objkey \<Rightarrow> ('w, Result) ccproc" where
  "ReconcileCC E req =
     fetchOr (retP noRequeue) (getK ''CustomCluster'' (e_cc E) req) (\<lambda>customCluster.
     seqP (modifyP (\<lambda>s. s\<lparr>s_cc := customCluster\<rparr>))
     (seqP (ifP (CCPhase (cc_status customCluster) = NoPhase) (setPhase PendingPhase))
     (let clusterName = ownerClusterName (m_ownerRefs (cc_meta customCluster)) in
      if clusterName = [] then retP noRequeue
      else fetchOr (retP noRequeue)
        (getK ''Cluster'' (e_cluster E) \<lparr>k_namespace = m_namespace (cc_meta customCluster), k_name = clusterName\<rparr>) (\<lambda>cluster.
      bindP (derefP (MachineRef (cc_spec customCluster))) (\<lambda>machineRef.
      fetchOr (retP noRequeue)
        (getK ''CustomMachine'' (e_machine E) \<lparr>k_namespace = r_namespace machineRef, k_name = r_name machineRef\<rparr>) (\<lambda>customMachine.
      bindP (derefP (cl_controlPlaneRef cluster)) (\<lambda>cpRef.
      fetchOr (retP noRequeue)
        (getK ''KubeadmControlPlane'' (e_kcp E) \<lparr>k_namespace = r_namespace cpRef, k_name = r_name cpRef\<rparr>) (\<lambda>kcp.
      seqP (modifyP (\<lambda>s. s\<lparr>s_machine := customMachine, s_kcp := kcp\<rparr>))
      (reconcileWithPatch E cluster)))))))))"

section \<open>Events\<close>

datatype clientObject =
    OPod Pod
  | OCustomMachine CustomMachine
  | OCluster CapiCluster
  | OKcp KubeadmControlPlane

text \<open>A map function panics on an object of another type (\<open>None\<close>).\<close>

definition WorkerToCustomClusterMapFunc :: "clientObject \<Rightarrow> objkey list option" where
  "WorkerToCustomClusterMapFunc obj = (case obj of
     OPod c \<Rightarrow> Some (case find (\<lambda>ow. or_kind ow = CustomClusterKind) (m_ownerRefs (pod_meta c)) of
         None \<Rightarrow> []
       | Some ow \<Rightarrow> [\<lparr>k_namespace = m_namespace (pod_meta c), k_name = or_name ow\<rparr>])
   | _ \<Rightarrow> None)"

definition CustomMachineToCustomClusterMapFunc :: "clientObject \<Rightarrow> objkey list option" where
  "CustomMachineToCustomClusterMapFunc obj = (case obj of
     OCustomMachine c \<Rightarrow> Some (case find (\<lambda>ow. or_kind ow = CustomClusterKind) (m_ownerRefs (cmach_meta c)) of
         None \<Rightarrow> []
       | Some ow \<Rightarrow> [\<lparr>k_namespace = m_namespace (cmach_meta c), k_name = or_name ow\<rparr>])
   | _ \<Rightarrow> None)"

definition infraRequest :: "CapiCluster \<Rightarrow> objkey list" where
  "infraRequest c = (case cl_infrastructureRef c of
     None \<Rightarrow> []
   | Some ref \<Rightarrow> if r_kind ref = CustomClusterKind
                 then [\<lparr>k_namespace = r_namespace ref, k_name = r_name ref\<rparr>] else [])"

definition ClusterToCustomClusterMapFunc :: "clientObject \<Rightarrow> objkey list option" where
  "ClusterToCustomClusterMapFunc obj = (case obj of OCluster c \<Rightarrow> Some (infraRequest c) | _ \<Rightarrow> None)"

definition KcpToCustomClusterMapFunc :: "'w ccenv \<Rightarrow> clientObject \<Rightarrow> ('w, objkey list) ccproc" where
  "KcpToCustomClusterMapFunc E obj = (case obj of
     OKcp c \<Rightarrow>
       let clusterKey = (case find (\<lambda>ow. or_kind ow = ClusterKind) (m_ownerRefs (kcp_meta c)) of
             None \<Rightarrow> \<lparr>k_namespace = [], k_name = []\<rparr>
           | Some ow \<Rightarrow> \<lparr>k_namespace = m_namespace (kcp_meta c), k_name = or_name ow\<rparr>)
       in tryP (getK ''Cluster'' (e_cluster E) clusterKey) (\<lambda>r. case r of
            Inl e \<Rightarrow> retP []
          | Inr ownerCluster \<Rightarrow> retP (infraRequest ownerCluster))
   | _ \<Rightarrow> panicP)"

end
