(* ===== verification/CustomClusterPhases.thy ===== *)
theory CustomClusterPhases
  imports CustomCluster
begin

text \<open>
  The phases of a CustomCluster as a state machine, and the order of the requests that delete it.
  \<open>phaseIn\<close> and \<open>sameMem\<close> are frames: what a procedure can do to the phase and to the objects in
  memory, whatever the API server answers. \<open>ccStep\<close> and \<open>ccRun\<close> are the phase changes of one and of
  several reconciliations.
\<close>

section \<open>What the handlers do to the phase\<close>

definition phaseOf :: "'w ccstate \<Rightarrow> CustomClusterPhase" where
  "phaseOf s = CCPhase (cc_status (s_cc s))"

definition phaseIn :: "CustomClusterPhase set \<Rightarrow> 'w ccstate \<Rightarrow> 'w ccstate \<Rightarrow> bool" where
  "phaseIn S s s' \<longleftrightarrow> phaseOf s' = phaseOf s \<or> phaseOf s' \<in> S"

text \<open>The three objects in memory are untouched.\<close>

definition sameMem :: "'w ccstate \<Rightarrow> 'w ccstate \<Rightarrow> bool" where
  "sameMem s s' \<longleftrightarrow> s_cc s' = s_cc s \<and> s_machine s' = s_machine s \<and> s_kcp s' = s_kcp s"

interpretation phases: client_frame "phaseIn S" "\<lambda>_. True" for S
proof unfold_locales
qed (auto simp: phaseIn_def phaseOf_def)

interpretation mem: client_frame sameMem "\<lambda>_. True"
proof unfold_locales
qed (auto simp: sameMem_def)

lemma setPhase_phases [pres_rules]: "p \<in> S \<Longrightarrow> pres (phaseIn S) (setPhase p)"
  by (auto simp: setPhase_def phaseIn_def phaseOf_def intro!: pres_rules)

lemma conditions_phases [pres_rules]: "pres (phaseIn S) (setConditions f)"
  by (auto simp: setConditions_def phaseIn_def phaseOf_def intro!: pres_rules)

lemma marks_phases [pres_rules]:
  "pres (phaseIn S) (markTrueP E t)" "pres (phaseIn S) (markFalseP E t r m e)"
  by (auto simp: markTrueP_def markFalseP_def intro!: pres_rules)

text \<open>Finding, creating and deleting pods, config maps and secrets leaves the objects alone.\<close>

lemma workers_mem [pres_rules]:
  "pres sameMem (findManageWorkerPod E a)"
  "pres sameMem (ensureWorkerPodDeleted E a)"
  "pres sameMem (ensureWorkerPodCreated E a c h g v)"
  "pres sameMem (deleteWorkerPods E)"
  unfolding deleteWorkerPods_def ensureWorkerPodDeleted_def ensureWorkerPodCreated_def findManageWorkerPod_def
    createWorkerPod_def generateClusterManageWorker_def apiK_defs
  by (intro pres_rules TrueI)+

lemma configmaps_mem [pres_rules]:
  "pres sameMem (CreateClusterHosts E)"
  "pres sameMem (ensureClusterHostsCreated E)"
  "pres sameMem (ensureClusterConfigCreated E cl)"
  "pres sameMem (ensureConfigMapDeleted E k)"
  "pres sameMem (recreateClusterHosts E)"
  "pres sameMem (ensureScaleUpHostsCreated E ns)"
  "pres sameMem (updateClusterNodes E ns)"
  "pres sameMem (updateKubeVersion E v)"
  "pres sameMem (getProvisionedClusterInfo E)"
  unfolding ensureClusterHostsCreated_def CreateClusterHosts_def CreateConfigMapWithTemplate_def
    ensureClusterConfigCreated_def CreateClusterConfig_def ensureConfigMapDeleted_def recreateClusterHosts_def
    ensureScaleUpHostsCreated_def createScaleUpConfigMap_def updateClusterNodes_def updateKubeVersion_def
    getProvisionedClusterInfo_def apiK_defs
  by (intro pres_rules TrueI)+

lemma kubeconfig_mem [pres_rules]: "pres sameMem (fetchProvisionedClusterKubeConfig E)"
  unfolding fetchProvisionedClusterKubeConfig_def getSSHKeySecret_def buildSSHClientConfig_def buildSFTPClient_def
    fetchRemoteKubeConfig_def createKubeConfigSecret_def getKubeConfigSecretName_def apiK_defs
  by (intro pres_rules TrueI)

lemma pres_weaken: "\<lbrakk>pres R m; \<And>s s'. R s s' \<Longrightarrow> R' s s'\<rbrakk> \<Longrightarrow> pres R' m"
  by (auto intro!: presI dest: presD)

lemma mem_phases: "pres sameMem m \<Longrightarrow> pres (phaseIn S) m"
  by (erule pres_weaken) (simp add: sameMem_def phaseIn_def phaseOf_def)

lemmas helpers_phases [pres_rules] = workers_mem [THEN mem_phases] configmaps_mem [THEN mem_phases]
  kubeconfig_mem [THEN mem_phases]

lemma finalizers_phases [pres_rules]: "pres (phaseIn S) (ensureFinalizerAndOwnerRef E h c)"
  unfolding ensureFinalizerAndOwnerRef_def apiK_defs
  by (intro pres_rules TrueI) (auto simp: phaseIn_def phaseOf_def)

lemma provision_phases [pres_rules]:
  "{ProvisioningPhase, ProvisionedPhase, ProvisionFailedPhase} \<subseteq> S \<Longrightarrow> pres (phaseIn S) (reconcileProvision E cl)"
  unfolding reconcileProvision_def initWorkerDone_def by (intro pres_rules) auto

lemma scaleUp_phases [pres_rules]:
  "{ScalingUpPhase, ProvisionedPhase} \<subseteq> S \<Longrightarrow> pres (phaseIn S) (reconcileScaleUp E ns)"
  unfolding reconcileScaleUp_def by (intro pres_rules) auto

lemma scaleDown_phases [pres_rules]:
  "{ScalingDownPhase, ProvisionedPhase} \<subseteq> S \<Longrightarrow> pres (phaseIn S) (reconcileScaleDown E ns)"
  unfolding reconcileScaleDown_def by (intro pres_rules) auto

lemma upgrade_phases [pres_rules]:
  "{UpgradingPhase, ProvisionedPhase, UnknownPhase} \<subseteq> S \<Longrightarrow> pres (phaseIn S) (reconcileUpgrade E v)"
  unfolding reconcileUpgrade_def by (intro pres_rules) auto

inductive ccStep :: "CustomClusterPhase \<Rightarrow> CustomClusterPhase \<Rightarrow> bool" where
  provision: "\<lbrakk>p \<in> {PendingPhase, ProvisionFailedPhase, ProvisioningPhase};
      p' \<in> {p, ProvisioningPhase, ProvisionedPhase, ProvisionFailedPhase}\<rbrakk> \<Longrightarrow> ccStep p p'"
| operate: "\<lbrakk>p \<in> {ProvisionedPhase, ScalingUpPhase, ScalingDownPhase, UpgradingPhase};
      p' \<in> {p, ProvisionedPhase, ScalingUpPhase, ScalingDownPhase, UpgradingPhase, UnknownPhase}\<rbrakk> \<Longrightarrow> ccStep p p'"
| stay: "p \<in> {NoPhase, DeletingPhase, UnknownPhase} \<Longrightarrow> ccStep p p"

inductive_simps ccStep_simps: "ccStep p p'"

lemma unsupported_origin: "semver_laws V \<Longrightarrow> \<not> isKubeadmUpgradeSupported V [] v"
  by (simp add: isKubeadmUpgradeSupported_def semver_laws_def trimPrefix_def)

text \<open>The handler a phase selects.\<close>

lemma reconcile_new:
  assumes "phaseOf s \<in> {PendingPhase, ProvisionFailedPhase, ProvisioningPhase}"
  shows "reconcileCC E cluster s = reconcileProvision E cluster s"
  using assms by (auto simp: reconcileCC_def bindP_def getP_def phaseOf_def)

lemma reconcile_info:
  assumes "hasProvisionClusterInfo (phaseOf s)"
  shows "reconcileCC E cluster s =
    bindP (clusterChanges E (phaseOf s) (getDesiredClusterInfo (s_machine s) (s_kcp s)))
      (handleChanges E (kcp_version (s_kcp s))) s"
  using assms
  by (auto simp: reconcileCC_def bindP_def getP_def phaseOf_def hasProvisionClusterInfo_def getDesiredClusterInfo_def)

lemma reconcile_other:
  assumes "semver_laws (e_semver E)" and "phaseOf s \<in> {NoPhase, DeletingPhase, UnknownPhase}"
  shows "reconcileCC E cluster s = (Ok noRequeue, s)"
  using assms unsupported_origin [OF assms(1)]
  by (auto simp: reconcileCC_def bindP_def getP_def retP_def hasProvisionClusterInfo_def phaseOf_def
      clusterChanges_def handleChanges_def)

lemma changes_mem [pres_rules]: "pres sameMem (clusterChanges E p d)"
  unfolding clusterChanges_def by (intro pres_rules)

lemma handle_phases [pres_rules]:
  "{ProvisionedPhase, ScalingUpPhase, ScalingDownPhase, UpgradingPhase, UnknownPhase} \<subseteq> S \<Longrightarrow>
   pres (phaseIn S) (handleChanges E v c)"
  unfolding handleChanges_def by (intro pres_rules) auto

lemma reconcile_phase:
  assumes "semver_laws (e_semver E)" and run: "reconcileCC E cluster s = (r, s')"
  shows "ccStep (phaseOf s) (phaseOf s')"
proof -
  let ?ops = "{ProvisionedPhase, ScalingUpPhase, ScalingDownPhase, UpgradingPhase, UnknownPhase}"
  consider (new) "phaseOf s \<in> {PendingPhase, ProvisionFailedPhase, ProvisioningPhase}"
    | (info) "hasProvisionClusterInfo (phaseOf s)"
    | (other) "phaseOf s \<in> {NoPhase, DeletingPhase, UnknownPhase}"
    by (cases "phaseOf s") (auto simp: hasProvisionClusterInfo_def)
  then show ?thesis
  proof cases
    case new
    have "phaseIn {ProvisioningPhase, ProvisionedPhase, ProvisionFailedPhase} s s'"
      by (rule presD [OF provision_phases run [unfolded reconcile_new [OF new]]]) simp
    then show ?thesis using new by (auto simp: phaseIn_def ccStep_simps)
  next
    case info
    have "pres (phaseIn ?ops) (bindP (clusterChanges E p d) (handleChanges E v))" for p d v
      by (intro pres_rules mem_phases [OF changes_mem] handle_phases) simp_all
    then have "phaseIn ?ops s s'" using run unfolding reconcile_info [OF info] by (metis presD)
    then show ?thesis using info by (auto simp: phaseIn_def ccStep_simps hasProvisionClusterInfo_def)
  next
    case other
    then show ?thesis using run reconcile_other [OF assms(1) other] by (auto intro: ccStep.stay)
  qed
qed

text \<open>
  Reconciling repeatedly: between two runs the world, the machines and the control plane may
  change arbitrarily; the phase is what the last run left.
\<close>

inductive ccRun :: "semverlib \<Rightarrow> 'w ccstate \<Rightarrow> 'w ccstate \<Rightarrow> bool" for V where
  start: "ccRun V s s"
| again: "\<lbrakk>ccRun V s t; phaseOf u = phaseOf t; e_semver E = V; reconcileCC E cluster u = (r, v)\<rbrakk> \<Longrightarrow> ccRun V s v"

lemma ccRun_steps:
  assumes "semver_laws V" and "ccRun V s t"
  shows "ccStep\<^sup>*\<^sup>* (phaseOf s) (phaseOf t)"
  using assms(2)
proof induction
  case (again s t u E cluster r v)
  then show ?case using reconcile_phase [of E cluster u r v] assms(1) by (metis rtranclp.rtrancl_into_rtrancl)
qed simp

lemma ccSteps_from:
  assumes "ccStep\<^sup>*\<^sup>* p q"
  shows "p = UnknownPhase \<Longrightarrow> q = UnknownPhase"
    and "p \<notin> {NoPhase, DeletingPhase} \<Longrightarrow> q \<notin> {NoPhase, DeletingPhase}"
    and "p \<notin> {PendingPhase} \<Longrightarrow> q \<noteq> PendingPhase"
  using assms by (induction) (auto simp: ccStep_simps)

lemma wp_updateIgnoreNotFound:
  assumes "\<And>e w'. Q (Err e) (s\<lparr>world := w', reqs := reqs s @ [RUpdate kind (meta x)]\<rparr>)"
    and "\<And>y w'. Q (Ok y) (s\<lparr>world := w', reqs := reqs s @ [RUpdate kind (meta x)]\<rparr>)"
  shows "wp (updateIgnoreNotFound kind meta c x) Q s"
  unfolding updateIgnoreNotFound_def apiK_defs wp_steps
  by (rule wp_callP_any) (use assms in \<open>auto simp: wp_steps\<close>)

definition isCCUpdate :: "request \<Rightarrow> bool" where
  "isCCUpdate q = (\<exists>m. q = RUpdate ''CustomCluster'' m)"

text \<open>A config map was looked for and not found, or its finalizer was removed and it was deleted.\<close>

definition deletedTrace :: "objkey \<Rightarrow> request list \<Rightarrow> bool" where
  "deletedTrace k qs \<longleftrightarrow> qs = [RGet ''ConfigMap'' k] \<or>
     (\<exists>m m'. qs = [RGet ''ConfigMap'' k, RUpdate ''ConfigMap'' m, RDelete ''ConfigMap'' m'])"

lemma ensureConfigMapDeleted_trace:
  "wp (ensureConfigMapDeleted E k) (\<lambda>r s'. r = Ok () \<longrightarrow> (\<exists>qs. reqs s' = reqs s @ qs \<and> deletedTrace k qs)) s"
  unfolding ensureConfigMapDeleted_def apiK_defs Let_def wp_steps deletedTrace_def
  by (intro wp_any; simp add: wp_steps; (intro wp_any conjI impI; simp add: wp_steps; (intro wp_any conjI impI; simp add: wp_steps)?)?)

text \<open>The CustomCluster is neither updated on the server nor are its metadata changed in memory.\<close>

definition ccQuiet :: "'w ccstate \<Rightarrow> 'w ccstate \<Rightarrow> bool" where
  "ccQuiet s s' \<longleftrightarrow> cc_meta (s_cc s') = cc_meta (s_cc s) \<and> sends (\<lambda>q. \<not> isCCUpdate q) s s'"

interpretation quiet: client_frame ccQuiet "\<lambda>q. \<not> isCCUpdate q"
proof unfold_locales
qed (auto simp: ccQuiet_def sends_def)

lemma workers_quiet [pres_rules]:
  "pres ccQuiet (ensureWorkerPodCreated E a c h g v)"
  "pres ccQuiet (deleteWorkerPods E)"
  "pres ccQuiet (ensureConfigMapDeleted E k)"
  "pres ccQuiet (setPhase p)"
  "pres ccQuiet (markFalseP E t rs msg en)"
  unfolding deleteWorkerPods_def ensureWorkerPodDeleted_def ensureWorkerPodCreated_def findManageWorkerPod_def
    createWorkerPod_def generateClusterManageWorker_def ensureConfigMapDeleted_def apiK_defs setPhase_def markFalseP_def setConditions_def
  by (intro pres_rules; simp add: isCCUpdate_def ccQuiet_def sends_def)+

lemma ensureConfigMapDeleted_spec:
  "wp (ensureConfigMapDeleted E k) (\<lambda>r s'. sameMem s s' \<and>
     (\<exists>qs. reqs s' = reqs s @ qs \<and> list_all (\<lambda>q. \<not> isCCUpdate q) qs \<and> (r = Ok () \<longrightarrow> deletedTrace k qs))) s"
proof (rule wpI)
  fix r s'
  assume run: "ensureConfigMapDeleted E k s = (r, s')"
  have "sameMem s s'" using presD [OF configmaps_mem(4) run] .
  moreover obtain qs where qs: "reqs s' = reqs s @ qs" "list_all (\<lambda>q. \<not> isCCUpdate q) qs"
    using presD [OF workers_quiet(3) run] by (auto simp: ccQuiet_def sends_def)
  moreover have "r = Ok () \<longrightarrow> deletedTrace k qs"
    using wpD [OF ensureConfigMapDeleted_trace run] qs(1) by auto
  ultimately show "sameMem s s' \<and>
     (\<exists>qs. reqs s' = reqs s @ qs \<and> list_all (\<lambda>q. \<not> isCCUpdate q) qs \<and> (r = Ok () \<longrightarrow> deletedTrace k qs))" by blast
qed

text \<open>The requests of a deletion that reaches the CustomCluster, in order.\<close>

definition orderlyDeletion :: "'w ccenv \<Rightarrow> CustomCluster \<Rightarrow> request list \<Rightarrow> bool" where
  "orderlyDeletion E cc qs \<longleftrightarrow> (\<exists>qh qc m1 m2. qs = qh @ qc @
     [RUpdate ''CustomMachine'' m1, RUpdate ''KubeadmControlPlane'' m2, RUpdate ''CustomCluster'' (dropFinalizer E (cc_meta cc))] \<and>
     deletedTrace (generateClusterHostsKey cc) qh \<and> deletedTrace (generateClusterConfigKey cc) qc)"

lemma deleteResource_trace:
  "wp (deleteResource E) (\<lambda>r s'. \<exists>qs. reqs s' = reqs s @ qs \<and>
     (r \<noteq> Ok () \<and> s_cc s' = s_cc s \<and> list_all (\<lambda>q. \<not> isCCUpdate q) qs \<or> orderlyDeletion E (s_cc s) qs)) s"
  unfolding deleteResource_def wp_steps
  apply (simp only: outcome.case wp_steps)
  apply (rule wp_mono [OF ensureConfigMapDeleted_spec])
  apply (case_tac r; clarsimp simp: sameMem_def wp_steps)
  apply (rule wp_mono [OF ensureConfigMapDeleted_spec])
  apply (case_tac r; clarsimp simp: sameMem_def wp_steps)
  apply (rule wp_updateIgnoreNotFound; clarsimp simp: wp_steps isCCUpdate_def)
  apply (rule wp_updateIgnoreNotFound; clarsimp simp: wp_steps isCCUpdate_def)
  apply (rule wp_updateIgnoreNotFound; clarsimp simp: wp_steps isCCUpdate_def orderlyDeletion_def)
  apply blast+
  done

lemma terminateWorkerError_quiet:
  "pres ccQuiet (terminateWorkerError E e)" "\<exists>t. terminateWorkerError E e s = (Err e, t)"
  unfolding terminateWorkerError_def
  by (intro pres_rules)
    (simp add: seqP_def bindP_def failP_def markFalseP_def getP_def setConditions_def modifyP_def)

lemma terminateWorkerDone_quiet:
  "pod_phase pod \<noteq> PodSucceeded \<Longrightarrow> pres ccQuiet (terminateWorkerDone E pod)"
  unfolding terminateWorkerDone_def by (intro pres_rules) auto

lemma terminateWorkerDone_spec:
  assumes "terminateWorkerDone E pod s = (r, s')" and "\<not> ccQuiet s s'"
  shows "pod_phase pod = PodSucceeded \<and> (\<exists>qs. reqs s' = reqs s @ qs \<and> orderlyDeletion E (s_cc s) qs)"
proof -
  have ok: "pod_phase pod = PodSucceeded"
    using assms presD [OF terminateWorkerDone_quiet] by blast
  obtain r' where "deleteResource E s = (r', s')"
    using assms(1) ok by (cases "deleteResource E s")
      (auto simp: terminateWorkerDone_def seqP_def bindP_def retP_def split: outcome.splits)
  from wpD [OF deleteResource_trace this] show ?thesis
    using ok assms(2) by (auto simp: ccQuiet_def sends_def)
qed

lemma deletion_guard:
  assumes run: "reconcileDelete E s = (r, s')"
    and touched: "cc_meta (s_cc s') \<noteq> cc_meta (s_cc s) \<or> (\<exists>q \<in> set (drop (length (reqs s)) (reqs s')). isCCUpdate q)"
  shows "\<exists>s1 pod s2 qs. deleteWorkerPods E s = (Ok (), s1) \<and>
    ensureWorkerPodCreated E CustomClusterTerminateAction KubesprayTerminateCMD (generateClusterHostsName (s_cc s))
      (generateClusterConfigName (s_cc s)) (kcp_version (s_kcp s)) s1 = (Ok pod, s2) \<and>
    pod_phase pod = PodSucceeded \<and> reqs s' = reqs s2 @ qs \<and> orderlyDeletion E (s_cc s) qs"
proof -
  let ?create = "ensureWorkerPodCreated E CustomClusterTerminateAction KubesprayTerminateCMD (generateClusterHostsName (s_cc s))
      (generateClusterConfigName (s_cc s)) (kcp_version (s_kcp s))"
  obtain r1 s1 where 1: "deleteWorkerPods E s = (r1, s1)" by (cases "deleteWorkerPods E s")
  obtain r2 s2 where 2: "?create s1 = (r2, s2)" by (cases "?create s1")
  have mem: "s_cc s1 = s_cc s" "s_kcp s1 = s_kcp s" "s_cc s2 = s_cc s"
    using presD [OF workers_mem(4) 1] presD [OF workers_mem(3) 2] by (auto simp: sameMem_def)
  have quiet1: "ccQuiet s s1" using presD [OF workers_quiet(2) 1] .
  have quiet2: "ccQuiet s s2" using quiet.R_trans [OF quiet1 presD [OF workers_quiet(1) 2]] .
  have loud: "\<not> ccQuiet s s'" using touched by (auto simp: ccQuiet_def sends_def list_all_iff)
  have "r1 \<noteq> Ok () \<Longrightarrow> s' = s1"
    using run 1 by (cases r1) (auto simp: reconcileDelete_def seqP_def bindP_def)
  with loud quiet1 have r1: "r1 = Ok ()" by blast
  have eq: "reconcileDelete E s = bindP (onErr ?create (terminateWorkerError E)) (terminateWorkerDone E) s1"
    using 1 r1 mem by (simp add: reconcileDelete_def seqP_def bindP_def getP_def)
  show ?thesis
  proof (cases r2)
    case (Ok pod)
    then have "terminateWorkerDone E pod s2 = (r, s')" using run 2 unfolding eq by (simp add: bindP_def onErr_def)
    moreover have "\<not> ccQuiet s2 s'" using loud quiet.R_trans [OF quiet2] by blast
    ultimately show ?thesis using terminateWorkerDone_spec 1 2 r1 Ok mem(3) by metis
  next
    case (Err e)
    obtain t where t: "terminateWorkerError E e s2 = (Err e, t)" using terminateWorkerError_quiet(2) by blast
    then have "s' = t" using run 2 Err unfolding eq by (simp add: bindP_def onErr_def)
    then show ?thesis using loud quiet.R_trans [OF quiet2 presD [OF terminateWorkerError_quiet(1) t]] by blast
  next
    case Panic
    then have "s' = s2" using run 2 unfolding eq by (simp add: bindP_def onErr_def)
    then show ?thesis using loud quiet2 by blast
  qed
qed

end
