(* ===== verification/CustomClusterProgress.thy ===== *)
theory CustomClusterProgress
  imports CustomClusterPhases
begin

text \<open>
  What one reconciliation of a provisioned CustomCluster achieves against a server that keeps its
  documented promises: scaling up, scaling down and upgrading complete when their worker has
  succeeded, and a cluster whose record agrees with its specification is left alone.
\<close>

section \<open>Handlers on a server that keeps its promises\<close>

definition labelled :: "string \<Rightarrow> Pod set \<Rightarrow> Pod set" where
  "labelled a ps = {p \<in> ps. labelsMatch [(ManageActionLabel, a)] (pod_meta p)}"

definition ownedBy :: "string \<Rightarrow> Pod \<Rightarrow> bool" where
  "ownedBy uid p \<longleftrightarrow> m_ownerRefs (pod_meta p) \<noteq> [] \<and> or_uid (hd (m_ownerRefs (pod_meta p))) = uid"

text \<open>The config maps \<open>cms\<close> and the pods \<open>pods\<close> of a server; neither kind affects the other.\<close>

definition ccServer :: "'w ccenv \<Rightarrow> ('w \<Rightarrow> objkey \<rightharpoonup> ConfigMap) \<Rightarrow> ('w \<Rightarrow> Pod set) \<Rightarrow> bool" where
  "ccServer E cms pods \<longleftrightarrow>
     serves cm_meta (e_cm E) cms (\<lambda>w w'. pods w' = pods w) \<and>
     (\<forall>a w. \<exists>ps. api_list (e_pod E) [] [(ManageActionLabel, a)] w = (Inr ps, w) \<and> set ps = labelled a (pods w)) \<and>
     (\<forall>p w. p \<in> pods w \<and> (\<forall>q \<in> pods w. m_finalizers (pod_meta q) = []) \<longrightarrow>
        (\<exists>w'. api_delete (e_pod E) p w = (Inr (), w') \<and> cms w' = cms w \<and>
        pods w' = {q \<in> pods w. keyOf (pod_meta q) \<noteq> keyOf (pod_meta p)}))"

text \<open>
  \<open>pod\<close> is the cluster's only worker for the action; every worker has an owner, no pod has
  a finalizer.
\<close>

definition soleWorker :: "Pod set \<Rightarrow> string \<Rightarrow> string \<Rightarrow> Pod \<Rightarrow> bool" where
  "soleWorker ps uid a pod \<longleftrightarrow> {p \<in> labelled a ps. ownedBy uid p} = {pod} \<and>
     (\<forall>p \<in> labelled a ps. m_ownerRefs (pod_meta p) \<noteq> []) \<and> (\<forall>p \<in> ps. m_finalizers (pod_meta p) = [])"

lemma firstOwnedPod_sole:
  assumes "\<forall>p \<in> set ps. m_ownerRefs (pod_meta p) \<noteq> []" and "{p \<in> set ps. ownedBy uid p} = {pod}"
  shows "firstOwnedPod uid ps = Some (Some pod)"
  using assms
proof (induction ps)
  case (Cons p ps)
  then obtain ow ows where "m_ownerRefs (pod_meta p) = ow # ows" by (cases "m_ownerRefs (pod_meta p)") auto
  moreover have "\<not> ownedBy uid p \<Longrightarrow> {q \<in> set (p # ps). ownedBy uid q} = {q \<in> set ps. ownedBy uid q}" by auto
  ultimately show ?case
    using Cons by (cases "or_uid ow = uid") (auto simp: ownedBy_def)
qed simp

lemma ccServerD:
  assumes "ccServer E cms pods"
  shows "serves cm_meta (e_cm E) cms (\<lambda>w w'. pods w' = pods w)"
    and "\<exists>ps. api_list (e_pod E) [] [(ManageActionLabel, a)] w = (Inr ps, w) \<and> set ps = labelled a (pods w)"
    and "\<lbrakk>p \<in> pods w; \<forall>q \<in> pods w. m_finalizers (pod_meta q) = []\<rbrakk> \<Longrightarrow> \<exists>w'. api_delete (e_pod E) p w = (Inr (), w') \<and> cms w' = cms w \<and>
        pods w' = {q \<in> pods w. keyOf (pod_meta q) \<noteq> keyOf (pod_meta p)}"
  using assms [unfolded ccServer_def, THEN conjunct1]
    assms [unfolded ccServer_def, THEN conjunct2, THEN conjunct1, rule_format, of a w]
    assms [unfolded ccServer_def, THEN conjunct2, THEN conjunct2, rule_format, of p w]
  by (assumption | blast)+

lemma findWorker_runs:
  assumes "ccServer E cms pods" and "soleWorker (pods (world s)) (m_uid (cc_meta (s_cc s))) a pod"
  shows "wp (findManageWorkerPod E a) (\<lambda>r s'. r = Ok (Some pod) \<and> sameMem s s' \<and> world s' = world s) s"
proof -
  obtain ps where ps: "api_list (e_pod E) [] [(ManageActionLabel, a)] (world s) = (Inr ps, world s)"
    "set ps = labelled a (pods (world s))"
    using ccServerD(2) [OF assms(1)] by blast
  have "firstOwnedPod (m_uid (cc_meta (s_cc s))) ps = Some (Some pod)"
    using assms(2) ps(2) by (intro firstOwnedPod_sole) (auto simp: soleWorker_def)
  then show ?thesis
    by (simp add: findManageWorkerPod_def apiK_defs wp_simps ps(1) sameMem_def)
qed

lemma ensureWorkerPodCreated_found:
  assumes "ccServer E cms pods" and "soleWorker (pods (world s)) (m_uid (cc_meta (s_cc s))) a pod"
  shows "wp (ensureWorkerPodCreated E a c h g v) (\<lambda>r s'. r = Ok pod \<and> sameMem s s' \<and> world s' = world s) s"
  unfolding ensureWorkerPodCreated_def wp_steps
  by (rule wp_mono [OF findWorker_runs [OF assms]]) (auto simp: wp_steps)

lemma ensureWorkerPodDeleted_runs:
  assumes "ccServer E cms pods" and sole: "soleWorker (pods (world s)) (m_uid (cc_meta (s_cc s))) a pod"
  shows "wp (ensureWorkerPodDeleted E a) (\<lambda>r s'. r = Ok () \<and> sameMem s s' \<and> cms (world s') = cms (world s) \<and>
    pods (world s') = {q \<in> pods (world s). keyOf (pod_meta q) \<noteq> keyOf (pod_meta pod)}) s"
proof -
  have "pod \<in> pods (world s)" "\<forall>q \<in> pods (world s). m_finalizers (pod_meta q) = []"
    using sole by (auto simp: soleWorker_def labelled_def)
  then obtain w' where "api_delete (e_pod E) pod (world s) = (Inr (), w')" "cms w' = cms (world s)"
    "pods w' = {q \<in> pods (world s). keyOf (pod_meta q) \<noteq> keyOf (pod_meta pod)}"
    using ccServerD(3) [OF assms(1)] by blast
  then show ?thesis
    unfolding ensureWorkerPodDeleted_def wp_steps
    by (intro wp_mono [OF findWorker_runs [OF assms]])
      (auto simp: wp_simps deleteK_def sameMem_def)
qed

lemma getCM_runs:
  assumes "ccServer E cms pods"
  shows "wp (getK ''ConfigMap'' (e_cm E) k) Q s =
    Q (case cms (world s) k of None \<Rightarrow> Err (EApi NotFound) | Some x \<Rightarrow> Ok x)
      (s\<lparr>reqs := reqs s @ [RGet ''ConfigMap'' k]\<rparr>)"
proof -
  have "api_get (e_cm E) k (world s) = (case cms (world s) k of None \<Rightarrow> Inl NotFound | Some x \<Rightarrow> Inr x, world s)"
    using servesD(1) [OF ccServerD(1) [OF assms]] .
  then show ?thesis by (simp add: getK_def wp_simps split: option.splits)
qed

lemma updateCM_runs:
  assumes "ccServer E cms pods" and "cms (world s) (keyOf (cm_meta x)) \<noteq> None"
    and "\<And>w'. \<lbrakk>cms w' = (cms (world s))(keyOf (cm_meta x) \<mapsto> x); pods w' = pods (world s)\<rbrakk> \<Longrightarrow>
      Q (Ok x) (s\<lparr>world := w', reqs := reqs s @ [RUpdate ''ConfigMap'' (cm_meta x)]\<rparr>)"
  shows "wp (updateK ''ConfigMap'' cm_meta (e_cm E) x) Q s"
proof -
  obtain w' where "api_update (e_cm E) x (world s) = (Inr x, w')"
    "cms w' = (cms (world s))(keyOf (cm_meta x) \<mapsto> x)" "pods w' = pods (world s)"
    using servesD(3) [OF ccServerD(1) [OF assms(1)]] assms(2) by blast
  then show ?thesis using assms(3) by (simp add: updateK_def wp_simps)
qed

lemma deleteCM_runs:
  assumes "ccServer E cms pods" and "cms (world s) (keyOf (cm_meta x)) = Some y" and "m_finalizers (cm_meta y) = []"
    and "\<And>w'. \<lbrakk>cms w' = (cms (world s))(keyOf (cm_meta x) := None); pods w' = pods (world s)\<rbrakk> \<Longrightarrow>
      Q (Ok ()) (s\<lparr>world := w', reqs := reqs s @ [RDelete ''ConfigMap'' (cm_meta x)]\<rparr>)"
  shows "wp (deleteK ''ConfigMap'' cm_meta (e_cm E) x) Q s"
proof -
  obtain w' where "api_delete (e_cm E) x (world s) = (Inr (), w')"
    "cms w' = (cms (world s))(keyOf (cm_meta x) := None)" "pods w' = pods (world s)"
    using servesD(4) [OF ccServerD(1) [OF assms(1)] assms(2,3)] by blast
  then show ?thesis using assms(4) by (simp add: deleteK_def wp_simps)
qed

lemma createCM_runs:
  assumes "ccServer E cms pods" and "cms (world s) (keyOf (cm_meta x)) = None"
    and "\<And>w'. \<lbrakk>cms w' = (cms (world s))(keyOf (cm_meta x) \<mapsto> x); pods w' = pods (world s)\<rbrakk> \<Longrightarrow>
      Q (Ok x) (s\<lparr>world := w', reqs := reqs s @ [RCreate ''ConfigMap'' (cm_meta x)]\<rparr>)"
  shows "wp (createK ''ConfigMap'' cm_meta (e_cm E) x) Q s"
proof -
  obtain w' where "api_create (e_cm E) x (world s) = (Inr x, w')"
    "cms w' = (cms (world s))(keyOf (cm_meta x) \<mapsto> x)" "pods w' = pods (world s)"
    using servesD(5) [OF ccServerD(1) [OF assms(1)] assms(2)] by blast
  then show ?thesis using assms(3) by (simp add: createK_def wp_simps)
qed

lemma ensureConfigMapDeleted_runs:
  assumes "ccServer E cms pods" and "capilib_laws (e_lib E)"
    and "cms (world s) k = Some cm" and "keyOf (cm_meta cm) = k"
    and "set (m_finalizers (cm_meta cm)) \<subseteq> {CustomClusterConfigMapFinalizer}"
  shows "wp (ensureConfigMapDeleted E k) (\<lambda>r s'. r = Ok () \<and> sameMem s s' \<and>
    cms (world s') = (cms (world s))(k := None) \<and> pods (world s') = pods (world s)) s"
proof -
  let ?cm = "cm\<lparr>cm_meta := cm_meta cm\<lparr>m_finalizers :=
     removeFinalizer (e_lib E) (m_finalizers (cm_meta cm)) CustomClusterConfigMapFinalizer\<rparr>\<rparr>"
  have "set (removeFinalizer (e_lib E) (m_finalizers (cm_meta cm)) CustomClusterConfigMapFinalizer) = {}"
    using assms(2,5) by (auto simp: capilib_laws_def)
  then have fin: "m_finalizers (cm_meta ?cm) = []" by simp
  have key: "keyOf (cm_meta ?cm) = k" using assms(4) by (simp add: keyOf_def)
  show ?thesis
    unfolding ensureConfigMapDeleted_def wp_steps getCM_runs [OF assms(1)]
    using assms(3) fin key
    by (auto simp: wp_steps Let_def sameMem_def intro!: updateCM_runs [OF assms(1)] deleteCM_runs [OF assms(1), where y = ?cm])
qed

lemma updateClusterNodes_runs:
  assumes "ccServer E cms pods" and "cms (world s) (generateClusterHostsKey (s_cc s)) = Some cm"
    and "keyOf (cm_meta cm) = generateClusterHostsKey (s_cc s)" and "cm_data cm = Some d"
    and "getScaleUpConfigMapData (mapAt (Some d) ClusterHostsName) ns = Some t"
  shows "wp (updateClusterNodes E ns) (\<lambda>r s'. r = Ok () \<and> sameMem s s' \<and> pods (world s') = pods (world s) \<and>
    cms (world s') = (cms (world s))(generateClusterHostsKey (s_cc s) \<mapsto> cm\<lparr>cm_data := Some (d(ClusterHostsName \<mapsto> t))\<rparr>)) s"
  unfolding updateClusterNodes_def wp_steps getCM_runs [OF assms(1)]
  using assms(2-5)
  by (auto simp: wp_steps wp_derefP sameMem_def intro!: updateCM_runs [OF assms(1)])

lemma hosts_key_neq: "generateClusterHostsKey cc \<noteq> generateScaleUpHostsKey cc"
  by (simp add: generateClusterHostsKey_def generateScaleUpHostsKey_def generateClusterHostsName_def generateScaleUpHostsName_def)

definition hostsHold :: "(objkey \<rightharpoonup> ConfigMap) \<Rightarrow> objkey \<Rightarrow> NodeInfo list \<Rightarrow> NodeInfo list \<Rightarrow> bool" where
  "hostsHold m k ms ws \<longleftrightarrow> (\<exists>cm d t. m k = Some cm \<and> keyOf (cm_meta cm) = k \<and> cm_data cm = Some d \<and>
     d ClusterHostsName = Some t \<and> holdsInventory t ms ws)"

lemma wp_setPhase [wp_simps]:
  "wp (setPhase p) Q s = Q (Ok ()) (s\<lparr>s_cc := s_cc s\<lparr>cc_status := cc_status (s_cc s)\<lparr>CCPhase := p\<rparr>\<rparr>\<rparr>)"
  by (simp add: setPhase_def wp_modifyP)

lemma markTrue_runs:
  "wp (markTrueP E t) (\<lambda>r s'. r = Ok () \<and> world s' = world s \<and> phaseOf s' = phaseOf s \<and> cc_meta (s_cc s') = cc_meta (s_cc s)) s"
  by (simp add: markTrueP_def setConditions_def wp_modifyP phaseOf_def)

lemma keys_status [simp]:
  "generateClusterHostsKey (c\<lparr>cc_status := st\<rparr>) = generateClusterHostsKey c"
  "generateScaleUpHostsKey (c\<lparr>cc_status := st\<rparr>) = generateScaleUpHostsKey c"
  "generateClusterConfigKey (c\<lparr>cc_status := st\<rparr>) = generateClusterConfigKey c"
  "generateClusterHostsName (c\<lparr>cc_status := st\<rparr>) = generateClusterHostsName c"
  by (simp_all add: generateClusterHostsKey_def generateScaleUpHostsKey_def generateClusterHostsName_def
      generateScaleUpHostsName_def generateClusterConfigKey_def generateClusterConfigName_def)

lemma scaleUp_success:
  assumes S: "ccServer E cms pods" and L: "capilib_laws (e_lib E)"
    and sole: "soleWorker (pods (world s)) (m_uid (cc_meta (s_cc s))) CustomClusterScaleUpAction pod"
    and ok: "pod_phase pod = PodSucceeded"
    and cm: "cms (world s) (generateClusterHostsKey (s_cc s)) = Some cm"
      "keyOf (cm_meta cm) = generateClusterHostsKey (s_cc s)" "cm_data cm = Some d"
      "getScaleUpConfigMapData (mapAt (Some d) ClusterHostsName) ns = Some t"
    and tmp: "cms (world s) (generateScaleUpHostsKey (s_cc s)) = Some tmp"
      "keyOf (cm_meta tmp) = generateScaleUpHostsKey (s_cc s)"
      "set (m_finalizers (cm_meta tmp)) \<subseteq> {CustomClusterConfigMapFinalizer}"
  shows "wp (reconcileScaleUp E ns) (\<lambda>r s'. r = Ok noRequeue \<and> phaseOf s' = ProvisionedPhase \<and>
    cms (world s') = (cms (world s))(generateClusterHostsKey (s_cc s) \<mapsto> cm\<lparr>cm_data := Some (d(ClusterHostsName \<mapsto> t))\<rparr>,
      generateScaleUpHostsKey (s_cc s) := None) \<and>
    pods (world s') = {q \<in> pods (world s). keyOf (pod_meta q) \<noteq> keyOf (pod_meta pod)}) s"
  unfolding reconcileScaleUp_def ensureScaleUpHostsCreated_def wp_steps getCM_runs [OF S]
  apply (simp add: tmp(1) wp_steps)
  apply (rule wp_mono [OF ensureWorkerPodCreated_found [OF S, where pod = pod]])
   apply (simp add: sole)
  apply (clarsimp simp: ok wp_steps wp_setPhase sameMem_def)
  apply (rule wp_mono [OF updateClusterNodes_runs [OF S _ _ cm(3,4)]])
    apply (simp add: cm)
   apply (simp add: cm)
  apply (clarsimp simp: wp_steps wp_setPhase sameMem_def)
  apply (rule wp_mono [OF ensureConfigMapDeleted_runs [OF S L, where cm = tmp]])
     apply (simp_all add: tmp hosts_key_neq hosts_key_neq [symmetric])
  apply (clarsimp simp: wp_steps sameMem_def)
  apply (rule wp_mono [OF ensureWorkerPodDeleted_runs [OF S, where pod = pod]])
   apply (simp add: sole)
  apply (clarsimp simp: wp_steps sameMem_def)
  apply (rule wp_mono [OF markTrue_runs])
  apply (clarsimp simp: phaseOf_def wp_retP)
  done


lemma clusterChanges_runs:
  assumes S: "ccServer E cms pods" and "hasProvisionClusterInfo p"
    and "hostsHold (cms (world s)) (generateClusterHostsKey (s_cc s)) ms ws"
    and "cms (world s) (generateClusterConfigKey (s_cc s)) = Some conf"
  shows "wp (clusterChanges E p d) (\<lambda>r s'. r = Ok (findScaleUpWorkerNodes ws (WorkerNodes d),
      findScaleDownWorkerNodes ws (WorkerNodes d), getKubeVersionFromCM conf) \<and> sameMem s s' \<and> world s' = world s \<and>
      reqs s' = reqs s @ [RGet ''ConfigMap'' (generateClusterHostsKey (s_cc s)), RGet ''ConfigMap'' (generateClusterConfigKey (s_cc s))]) s"
proof -
  obtain cm d' t where cm: "cms (world s) (generateClusterHostsKey (s_cc s)) = Some cm" "cm_data cm = Some d'"
    "d' ClusterHostsName = Some t" "holdsInventory t ms ws"
    using assms(3) by (auto simp: hostsHold_def)
  have "getWorkerNodeInfoFromClusterHosts cm = Some ws"
    using cm parse_holds [OF cm(4)] by (simp add: getWorkerNodeInfoFromClusterHosts_def mapAt_def)
  then show ?thesis
    using assms(2,4) cm(1)
    by (simp add: clusterChanges_def getProvisionedClusterInfo_def wp_steps getCM_runs [OF S] wp_derefP sameMem_def)
qed

lemma reconcile_after_changes:
  assumes S: "ccServer E cms pods" and info: "hasProvisionClusterInfo (phaseOf s)"
    and "hostsHold (cms (world s)) (generateClusterHostsKey (s_cc s)) ms ws"
    and "cms (world s) (generateClusterConfigKey (s_cc s)) = Some conf"
    and next_: "\<And>s'. \<lbrakk>sameMem s s'; world s' = world s;
        reqs s' = reqs s @ [RGet ''ConfigMap'' (generateClusterHostsKey (s_cc s)), RGet ''ConfigMap'' (generateClusterConfigKey (s_cc s))]\<rbrakk> \<Longrightarrow>
      wp (handleChanges E (kcp_version (s_kcp s))
        (findScaleUpWorkerNodes ws (getWorkerNodesFromCustomMachine (s_machine s)),
         findScaleDownWorkerNodes ws (getWorkerNodesFromCustomMachine (s_machine s)), getKubeVersionFromCM conf)) Q s'"
  shows "wp (reconcileCC E cluster) Q s"
proof -
  have "wp (reconcileCC E cluster) Q s =
    wp (bindP (clusterChanges E (phaseOf s) (getDesiredClusterInfo (s_machine s) (s_kcp s)))
      (handleChanges E (kcp_version (s_kcp s)))) Q s"
    using reconcile_info [OF info] by (simp add: wp_def)
  also have "\<dots>"
    unfolding wp_steps
    by (rule wp_mono [OF clusterChanges_runs [OF S info assms(3,4)]])
      (auto simp: getDesiredClusterInfo_def intro!: next_)
  finally show ?thesis by simp
qed

lemma converged_stable:
  assumes "ccServer E cms pods" and "hasProvisionClusterInfo (phaseOf s)"
    and "hostsHold (cms (world s)) (generateClusterHostsKey (s_cc s)) ms ws"
    and "cms (world s) (generateClusterConfigKey (s_cc s)) = Some conf"
    and "NodeName ` set ws = NodeName ` set (getWorkerNodesFromCustomMachine (s_machine s))"
    and "getKubeVersionFromCM conf = kcp_version (s_kcp s)"
  shows "wp (reconcileCC E cluster) (\<lambda>r s'. r = Ok noRequeue \<and> sameMem s s' \<and> world s' = world s \<and>
    reqs s' = reqs s @ [RGet ''ConfigMap'' (generateClusterHostsKey (s_cc s)), RGet ''ConfigMap'' (generateClusterConfigKey (s_cc s))]) s"
proof (rule reconcile_after_changes [OF assms(1-4)])
  let ?want = "getWorkerNodesFromCustomMachine (s_machine s)"
  have "findScaleUpWorkerNodes ws ?want = []" "findScaleDownWorkerNodes ws ?want = []"
    using assms(5) by (auto simp: findScaleUpWorkerNodes_def findScaleDownWorkerNodes_def
        findAdditionalWorkerNodes_filter filter_empty_conv)
  then show "wp (handleChanges E (kcp_version (s_kcp s)) (findScaleUpWorkerNodes ws ?want,
      findScaleDownWorkerNodes ws ?want, getKubeVersionFromCM conf))
     (\<lambda>r s'. r = Ok noRequeue \<and> sameMem s s' \<and> world s' = world s \<and>
       reqs s' = reqs s @ [RGet ''ConfigMap'' (generateClusterHostsKey (s_cc s)), RGet ''ConfigMap'' (generateClusterConfigKey (s_cc s))]) s'"
    if "sameMem s s'" "world s' = world s"
      "reqs s' = reqs s @ [RGet ''ConfigMap'' (generateClusterHostsKey (s_cc s)), RGet ''ConfigMap'' (generateClusterConfigKey (s_cc s))]" for s'
    using assms(6) that by (simp add: handleChanges_def wp_retP)
qed

lemma scale_up_reconciles:
  assumes S: "ccServer E cms pods" and L: "capilib_laws (e_lib E)" and info: "hasProvisionClusterInfo (phaseOf s)"
    and hosts: "hostsHold (cms (world s)) (generateClusterHostsKey (s_cc s)) ms ws"
    and conf: "cms (world s) (generateClusterConfigKey (s_cc s)) = Some conf"
    and good: "goodInventory ms want" and want: "want = getWorkerNodesFromCustomMachine (s_machine s)"
    and up: "findScaleUpWorkerNodes ws want \<noteq> []"
    and sole: "soleWorker (pods (world s)) (m_uid (cc_meta (s_cc s))) CustomClusterScaleUpAction pod"
    and ok: "pod_phase pod = PodSucceeded"
    and tmp: "cms (world s) (generateScaleUpHostsKey (s_cc s)) = Some tmp"
      "keyOf (cm_meta tmp) = generateScaleUpHostsKey (s_cc s)"
      "set (m_finalizers (cm_meta tmp)) \<subseteq> {CustomClusterConfigMapFinalizer}"
  shows "wp (reconcileCC E cluster) (\<lambda>r s'. r = Ok noRequeue \<and> phaseOf s' = ProvisionedPhase \<and>
    (\<exists>ws'. hostsHold (cms (world s')) (generateClusterHostsKey (s_cc s)) ms ws' \<and>
      findScaleUpWorkerNodes ws' want = [] \<and> findScaleDownWorkerNodes ws' want = findScaleDownWorkerNodes ws want) \<and>
    cms (world s') (generateScaleUpHostsKey (s_cc s)) = None \<and> pod \<notin> pods (world s')) s"
proof (rule reconcile_after_changes [OF S info hosts conf])
  fix s1 assume s1: "sameMem s s1" "world s1 = world s"
  obtain cm d t where cm: "cms (world s) (generateClusterHostsKey (s_cc s)) = Some cm"
    "keyOf (cm_meta cm) = generateClusterHostsKey (s_cc s)" "cm_data cm = Some d"
    "d ClusterHostsName = Some t" "holdsInventory t ms ws"
    using hosts by (auto simp: hostsHold_def)
  obtain t' ws' where t': "getScaleUpConfigMapData t (findScaleUpWorkerNodes ws want) = Some t'"
    "holdsInventory t' ms ws'" "findScaleUpWorkerNodes ws' want = []"
    "findScaleDownWorkerNodes ws' want = findScaleDownWorkerNodes ws want"
    using inventory.scale_up_converges [OF cm(5) good] by blast
  have run: "wp (reconcileScaleUp E (findScaleUpWorkerNodes ws want)) (\<lambda>r s'. r = Ok noRequeue \<and> phaseOf s' = ProvisionedPhase \<and>
    cms (world s') = (cms (world s))(generateClusterHostsKey (s_cc s) \<mapsto> cm\<lparr>cm_data := Some (d(ClusterHostsName \<mapsto> t'))\<rparr>,
      generateScaleUpHostsKey (s_cc s) := None) \<and>
    pods (world s') = {q \<in> pods (world s). keyOf (pod_meta q) \<noteq> keyOf (pod_meta pod)}) s1"
  proof -
    have c: "s_cc s1 = s_cc s" using s1(1) by (simp add: sameMem_def)
    have "getScaleUpConfigMapData (mapAt (Some d) ClusterHostsName) (findScaleUpWorkerNodes ws want) = Some t'"
      using t'(1) cm(4) by (simp add: mapAt_def)
    from scaleUp_success [OF S L, of s1, unfolded c s1(2), OF sole ok cm(1-3) this tmp] show ?thesis .
  qed
  have "hostsHold ((cms (world s))(generateClusterHostsKey (s_cc s) \<mapsto> cm\<lparr>cm_data := Some (d(ClusterHostsName \<mapsto> t'))\<rparr>,
      generateScaleUpHostsKey (s_cc s) := None)) (generateClusterHostsKey (s_cc s)) ms ws'"
    unfolding hostsHold_def using cm(2) t'(2) hosts_key_neq [of "s_cc s"] by simp
  with t'(3,4) show "wp (handleChanges E (kcp_version (s_kcp s))
        (findScaleUpWorkerNodes ws (getWorkerNodesFromCustomMachine (s_machine s)),
         findScaleDownWorkerNodes ws (getWorkerNodesFromCustomMachine (s_machine s)), getKubeVersionFromCM conf))
      (\<lambda>r s'. r = Ok noRequeue \<and> phaseOf s' = ProvisionedPhase \<and>
    (\<exists>ws'. hostsHold (cms (world s')) (generateClusterHostsKey (s_cc s)) ms ws' \<and>
      findScaleUpWorkerNodes ws' want = [] \<and> findScaleDownWorkerNodes ws' want = findScaleDownWorkerNodes ws want) \<and>
    cms (world s') (generateScaleUpHostsKey (s_cc s)) = None \<and> pod \<notin> pods (world s')) s1"
    unfolding handleChanges_def want [symmetric] prod.case if_P [OF up]
    by (intro wp_mono [OF run]) auto
qed

definition configHolds :: "(objkey \<rightharpoonup> ConfigMap) \<Rightarrow> objkey \<Rightarrow> string \<Rightarrow> bool" where
  "configHolds m k v \<longleftrightarrow> (\<exists>cm d t. m k = Some cm \<and> keyOf (cm_meta cm) = k \<and> cm_data cm = Some d \<and>
     d ClusterConfigName = Some t \<and> holdsVersion t v)"

lemma configHolds_version:
  assumes "configHolds m k v" and "m k = Some cm"
  shows "getKubeVersionFromCM cm = v"
  using assms read_version by (auto simp: configHolds_def getKubeVersionFromCM_def mapAt_def)

lemma config_key_neq: "generateClusterHostsKey cc \<noteq> generateClusterConfigKey cc"
  by (simp add: generateClusterHostsKey_def generateClusterConfigKey_def generateClusterHostsName_def
      generateClusterConfigName_def ClusterHostsName_def ClusterConfigName_def)

lemma updateKubeVersion_runs:
  assumes S: "ccServer E cms pods" and "configHolds (cms (world s)) (generateClusterConfigKey (s_cc s)) v" and "goodVersion new"
  shows "wp (updateKubeVersion E new) (\<lambda>r s'. r = Ok () \<and> sameMem s s' \<and> pods (world s') = pods (world s) \<and>
    configHolds (cms (world s')) (generateClusterConfigKey (s_cc s)) new \<and>
    (\<forall>k. k \<noteq> generateClusterConfigKey (s_cc s) \<longrightarrow> cms (world s') k = cms (world s) k)) s"
proof -
  obtain cm d t where cm: "cms (world s) (generateClusterConfigKey (s_cc s)) = Some cm"
    "keyOf (cm_meta cm) = generateClusterConfigKey (s_cc s)" "cm_data cm = Some d"
    "d ClusterConfigName = Some t" "holdsVersion t v"
    using assms(2) by (auto simp: configHolds_def)
  have t': "getUpdatedKubeVersionConfigData cm new = updatedVersionText t new"
    using cm by (simp add: getUpdatedKubeVersionConfigData_def mapAt_def)
  have "configHolds ((cms (world s))(generateClusterConfigKey (s_cc s) \<mapsto>
      cm\<lparr>cm_data := Some (d(ClusterConfigName \<mapsto> updatedVersionText t new))\<rparr>)) (generateClusterConfigKey (s_cc s)) new"
    using cm(2) update_version [OF cm(5) assms(3)] by (simp add: configHolds_def)
  then show ?thesis
    unfolding updateKubeVersion_def wp_steps getCM_runs [OF S]
    using cm(1-3) t'
    by (auto simp: wp_steps wp_derefP sameMem_def intro!: updateCM_runs [OF S])
qed

lemma upgrade_success:
  assumes S: "ccServer E cms pods" and "configHolds (cms (world s)) (generateClusterConfigKey (s_cc s)) v" and "goodVersion new"
    and sole: "soleWorker (pods (world s)) (m_uid (cc_meta (s_cc s))) CustomClusterUpgradeAction pod"
    and ok: "pod_phase pod = PodSucceeded"
  shows "wp (reconcileUpgrade E new) (\<lambda>r s'. r = Ok noRequeue \<and> phaseOf s' = ProvisionedPhase \<and>
    configHolds (cms (world s')) (generateClusterConfigKey (s_cc s)) new \<and>
    (\<forall>k. k \<noteq> generateClusterConfigKey (s_cc s) \<longrightarrow> cms (world s') k = cms (world s) k) \<and>
    pods (world s') = {q \<in> pods (world s). keyOf (pod_meta q) \<noteq> keyOf (pod_meta pod)}) s"
  unfolding reconcileUpgrade_def wp_steps outcome.case
  apply (rule wp_mono [OF ensureWorkerPodCreated_found [OF S sole]])
  apply (clarsimp simp: ok wp_steps wp_setPhase sameMem_def)
  apply (rule wp_mono [OF updateKubeVersion_runs [OF S _ assms(3), where v = v]])
   apply (simp add: assms(2))
  apply (clarsimp simp: wp_steps wp_setPhase sameMem_def)
  apply (rule wp_mono [OF ensureWorkerPodDeleted_runs [OF S, where pod = pod]])
   apply (simp add: sole)
  apply (clarsimp simp: wp_steps sameMem_def)
  apply (rule wp_mono [OF markTrue_runs])
  apply (clarsimp simp: phaseOf_def wp_retP)
  done

lemma upgrade_reconciles:
  assumes S: "ccServer E cms pods" and info: "hasProvisionClusterInfo (phaseOf s)"
    and hosts: "hostsHold (cms (world s)) (generateClusterHostsKey (s_cc s)) ms ws"
    and conf: "configHolds (cms (world s)) (generateClusterConfigKey (s_cc s)) v"
    and nodes: "NodeName ` set ws = NodeName ` set (getWorkerNodesFromCustomMachine (s_machine s))"
    and new: "v \<noteq> kcp_version (s_kcp s)" "isKubeadmUpgradeSupported (e_semver E) v (kcp_version (s_kcp s))"
      "goodVersion (kcp_version (s_kcp s))"
    and sole: "soleWorker (pods (world s)) (m_uid (cc_meta (s_cc s))) CustomClusterUpgradeAction pod"
    and ok: "pod_phase pod = PodSucceeded"
  shows "wp (reconcileCC E cluster) (\<lambda>r s'. r = Ok noRequeue \<and> phaseOf s' = ProvisionedPhase \<and>
    configHolds (cms (world s')) (generateClusterConfigKey (s_cc s)) (kcp_version (s_kcp s)) \<and>
    hostsHold (cms (world s')) (generateClusterHostsKey (s_cc s)) ms ws \<and> pod \<notin> pods (world s')) s"
proof -
  obtain cm where cm: "cms (world s) (generateClusterConfigKey (s_cc s)) = Some cm" using conf by (auto simp: configHolds_def)
  let ?want = "getWorkerNodesFromCustomMachine (s_machine s)"
  have none: "findScaleUpWorkerNodes ws ?want = []" "findScaleDownWorkerNodes ws ?want = []"
    using nodes by (auto simp: findScaleUpWorkerNodes_def findScaleDownWorkerNodes_def
        findAdditionalWorkerNodes_filter filter_empty_conv)
  have v: "getKubeVersionFromCM cm = v" using configHolds_version [OF conf cm] .
  show ?thesis
  proof (rule reconcile_after_changes [OF S info hosts cm])
    fix s1 assume s1: "sameMem s s1" "world s1 = world s"
    have c: "s_cc s1 = s_cc s" using s1(1) by (simp add: sameMem_def)
    have run: "wp (reconcileUpgrade E (kcp_version (s_kcp s))) (\<lambda>r s'. r = Ok noRequeue \<and> phaseOf s' = ProvisionedPhase \<and>
        configHolds (cms (world s')) (generateClusterConfigKey (s_cc s)) (kcp_version (s_kcp s)) \<and>
        (\<forall>k. k \<noteq> generateClusterConfigKey (s_cc s) \<longrightarrow> cms (world s') k = cms (world s) k) \<and>
        pods (world s') = {q \<in> pods (world s). keyOf (pod_meta q) \<noteq> keyOf (pod_meta pod)}) s1"
      using upgrade_success [OF S, of s1, unfolded c s1(2), OF conf new(3) sole ok] .
    show "wp (handleChanges E (kcp_version (s_kcp s))
        (findScaleUpWorkerNodes ws ?want, findScaleDownWorkerNodes ws ?want, getKubeVersionFromCM cm))
       (\<lambda>r s'. r = Ok noRequeue \<and> phaseOf s' = ProvisionedPhase \<and>
         configHolds (cms (world s')) (generateClusterConfigKey (s_cc s)) (kcp_version (s_kcp s)) \<and>
         hostsHold (cms (world s')) (generateClusterHostsKey (s_cc s)) ms ws \<and> pod \<notin> pods (world s')) s1"
      unfolding handleChanges_def none v prod.case using new(1,2)
      by (simp, intro wp_mono [OF run]) (use hosts config_key_neq [of "s_cc s"] in \<open>auto simp: hostsHold_def\<close>)
  qed
qed

lemma scaleDown_success:
  assumes S: "ccServer E cms pods" and L: "capilib_laws (e_lib E)"
    and cm: "cms (world s) (generateClusterHostsKey (s_cc s)) = Some cm"
      "keyOf (cm_meta cm) = generateClusterHostsKey (s_cc s)"
      "set (m_finalizers (cm_meta cm)) \<subseteq> {CustomClusterConfigMapFinalizer}"
    and sole: "soleWorker (pods (world s)) (m_uid (cc_meta (s_cc s))) CustomClusterScaleDownAction pod"
    and ok: "pod_phase pod = PodSucceeded"
  shows "wp (reconcileScaleDown E ns) (\<lambda>r s'. r = Ok noRequeue \<and> phaseOf s' = ProvisionedPhase \<and>
    cms (world s') = (cms (world s))(generateClusterHostsKey (s_cc s) \<mapsto>
      templateConfigMap (generateClusterHostsName (s_cc s)) (m_namespace (cc_meta (s_cc s))) ClusterHostsName
        (renderHosts (GetHostsContent (s_machine s)))) \<and>
    pods (world s') = {q \<in> pods (world s). keyOf (pod_meta q) \<noteq> keyOf (pod_meta pod)}) s"
  unfolding reconcileScaleDown_def wp_steps outcome.case
  apply (rule wp_mono [OF ensureWorkerPodCreated_found [OF S sole]])
  apply (clarsimp simp: ok wp_steps wp_setPhase sameMem_def recreateClusterHosts_def)
  apply (rule wp_mono [OF ensureConfigMapDeleted_runs [OF S L, where cm = cm]])
     apply (simp_all add: cm)
  apply (clarsimp simp: wp_steps sameMem_def CreateClusterHosts_def CreateConfigMapWithTemplate_def)
  apply (rule createCM_runs [OF S])
   apply (simp add: templateConfigMap_def keyOf_def newMeta_def generateClusterHostsKey_def)
  apply (clarsimp simp: wp_steps wp_setPhase)
  apply (rule wp_mono [OF ensureWorkerPodDeleted_runs [OF S, where pod = pod]])
   apply (simp add: sole)
  apply (clarsimp simp: wp_steps sameMem_def)
  apply (rule wp_mono [OF markTrue_runs])
  apply (clarsimp simp: phaseOf_def wp_retP)
  apply (simp add: templateConfigMap_def keyOf_def newMeta_def generateClusterHostsKey_def)
  done


lemma scale_down_reconciles:
  assumes S: "ccServer E cms pods" and L: "capilib_laws (e_lib E)" and info: "hasProvisionClusterInfo (phaseOf s)"
    and hosts: "hostsHold (cms (world s)) (generateClusterHostsKey (s_cc s)) ms ws"
    and conf: "cms (world s) (generateClusterConfigKey (s_cc s)) = Some conf"
    and fin: "\<And>cm. cms (world s) (generateClusterHostsKey (s_cc s)) = Some cm \<Longrightarrow>
      set (m_finalizers (cm_meta cm)) \<subseteq> {CustomClusterConfigMapFinalizer}"
    and want: "want = getWorkerNodesFromCustomMachine (s_machine s)"
    and good: "goodInventory (nodesOf (Master (cmach_spec (s_machine s)))) want"
    and none: "findScaleUpWorkerNodes ws want = []" and down: "findScaleDownWorkerNodes ws want \<noteq> []"
    and sole: "soleWorker (pods (world s)) (m_uid (cc_meta (s_cc s))) CustomClusterScaleDownAction pod"
    and ok: "pod_phase pod = PodSucceeded"
  shows "wp (reconcileCC E cluster) (\<lambda>r s'. r = Ok noRequeue \<and> phaseOf s' = ProvisionedPhase \<and>
    hostsHold (cms (world s')) (generateClusterHostsKey (s_cc s)) (nodesOf (Master (cmach_spec (s_machine s)))) want \<and>
    pod \<notin> pods (world s')) s"
proof (rule reconcile_after_changes [OF S info hosts conf])
  fix s1 assume s1: "sameMem s s1" "world s1 = world s"
  have c: "s_cc s1 = s_cc s" "s_machine s1 = s_machine s" using s1(1) by (simp_all add: sameMem_def)
  obtain cm where cm: "cms (world s) (generateClusterHostsKey (s_cc s)) = Some cm"
    "keyOf (cm_meta cm) = generateClusterHostsKey (s_cc s)"
    using hosts by (auto simp: hostsHold_def)
  let ?new = "templateConfigMap (generateClusterHostsName (s_cc s)) (m_namespace (cc_meta (s_cc s))) ClusterHostsName
        (renderHosts (GetHostsContent (s_machine s)))"
  note run = scaleDown_success [OF S L, of s1, unfolded c s1(2), OF cm fin [OF cm(1)] sole ok]
  have "hostsHold ((cms (world s))(generateClusterHostsKey (s_cc s) \<mapsto> ?new)) (generateClusterHostsKey (s_cc s))
      (nodesOf (Master (cmach_spec (s_machine s)))) want"
    using create_holds [of "s_machine s"] good
    by (simp add: hostsHold_def templateConfigMap_def keyOf_def newMeta_def generateClusterHostsKey_def
        want getWorkerNodesFromCustomMachine_def getWorkerNodesFromMachines_map)
  then show "wp (handleChanges E (kcp_version (s_kcp s))
        (findScaleUpWorkerNodes ws (getWorkerNodesFromCustomMachine (s_machine s)),
         findScaleDownWorkerNodes ws (getWorkerNodesFromCustomMachine (s_machine s)), getKubeVersionFromCM conf))
      (\<lambda>r s'. r = Ok noRequeue \<and> phaseOf s' = ProvisionedPhase \<and>
        hostsHold (cms (world s')) (generateClusterHostsKey (s_cc s)) (nodesOf (Master (cmach_spec (s_machine s)))) want \<and>
        pod \<notin> pods (world s')) s1"
    unfolding handleChanges_def want [symmetric] none prod.case if_P [OF down]
    by (simp, intro wp_mono [OF run]) auto
qed

end
