(* ===== verification/CustomClusterReady.thy ===== *)
theory CustomClusterReady
  imports CustomClusterProgress
begin

text \<open>
  Guarantees along every path of the controller: what provisioning has done when it reports
  Provisioned, how often a worker is created, what a failed upgrade leaves behind, and that the
  status is patched last.
\<close>

section \<open>Creating a worker\<close>

lemma findManageWorkerPod_trace:
  "wp (findManageWorkerPod E a) (\<lambda>r s'. sameMem s s' \<and> reqs s' = reqs s @ [RList ''Pod'' [] [(ManageActionLabel, a)]]) s"
  unfolding findManageWorkerPod_def apiK_defs wp_steps outcome.case
  by (intro wp_any) (simp_all add: wp_steps wp_derefP sameMem_def split: option.split)

definition workerMeta :: "CustomCluster \<Rightarrow> string \<Rightarrow> ObjectMeta \<Rightarrow> bool" where
  "workerMeta cc a m \<longleftrightarrow> m_ownerRefs m = [generateOwnerRefFromCustomCluster cc] \<and>
     m_labels m = Some [ManageActionLabel \<mapsto> a] \<and> m_namespace m = m_namespace (cc_meta cc)"

lemma createWorkerPod_trace:
  "wp (createWorkerPod E a cmd h g v) (\<lambda>r s'. reqs s' = reqs s \<or>
     (\<exists>m. reqs s' = reqs s @ [RCreate ''Pod'' m] \<and> workerMeta (s_cc s) a m)) s"
  unfolding createWorkerPod_def generateClusterManageWorker_def apiK_defs wp_steps outcome.case wp_derefP
  by (auto simp: wp_steps Let_def manageWorkerPod_def newMeta_def workerMeta_def split: option.split intro!: wp_any)

lemma ensureWorkerPodCreated_trace:
  "wp (ensureWorkerPodCreated E a cmd h g v) (\<lambda>r s'. \<exists>qs. reqs s' = reqs s @ RList ''Pod'' [] [(ManageActionLabel, a)] # qs \<and>
     (qs = [] \<or> (\<exists>m. qs = [RCreate ''Pod'' m] \<and> workerMeta (s_cc s) a m))) s"
  unfolding ensureWorkerPodCreated_def wp_steps
  apply (rule wp_mono [OF findManageWorkerPod_trace])
  apply (case_tac r; clarsimp simp: wp_steps)
  apply (case_tac x1; clarsimp simp: wp_steps)
  apply (rule wp_mono [OF createWorkerPod_trace])
  apply (auto simp: sameMem_def)
  done

section \<open>Provisioning\<close>

text \<open>
  The kubeconfig is stored, call by call: with the SSH key of the first master machine a connection to
  it is opened as root, the file of the kubeconfig is opened and read, and a Secret with a generated name
  in the namespace of the CustomCluster that holds what was read is created with success. \<open>q\<close> is the
  request for it.
\<close>

definition kubeconfigStored :: "'w ccenv \<Rightarrow> ObjectMeta \<Rightarrow> CustomMachine \<Rightarrow> request \<Rightarrow> bool" where
  "kubeconfigStored E meta m q \<longleftrightarrow> (\<exists>master ref key signer conn client file content name stored w w0 w1 w2 w3 w4 w5 w6 w7.
     indexO (Master (cmach_spec m)) 0 = Some master \<and> SSHKey master = Some ref \<and>
     api_get (e_secret E) \<lparr>k_namespace = m_namespace (cmach_meta m), k_name = r_name ref\<rparr> w = (Inr key, w0) \<and>
     ssh_parsePrivateKey (e_ssh E) (mapAt (sec_data key) ''ssh-privatekey'') = Inr signer \<and>
     ssh_dial (e_ssh E) (PublicIP master @ '':22'') \<lparr>ssh_user = ''root'', ssh_signer = signer\<rparr> w0 = (Inr conn, w1) \<and>
     sftp_newClient (e_ssh E) conn w1 = (Inr client, w2) \<and>
     sftp_open (e_ssh E) client ProvisionedKubeConfigPath w2 = (Inr file, w3) \<and>
     sftp_read (e_ssh E) file w3 = (Inr content, w4) \<and> ssh_close (e_ssh E) file w4 = ((), w5) \<and>
     e_generateName E (m_name meta @ ''-kubeconfig-'') w5 = (name, w6) \<and>
     api_create (e_secret E) \<lparr>sec_meta = newMeta name (m_namespace meta), sec_data = Some [''admin.conf'' \<mapsto> content]\<rparr> w6 =
       (Inr stored, w7) \<and>
     q = RCreate ''Secret'' (newMeta name (m_namespace meta)))"

lemma kubeconfigStoredI:
  assumes "api_create (e_secret E) \<lparr>sec_meta = newMeta name (m_namespace meta), sec_data = Some [''admin.conf'' \<mapsto> content]\<rparr> w6 =
       (Inr stored, w7)"
    and "e_generateName E (m_name meta @ ''-kubeconfig-'') w5 = (name, w6)"
    and "ssh_close (e_ssh E) file w4 = ((), w5)" and "sftp_read (e_ssh E) file w3 = (Inr content, w4)"
    and "sftp_open (e_ssh E) client ProvisionedKubeConfigPath w2 = (Inr file, w3)" and "sftp_newClient (e_ssh E) conn w1 = (Inr client, w2)"
    and "ssh_dial (e_ssh E) (PublicIP master @ '':22'') \<lparr>ssh_user = ''root'', ssh_signer = signer\<rparr> w0 = (Inr conn, w1)"
    and "ssh_parsePrivateKey (e_ssh E) (mapAt (sec_data key) ''ssh-privatekey'') = Inr signer"
    and "api_get (e_secret E) \<lparr>k_namespace = m_namespace (cmach_meta m), k_name = r_name ref\<rparr> w = (Inr key, w0)"
    and "SSHKey master = Some ref" and "indexO (Master (cmach_spec m)) 0 = Some master"
  shows "kubeconfigStored E meta m (RCreate ''Secret'' (newMeta name (m_namespace meta)))"
  unfolding kubeconfigStored_def using assms by blast

lemma fetchKubeConfig_stores:
  "wp (fetchProvisionedClusterKubeConfig E) (\<lambda>r s'. r = Ok () \<longrightarrow>
     (\<exists>qs. reqs s' = reqs s @ qs \<and> list_ex (kubeconfigStored E (cc_meta (s_cc s)) (s_machine s)) qs)) s"
  unfolding fetchProvisionedClusterKubeConfig_def getSSHKeySecret_def buildSSHClientConfig_def buildSFTPClient_def
    fetchRemoteKubeConfig_def getKubeConfigSecretName_def createKubeConfigSecret_def apiK_defs
  by (auto simp: wp_steps wp_derefP wp_callP wp_extE wp_extP simp del: indexO_Some
      split: prod.splits sum.splits option.splits if_splits intro!: disjI2 elim!: kubeconfigStoredI)

lemma wp_markTrueP [wp_simps]:
  "wp (markTrueP E t) Q s = Q (Ok ()) (s\<lparr>s_cc := s_cc s\<lparr>cc_status :=
     cc_status (s_cc s)\<lparr>CCConditions := markTrue (e_lib E) (CCConditions (cc_status (s_cc s))) t\<rparr>\<rparr>\<rparr>)"
  by (simp add: markTrueP_def setConditions_def wp_modifyP)

lemma phase_updates [simp]:
  "phaseOf (s\<lparr>s_cc := c\<lparr>cc_status := st\<rparr>\<rparr>) = CCPhase st"
  by (simp add: phaseOf_def)

lemma markFalse_keeps:
  "wp (markFalseP E t r m e) (\<lambda>x s'. x = Ok () \<and> phaseOf s' = phaseOf s) s"
  by (simp add: markFalseP_def setConditions_def wp_steps phaseOf_def)

lemma initWorkerDone_spec:
  assumes L: "capilib_laws (e_lib E)" and new: "phaseOf s \<noteq> ProvisionedPhase"
  shows "wp (initWorkerDone E pod) (\<lambda>r s'. phaseOf s' = ProvisionedPhase \<longrightarrow>
    pod_phase pod = PodSucceeded \<and> r = Ok noRequeue \<and> (\<exists>qs. reqs s' = reqs s @ qs \<and> list_ex (kubeconfigStored E (cc_meta (s_cc s')) (s_machine s')) qs) \<and>
    statusOf (CCConditions (cc_status (s_cc s'))) ReadyCondition = Some CondTrue \<and>
    statusOf (CCConditions (cc_status (s_cc s'))) ObtainedKubeConfigCondition = Some CondTrue \<and>
    cc_meta (s_cc s') = cc_meta (s_cc s)) s"
proof (cases "pod_phase pod = PodSucceeded")
  case True
  have fetched: "wp (fetchProvisionedClusterKubeConfig E) (\<lambda>r s'. sameMem s s' \<and>
      (r = Ok () \<longrightarrow> (\<exists>qs. reqs s' = reqs s @ qs \<and> list_ex (kubeconfigStored E (cc_meta (s_cc s')) (s_machine s')) qs))) s"
    by (rule wpI) (use presD [OF kubeconfig_mem] wpD [OF fetchKubeConfig_stores] in \<open>fastforce simp: sameMem_def\<close>)
  have neq: "ReadyCondition \<noteq> ObtainedKubeConfigCondition"
    by (simp add: ReadyCondition_def ObtainedKubeConfigCondition_def)
  have status: "statusOf (markTrue (e_lib E) cs t) t = Some CondTrue"
    "t' \<noteq> t \<Longrightarrow> statusOf (markTrue (e_lib E) cs t) t' = statusOf cs t'" for cs t t'
    using L by (simp_all add: capilib_laws_def)
  show ?thesis
    unfolding initWorkerDone_def if_P [OF True] wp_steps
    apply (rule wp_mono [OF fetched])
    apply (case_tac r; clarsimp simp: wp_steps wp_setPhase wp_markTrueP sameMem_def status neq neq [symmetric] True)
     apply (rule wp_mono [OF markFalse_keeps])
     apply (use new in \<open>auto simp: wp_steps phaseOf_def\<close>)
    done
next
  case False
  then show ?thesis
    unfolding initWorkerDone_def using new
    by (auto simp: wp_steps wp_setPhase intro!: wp_mono [OF markFalse_keeps])
qed

text \<open>The CustomCluster in memory stays; requests are only appended.\<close>

definition keepsCC :: "'w ccstate \<Rightarrow> 'w ccstate \<Rightarrow> bool" where
  "keepsCC s s' \<longleftrightarrow> s_cc s' = s_cc s \<and> sends (\<lambda>_. True) s s'"

interpretation keepsCC: client_frame keepsCC "\<lambda>_. True"
proof unfold_locales
  show "\<lbrakk>keepsCC s t; keepsCC t u\<rbrakk> \<Longrightarrow> keepsCC s u" for s t u :: "'a ccstate"
    using sends.R_trans by (auto simp: keepsCC_def)
qed (auto simp: keepsCC_def sends_def)

lemma helpers_keepCC [pres_rules]:
  "pres keepsCC (ensureClusterHostsCreated E)"
  "pres keepsCC (ensureClusterConfigCreated E cl)"
  "pres keepsCC (ensureWorkerPodCreated E a c h g v)"
  unfolding ensureClusterHostsCreated_def CreateClusterHosts_def CreateConfigMapWithTemplate_def
    ensureClusterConfigCreated_def CreateClusterConfig_def ensureWorkerPodCreated_def findManageWorkerPod_def
    createWorkerPod_def generateClusterManageWorker_def apiK_defs
  by (intro pres_rules TrueI)+

lemma keepsCC_step:
  "pres keepsCC m \<Longrightarrow> wp m (\<lambda>r s'. s_cc s' = s_cc t \<and> (\<exists>qs. reqs s' = reqs t @ qs)) t"
  by (rule wpI, drule (1) presD) (auto simp: keepsCC_def sends_def)

lemma ensureFinalizer_spec:
  "wp (ensureFinalizerAndOwnerRef E h c) (\<lambda>r s'. s_cc s' = (s_cc s)\<lparr>cc_meta := addFinalizerTo E CustomClusterFinalizer (cc_meta (s_cc s))\<rparr> \<and>
     (\<exists>qs. reqs s' = reqs s @ qs)) s"
proof -
  have rest: "pres keepsCC m \<Longrightarrow> s_cc t = c' \<Longrightarrow> reqs t = reqs s \<Longrightarrow>
     wp m (\<lambda>r s'. s_cc s' = c' \<and> (\<exists>qs. reqs s' = reqs s @ qs)) t" for m :: "('a, 'b) ccproc" and t c'
    using keepsCC_step [of m t] by simp
  show ?thesis
    unfolding ensureFinalizerAndOwnerRef_def wp_seqP [of "modifyP f" for f] wp_modifyP outcome.case
    by (rule rest) (auto simp: apiK_defs keepsCC_def sends_def intro!: pres_rules)
qed

lemma provision_ready:
  assumes L: "capilib_laws (e_lib E)" and new: "phaseOf s \<noteq> ProvisionedPhase"
  shows "wp (reconcileProvision E cl) (\<lambda>r s'. phaseOf s' = ProvisionedPhase \<longrightarrow>
    r = Ok noRequeue \<and> (\<exists>qs. reqs s' = reqs s @ qs \<and> list_ex (kubeconfigStored E (cc_meta (s_cc s')) (s_machine s')) qs) \<and>
    statusOf (CCConditions (cc_status (s_cc s'))) ReadyCondition = Some CondTrue \<and>
    statusOf (CCConditions (cc_status (s_cc s'))) ObtainedKubeConfigCondition = Some CondTrue \<and>
    CustomClusterFinalizer \<in> set (m_finalizers (cc_meta (s_cc s')))) s"
proof -
  have fin: "CustomClusterFinalizer \<in> set (m_finalizers (addFinalizerTo E CustomClusterFinalizer m))" for m
    using L by (simp add: addFinalizerTo_def capilib_laws_def)
  show ?thesis
    unfolding reconcileProvision_def wp_steps
    apply (rule wp_mono [OF keepsCC_step [OF helpers_keepCC(1)]])
    apply (case_tac r; use new in \<open>clarsimp simp: wp_steps phaseOf_def\<close>)
    apply (rule wp_mono [OF keepsCC_step [OF helpers_keepCC(2)]])
    apply (case_tac r; clarsimp simp: wp_steps)
    apply (rule wp_mono [OF keepsCC_step [OF helpers_keepCC(3)]])
    apply (case_tac r; clarsimp simp: wp_steps)
     prefer 2
     apply (rule wp_mono [OF markFalse_keeps])
     apply (clarsimp simp: phaseOf_def)
    apply (rule wp_mono [OF ensureFinalizer_spec])
    apply (case_tac r; clarsimp simp: wp_steps wp_setPhase)
    apply (rule wp_mono [OF initWorkerDone_spec [OF L]])
     apply (simp add: phaseOf_def)
    apply (auto simp: fin phaseOf_def)
    done
qed

section \<open>A failed upgrade\<close>

lemma upgrade_failure:
  assumes S: "ccServer E cms pods"
    and sole: "soleWorker (pods (world s)) (m_uid (cc_meta (s_cc s))) CustomClusterUpgradeAction pod"
    and failed: "pod_phase pod = PodFailed"
  shows "wp (reconcileUpgrade E new) (\<lambda>r s'. r = Ok noRequeue \<and> phaseOf s' = UnknownPhase) s"
  unfolding reconcileUpgrade_def wp_steps outcome.case
  apply (rule wp_mono [OF ensureWorkerPodCreated_found [OF S sole]])
  apply (clarsimp simp: failed wp_steps wp_setPhase sameMem_def)
  apply (rule wp_mono [OF markFalse_keeps])
  apply (clarsimp simp: wp_retP)
  done

lemma failed_upgrade:
  assumes S: "ccServer E cms pods" and info: "hasProvisionClusterInfo (phaseOf s)"
    and hosts: "hostsHold (cms (world s)) (generateClusterHostsKey (s_cc s)) ms ws"
    and conf: "configHolds (cms (world s)) (generateClusterConfigKey (s_cc s)) v"
    and nodes: "NodeName ` set ws = NodeName ` set (getWorkerNodesFromCustomMachine (s_machine s))"
    and new: "v \<noteq> kcp_version (s_kcp s)" "isKubeadmUpgradeSupported (e_semver E) v (kcp_version (s_kcp s))"
    and sole: "soleWorker (pods (world s)) (m_uid (cc_meta (s_cc s))) CustomClusterUpgradeAction pod"
    and failed: "pod_phase pod = PodFailed"
  shows "wp (reconcileCC E cluster) (\<lambda>r s'. r = Ok noRequeue \<and> phaseOf s' = UnknownPhase) s"
proof -
  obtain cm where cm: "cms (world s) (generateClusterConfigKey (s_cc s)) = Some cm" using conf by (auto simp: configHolds_def)
  let ?want = "getWorkerNodesFromCustomMachine (s_machine s)"
  have none: "findScaleUpWorkerNodes ws ?want = []" "findScaleDownWorkerNodes ws ?want = []"
    using nodes by (auto simp: findScaleUpWorkerNodes_def findScaleDownWorkerNodes_def
        findAdditionalWorkerNodes_filter filter_empty_conv)
  have v: "getKubeVersionFromCM cm = v" using configHolds_version [OF conf cm] .
  show ?thesis
  proof (rule reconcile_after_changes [OF S info hosts cm])
    fix s1 assume s1: "sameMem s s1" "world s1 = world s"
    have c: "s_cc s1 = s_cc s" using s1(1) by (simp add: sameMem_def)
    show "wp (handleChanges E (kcp_version (s_kcp s))
        (findScaleUpWorkerNodes ws ?want, findScaleDownWorkerNodes ws ?want, getKubeVersionFromCM cm))
       (\<lambda>r s'. r = Ok noRequeue \<and> phaseOf s' = UnknownPhase) s1"
      unfolding handleChanges_def none v prod.case
      using new upgrade_failure [OF S, of s1, unfolded c s1(2), OF sole failed] by simp
  qed
qed

section \<open>The deferred patch\<close>

definition isPatch :: "request \<Rightarrow> bool" where
  "isPatch q = (\<exists>m. q = RPatch ''CustomCluster'' m)"

definition readOnly :: "request \<Rightarrow> bool" where
  "readOnly q = (case q of RGet _ _ \<Rightarrow> True | RList _ _ _ \<Rightarrow> True | RExternal _ _ \<Rightarrow> True | _ \<Rightarrow> False)"

lemma reconcile_noPatch:
  "pres (sends (\<lambda>q. \<not> isPatch q)) (reconcileFetched E cluster)"
  unfolding reconcileFetched_def reconcileDelete_def reconcileCC_def
    clusterChanges_def handleChanges_def getProvisionedClusterInfo_def
    reconcileProvision_def initWorkerDone_def reconcileScaleUp_def reconcileScaleDown_def reconcileUpgrade_def
    terminateWorkerDone_def terminateWorkerError_def deleteResource_def updateIgnoreNotFound_def
    deleteWorkerPods_def ensureWorkerPodDeleted_def ensureWorkerPodCreated_def createWorkerPod_def
    generateClusterManageWorker_def findManageWorkerPod_def
    ensureClusterHostsCreated_def CreateClusterHosts_def CreateConfigMapWithTemplate_def
    ensureClusterConfigCreated_def CreateClusterConfig_def ensureConfigMapDeleted_def recreateClusterHosts_def
    ensureScaleUpHostsCreated_def createScaleUpConfigMap_def updateClusterNodes_def updateKubeVersion_def
    ensureFinalizerAndOwnerRef_def fetchProvisionedClusterKubeConfig_def getSSHKeySecret_def buildSSHClientConfig_def
    buildSFTPClient_def fetchRemoteKubeConfig_def createKubeConfigSecret_def getKubeConfigSecretName_def
    markTrueP_def markFalseP_def setPhase_def setConditions_def apiK_defs
  by (intro pres_rules; simp add: isPatch_def sends_def)

definition patchedLast :: "'w ccstate \<Rightarrow> 'w ccstate \<Rightarrow> bool" where
  "patchedLast s s' \<longleftrightarrow> (\<exists>qs. reqs s' = reqs s @ qs \<and> (list_all readOnly qs \<or>
     (\<exists>pre. qs = pre @ [RPatch ''CustomCluster'' (cc_meta (s_cc s'))] \<and> list_all (\<lambda>q. \<not> isPatch q) pre)))"

lemma patchedLast_after_read:
  assumes "reqs s1 = reqs s @ qs" and "list_all readOnly qs" and "patchedLast s1 s'"
  shows "patchedLast s s'"
proof -
  have np: "list_all (\<lambda>q. \<not> isPatch q) qs"
    using assms(2) by (auto simp: list_all_iff readOnly_def isPatch_def)
  obtain ps where ps: "reqs s' = reqs s1 @ ps" "list_all readOnly ps \<or>
     (\<exists>pre. ps = pre @ [RPatch ''CustomCluster'' (cc_meta (s_cc s'))] \<and> list_all (\<lambda>q. \<not> isPatch q) pre)"
    using assms(3) by (auto simp: patchedLast_def)
  then have "reqs s' = reqs s @ qs @ ps" using assms(1) by simp
  moreover have "list_all readOnly (qs @ ps) \<or>
     (\<exists>pre. qs @ ps = pre @ [RPatch ''CustomCluster'' (cc_meta (s_cc s'))] \<and> list_all (\<lambda>q. \<not> isPatch q) pre)"
    using ps(2)
  proof
    assume "\<exists>pre. ps = pre @ [RPatch ''CustomCluster'' (cc_meta (s_cc s'))] \<and> list_all (\<lambda>q. \<not> isPatch q) pre"
    then obtain pre where "ps = pre @ [RPatch ''CustomCluster'' (cc_meta (s_cc s'))]" "list_all (\<lambda>q. \<not> isPatch q) pre" by blast
    then show ?thesis using np by (intro disjI2 exI [of _ "qs @ pre"]) simp
  qed (use assms(2) in simp)
  ultimately show ?thesis unfolding patchedLast_def by blast
qed

text \<open>Procedures that read only, or end with the one patch of the object in memory.\<close>

definition patchy :: "('w, 'a) ccproc \<Rightarrow> bool" where
  "patchy m = (\<forall>s r s'. m s = (r, s') \<longrightarrow> patchedLast s s')"

lemma patchy_basic: "patchy (retP x)" "patchy (failP e)" "patchy panicP"
  by (auto simp: patchy_def patchedLast_def retP_def failP_def panicP_def)

lemma patchy_bindP:
  assumes "pres (sends readOnly) m" and "\<And>x. patchy (f x)"
  shows "patchy (bindP m f)"
  unfolding patchy_def
proof (intro allI impI)
  fix s r s'
  assume run: "bindP m f s = (r, s')"
  obtain o' t where t: "m s = (o', t)" by (cases "m s")
  obtain qs where qs: "reqs t = reqs s @ qs" "list_all readOnly qs"
    using presD [OF assms(1) t] by (auto simp: sends_def)
  have "patchedLast t s'"
    using run t assms(2) by (cases o') (auto simp: bindP_def patchy_def patchedLast_def)
  then show "patchedLast s s'" using patchedLast_after_read [OF qs] by blast
qed

lemma patchy_tryP:
  assumes "pres (sends readOnly) m" and "\<And>x. patchy (f x)"
  shows "patchy (tryP m f)"
  unfolding patchy_def
proof (intro allI impI)
  fix s r s'
  assume run: "tryP m f s = (r, s')"
  obtain o' t where t: "m s = (o', t)" by (cases "m s")
  obtain qs where qs: "reqs t = reqs s @ qs" "list_all readOnly qs"
    using presD [OF assms(1) t] by (auto simp: sends_def)
  have "patchedLast t s'"
    using run t assms(2) by (cases o') (auto simp: tryP_def patchy_def patchedLast_def)
  then show "patchedLast s s'" using patchedLast_after_read [OF qs] by blast
qed

lemma patchy_if: "\<lbrakk>patchy m; patchy n\<rbrakk> \<Longrightarrow> patchy (if b then m else n)"
  by simp

lemma patchy_fetchOr:
  assumes "\<And>x. patchy (f x)"
  shows "patchy (fetchOr (retP y) (getK kind c k) f)"
  unfolding fetchOr_def getK_def
  by (intro patchy_tryP pres_rules) (auto simp: readOnly_def assms patchy_basic split: sum.split)

lemma patch_step:
  "wp (bindP (getP s_cc) (\<lambda>after. onErr (patchK ''CustomCluster'' cc_meta (e_cc E) before after) (\<lambda>e. failP (h e))))
     (\<lambda>r s'. s_cc s' = s_cc s \<and> reqs s' = reqs s @ [RPatch ''CustomCluster'' (cc_meta (s_cc s))]) s"
  unfolding wp_steps outcome.case patchK_def by (intro wp_any) (simp_all add: wp_steps)

lemma patchy_withPatch: "patchy (reconcileWithPatch E cluster)"
proof -
  have handler: "wp (reconcileFetched E cluster) (\<lambda>r s'. \<exists>qs. reqs s' = reqs t @ qs \<and> list_all (\<lambda>q. \<not> isPatch q) qs) t" for t
    by (rule wpI) (use presD [OF reconcile_noPatch] in \<open>auto simp: sends_def\<close>)
  have main: "wp (deferErr (reconcileFetched E cluster) (bindP (getP s_cc) (\<lambda>after.
        onErr (patchK ''CustomCluster'' cc_meta (e_cc E) before after) (\<lambda>e. failP (h e))))) (\<lambda>r. patchedLast t) t" for before h t
    unfolding wp_deferErr
    apply (rule wp_mono [OF handler])
    apply (rule wp_mono [OF patch_step])
    apply (auto simp: patchedLast_def split: outcome.split)
    done
  have "patchy (deferErr (reconcileFetched E cluster) (bindP (getP s_cc) (\<lambda>after.
        onErr (patchK ''CustomCluster'' cc_meta (e_cc E) before after) (\<lambda>e. failP (h e)))))" for before h
    using wpD [OF main] by (auto simp: patchy_def)
  then show ?thesis
    unfolding reconcileWithPatch_def seqP_def
    by (intro patchy_bindP pres_rules) (simp_all add: readOnly_def)
qed

lemma patchy_ReconcileCC: "patchy (ReconcileCC E req)"
  unfolding ReconcileCC_def seqP_def Let_def setPhase_def
  by (intro patchy_fetchOr patchy_bindP patchy_if patchy_basic patchy_withPatch pres_rules) (auto simp: sends_def)

end
