(* ===== verification/CustomClusterDemo.thy ===== *)
theory CustomClusterDemo
  imports CustomClusterReady
begin

text \<open>
  A concrete API server that keeps its objects in memory, and the sample clusters on which the
  properties of the controller are evaluated.
\<close>

section \<open>A server in memory\<close>

record memworld =
  mw_cms :: "ConfigMap list"
  mw_pods :: "Pod list"
  mw_secrets :: "Secret list"
  mw_machines :: "CustomMachine list"
  mw_kcps :: "KubeadmControlPlane list"
  mw_ccs :: "CustomCluster list"
  mw_clusters :: "CapiCluster list"
  mw_names :: nat

definition memSsh :: "memworld sshlib" where
  "memSsh = \<lparr>ssh_parsePrivateKey = Inr, ssh_dial = (\<lambda>addr c w. (Inr addr, w)),
     sftp_newClient = (\<lambda>c w. (Inr c, w)), ssh_close = (\<lambda>c w. ((), w)),
     sftp_open = (\<lambda>c p w. (Inr p, w)), sftp_read = (\<lambda>f w. (Inr ''kubeconfig'', w))\<rparr>"

definition memEnv :: "memworld ccenv" where
  "memEnv = \<lparr>e_cm = memApi cm_meta mw_cms (\<lambda>f w. w\<lparr>mw_cms := f (mw_cms w)\<rparr>),
     e_pod = memApi pod_meta mw_pods (\<lambda>f w. w\<lparr>mw_pods := f (mw_pods w)\<rparr>),
     e_secret = memApi sec_meta mw_secrets (\<lambda>f w. w\<lparr>mw_secrets := f (mw_secrets w)\<rparr>),
     e_machine = memApi cmach_meta mw_machines (\<lambda>f w. w\<lparr>mw_machines := f (mw_machines w)\<rparr>),
     e_kcp = memApi kcp_meta mw_kcps (\<lambda>f w. w\<lparr>mw_kcps := f (mw_kcps w)\<rparr>),
     e_cc = memApi cc_meta mw_ccs (\<lambda>f w. w\<lparr>mw_ccs := f (mw_ccs w)\<rparr>),
     e_cluster = memApi cl_meta mw_clusters (\<lambda>f w. w\<lparr>mw_clusters := f (mw_clusters w)\<rparr>),
     e_generateName = (\<lambda>b w. (b @ showNat (mw_names w), w\<lparr>mw_names := Suc (mw_names w)\<rparr>)),
     e_ssh = memSsh, e_semver = stdSemver, e_lib = stdLib\<rparr>"

definition memCms :: "memworld \<Rightarrow> objkey \<rightharpoonup> ConfigMap" where
  "memCms w = lookupKey cm_meta (mw_cms w)"

definition memPods :: "memworld \<Rightarrow> Pod set" where
  "memPods w = set (mw_pods w)"

lemma lookupKey_member: "x \<in> set xs \<Longrightarrow> \<exists>y \<in> set xs. lookupKey meta xs (keyOf (meta x)) = Some y"
  by (induction xs) (auto simp: lookupKey_def)

lemma memEnv_server: "ccServer memEnv memCms memPods"
  unfolding ccServer_def
proof (intro conjI allI impI)
  show "serves cm_meta (e_cm memEnv) memCms (\<lambda>w w'. memPods w' = memPods w)"
    using memApi_serves [of mw_cms "\<lambda>f w. w\<lparr>mw_cms := f (mw_cms w)\<rparr>" "\<lambda>w w'. memPods w' = memPods w" cm_meta]
    by (simp add: memEnv_def memCms_def [abs_def] memPods_def)
  show "\<exists>ps. api_list (e_pod memEnv) [] [(ManageActionLabel, a)] w = (Inr ps, w) \<and> set ps = labelled a (memPods w)" for a w
    by (simp add: memEnv_def memApi_def labelled_def memPods_def)
  fix p w
  assume p: "p \<in> memPods w \<and> (\<forall>q \<in> memPods w. m_finalizers (pod_meta q) = [])"
  then obtain y where "lookupKey pod_meta (mw_pods w) (keyOf (pod_meta p)) = Some y" "y \<in> memPods w"
    using lookupKey_member [of p "mw_pods w" pod_meta] by (auto simp: memPods_def)
  then show "\<exists>w'. api_delete (e_pod memEnv) p w = (Inr (), w') \<and> memCms w' = memCms w \<and>
        memPods w' = {q \<in> memPods w. keyOf (pod_meta q) \<noteq> keyOf (pod_meta p)}"
    using p by (auto simp: memEnv_def memApi_def memCms_def memPods_def)
qed

definition demoCC :: "CustomClusterPhase \<Rightarrow> CustomCluster" where
  "demoCC p = \<lparr>cc_kind = CustomClusterKind, cc_apiVersion = ''infrastructure.cluster.x-k8s.io/v1alpha1'',
     cc_meta = (newMeta ''cc'' ''default'')\<lparr>m_uid := ''uid-1'', m_finalizers := [CustomClusterFinalizer]\<rparr>,
     cc_spec = \<lparr>MachineRef = None, CNI = \<lparr>CNIType = ''calico''\<rparr>, ControlPlaneConf = None\<rparr>,
     cc_status = \<lparr>CCConditions = [], CCPhase = p, APIEndpoint = [], KubeconfigSecretRef = []\<rparr>\<rparr>"

definition demoKcp :: "string \<Rightarrow> KubeadmControlPlane" where
  "demoKcp v = \<lparr>kcp_meta = newMeta ''cc'' ''default'', kcp_version = v, kcp_clusterConfiguration = None\<rparr>"

definition demoWorker :: "string \<Rightarrow> PodPhase \<Rightarrow> Pod" where
  "demoWorker a p = (manageWorkerPod (demoCC NoPhase) (''cc-'' @ a) a [] [] [] [])\<lparr>
     pod_meta := (newMeta (''cc-'' @ a) ''default'')\<lparr>m_labels := Some [ManageActionLabel \<mapsto> a],
       m_ownerRefs := [generateOwnerRefFromCustomCluster (demoCC NoPhase)]\<rparr>, pod_phase := p\<rparr>"

definition demoHosts :: "CustomMachine \<Rightarrow> ConfigMap" where
  "demoHosts m = templateConfigMap ''cc-cluster-hosts'' ''default'' ClusterHostsName (renderHosts (GetHostsContent m))"

definition demoVersions :: ConfigMap where
  "demoVersions = templateConfigMap ''cc-cluster-config'' ''default'' ClusterConfigName (renderConfig demoConfig)"

definition demoScaleUpHosts :: ConfigMap where
  "demoScaleUpHosts = templateConfigMap ''cc-cluster-hosts-scale-up'' ''default'' ClusterHostsName ''planned nodes''"

definition demoWorld :: "Pod list \<Rightarrow> memworld" where
  "demoWorld pods = \<lparr>mw_cms = [demoHosts demoCustomMachine, demoVersions, demoScaleUpHosts], mw_pods = pods,
     mw_secrets = [], mw_machines = [], mw_kcps = [], mw_ccs = [], mw_clusters = [], mw_names = 0\<rparr>"

definition demoState :: "CustomMachine \<Rightarrow> string \<Rightarrow> CustomClusterPhase \<Rightarrow> Pod list \<Rightarrow> memworld ccstate" where
  "demoState m v p pods = \<lparr>world = demoWorld pods, reqs = [], s_cc = demoCC p, s_machine = m, s_kcp = demoKcp v\<rparr>"

definition demoCluster :: CapiCluster where
  "demoCluster = \<lparr>cl_meta = newMeta ''cc'' ''default'', cl_network = None, cl_controlPlaneRef = None, cl_infrastructureRef = None\<rparr>"

text \<open>The machines of the sample with another set of workers.\<close>

definition withNodes :: "(string \<times> string) list \<Rightarrow> CustomMachine" where
  "withNodes ns = demoCustomMachine\<lparr>cmach_spec := (cmach_spec demoCustomMachine)\<lparr>Nodes := map (\<lambda>(n, ip). demoMachine n ip) ns\<rparr>\<rparr>"

lemma demo_state_simps [simp]:
  "world (demoState m v p pods) = demoWorld pods" "s_cc (demoState m v p pods) = demoCC p"
  "s_machine (demoState m v p pods) = m" "s_kcp (demoState m v p pods) = demoKcp v" "reqs (demoState m v p pods) = []"
  "phaseOf (demoState m v p pods) = p" "kcp_version (demoKcp v) = v"
  "m_uid (cc_meta (demoCC p)) = ''uid-1''" "memPods (demoWorld pods) = set pods"
  by (simp_all add: demoState_def phaseOf_def demoCC_def demoKcp_def memPods_def demoWorld_def)

lemma demo_keys [simp]:
  "generateClusterHostsKey (demoCC p) = \<lparr>k_namespace = ''default'', k_name = ''cc-cluster-hosts''\<rparr>"
  "generateClusterConfigKey (demoCC p) = \<lparr>k_namespace = ''default'', k_name = ''cc-cluster-config''\<rparr>"
  "generateScaleUpHostsKey (demoCC p) = \<lparr>k_namespace = ''default'', k_name = ''cc-cluster-hosts-scale-up''\<rparr>"
  by (simp_all add: generateClusterHostsKey_def generateClusterConfigKey_def generateScaleUpHostsKey_def
      generateClusterHostsName_def generateClusterConfigName_def generateScaleUpHostsName_def demoCC_def newMeta_def
      ClusterHostsName_def ClusterConfigName_def)

lemma demo_cms:
  "memCms (demoWorld pods) \<lparr>k_namespace = ''default'', k_name = ''cc-cluster-hosts''\<rparr> = Some (demoHosts demoCustomMachine)"
  "memCms (demoWorld pods) \<lparr>k_namespace = ''default'', k_name = ''cc-cluster-config''\<rparr> = Some demoVersions"
  "memCms (demoWorld pods) \<lparr>k_namespace = ''default'', k_name = ''cc-cluster-hosts-scale-up''\<rparr> = Some demoScaleUpHosts"
  by (simp_all add: memCms_def lookupKey_def demoWorld_def demoHosts_def demoVersions_def demoScaleUpHosts_def
      templateConfigMap_def keyOf_def newMeta_def)

lemma demo_hostsHold:
  "hostsHold (memCms (demoWorld pods)) \<lparr>k_namespace = ''default'', k_name = ''cc-cluster-hosts''\<rparr> demoMasters demoWorkers"
proof -
  have "holdsInventory (trimSpace (renderHosts (GetHostsContent demoCustomMachine))) demoMasters demoWorkers"
    unfolding demoMasters_def demoWorkers_def by (rule create_holds) (simp add: demo_simps good_simps)
  then show ?thesis
    unfolding hostsHold_def demo_cms by (simp add: demoHosts_def templateConfigMap_def keyOf_def newMeta_def)
qed

lemma demo_configHolds:
  "configHolds (memCms (demoWorld pods)) \<lparr>k_namespace = ''default'', k_name = ''cc-cluster-config''\<rparr> ''v1.24.6''"
proof -
  have "holdsVersion (trimSpace (renderConfig demoConfig)) ''v1.24.6''"
    using create_version [of demoConfig] by (simp add: demoConfig_def goodVersion_def isSpace_def)
  then show ?thesis
    unfolding configHolds_def demo_cms by (simp add: demoVersions_def templateConfigMap_def keyOf_def newMeta_def)
qed

lemma demo_sole: "soleWorker (set [demoWorker a p]) ''uid-1'' a (demoWorker a p)"
  by (auto simp: soleWorker_def labelled_def ownedBy_def demoWorker_def labelsMatch_def mapHas_def mapAt_def
      newMeta_def generateOwnerRefFromCustomCluster_def demoCC_def)

end
