(* ===== verification/CustomClusterProperties.thy ===== *)
theory CustomClusterProperties
  imports CustomClusterDemo
begin

text \<open>
  The properties of the CustomCluster controller: its phase machine, guarded deletion, what a
  provisioned cluster has, that scaling and upgrading complete, stability, the effect of a
  failed upgrade, the creation of workers and the final patch. Each is evaluated on a sample.
\<close>

lemma memEnv_laws: "capilib_laws (e_lib memEnv)" "semver_laws (e_semver memEnv)"
  by (simp_all add: memEnv_def stdLib_laws stdSemver_laws)

section \<open>Properties\<close>

text \<open>C1. Reconciling moves the phase of a CustomCluster only along the edges of \<open>ccStep\<close>:
  a new cluster can be provisioning, provisioned or failed, a provisioned one scaling,
  upgrading, provisioned or unknown, and an unknown one stays. This holds for every answer of
  the API server, on every error path and every panic.\<close>

theorem phase_machine:
  assumes "semver_laws (e_semver E)" and "reconcileCC E cluster s = (r, s')"
  shows "ccStep (phaseOf s) (phaseOf s')"
  using assms by (rule reconcile_phase)

theorem phase_machine_witness:
  "ccStep ProvisionedPhase (phaseOf (snd (reconcileCC memEnv demoCluster (demoState demoCustomMachine ''v1.24.6'' ProvisionedPhase []))))"
  using phase_machine [of memEnv demoCluster "demoState demoCustomMachine ''v1.24.6'' ProvisionedPhase []"] stdSemver_laws
  by (simp add: memEnv_def prod_eq_iff)

text \<open>C2. When a cluster is being deleted, the finalizer of its CustomCluster is removed, in
  memory or by an update, only after the terminate worker succeeded, and the requests of that
  removal come in order: the cluster-hosts and the cluster-config config maps are gone or
  deleted first, then the finalizers of the CustomMachine and of the KubeadmControlPlane are
  removed, the one of the CustomCluster last.\<close>

theorem deletion_is_guarded:
  assumes "reconcileDelete E s = (r, s')"
    and "cc_meta (s_cc s') \<noteq> cc_meta (s_cc s) \<or> (\<exists>q \<in> set (drop (length (reqs s)) (reqs s')). isCCUpdate q)"
  shows "\<exists>s1 pod s2 qs. deleteWorkerPods E s = (Ok (), s1) \<and>
    ensureWorkerPodCreated E CustomClusterTerminateAction KubesprayTerminateCMD (generateClusterHostsName (s_cc s))
      (generateClusterConfigName (s_cc s)) (kcp_version (s_kcp s)) s1 = (Ok pod, s2) \<and>
    pod_phase pod = PodSucceeded \<and> reqs s' = reqs s2 @ qs \<and> orderlyDeletion E (s_cc s) qs"
  using assms by (rule deletion_guard)

definition demoDeleting :: "memworld ccstate" where
  "demoDeleting = demoState demoCustomMachine ''v1.24.6'' DeletingPhase [demoWorker CustomClusterTerminateAction PodSucceeded]"

lemma demoDeleting_finalizers:
  "m_finalizers (cc_meta (s_cc (snd (reconcileDelete memEnv demoDeleting)))) = []"
  "m_finalizers (cc_meta (s_cc demoDeleting)) \<noteq> []"
  by code_simp+

lemma demoDeleting_touched: "cc_meta (s_cc (snd (reconcileDelete memEnv demoDeleting))) \<noteq> cc_meta (s_cc demoDeleting)"
  using demoDeleting_finalizers by metis

theorem deletion_is_guarded_witness:
  "\<exists>s1 pod s2 qs. deleteWorkerPods memEnv demoDeleting = (Ok (), s1) \<and>
    ensureWorkerPodCreated memEnv CustomClusterTerminateAction KubesprayTerminateCMD (generateClusterHostsName (s_cc demoDeleting))
      (generateClusterConfigName (s_cc demoDeleting)) (kcp_version (s_kcp demoDeleting)) s1 = (Ok pod, s2) \<and>
    pod_phase pod = PodSucceeded \<and> reqs (snd (reconcileDelete memEnv demoDeleting)) = reqs s2 @ qs \<and> orderlyDeletion memEnv (s_cc demoDeleting) qs"
  by (rule deletion_is_guarded [of _ _ "fst (reconcileDelete memEnv demoDeleting)"])
    (simp_all add: demoDeleting_touched)

text \<open>C3. Provisioning is complete when the phase says so: a run that sets the phase
  Provisioned has read the kubeconfig from the first master machine over SSH with the key of that
  machine and had a Secret with what it read created with success, in the namespace of the
  CustomCluster and under a name generated from its name; it has set the conditions Ready and
  ObtainedKubeConfig to true and put the finalizer on the CustomCluster.\<close>

theorem provisioned_is_ready:
  assumes "capilib_laws (e_lib E)" and "phaseOf s \<noteq> ProvisionedPhase"
    and "reconcileProvision E cluster s = (r, s')" and "phaseOf s' = ProvisionedPhase"
  shows "r = Ok noRequeue \<and>
    (\<exists>qs. reqs s' = reqs s @ qs \<and> list_ex (kubeconfigStored E (cc_meta (s_cc s')) (s_machine s')) qs) \<and>
    statusOf (CCConditions (cc_status (s_cc s'))) ReadyCondition = Some CondTrue \<and>
    statusOf (CCConditions (cc_status (s_cc s'))) ObtainedKubeConfigCondition = Some CondTrue \<and>
    CustomClusterFinalizer \<in> set (m_finalizers (cc_meta (s_cc s')))"
  using wpD [OF provision_ready [OF assms(1,2)] assms(3)] assms(4) by simp

text \<open>A server without state that answers every request with success.\<close>

definition yesEnv :: "Pod \<Rightarrow> unit ccenv" where
  "yesEnv pod = \<lparr>e_cm = yesApi \<lparr>cm_meta = newMeta ''cm'' ''default'', cm_data = None\<rparr>, e_pod = yesApi pod,
     e_secret = yesApi \<lparr>sec_meta = newMeta ''cluster-secret'' ''default'', sec_data = Some [''ssh-privatekey'' \<mapsto> ''key'']\<rparr>,
     e_machine = yesApi demoCustomMachine, e_kcp = yesApi (demoKcp ''v1.24.6''), e_cc = yesApi (demoCC NoPhase),
     e_cluster = yesApi demoCluster, e_generateName = (\<lambda>b w. (b, w)),
     e_ssh = \<lparr>ssh_parsePrivateKey = Inr, ssh_dial = (\<lambda>addr c w. (Inr addr, w)), sftp_newClient = (\<lambda>c w. (Inr c, w)),
       ssh_close = (\<lambda>c w. ((), w)), sftp_open = (\<lambda>c p w. (Inr p, w)), sftp_read = (\<lambda>f w. (Inr ''kubeconfig'', w))\<rparr>,
     e_semver = stdSemver, e_lib = stdLib\<rparr>"

definition demoProvisioning :: "unit ccstate" where
  "demoProvisioning =
     (let key = \<lparr>r_kind = ''Secret'', r_apiVersion = ''v1'', r_namespace = ''default'', r_name = ''cluster-secret''\<rparr>;
          machine = demoCustomMachine\<lparr>cmach_spec := (cmach_spec demoCustomMachine)\<lparr>Master :=
            [(demoMachine ''master1'' ''200.1.1.1'')\<lparr>SSHKey := Some key\<rparr>]\<rparr>\<rparr>
      in \<lparr>world = (), reqs = [], s_cc = demoCC ProvisioningPhase, s_machine = machine, s_kcp = demoKcp ''v1.24.6''\<rparr>)"

definition initEnv :: "unit ccenv" where
  "initEnv = yesEnv (demoWorker CustomClusterInitAction PodSucceeded)"

lemma initEnv_fields:
  "e_pod initEnv = yesApi (demoWorker CustomClusterInitAction PodSucceeded)" "e_kcp initEnv = yesApi (demoKcp ''v1.24.6'')"
  "e_cm initEnv = yesApi \<lparr>cm_meta = newMeta ''cm'' ''default'', cm_data = None\<rparr>"
  "e_machine initEnv = yesApi demoCustomMachine" "e_lib initEnv = stdLib"
  "e_secret initEnv = yesApi \<lparr>sec_meta = newMeta ''cluster-secret'' ''default'', sec_data = Some [''ssh-privatekey'' \<mapsto> ''key'']\<rparr>"
  "e_generateName initEnv = (\<lambda>b w. (b, w))" "e_ssh initEnv = \<lparr>ssh_parsePrivateKey = Inr, ssh_dial = (\<lambda>addr c w. (Inr addr, w)), sftp_newClient = (\<lambda>c w. (Inr c, w)),
       ssh_close = (\<lambda>c w. ((), w)), sftp_open = (\<lambda>c p w. (Inr p, w)), sftp_read = (\<lambda>f w. (Inr ''kubeconfig'', w))\<rparr>"
  by (simp_all add: initEnv_def yesEnv_def)

lemma demoProvisioning_phase:
  "phaseOf demoProvisioning = ProvisioningPhase"
  "wp (reconcileProvision initEnv demoCluster) (\<lambda>r s'. phaseOf s' = ProvisionedPhase) demoProvisioning"
   apply (simp add: demoProvisioning_def phaseOf_def demoCC_def Let_def)
  apply (simp add: reconcileProvision_def wp_steps ensureClusterHostsCreated_def ensureClusterConfigCreated_def
    initEnv_fields yes_calls ensureWorkerPodCreated_def findManageWorkerPod_def wp_derefP)
  apply (simp add: demoProvisioning_def demoWorker_def indexO_def generateOwnerRefFromCustomCluster_def demoCC_def newMeta_def Let_def
    wp_steps)
  apply (simp add: ensureFinalizerAndOwnerRef_def wp_steps Let_def initEnv_fields yes_calls setPhase_def)
  apply (simp add: initWorkerDone_def wp_steps fetchProvisionedClusterKubeConfig_def wp_derefP indexO_def getSSHKeySecret_def
    initEnv_fields yes_calls buildSSHClientConfig_def mapHas_def mapAt_def)
  by (simp add: buildSFTPClient_def fetchRemoteKubeConfig_def getKubeConfigSecretName_def createKubeConfigSecret_def
    wp_steps wp_extE wp_extP initEnv_fields yes_calls setPhase_def markTrueP_def setConditions_def phaseOf_def)

theorem provisioned_is_ready_witness:
  "let s' = snd (reconcileProvision initEnv demoCluster demoProvisioning) in
   phaseOf s' = ProvisionedPhase \<and>
   statusOf (CCConditions (cc_status (s_cc s'))) ReadyCondition = Some CondTrue \<and>
   list_ex (kubeconfigStored initEnv (cc_meta (s_cc s')) (s_machine s')) (reqs s')"
proof -
  obtain r s' where run: "reconcileProvision initEnv demoCluster demoProvisioning = (r, s')"
    by (cases "reconcileProvision initEnv demoCluster demoProvisioning")
  have "phaseOf demoProvisioning \<noteq> ProvisionedPhase" "phaseOf s' = ProvisionedPhase"
    using demoProvisioning_phase(1) wpD [OF demoProvisioning_phase(2) run] by simp_all
  then show ?thesis
    using provisioned_is_ready [OF _ _ run] run stdLib_laws unfolding Let_def
    by (auto simp: demoProvisioning_def initEnv_def yesEnv_def)
qed

text \<open>C4. Scaling up completes: when the scale-up worker has succeeded, one reconciliation adds
  the missing nodes to the record of provisioned nodes, deletes the worker and the temporary
  config map and returns to Provisioned; afterwards nothing is left to scale up and the nodes
  to scale down are the ones from before.\<close>

theorem scale_up_completes:
  assumes "ccServer E cms pods" and "capilib_laws (e_lib E)" and "hasProvisionClusterInfo (phaseOf s)"
    and "hostsHold (cms (world s)) (generateClusterHostsKey (s_cc s)) ms ws"
    and "cms (world s) (generateClusterConfigKey (s_cc s)) = Some conf"
    and "goodInventory ms want" and "want = getWorkerNodesFromCustomMachine (s_machine s)"
    and "findScaleUpWorkerNodes ws want \<noteq> []"
    and "soleWorker (pods (world s)) (m_uid (cc_meta (s_cc s))) CustomClusterScaleUpAction pod"
    and "pod_phase pod = PodSucceeded"
    and "cms (world s) (generateScaleUpHostsKey (s_cc s)) = Some tmp"
    and "keyOf (cm_meta tmp) = generateScaleUpHostsKey (s_cc s)"
    and "set (m_finalizers (cm_meta tmp)) \<subseteq> {CustomClusterConfigMapFinalizer}"
  shows "wp (reconcileCC E cluster) (\<lambda>r s'. r = Ok noRequeue \<and> phaseOf s' = ProvisionedPhase \<and>
    (\<exists>ws'. hostsHold (cms (world s')) (generateClusterHostsKey (s_cc s)) ms ws' \<and>
      findScaleUpWorkerNodes ws' want = [] \<and> findScaleDownWorkerNodes ws' want = findScaleDownWorkerNodes ws want) \<and>
    cms (world s') (generateScaleUpHostsKey (s_cc s)) = None \<and> pod \<notin> pods (world s')) s"
  using assms by (rule scale_up_reconciles)

definition demoGrown :: CustomMachine where
  "demoGrown = withNodes [(''node1'', ''200.1.1.2''), (''node3'', ''200.1.1.4'')]"

lemmas node_eval = demoGrown_def withNodes_def getWorkerNodesFromCustomMachine_def getWorkerNodesFromMachines_map
  findScaleUpWorkerNodes_def findScaleDownWorkerNodes_def findAdditionalWorkerNodes_filter demo_simps good_simps

theorem scale_up_completes_witness:
  "let s = demoState demoGrown ''v1.24.6'' ScalingUpPhase [demoWorker CustomClusterScaleUpAction PodSucceeded];
       want = getWorkerNodesFromCustomMachine demoGrown
   in map NodeName (findScaleUpWorkerNodes demoWorkers want) = [''node3''] \<and>
      wp (reconcileCC memEnv demoCluster) (\<lambda>r s'. r = Ok noRequeue \<and> phaseOf s' = ProvisionedPhase \<and>
        (\<exists>ws'. hostsHold (memCms (world s')) (generateClusterHostsKey (s_cc s)) demoMasters ws' \<and>
          findScaleUpWorkerNodes ws' want = [] \<and> findScaleDownWorkerNodes ws' want = findScaleDownWorkerNodes demoWorkers want)) s"
proof -
  let ?s = "demoState demoGrown ''v1.24.6'' ScalingUpPhase [demoWorker CustomClusterScaleUpAction PodSucceeded]"
  let ?want = "getWorkerNodesFromCustomMachine demoGrown"
  have up: "map NodeName (findScaleUpWorkerNodes demoWorkers ?want) = [''node3'']"
    by (simp add: node_eval)
  have "findScaleUpWorkerNodes demoWorkers ?want \<noteq> []" using up by auto
  moreover have "goodInventory demoMasters ?want" by (simp add: node_eval)
  ultimately have "wp (reconcileCC memEnv demoCluster) (\<lambda>r s'. r = Ok noRequeue \<and> phaseOf s' = ProvisionedPhase \<and>
    (\<exists>ws'. hostsHold (memCms (world s')) (generateClusterHostsKey (s_cc ?s)) demoMasters ws' \<and>
      findScaleUpWorkerNodes ws' ?want = [] \<and> findScaleDownWorkerNodes ws' ?want = findScaleDownWorkerNodes demoWorkers ?want) \<and>
    memCms (world s') (generateScaleUpHostsKey (s_cc ?s)) = None \<and> demoWorker CustomClusterScaleUpAction PodSucceeded \<notin> memPods (world s')) ?s"
    using demo_hostsHold demo_sole stdLib_laws
    by (intro scale_up_completes [OF memEnv_server, where conf = demoVersions and tmp = demoScaleUpHosts])
      (simp_all add: demo_cms hasProvisionClusterInfo_def memEnv_def demoWorker_def demoScaleUpHosts_def
        templateConfigMap_def keyOf_def newMeta_def)
  then show ?thesis unfolding Let_def by (intro conjI up) (erule wp_mono, blast)
qed

lemma demoWorker_phase [simp]: "pod_phase (demoWorker a p) = p"
  by (simp add: demoWorker_def)

lemma demoHosts_finalizers: "memCms (demoWorld pods) \<lparr>k_namespace = ''default'', k_name = ''cc-cluster-hosts''\<rparr> = Some cm \<Longrightarrow>
  set (m_finalizers (cm_meta cm)) \<subseteq> {CustomClusterConfigMapFinalizer}"
  by (auto simp: demo_cms demoHosts_def templateConfigMap_def newMeta_def)

text \<open>C5. Scaling down completes: when the scale-down worker has succeeded, one reconciliation
  recreates the record of provisioned nodes from the CustomMachine, deletes the worker and
  returns to Provisioned, and the record then holds exactly the desired workers.\<close>

theorem scale_down_completes:
  assumes "ccServer E cms pods" and "capilib_laws (e_lib E)" and "hasProvisionClusterInfo (phaseOf s)"
    and "hostsHold (cms (world s)) (generateClusterHostsKey (s_cc s)) ms ws"
    and "cms (world s) (generateClusterConfigKey (s_cc s)) = Some conf"
    and "\<And>cm. cms (world s) (generateClusterHostsKey (s_cc s)) = Some cm \<Longrightarrow>
      set (m_finalizers (cm_meta cm)) \<subseteq> {CustomClusterConfigMapFinalizer}"
    and "want = getWorkerNodesFromCustomMachine (s_machine s)"
    and "goodInventory (nodesOf (Master (cmach_spec (s_machine s)))) want"
    and "findScaleUpWorkerNodes ws want = []" and "findScaleDownWorkerNodes ws want \<noteq> []"
    and "soleWorker (pods (world s)) (m_uid (cc_meta (s_cc s))) CustomClusterScaleDownAction pod"
    and "pod_phase pod = PodSucceeded"
  shows "wp (reconcileCC E cluster) (\<lambda>r s'. r = Ok noRequeue \<and> phaseOf s' = ProvisionedPhase \<and>
    hostsHold (cms (world s')) (generateClusterHostsKey (s_cc s)) (nodesOf (Master (cmach_spec (s_machine s)))) want \<and>
    pod \<notin> pods (world s')) s"
  using assms by (rule scale_down_reconciles)

definition demoShrunk :: CustomMachine where
  "demoShrunk = withNodes [(''node1'', ''200.1.1.2'')]"

theorem scale_down_completes_witness:
  "let s = demoState demoShrunk ''v1.24.6'' ScalingDownPhase [demoWorker CustomClusterScaleDownAction PodSucceeded];
       want = getWorkerNodesFromCustomMachine demoShrunk
   in map NodeName (findScaleDownWorkerNodes demoWorkers want) = [''node2''] \<and>
      wp (reconcileCC memEnv demoCluster) (\<lambda>r s'. r = Ok noRequeue \<and> phaseOf s' = ProvisionedPhase \<and>
        hostsHold (memCms (world s')) (generateClusterHostsKey (s_cc s)) (nodesOf (Master (cmach_spec demoShrunk))) want) s"
proof -
  let ?s = "demoState demoShrunk ''v1.24.6'' ScalingDownPhase [demoWorker CustomClusterScaleDownAction PodSucceeded]"
  let ?want = "getWorkerNodesFromCustomMachine demoShrunk"
  have down: "map NodeName (findScaleDownWorkerNodes demoWorkers ?want) = [''node2'']"
    "findScaleUpWorkerNodes demoWorkers ?want = []"
    by (simp_all add: demoShrunk_def node_eval)
  have "findScaleDownWorkerNodes demoWorkers ?want \<noteq> []" using down by auto
  moreover have "goodInventory (nodesOf (Master (cmach_spec demoShrunk))) ?want" by (simp add: demoShrunk_def nodesOf_def node_eval)
  ultimately have "wp (reconcileCC memEnv demoCluster) (\<lambda>r s'. r = Ok noRequeue \<and> phaseOf s' = ProvisionedPhase \<and>
    hostsHold (memCms (world s')) (generateClusterHostsKey (s_cc ?s)) (nodesOf (Master (cmach_spec (s_machine ?s)))) ?want \<and>
    demoWorker CustomClusterScaleDownAction PodSucceeded \<notin> memPods (world s')) ?s"
    using demo_hostsHold demo_sole [of CustomClusterScaleDownAction PodSucceeded] down(2)
    by (intro scale_down_completes [OF memEnv_server memEnv_laws(1), where conf = demoVersions and ws = demoWorkers and ms = demoMasters])
      (simp_all add: demo_cms(2) hasProvisionClusterInfo_def demoHosts_finalizers)
  then show ?thesis unfolding Let_def by (intro conjI down(1)) (erule wp_mono, simp)
qed

text \<open>C6. Upgrading completes: when the upgrade worker has succeeded, one reconciliation records
  the desired version, keeps the record of nodes, deletes the worker and returns to
  Provisioned.\<close>

theorem upgrade_completes:
  assumes "ccServer E cms pods" and "hasProvisionClusterInfo (phaseOf s)"
    and "hostsHold (cms (world s)) (generateClusterHostsKey (s_cc s)) ms ws"
    and "configHolds (cms (world s)) (generateClusterConfigKey (s_cc s)) v"
    and "NodeName ` set ws = NodeName ` set (getWorkerNodesFromCustomMachine (s_machine s))"
    and "v \<noteq> kcp_version (s_kcp s)" and "isKubeadmUpgradeSupported (e_semver E) v (kcp_version (s_kcp s))"
    and "goodVersion (kcp_version (s_kcp s))"
    and "soleWorker (pods (world s)) (m_uid (cc_meta (s_cc s))) CustomClusterUpgradeAction pod"
    and "pod_phase pod = PodSucceeded"
  shows "wp (reconcileCC E cluster) (\<lambda>r s'. r = Ok noRequeue \<and> phaseOf s' = ProvisionedPhase \<and>
    configHolds (cms (world s')) (generateClusterConfigKey (s_cc s)) (kcp_version (s_kcp s)) \<and>
    hostsHold (cms (world s')) (generateClusterHostsKey (s_cc s)) ms ws \<and> pod \<notin> pods (world s')) s"
  using assms by (rule upgrade_reconciles)

lemma demo_upgrade:
  "isKubeadmUpgradeSupported (e_semver memEnv) ''v1.24.6'' ''v1.25.0''" "goodVersion ''v1.25.0''"
  "NodeName ` set demoWorkers = NodeName ` set (getWorkerNodesFromCustomMachine demoCustomMachine)"
proof -
  note parse = stdSemver_laws [unfolded semver_laws_def, THEN conjunct2, THEN conjunct1, rule_format]
  have v: "newVersion stdSemver ''1.24.6'' = Some \<lparr>Major = 1, Minor = 24, Patch = 6, PreRelease = []\<rparr>"
    "newVersion stdSemver ''1.25.0'' = Some \<lparr>Major = 1, Minor = 25, Patch = 0, PreRelease = []\<rparr>"
    using parse [of 1 24 6, unfolded dotted_examples] parse [of 1 25 0, unfolded dotted_examples] by simp_all
  have "isKubeadmUpgradeSupported stdSemver ''v1.24.6'' ''v1.25.0''"
    by (simp add: isKubeadmUpgradeSupported_def trimPrefix_def v sub64_def)
  then show "isKubeadmUpgradeSupported (e_semver memEnv) ''v1.24.6'' ''v1.25.0''" by (simp add: memEnv_def)
qed (simp_all add: goodVersion_def isSpace_def node_eval)

theorem upgrade_completes_witness:
  "let s = demoState demoCustomMachine ''v1.25.0'' UpgradingPhase [demoWorker CustomClusterUpgradeAction PodSucceeded]
   in wp (reconcileCC memEnv demoCluster) (\<lambda>r s'. r = Ok noRequeue \<and> phaseOf s' = ProvisionedPhase \<and>
        configHolds (memCms (world s')) (generateClusterConfigKey (s_cc s)) ''v1.25.0'') s"
proof -
  let ?s = "demoState demoCustomMachine ''v1.25.0'' UpgradingPhase [demoWorker CustomClusterUpgradeAction PodSucceeded]"
  have "wp (reconcileCC memEnv demoCluster) (\<lambda>r s'. r = Ok noRequeue \<and> phaseOf s' = ProvisionedPhase \<and>
    configHolds (memCms (world s')) (generateClusterConfigKey (s_cc ?s)) (kcp_version (s_kcp ?s)) \<and>
    hostsHold (memCms (world s')) (generateClusterHostsKey (s_cc ?s)) demoMasters demoWorkers \<and>
    demoWorker CustomClusterUpgradeAction PodSucceeded \<notin> memPods (world s')) ?s"
    using demo_hostsHold demo_configHolds demo_sole [of CustomClusterUpgradeAction PodSucceeded] demo_upgrade
    by (intro upgrade_completes [OF memEnv_server, where v = "''v1.24.6''" and ms = demoMasters and ws = demoWorkers])
      (simp_all add: hasProvisionClusterInfo_def)
  then show ?thesis unfolding Let_def by (rule wp_mono) simp
qed

text \<open>C27. A cluster whose record of nodes and version agrees with its specification is left
  alone: reconciling it reads the two config maps, writes nothing and changes no object.\<close>

theorem converged_is_stable:
  assumes "ccServer E cms pods" and "hasProvisionClusterInfo (phaseOf s)"
    and "hostsHold (cms (world s)) (generateClusterHostsKey (s_cc s)) ms ws"
    and "cms (world s) (generateClusterConfigKey (s_cc s)) = Some conf"
    and "NodeName ` set ws = NodeName ` set (getWorkerNodesFromCustomMachine (s_machine s))"
    and "getKubeVersionFromCM conf = kcp_version (s_kcp s)"
  shows "wp (reconcileCC E cluster) (\<lambda>r s'. r = Ok noRequeue \<and> sameMem s s' \<and> world s' = world s \<and>
    reqs s' = reqs s @ [RGet ''ConfigMap'' (generateClusterHostsKey (s_cc s)), RGet ''ConfigMap'' (generateClusterConfigKey (s_cc s))]) s"
  using assms by (rule converged_stable)

theorem converged_is_stable_witness:
  "let s = demoState demoCustomMachine ''v1.24.6'' ProvisionedPhase []
   in wp (reconcileCC memEnv demoCluster) (\<lambda>r s'. r = Ok noRequeue \<and> sameMem s s' \<and> world s' = world s) s"
proof -
  let ?s = "demoState demoCustomMachine ''v1.24.6'' ProvisionedPhase []"
  have v: "getKubeVersionFromCM demoVersions = ''v1.24.6''"
    using configHolds_version [OF demo_configHolds demo_cms(2)] .
  have "wp (reconcileCC memEnv demoCluster) (\<lambda>r s'. r = Ok noRequeue \<and> sameMem ?s s' \<and> world s' = world ?s \<and>
    reqs s' = reqs ?s @ [RGet ''ConfigMap'' (generateClusterHostsKey (s_cc ?s)), RGet ''ConfigMap'' (generateClusterConfigKey (s_cc ?s))]) ?s"
    using demo_hostsHold demo_upgrade(3) v
    by (intro converged_is_stable [OF memEnv_server, where conf = demoVersions and ms = demoMasters and ws = demoWorkers])
      (simp_all add: hasProvisionClusterInfo_def demo_cms)
  then show ?thesis unfolding Let_def by (rule wp_mono) simp
qed

text \<open>C28. A failed upgrade is final: when the upgrade worker has failed the phase becomes
  Unknown, and no later reconciliation, whatever the server answers and whatever the desired
  version is then, leaves that phase.\<close>

theorem failed_upgrade_is_final:
  assumes "ccServer E cms pods" and "hasProvisionClusterInfo (phaseOf s)"
    and "hostsHold (cms (world s)) (generateClusterHostsKey (s_cc s)) ms ws"
    and "configHolds (cms (world s)) (generateClusterConfigKey (s_cc s)) v"
    and "NodeName ` set ws = NodeName ` set (getWorkerNodesFromCustomMachine (s_machine s))"
    and "v \<noteq> kcp_version (s_kcp s)" and "isKubeadmUpgradeSupported (e_semver E) v (kcp_version (s_kcp s))"
    and "soleWorker (pods (world s)) (m_uid (cc_meta (s_cc s))) CustomClusterUpgradeAction pod"
    and "pod_phase pod = PodFailed" and "semver_laws (e_semver E)"
  shows "wp (reconcileCC E cluster) (\<lambda>r s'. r = Ok noRequeue \<and> phaseOf s' = UnknownPhase \<and>
    (\<forall>t. ccRun (e_semver E) s' t \<longrightarrow> phaseOf t = UnknownPhase)) s"
  using failed_upgrade [OF assms(1-9)]
  by (rule wp_mono) (use ccSteps_from(1) [OF ccRun_steps [OF assms(10)]] in blast)

theorem failed_upgrade_is_final_witness:
  "let s = demoState demoCustomMachine ''v1.25.0'' UpgradingPhase [demoWorker CustomClusterUpgradeAction PodFailed]
   in wp (reconcileCC memEnv demoCluster) (\<lambda>r s'. phaseOf s' = UnknownPhase) s"
proof -
  let ?s = "demoState demoCustomMachine ''v1.25.0'' UpgradingPhase [demoWorker CustomClusterUpgradeAction PodFailed]"
  have "wp (reconcileCC memEnv demoCluster) (\<lambda>r s'. r = Ok noRequeue \<and> phaseOf s' = UnknownPhase \<and>
    (\<forall>t. ccRun (e_semver memEnv) s' t \<longrightarrow> phaseOf t = UnknownPhase)) ?s"
    using demo_hostsHold demo_configHolds demo_sole [of CustomClusterUpgradeAction PodFailed] demo_upgrade memEnv_laws(2)
    by (intro failed_upgrade_is_final [OF memEnv_server, where v = "''v1.24.6''" and ms = demoMasters and ws = demoWorkers and pod = "demoWorker CustomClusterUpgradeAction PodFailed"])
      (simp_all add: hasProvisionClusterInfo_def)
  then show ?thesis unfolding Let_def by (rule wp_mono) simp
qed

text \<open>Ensuring a worker lists the pods of its action and creates at most one pod, which
  carries the label of the action, lives in the namespace of the CustomCluster and is owned by
  it.\<close>

theorem worker_created_once:
  "wp (ensureWorkerPodCreated E a cmd h g v) (\<lambda>r s'. \<exists>qs. reqs s' = reqs s @ RList ''Pod'' [] [(ManageActionLabel, a)] # qs \<and>
     (qs = [] \<or> (\<exists>m. qs = [RCreate ''Pod'' m] \<and> workerMeta (s_cc s) a m))) s"
  by (rule ensureWorkerPodCreated_trace)

text \<open>C13. A run of the controller either only reads, or ends with exactly one patch, which is its
  last request and carries the CustomCluster as the run left it: also when the handler returned
  an error or panicked.\<close>

theorem status_patched_last:
  "wp (ReconcileCC E req) (\<lambda>r s'. patchedLast s s') s"
  using patchy_ReconcileCC [of E req] by (auto simp: patchy_def intro: wpI)

end
