(* ===== verification/ClusterTypes.thy ===== *)
theory ClusterTypes
  imports InfraTypes
begin

text \<open>
  The API types of \<open>pkg/apis/cluster/v1alpha1\<close>: Cluster and AttachedCluster, with the accessors
  the fleet manager uses. A field whose type belongs to another package and that the modelled
  code only copies is a \<open>foreign\<close> text.
\<close>

type_synonym foreign = string

section \<open>Cluster\<close>

record Volume0 =
  VolumeType :: string
  VolumeSize :: int

record MachineConfig =
  Replicas :: int
  InstanceType :: string
  SSHKeyName :: string
  ImageOS :: string
  RootVolume :: "Volume0 option"
  NonRootVolumes :: "Volume0 list"
  MachineExtraArgs :: foreign

record NodeRegistrationConfig =
  NodeLabels :: gomap
  NodeTaints :: "foreign list"

record NodeConfig =
  nc_machine :: MachineConfig
  nc_registration :: NodeRegistrationConfig

record RollingUpdateNodeUpgradeStrategy =
  MaxUnavailable :: "foreign option"
  MaxSurge :: "foreign option"
  DeletePolicy :: string

record NodeUpgradeStrategy =
  StrategyType :: string
  RollingUpdate :: "RollingUpdateNodeUpgradeStrategy option"

record WorkerConfig =
  wc_node :: NodeConfig
  wc_strategy :: "NodeUpgradeStrategy option"

record VPCConfig =
  VPCID :: string
  VPCName :: string
  VPCCIDRBlock :: string

record NetworkConfig =
  VPC :: VPCConfig
  PodCIDRs :: "string list"
  ServiceCIDRs :: "string list"
  NetworkCNIType :: string
  NetworkCNIExtraArgs :: foreign

record ResourceRef =
  ResourceName :: string
  ResourceKind :: string

record ClusterSpec =
  InfraType :: string
  Credential :: "string option"
  ClusterVersion :: string
  ClusterRegion :: string
  Network :: NetworkConfig
  ClusterMaster :: NodeConfig
  ClusterWorkers :: "WorkerConfig list"
  PodIdentityEnabled :: bool
  AdditionalResources :: "ResourceRef list"

record ClusterStatus =
  ClusterConditions :: "Condition list"
  ClusterPhase :: string
  ClusterAPIEndpoint :: string
  ClusterKubeconfigSecretRef :: string
  ServiceAccountIssuer :: string

record Cluster =
  ku_meta :: ObjectMeta
  ku_spec :: ClusterSpec
  ku_status :: ClusterStatus

definition AWSClusterInfraType :: string where "AWSClusterInfraType = ''aws''"

definition ClusterPhaseProvisioning :: string where "ClusterPhaseProvisioning = ''Provisioning''"
definition ClusterPhaseReady :: string where "ClusterPhaseReady = ''Ready''"
definition ClusterPhaseDeleting :: string where "ClusterPhaseDeleting = ''Deleting''"
definition ClusterPhaseFailed :: string where "ClusterPhaseFailed = ''Failed''"

definition InfrastructureReadyCondition :: string where "InfrastructureReadyCondition = ''InfrastructureReady''"
definition InfrastructureProvisionFailedReason :: string where "InfrastructureProvisionFailedReason = ''InfrastructureProvisionFailed''"
definition InfrastructureNotReadyReason :: string where "InfrastructureNotReadyReason = ''InfrastructureNotReady''"
definition CNICondition :: string where "CNICondition = ''CNI''"
definition CNIProvisionFailedReason :: string where "CNIProvisionFailedReason = ''CNIProvisionFailed''"
definition CNINotReadyReason :: string where "CNINotReadyReason = ''CNINotReady''"
definition ClusterReadyCondition :: string where "ClusterReadyCondition = ''Ready''"
definition ProvisioningReason :: string where "ProvisioningReason = ''Provisioning''"
definition DeletingReason :: string where "DeletingReason = ''Deleting''"
definition ProviderInitializeFailedReason :: string where "ProviderInitializeFailedReason = ''ProviderInitializeFailed''"
definition ClusterResourceSetProvisionFailedReason :: string where
  "ClusterResourceSetProvisionFailedReason = ''ClusterResourceSetProvisionFailed''"
definition PrecheckFailedReason :: string where "PrecheckFailedReason = ''PrecheckFailed''"

section \<open>AttachedCluster\<close>

record SecretKeyRef =
  SecretKeyName :: string
  SecretKeyKey :: string

record AttachedCluster =
  at_meta :: ObjectMeta
  at_kubeconfig :: SecretKeyRef
  at_ready :: bool

section \<open>Clusters of a fleet\<close>

text \<open>The interface \<open>ClusterInterface\<close> of the fleet manager has these two implementations.\<close>

datatype fleetCluster = FCluster Cluster | FAttached AttachedCluster

primrec metaOf :: "fleetCluster \<Rightarrow> ObjectMeta" where
  "metaOf (FCluster c) = ku_meta c"
| "metaOf (FAttached a) = at_meta a"

primrec IsReady :: "fleetCluster \<Rightarrow> bool" where
  "IsReady (FCluster c) = (ClusterPhase (ku_status c) = ClusterPhaseReady)"
| "IsReady (FAttached a) = at_ready a"

text \<open>\<open>None\<close> is the panic of a nil credential.\<close>

primrec GetSecretName :: "fleetCluster \<Rightarrow> string option" where
  "GetSecretName (FCluster c) = Credential (ku_spec c)"
| "GetSecretName (FAttached a) = Some (SecretKeyName (at_kubeconfig a))"

definition ClusterKubeconfigDataName :: string where "ClusterKubeconfigDataName = ''value''"

primrec GetSecretKey :: "fleetCluster \<Rightarrow> string" where
  "GetSecretKey (FCluster c) = ClusterKubeconfigDataName"
| "GetSecretKey (FAttached a) = SecretKeyKey (at_kubeconfig a)"

end
