(* ===== verification/AppTypes.thy ===== *)
theory AppTypes
  imports ClusterTypes
begin

text \<open>
  The API types of \<open>pkg/apis/apps/v1alpha1/types.go\<close>: Application with its sources, sync policies
  and rollout configuration. Types of the packages flux, flagger and istio are \<open>foreign\<close>.
\<close>

section \<open>Rollout\<close>

datatype Provider = Istio | Kuma | Nginx | OtherProvider string

record CanaryConfig =
  MaxWeight :: int
  StepWeight :: int
  StepWeights :: "int list"
  StepWeightPromotion :: int

record TrafficRoutingConfig =
  RoutingTimeoutSeconds :: int
  Gateways :: "string list"
  Hosts :: "string list"
  Retries :: "foreign option"
  Headers :: "foreign option"
  CorsPolicy :: "foreign option"
  Host :: string
  Protocol :: string
  CanaryStrategy :: "CanaryConfig option"
  AnalysisTimes :: int
  MatchRequests :: "foreign list"

record CanaryThresholdRange =
  ThresholdMin :: "foreign option"
  ThresholdMax :: "foreign option"

record Metric =
  MetricName :: string
  IntervalSeconds :: "int option"
  ThresholdRange :: "CanaryThresholdRange option"
  CustomMetric :: "foreign option"

record Webhook =
  WebhookTimeoutSeconds :: "int option"
  Commands :: "string list"

record SessionAffinity =
  CookieName :: string
  MaxAge :: int

record TrafficAnalysis =
  CheckIntervalSeconds :: "int option"
  CheckFailedTimes :: "int option"
  Metrics :: "Metric list"
  Webhooks :: Webhook
  SessionAffinityConf :: "SessionAffinity option"

record RolloutPolicy =
  TrafficRouting :: "TrafficRoutingConfig option"
  TrafficAnalysisConf :: "TrafficAnalysis option"
  RolloutTimeoutSeconds :: "int option"
  SkipTrafficAnalysis :: bool
  RevertOnDeletion :: bool
  Suspend :: bool

record CrossNamespaceObjectReference =
  ref_apiVersion :: string
  ref_kind :: string
  ref_name :: string
  ref_namespace :: string

record CustomMetadata =
  MetaLabels :: gomap
  MetaAnnotations :: gomap

record RolloutConfig =
  TestLoader :: "bool option"
  TrafficRoutingProvider :: Provider
  Workload :: "CrossNamespaceObjectReference option"
  ServiceName :: string
  RolloutPort :: int
  Primary :: "CustomMetadata option"
  Preview :: "CustomMetadata option"
  RolloutPolicyConf :: "RolloutPolicy option"

section \<open>What is applied\<close>

text \<open>The types of \<open>kustomization.go\<close> and \<open>helm_release.go\<close>.\<close>

record CommonMetadata =
  CommonAnnotations :: gomap
  CommonLabels :: gomap

record AppKustomization =
  ks_commonMetadata :: "CommonMetadata option"
  ks_dependsOn :: "foreign list"
  ks_interval :: int
  ks_retryInterval :: "int option"
  ks_path :: string
  ks_prune :: bool
  ks_patches :: "foreign list"
  ks_images :: "foreign list"
  ks_suspend :: bool
  ks_targetNamespace :: string
  ks_timeout :: "int option"
  ks_force :: bool
  ks_components :: "string list"

record HelmChartTemplateObjectMeta =
  ChartLabels :: gomap
  ChartAnnotations :: gomap

record HelmChartTemplateSpec =
  hct_chart :: string
  hct_version :: string
  hct_interval :: "int option"
  hct_reconcileStrategy :: string
  hct_valuesFiles :: "string list"

record HelmChartTemplate =
  hct_objectMeta :: "HelmChartTemplateObjectMeta option"
  hct_spec :: HelmChartTemplateSpec

record AppHelmRelease =
  he_chart :: HelmChartTemplate
  he_interval :: int
  he_suspend :: bool
  he_releaseName :: string
  he_targetNamespace :: string
  he_dependsOn :: "foreign list"
  he_timeout :: "int option"
  he_maxHistory :: "int option"
  he_serviceAccountName :: string
  he_persistentClient :: "bool option"
  he_install :: "foreign option"
  he_upgrade :: "foreign option"
  he_rollback :: "foreign option"
  he_uninstall :: "foreign option"
  he_valuesFrom :: "foreign list"
  he_values :: "foreign option"

section \<open>Application\<close>

text \<open>The labels a selector asks for are a map in the source; here they are its entries.\<close>

record ApplicationDestination =
  DestFleet :: string
  DestSelector :: "(string \<times> string) list option"

record ApplicationSyncPolicy =
  PolicyName :: string
  Kustomization :: "AppKustomization option"
  Helm :: "AppHelmRelease option"
  PolicyDestination :: "ApplicationDestination option"
  Rollout :: "RolloutConfig option"

record ApplicationSource =
  GitRepository :: "foreign option"
  HelmRepository :: "foreign option"
  OCIRepository :: "foreign option"

record ApplicationSpec =
  AppSource :: ApplicationSource
  SyncPolicies :: "ApplicationSyncPolicy list"
  AppDestination :: "ApplicationDestination option"

record RolloutStatus =
  RolloutClusterName :: string
  RolloutNameInCluster :: string
  RolloutStatusInCluster :: "foreign option"

record ApplicationSyncStatus =
  SyncName :: string
  KustomizationStatus :: "foreign option"
  HelmReleaseStatus :: "foreign option"
  SyncRolloutStatus :: "RolloutStatus option"

record ApplicationSourceStatus =
  GitRepoStatus :: "foreign option"
  HelmRepoStatus :: "foreign option"
  OCIRepoStatus :: "foreign option"

record ApplicationStatus =
  SourceStatus :: "ApplicationSourceStatus option"
  SyncStatus :: "ApplicationSyncStatus list"

record Application =
  app_meta :: ObjectMeta
  app_spec :: ApplicationSpec
  app_status :: ApplicationStatus

end
