(* ===== verification/GoNet.thy ===== *)
theory GoNet
  imports Inventory "HOL-Library.Word"
begin

text \<open>
  The parsers of Go's package \<open>net\<close> (Go 1.20) that the admission webhooks call: \<open>ParseIP\<close> and
  \<open>ParseCIDR\<close>. A character is a byte, an address is the list of its 16 bytes. The accepted
  IPv4 texts are characterised exactly, and an accepted address contains only hexadecimal
  digits, dots and colons.
\<close>

section \<open>Numbers\<close>

definition big :: nat where
  "big = 0xFFFFFF"

text \<open>The value, the number of bytes read and success.\<close>

fun dtoiFrom :: "nat \<Rightarrow> nat \<Rightarrow> string \<Rightarrow> nat \<times> nat \<times> bool" where
  "dtoiFrom n i [] = (if i = 0 then (0, 0, False) else (n, i, True))"
| "dtoiFrom n i (c # cs) =
     (if isDigit c
      then let n' = n * 10 + digitVal c in
           if n' \<ge> big then (big, i, False) else dtoiFrom n' (Suc i) cs
      else if i = 0 then (0, 0, False) else (n, i, True))"

definition dtoi :: "string \<Rightarrow> nat \<times> nat \<times> bool" where
  "dtoi s = dtoiFrom 0 0 s"

definition hexVal :: "char \<Rightarrow> nat option" where
  "hexVal c = (let n = of_char c :: nat in
     if 48 \<le> n \<and> n \<le> 57 then Some (n - 48)
     else if 97 \<le> n \<and> n \<le> 102 then Some (n - 97 + 10)
     else if 65 \<le> n \<and> n \<le> 70 then Some (n - 65 + 10)
     else None)"

fun xtoiFrom :: "nat \<Rightarrow> nat \<Rightarrow> string \<Rightarrow> nat \<times> nat \<times> bool" where
  "xtoiFrom n i [] = (if i = 0 then (0, 0, False) else (n, i, True))"
| "xtoiFrom n i (c # cs) =
     (case hexVal c of
        None \<Rightarrow> if i = 0 then (0, 0, False) else (n, i, True)
      | Some d \<Rightarrow>
          let n' = n * 16 + d in
          if n' \<ge> big then (0, i, False) else xtoiFrom n' (Suc i) cs)"

definition xtoi :: "string \<Rightarrow> nat \<times> nat \<times> bool" where
  "xtoi s = xtoiFrom 0 0 s"

section \<open>Addresses\<close>

type_synonym bytes = "8 word list"

text \<open>The field \<open>i\<close> of a dotted address and the ones after it, \<open>k\<close> in all.\<close>

fun ipv4Fields :: "nat \<Rightarrow> nat \<Rightarrow> string \<Rightarrow> (bytes \<times> string) option" where
  "ipv4Fields 0 i s = Some ([], s)"
| "ipv4Fields (Suc k) i s =
     (if s = [] then None
      else if i > 0 \<and> hd s \<noteq> CHR ''.'' then None
      else let s1 = (if i > 0 then tl s else s) in
        (case dtoi s1 of (n, c, ok) \<Rightarrow>
           if \<not> ok \<or> n > 0xFF then None
           else if c > 1 \<and> hd s1 = CHR ''0'' then None
           else map_option (\<lambda>(p, r). (of_nat n # p, r)) (ipv4Fields k (Suc i) (drop c s1))))"

definition v4InV6Prefix :: bytes where
  "v4InV6Prefix = replicate 10 0 @ [0xFF, 0xFF]"

definition parseIPv4 :: "string \<Rightarrow> bytes option" where
  "parseIPv4 s = (case ipv4Fields 4 0 s of
     None \<Rightarrow> None
   | Some (p, rest) \<Rightarrow> if rest \<noteq> [] then None else Some (v4InV6Prefix @ p))"

text \<open>
  One round of the loop of \<open>parseIPv6\<close>: the bytes parsed so far, the position of the ellipsis and
  what is left of the text. A round returns nil, leaves the loop or goes on.
\<close>

datatype round6 = Nil6 | Break6 bytes "nat option" string | Next6 bytes "nat option" string

definition afterGroup :: "bytes \<Rightarrow> nat option \<Rightarrow> string \<Rightarrow> round6" where
  "afterGroup ip ellipsis s =
     (if s = [] then Break6 ip ellipsis s
      else if hd s \<noteq> CHR '':'' \<or> length s = 1 then Nil6
      else let s1 = tl s in
        if hd s1 = CHR '':''
        then if ellipsis \<noteq> None then Nil6
             else if tl s1 = [] then Break6 ip (Some (length ip)) []
             else Next6 ip (Some (length ip)) (tl s1)
        else Next6 ip ellipsis s1)"

definition ipv6Round :: "bytes \<Rightarrow> nat option \<Rightarrow> string \<Rightarrow> round6" where
  "ipv6Round ip ellipsis s =
     (case xtoi s of (n, c, ok) \<Rightarrow>
        if \<not> ok \<or> n > 0xFFFF then Nil6
        else if c < length s \<and> s ! c = CHR ''.''
        then if ellipsis = None \<and> length ip \<noteq> 12 then Nil6
             else if length ip + 4 > 16 then Nil6
             else (case parseIPv4 s of None \<Rightarrow> Nil6 | Some ip4 \<Rightarrow> Break6 (ip @ drop 12 ip4) ellipsis [])
        else afterGroup (ip @ [of_nat (n div 256), of_nat n]) ellipsis (drop c s))"

text \<open>Each round that goes on adds two bytes, so eight rounds are enough for the 16 bytes at which
  the loop stops.\<close>

fun ipv6Loop :: "nat \<Rightarrow> bytes \<Rightarrow> nat option \<Rightarrow> string \<Rightarrow> (bytes \<times> nat option \<times> string) option" where
  "ipv6Loop 0 ip ellipsis s = Some (ip, ellipsis, s)"
| "ipv6Loop (Suc k) ip ellipsis s =
     (if length ip \<ge> 16 then Some (ip, ellipsis, s)
      else case ipv6Round ip ellipsis s of
          Nil6 \<Rightarrow> None
        | Break6 ip' e' s' \<Rightarrow> Some (ip', e', s')
        | Next6 ip' e' s' \<Rightarrow> ipv6Loop k ip' e' s')"

definition expandEllipsis :: "bytes \<Rightarrow> nat option \<Rightarrow> bytes option" where
  "expandEllipsis ip ellipsis =
     (if length ip < 16
      then (case ellipsis of
              None \<Rightarrow> None
            | Some e \<Rightarrow> Some (take e ip @ replicate (16 - length ip) 0 @ drop e ip))
      else if ellipsis \<noteq> None then None else Some ip)"

definition finishIPv6 :: "(bytes \<times> nat option \<times> string) option \<Rightarrow> bytes option" where
  "finishIPv6 r = (case r of
     None \<Rightarrow> None
   | Some (ip, ellipsis, rest) \<Rightarrow> if rest \<noteq> [] then None else expandEllipsis ip ellipsis)"

definition leadingEllipsis :: "string \<Rightarrow> bool" where
  "leadingEllipsis s \<longleftrightarrow> length s \<ge> 2 \<and> s ! 0 = CHR '':'' \<and> s ! 1 = CHR '':''"

definition parseIPv6 :: "string \<Rightarrow> bytes option" where
  "parseIPv6 s =
     (if leadingEllipsis s
      then if drop 2 s = [] then Some (replicate 16 0) else finishIPv6 (ipv6Loop 8 [] (Some 0) (drop 2 s))
      else finishIPv6 (ipv6Loop 8 [] None s))"

fun ParseIPFrom :: "string \<Rightarrow> string \<Rightarrow> bytes option" where
  "ParseIPFrom s [] = None"
| "ParseIPFrom s (c # cs) =
     (if c = CHR ''.'' then parseIPv4 s else if c = CHR '':'' then parseIPv6 s else ParseIPFrom s cs)"

definition ParseIP :: "string \<Rightarrow> bytes option" where
  "ParseIP s = ParseIPFrom s s"

text \<open>The address and the length of the network prefix; the error of a failure is a fixed text.\<close>

definition ParseCIDR :: "string \<Rightarrow> (bytes \<times> nat) option" where
  "ParseCIDR s =
     (let addr = takeWhile (\<lambda>c. c \<noteq> CHR ''/'') s in
      if addr = s then None
      else let mask = drop (Suc (length addr)) s;
               (iplen, ip) = (case parseIPv4 addr of
                  Some p \<Rightarrow> (4, Some p) | None \<Rightarrow> (16, parseIPv6 addr))
           in case dtoi mask of (n, i, ok) \<Rightarrow>
             (case ip of
                None \<Rightarrow> None
              | Some a \<Rightarrow> if \<not> ok \<or> i \<noteq> length mask \<or> n > 8 * iplen then None else Some (a, n)))"

section \<open>What dtoi reads\<close>

lemma dtoiFrom_ok:
  assumes "dtoiFrom n i s = (m, c, True)"
  shows "i \<le> c \<and> c - i \<le> length s \<and> list_all isDigit (take (c - i) s) \<and>
    m = foldl (\<lambda>a c. 10 * a + digitVal c) n (take (c - i) s) \<and> 0 < c \<and>
    (c - i = length s \<or> \<not> isDigit (s ! (c - i)))"
  using assms
proof (induction n i s rule: dtoiFrom.induct)
  case (2 n i c' cs)
  show ?case
  proof (cases "isDigit c'")
    case True
    then have r: "dtoiFrom (n * 10 + digitVal c') (Suc i) cs = (m, c, True)"
      using "2.prems" by (auto simp: Let_def split: if_splits)
    then have "\<not> big \<le> n * 10 + digitVal c'" using "2.prems" True by (auto simp: Let_def split: if_splits)
    from "2.IH" [OF True refl this r] have IH: "Suc i \<le> c" "c - Suc i \<le> length cs"
      "list_all isDigit (take (c - Suc i) cs)"
      "m = foldl (\<lambda>a c. 10 * a + digitVal c) (n * 10 + digitVal c') (take (c - Suc i) cs)"
      "c - Suc i = length cs \<or> \<not> isDigit (cs ! (c - Suc i))" by auto
    have "c - i = Suc (c - Suc i)" using IH(1) by simp
    then show ?thesis using IH True by (auto simp: mult.commute)
  qed (use "2.prems" in \<open>auto split: if_splits\<close>)
qed (auto split: if_splits)

lemma dtoiFrom_digits:
  assumes "list_all isDigit ds" and "rest = [] \<or> \<not> isDigit (hd rest)" and "ds \<noteq> [] \<or> i > 0"
    and "foldl (\<lambda>a c. 10 * a + digitVal c) n ds < big"
  shows "dtoiFrom n i (ds @ rest) = (foldl (\<lambda>a c. 10 * a + digitVal c) n ds, i + length ds, True)"
  using assms
proof (induction ds arbitrary: n i)
  case Nil
  then show ?case by (cases rest) auto
next
  case (Cons d ds)
  have mono: "n \<le> foldl (\<lambda>a c. 10 * a + digitVal c) n xs" for n xs
  proof (induction xs arbitrary: n)
    case (Cons a xs)
    show ?case using Cons [of "10 * n + digitVal a"] by simp
  qed simp
  have "10 * n + digitVal d < big" using Cons.prems(4) mono [of "10 * n + digitVal d" ds] by simp
  then show ?case using Cons by (auto simp: Let_def mult.commute not_le)
qed

section \<open>Dotted addresses\<close>

lemma digitChar_0: "digitChar 0 = CHR ''0''"
  by code_simp

lemma digitChar_digitVal: "isDigit d \<Longrightarrow> digitChar (digitVal d) = d" "isDigit d \<Longrightarrow> digitVal d < 10"
  by (auto simp: digitChar_def digitVal_def isDigit_def)

text \<open>Digits without a leading zero are the decimal text of their value.\<close>

lemma showNat_digits_value:
  assumes "list_all isDigit ds" and "ds \<noteq> []" and "length ds = 1 \<or> hd ds \<noteq> CHR ''0''"
  shows "showNat (foldl (\<lambda>a c. 10 * a + digitVal c) 0 ds) = ds"
  using assms
proof (induction ds rule: rev_induct)
  case (snoc d xs)
  have d: "isDigit d" "digitVal d < 10" "digitChar (digitVal d) = d"
    using snoc.prems(1) digitChar_digitVal by auto
  show ?case
  proof (cases "xs = []")
    case True
    then show ?thesis using d by (subst showNat.simps) simp
  next
    case False
    then have hd: "hd xs \<noteq> CHR ''0''" and xs: "list_all isDigit xs" using snoc.prems by auto
    let ?v = "foldl (\<lambda>a c. 10 * a + digitVal c) 0 xs"
    have IH: "showNat ?v = xs" using snoc.IH [OF xs False] hd by simp
    have "?v \<noteq> 0"
    proof
      assume "?v = 0"
      then have "xs = [CHR ''0'']" using IH by (subst (asm) showNat.simps) (simp add: digitChar_0)
      then show False using hd by simp
    qed
    then show ?thesis using d IH by (subst showNat.simps) simp
  qed
qed simp

lemma dtoi_showNat:
  assumes "n < big" and "rest = [] \<or> \<not> isDigit (hd rest)"
  shows "dtoi (showNat n @ rest) = (n, length (showNat n), True)"
  using dtoiFrom_digits [OF showNat_digits assms(2), of n 0 0] assms(1) by (simp add: dtoi_def showNat_value)

lemma showNat_lead: "\<not> (length (showNat n) > 1 \<and> hd (showNat n @ rest) = CHR ''0'')"
proof (induction n arbitrary: rest rule: showNat.induct)
  case (1 n)
  show ?case
  proof (cases "n < 10")
    case True
    then show ?thesis by (subst showNat.simps) simp
  next
    case False
    have "hd (showNat (n div 10)) \<noteq> CHR ''0''"
    proof (cases "n div 10 < 10")
      case True
      have "digitVal (digitChar (n div 10)) \<noteq> 0" using True False by (simp add: div_eq_0_iff)
      then have "digitChar (n div 10) \<noteq> CHR ''0''" by (auto simp: digitVal_def)
      then show ?thesis using True by (subst showNat.simps) simp
    next
      case big: False
      then have "length (showNat (n div 10)) > 1" by (subst showNat.simps) (auto simp: length_greater_0_conv)
      then show ?thesis using 1 [OF False, of "[]"] by simp
    qed
    then show ?thesis using False by (subst (1 2) showNat.simps) (simp add: hd_append)
  qed
qed

lemma dtoi_field:
  assumes "dtoi s = (n, c, True)" and "\<not> (c > 1 \<and> hd s = CHR ''0'')"
  shows "s = showNat n @ drop c s \<and> (drop c s = [] \<or> \<not> isDigit (hd (drop c s)))"
proof -
  from dtoiFrom_ok [OF assms(1) [unfolded dtoi_def]] have d: "c \<le> length s" "list_all isDigit (take c s)"
    "n = foldl (\<lambda>a c. 10 * a + digitVal c) 0 (take c s)" "0 < c" "c = length s \<or> \<not> isDigit (s ! c)" by auto
  have ne: "take c s \<noteq> []" using d(1,4) by auto
  have "length (take c s) = 1 \<or> hd (take c s) \<noteq> CHR ''0''" using assms(2) d(1,4) by (auto simp: hd_take)
  then have "showNat n = take c s" using showNat_digits_value [OF d(2) ne] d(3) by simp
  moreover have "drop c s = [] \<or> \<not> isDigit (hd (drop c s))"
    using d(1,5) by (cases "c = length s") (auto simp: hd_drop_conv_nth)
  ultimately show ?thesis by simp
qed

fun ipv4Text :: "nat \<Rightarrow> nat list \<Rightarrow> string" where
  "ipv4Text i [] = []"
| "ipv4Text i (n # ns) = (if i > 0 then ''.'' else []) @ showNat n @ ipv4Text (Suc i) ns"

lemma ipv4Fields_sound:
  "ipv4Fields k i s = Some (p, r) \<Longrightarrow>
     \<exists>ns. length ns = k \<and> (\<forall>n \<in> set ns. n < 256) \<and> p = map of_nat ns \<and> s = ipv4Text i ns @ r"
proof (induction k arbitrary: i s p)
  case (Suc k)
  define s1 where "s1 = (if i > 0 then tl s else s)"
  obtain n c ok where d: "dtoi s1 = (n, c, ok)" by (cases "dtoi s1")
  have s: "s \<noteq> []" "i > 0 \<Longrightarrow> hd s = CHR ''.''" and ok: "ok" "n < 256" "\<not> (c > 1 \<and> hd s1 = CHR ''0'')"
    using Suc.prems d by (auto simp: s1_def [symmetric] Let_def split: if_splits)
  obtain p' where p': "ipv4Fields k (Suc i) (drop c s1) = Some (p', r)" "p = of_nat n # p'"
    using Suc.prems d s ok by (auto simp: s1_def [symmetric] Let_def split: if_splits)
  from Suc.IH [OF p'(1)] obtain ns where ns: "length ns = k" "\<forall>n \<in> set ns. n < 256" "p' = map of_nat ns"
    "drop c s1 = ipv4Text (Suc i) ns @ r" by blast
  have "s1 = showNat n @ ipv4Text (Suc i) ns @ r" using dtoi_field [OF d [unfolded \<open>ok\<close> [THEN eqTrueI]] ok(3)] ns(4) by simp
  moreover have "s = (if i > 0 then ''.'' else []) @ s1" using s by (cases s) (auto simp: s1_def)
  ultimately show ?case using ns ok(2) p'(2) by (intro exI [of _ "n # ns"]) auto
qed simp

lemma ipv4Text_head: "r = [] \<or> \<not> isDigit (hd r) \<Longrightarrow> ipv4Text (Suc i) ns @ r = [] \<or> \<not> isDigit (hd (ipv4Text (Suc i) ns @ r))"
  by (cases ns) (auto simp: isDigit_def)

lemma ipv4Fields_complete:
  assumes "\<forall>n \<in> set ns. n < 256" and "r = [] \<or> \<not> isDigit (hd r)"
  shows "ipv4Fields (length ns) i (ipv4Text i ns @ r) = Some (map of_nat ns, r)"
  using assms(1)
proof (induction ns arbitrary: i)
  case (Cons n ns)
  let ?rest = "ipv4Text (Suc i) ns @ r"
  have "dtoi (showNat n @ ?rest) = (n, length (showNat n), True)"
    using Cons.prems by (intro dtoi_showNat ipv4Text_head assms(2)) (simp add: big_def)
  moreover have "\<not> (1 < length (showNat n) \<and> hd (showNat n @ ?rest) = CHR ''0'')" by (rule showNat_lead)
  ultimately show ?case using Cons by (cases "i = 0") (simp_all add: Let_def)
qed simp

lemma parseIPv4_iff:
  "parseIPv4 s = Some ip \<longleftrightarrow>
     (\<exists>a b c d. a < 256 \<and> b < 256 \<and> c < 256 \<and> d < 256 \<and>
        s = showNat a @ ''.'' @ showNat b @ ''.'' @ showNat c @ ''.'' @ showNat d \<and>
        ip = v4InV6Prefix @ [of_nat a, of_nat b, of_nat c, of_nat d])"
proof
  assume "parseIPv4 s = Some ip"
  then obtain p where p: "ipv4Fields 4 0 s = Some (p, [])" "ip = v4InV6Prefix @ p"
    by (auto simp: parseIPv4_def split: option.splits if_splits)
  from ipv4Fields_sound [OF p(1)] obtain ns where ns: "length ns = 4" "\<forall>n \<in> set ns. n < 256" "p = map of_nat ns"
    "s = ipv4Text 0 ns" by auto
  then obtain a b c d where "ns = [a, b, c, d]" by (auto simp: numeral_eq_Suc length_Suc_conv)
  then show "\<exists>a b c d. a < 256 \<and> b < 256 \<and> c < 256 \<and> d < 256 \<and>
        s = showNat a @ ''.'' @ showNat b @ ''.'' @ showNat c @ ''.'' @ showNat d \<and>
        ip = v4InV6Prefix @ [of_nat a, of_nat b, of_nat c, of_nat d]"
    using ns p(2) by (intro exI [of _ a] exI [of _ b] exI [of _ c] exI [of _ d]) simp
next
  assume "\<exists>a b c d. a < 256 \<and> b < 256 \<and> c < 256 \<and> d < 256 \<and>
        s = showNat a @ ''.'' @ showNat b @ ''.'' @ showNat c @ ''.'' @ showNat d \<and>
        ip = v4InV6Prefix @ [of_nat a, of_nat b, of_nat c, of_nat d]"
  then obtain a b c d where r: "a < 256" "b < 256" "c < 256" "d < 256"
    "s = showNat a @ ''.'' @ showNat b @ ''.'' @ showNat c @ ''.'' @ showNat d"
    "ip = v4InV6Prefix @ [of_nat a, of_nat b, of_nat c, of_nat d]" by blast
  then show "parseIPv4 s = Some ip"
    using ipv4Fields_complete [of "[a, b, c, d]" "[]" 0] by (simp add: parseIPv4_def numeral_eq_Suc)
qed

section \<open>Accepted addresses\<close>

definition addrChar :: "char \<Rightarrow> bool" where
  "addrChar c \<longleftrightarrow> hexVal c \<noteq> None \<or> c = CHR ''.'' \<or> c = CHR '':''"

lemma digit_addr: "isDigit c \<Longrightarrow> addrChar c"
  by (simp add: addrChar_def hexVal_def isDigit_def Let_def)

lemma parseIPv4_shape:
  assumes "parseIPv4 s = Some ip"
  shows "length ip = 16" and "\<forall>c \<in> set s. addrChar c"
proof -
  have "\<forall>c \<in> set (showNat n). addrChar c" for n
    using showNat_digits [of n] digit_addr by (auto simp: list_all_iff)
  moreover have "addrChar CHR ''.''" by (simp add: addrChar_def)
  ultimately show "length ip = 16" "\<forall>c \<in> set s. addrChar c"
    using assms unfolding parseIPv4_iff by (auto simp: v4InV6Prefix_def)
qed

lemma xtoiFrom_ok:
  "xtoiFrom n i s = (m, c, True) \<Longrightarrow> i \<le> c \<and> (\<forall>x \<in> set (take (c - i) s). addrChar x)"
proof (induction n i s rule: xtoiFrom.induct)
  case (2 n i x xs)
  show ?case
  proof (cases "hexVal x")
    case (Some d)
    then have "xtoiFrom (n * 16 + d) (Suc i) xs = (m, c, True)" "\<not> big \<le> n * 16 + d"
      using "2.prems" by (auto simp: Let_def split: if_splits)
    with "2.IH" [OF Some refl] have IH: "Suc i \<le> c" "\<forall>x \<in> set (take (c - Suc i) xs). addrChar x" by auto
    have "c - i = Suc (c - Suc i)" using IH(1) by simp
    then show ?thesis using IH Some by (auto simp: addrChar_def)
  qed (use "2.prems" in \<open>auto split: if_splits\<close>)
qed (auto split: if_splits)

lemma afterGroup_shape:
  "(case afterGroup ip e s of
      Nil6 \<Rightarrow> True
    | Break6 ip' e' s' \<Rightarrow> ip' = ip \<and> (\<forall>c \<in> set s. addrChar c \<or> c \<in> set s')
    | Next6 ip' e' s' \<Rightarrow> ip' = ip \<and> (\<forall>c \<in> set s. addrChar c \<or> c \<in> set s'))"
proof -
  have colon: "addrChar CHR '':''" by (simp add: addrChar_def)
  show ?thesis
  proof (cases s)
    case (Cons y ys)
    then show ?thesis using colon by (cases ys) (auto simp: afterGroup_def Let_def)
  qed (simp add: afterGroup_def)
qed

lemma ipv6Round_shape:
  assumes "even (length ip)" and "length ip < 16"
  shows "(case ipv6Round ip e s of
      Nil6 \<Rightarrow> True
    | Break6 ip' e' s' \<Rightarrow> length ip' \<le> 16 \<and> (\<forall>c \<in> set s. addrChar c \<or> c \<in> set s')
    | Next6 ip' e' s' \<Rightarrow> length ip' = length ip + 2 \<and> (\<forall>c \<in> set s. addrChar c \<or> c \<in> set s'))"
proof -
  have room: "length ip + 2 \<le> 16" using assms by (auto elim!: evenE)
  obtain n c ok where x: "xtoi s = (n, c, ok)" by (cases "xtoi s")
  show ?thesis
  proof (cases "ok \<and> n \<le> 0xFFFF")
    case True
    then have hex: "\<forall>y \<in> set (take c s). addrChar y"
      using xtoiFrom_ok [of 0 0 s n c] x by (simp add: xtoi_def)
    have split: "set s = set (take c s) \<union> set (drop c s)" by (metis append_take_drop_id set_append)
    show ?thesis
    proof (cases "c < length s \<and> s ! c = CHR ''.''")
      case dot: True
      then have "ipv6Round ip e s = (if e = None \<and> length ip \<noteq> 12 then Nil6 else if length ip + 4 > 16 then Nil6
          else case parseIPv4 s of None \<Rightarrow> Nil6 | Some ip4 \<Rightarrow> Break6 (ip @ drop 12 ip4) e [])"
        using True x by (simp add: ipv6Round_def)
      then show ?thesis using parseIPv4_shape [of s] by (cases "parseIPv4 s") simp_all
    next
      case False
      let ?ip = "ip @ [of_nat (n div 256), of_nat n]"
      have r: "ipv6Round ip e s = afterGroup ?ip e (drop c s)" using True
        by (simp only: ipv6Round_def x prod.case False if_False not_less de_Morgan_disj not_not simp_thms) simp
      have "\<forall>y \<in> set s. addrChar y \<or> y \<in> set rest" if "\<forall>y \<in> set (drop c s). addrChar y \<or> y \<in> set rest" for rest
        using that hex split by blast
      then show ?thesis unfolding r using afterGroup_shape [where ip = ?ip and e = e and s = "drop c s"] room
        by (cases "afterGroup ?ip e (drop c s)") simp_all
    qed
  next
    case False
    then have "\<not> ok \<or> n > 0xFFFF" by auto
    then have "ipv6Round ip e s = Nil6" by (simp only: ipv6Round_def x prod.case if_True)
    then show ?thesis by simp
  qed
qed

lemma ipv6Loop_shape:
  assumes "ipv6Loop k ip e s = Some (ip', e', rest)" and "even (length ip)" and "length ip \<le> 16"
  shows "length ip' \<le> 16 \<and> (\<forall>c \<in> set s. addrChar c \<or> c \<in> set rest)"
  using assms
proof (induction k arbitrary: ip e s)
  case (Suc k)
  show ?case
  proof (cases "length ip \<ge> 16")
    case False
    then have lt: "length ip < 16" by simp
    note shape = ipv6Round_shape [OF Suc.prems(2) lt, where e = e and s = s]
    show ?thesis
    proof (cases "ipv6Round ip e s")
      case Nil6
      then show ?thesis using Suc.prems(1) False by simp
    next
      case (Break6 ip1 e1 s1)
      then have "ip1 = ip'" "s1 = rest" using Suc.prems(1) False by simp_all
      then show ?thesis using shape unfolding Break6 by simp
    next
      case (Next6 ip1 e1 s1)
      have run: "ipv6Loop k ip1 e1 s1 = Some (ip', e', rest)" using Suc.prems(1) False Next6 by simp
      have step: "length ip1 = length ip + 2" "\<forall>c \<in> set s. addrChar c \<or> c \<in> set s1"
        using shape unfolding Next6 by simp_all
      have "length ip1 \<le> 16" "even (length ip1)" using lt Suc.prems(2) step(1) by (auto elim!: evenE)
      from Suc.IH [OF run this(2) this(1)] step(2) show ?thesis by blast
    qed
  next
    case True
    then show ?thesis using Suc.prems by simp
  qed
qed simp

lemma finishIPv6_shape:
  assumes "finishIPv6 (ipv6Loop 8 [] e s) = Some ip"
  shows "length ip = 16" and "\<forall>c \<in> set s. addrChar c"
proof -
  obtain ip1 e1 where l: "ipv6Loop 8 [] e s = Some (ip1, e1, [])" "expandEllipsis ip1 e1 = Some ip"
    using assms by (auto simp: finishIPv6_def split: option.splits if_splits)
  have "length ip1 \<le> 16" "\<forall>c \<in> set s. addrChar c" using ipv6Loop_shape [OF l(1)] by auto
  then show "length ip = 16" "\<forall>c \<in> set s. addrChar c"
    using l(2) by (auto simp: expandEllipsis_def min_def split: if_splits option.splits)
qed

lemma parseIPv6_shape:
  assumes "parseIPv6 s = Some ip"
  shows "length ip = 16" and "\<forall>c \<in> set s. addrChar c"
proof -
  have colon: "addrChar CHR '':''" by (simp add: addrChar_def)
  have "length ip = 16 \<and> (\<forall>c \<in> set s. addrChar c)"
  proof (cases "leadingEllipsis s")
    case True
    then have "2 \<le> length s" by (simp add: leadingEllipsis_def)
    then obtain a b xs where s: "s = a # b # xs" by (metis Suc_le_length_iff numeral_2_eq_2)
    have ab: "a = CHR '':''" "b = CHR '':''" using True by (simp_all add: s leadingEllipsis_def)
    show ?thesis
    proof (cases "xs = []")
      case False
      then have "finishIPv6 (ipv6Loop 8 [] (Some 0) xs) = Some ip" using assms True by (simp add: parseIPv6_def s)
      from finishIPv6_shape [OF this] show ?thesis using ab colon by (simp add: s)
    next
      case e: True
      then have "ip = replicate 16 0" using assms True by (simp add: parseIPv6_def s)
      then show ?thesis using e ab colon by (simp add: s)
    qed
  next
    case False
    then have "finishIPv6 (ipv6Loop 8 [] None s) = Some ip" using assms by (simp add: parseIPv6_def)
    from finishIPv6_shape [OF this] show ?thesis by simp
  qed
  then show "length ip = 16" "\<forall>c \<in> set s. addrChar c" by simp_all
qed

lemma ParseIP_shape:
  assumes "ParseIP s = Some ip"
  shows "length ip = 16" and "\<forall>c \<in> set s. addrChar c"
proof -
  have "ParseIPFrom s t = Some ip \<Longrightarrow> parseIPv4 s = Some ip \<or> parseIPv6 s = Some ip" for t
    by (induction t) (auto split: if_splits)
  then show "length ip = 16" "\<forall>c \<in> set s. addrChar c"
    using assms parseIPv4_shape parseIPv6_shape unfolding ParseIP_def by metis+
qed

text \<open>An accepted address is a word of the inventory: no white space, no bracket.\<close>

lemma ParseIP_goodWord: "ParseIP s \<noteq> None \<Longrightarrow> goodWord s"
proof -
  assume "ParseIP s \<noteq> None"
  then have "\<forall>c \<in> set s. addrChar c" using ParseIP_shape(2) by blast
  moreover have "\<not> addrChar c" if "isSpace c \<or> c = CHR ''[''" for c
    using that unfolding isSpace_def insert_iff empty_iff addrChar_def hexVal_def Let_def by (elim disjE) simp_all
  ultimately show ?thesis unfolding goodWord_def by blast
qed

lemma ParseIP_dotted:
  assumes "a < 256" "b < 256" "c < 256" "d < 256"
  shows "ParseIP (showNat a @ ''.'' @ showNat b @ ''.'' @ showNat c @ ''.'' @ showNat d) =
    Some (v4InV6Prefix @ [of_nat a, of_nat b, of_nat c, of_nat d])"
proof -
  have skip: "list_all isDigit ds \<Longrightarrow> ParseIPFrom s (ds @ CHR ''.'' # t) = parseIPv4 s" for s ds t
    by (induction ds) (auto simp: isDigit_def)
  let ?s = "showNat a @ ''.'' @ showNat b @ ''.'' @ showNat c @ ''.'' @ showNat d"
  have "parseIPv4 ?s = Some (v4InV6Prefix @ [of_nat a, of_nat b, of_nat c, of_nat d])"
    unfolding parseIPv4_iff using assms by blast
  then show ?thesis unfolding ParseIP_def using skip [OF showNat_digits, where s = ?s] by simp
qed

lemma ParseCIDR_bound:
  assumes "ParseCIDR s = Some (a, n)"
  shows "length a = 16" and "n \<le> 128" and "CHR ''/'' \<in> set s"
proof -
  let ?addr = "takeWhile (\<lambda>c. c \<noteq> CHR ''/'') s"
  have ne: "?addr \<noteq> s"
  proof
    assume "?addr = s"
    then show False using assms unfolding ParseCIDR_def Let_def by simp
  qed
  show "CHR ''/'' \<in> set s" using ne takeWhile_eq_all_conv by blast
  show "length a = 16" "n \<le> 128"
    using assms ne parseIPv4_shape(1) parseIPv6_shape(1)
    unfolding ParseCIDR_def Let_def by (simp_all split: option.splits prod.splits if_splits)
qed

end
