(* ===== verification/Webhooks.thy ===== *)
theory Webhooks
  imports AppTypes GoNet
begin

text \<open>
  The admission webhooks of \<open>pkg/webhooks\<close> for Cluster, AttachedCluster, CustomCluster,
  CustomMachine and Application. A validation returns the list of its field errors, a webhook
  the error of the request (\<open>None\<close> is nil). The validation helpers of the Kubernetes and Cluster
  API packages are the fields of \<open>vlib\<close>. Every webhook keeps the contract of the locale
  \<open>admission_webhook\<close>: a stored object has passed the validation, however it was updated.
\<close>

section \<open>Errors\<close>

datatype pathElem = PChild string | PIndex nat

type_synonym path = "pathElem list"

datatype badValue = VString string | VNat nat | VMachines "Machine list"

datatype fieldErr =
    FRequired path string
  | FInvalid path badValue string
  | FDuplicate path string
  | FTooMany path nat nat
  | FForbidden path string

datatype admissionErr =
    BadRequest string
  | Invalid string string "fieldErr list"

definition NewPath :: "string list \<Rightarrow> path" where
  "NewPath names = map PChild names"

definition child :: "path \<Rightarrow> string list \<Rightarrow> path" where
  "child p names = p @ map PChild names"

definition index :: "path \<Rightarrow> nat \<Rightarrow> path" where
  "index p i = p @ [PIndex i]"

text \<open>Objects of the scheme, with the names of their Go types.\<close>

datatype runtimeObj =
    RtCluster Cluster
  | RtAttached AttachedCluster
  | RtCustomCluster CustomCluster
  | RtCustomMachine CustomMachine
  | RtApplication Application
  | RtOther string

fun typeName :: "runtimeObj \<Rightarrow> string" where
  "typeName (RtCluster _) = ''*v1alpha1.Cluster''"
| "typeName (RtAttached _) = ''*v1alpha1.AttachedCluster''"
| "typeName (RtCustomCluster _) = ''*v1alpha1.CustomCluster''"
| "typeName (RtCustomMachine _) = ''*v1alpha1.CustomMachine''"
| "typeName (RtApplication _) = ''*v1alpha1.Application''"
| "typeName (RtOther t) = t"

text \<open>\<open>validation.IsDNS1123Label\<close>, \<open>IsDNS1123Subdomain\<close>, \<open>IsValidLabelValue\<close> and \<open>version.KubeSemver\<close>.\<close>

record vlib =
  isDNS1123Label :: "string \<Rightarrow> string list"
  isDNS1123Subdomain :: "string \<Rightarrow> string list"
  isValidLabelValue :: "string \<Rightarrow> string list"
  kubeSemver :: "string \<Rightarrow> bool"

text \<open>The error of an object with field errors, and the one of an object of another type.\<close>

definition newInvalid :: "string \<Rightarrow> string \<Rightarrow> fieldErr list \<Rightarrow> admissionErr option" where
  "newInvalid kind name allErrs = (if allErrs \<noteq> [] then Some (Invalid kind name allErrs) else None)"

definition wrongType :: "string \<Rightarrow> runtimeObj \<Rightarrow> admissionErr option" where
  "wrongType expected obj = Some (BadRequest (''expected a '' @ expected @ '' but got a '' @ typeName obj))"

section \<open>Shared checks\<close>

definition validateIP :: "string \<Rightarrow> path \<Rightarrow> fieldErr list" where
  "validateIP IP fldPath =
     (if ParseIP IP = None then [FInvalid fldPath (VString IP) (''invalid ip address: '' @ IP)] else [])"

definition validateDNS1123Label :: "vlib \<Rightarrow> string \<Rightarrow> path \<Rightarrow> fieldErr list" where
  "validateDNS1123Label V label fldPath =
     (let errs = isDNS1123Label V label in
      if errs \<noteq> [] then [FInvalid fldPath (VString label) (joinS ''; '' errs)] else [])"

definition validateDNS1123Domain :: "vlib \<Rightarrow> string \<Rightarrow> path \<Rightarrow> fieldErr list" where
  "validateDNS1123Domain V domain fldPath =
     (let errs = isDNS1123Subdomain V domain in
      if errs \<noteq> [] then [FInvalid fldPath (VString domain) (joinS ''; '' errs)] else [])"

section \<open>CustomMachine\<close>

definition validateAddress :: "string \<Rightarrow> path \<Rightarrow> fieldErr list" where
  "validateAddress ip fldPath = (if ip = [] then [FRequired fldPath ''must be set''] else validateIP ip fldPath)"

fun validateMachineFrom :: "nat \<Rightarrow> Machine list \<Rightarrow> path \<Rightarrow> fieldErr list" where
  "validateMachineFrom i [] fldPath = []"
| "validateMachineFrom i (machine # ms) fldPath =
     validateAddress (PrivateIP machine) (child (index fldPath i) [''privateIP'']) @
     validateAddress (PublicIP machine) (child (index fldPath i) [''publicIP'']) @
     validateMachineFrom (Suc i) ms fldPath"

definition validateMachine :: "Machine list \<Rightarrow> path \<Rightarrow> fieldErr list" where
  "validateMachine machineArr fldPath = validateMachineFrom 0 machineArr fldPath"

definition validateCustomMachine :: "CustomMachine \<Rightarrow> admissionErr option" where
  "validateCustomMachine in' =
     (let masters = Master (cmach_spec in'); nodes = Nodes (cmach_spec in');
          allErrs =
            (if length masters = 0
             then [FInvalid (NewPath [''spec'', ''master'']) (VMachines masters) ''at least one master must be configured'']
             else if length masters mod 2 = 0
             then [FInvalid (NewPath [''spec'', ''master'']) (VNat (length masters))
               ''the number of master nodes need to be set to an odd number due to the restrictions of etcd cluster.'']
             else []) @
            (if length nodes = 0
             then [FInvalid (NewPath [''spec'', ''nodes'']) (VMachines nodes) ''at least one node must be configured'']
             else []) @
            validateMachine masters (NewPath [''spec'', ''master'']) @
            validateMachine nodes (NewPath [''spec'', ''node''])
      in newInvalid ''CustomMachine'' (m_name (cmach_meta in')) allErrs)"

definition CustomMachineValidateCreate :: "runtimeObj \<Rightarrow> admissionErr option" where
  "CustomMachineValidateCreate obj = (case obj of
     RtCustomMachine in' \<Rightarrow> validateCustomMachine in'
   | _ \<Rightarrow> wrongType ''CustomMachine'' obj)"

definition CustomMachineValidateUpdate :: "runtimeObj \<Rightarrow> runtimeObj \<Rightarrow> admissionErr option" where
  "CustomMachineValidateUpdate oldObj newObj = (case oldObj of
     RtCustomMachine _ \<Rightarrow> (case newObj of
         RtCustomMachine newCustomMachine \<Rightarrow> validateCustomMachine newCustomMachine
       | _ \<Rightarrow> wrongType ''CustomMachine'' newObj)
   | _ \<Rightarrow> wrongType ''CustomMachine'' oldObj)"

section \<open>CustomCluster\<close>

definition validCNIs :: "string list" where
  "validCNIs = [''calico'', ''canal'', ''cilium'', ''flannel'', ''kube-ovn'', ''kube-router'', ''macvlan'', ''weave'']"

fun IsValidCNIIn :: "string list \<Rightarrow> string \<Rightarrow> bool" where
  "IsValidCNIIn [] value = False"
| "IsValidCNIIn (v # vs) value = (if value = v then True else IsValidCNIIn vs value)"

definition IsValidCNI :: "string \<Rightarrow> bool" where
  "IsValidCNI value = IsValidCNIIn validCNIs value"

definition validateCNI :: "CustomCluster \<Rightarrow> fieldErr list" where
  "validateCNI in' =
     (let t = CNIType (CNI (cc_spec in')) in
      if \<not> IsValidCNI t
      then [FInvalid (NewPath [''spec'', ''cni'', ''type'']) (VString t)
             (''invalid CNI type: '' @ t @ '' ,it should be one of ['' @ joinS '' '' validCNIs @ ''] '')]
      else [])"

definition validateMachineRef :: "vlib \<Rightarrow> ObjectReference \<Rightarrow> fieldErr list" where
  "validateMachineRef V machineRef =
     (if r_kind machineRef = [] then [FRequired (NewPath [''spec'', ''machineRef'', ''kind'']) ''must be set''] else []) @
     (if r_apiVersion machineRef = [] then [FRequired (NewPath [''spec'', ''machineRef'', ''apiVersion'']) ''must be set''] else []) @
     (if r_name machineRef = [] then [FRequired (NewPath [''spec'', ''machineRef'', ''name'']) ''must be set'']
      else validateDNS1123Domain V (r_name machineRef) (NewPath [''spec'', ''machineRef'', ''name''])) @
     (if r_namespace machineRef = [] then [FRequired (NewPath [''spec'', ''machineRef'', ''namespace'']) ''must be set'']
      else validateDNS1123Label V (r_namespace machineRef) (NewPath [''spec'', ''machineRef'', ''namespace'']))"

definition validateControlPlaneConfig :: "ControlPlaneConfig \<Rightarrow> fieldErr list" where
  "validateControlPlaneConfig in' =
     (if Address in' \<noteq> [] then validateIP (Address in') (NewPath [''spec'', ''controlPlaneConfig'', ''address'']) else [])"

definition validateCustomCluster :: "vlib \<Rightarrow> CustomCluster \<Rightarrow> admissionErr option" where
  "validateCustomCluster V in' =
     newInvalid ''CustomCluster'' (m_name (cc_meta in'))
       (validateCNI in' @
        (case MachineRef (cc_spec in') of None \<Rightarrow> [] | Some ref \<Rightarrow> validateMachineRef V ref) @
        (case ControlPlaneConf (cc_spec in') of None \<Rightarrow> [] | Some conf \<Rightarrow> validateControlPlaneConfig conf))"

definition CustomClusterValidateCreate :: "vlib \<Rightarrow> runtimeObj \<Rightarrow> admissionErr option" where
  "CustomClusterValidateCreate V obj = (case obj of
     RtCustomCluster in' \<Rightarrow> validateCustomCluster V in'
   | _ \<Rightarrow> wrongType ''CustomCluster'' obj)"

definition CustomClusterValidateUpdate :: "vlib \<Rightarrow> runtimeObj \<Rightarrow> runtimeObj \<Rightarrow> admissionErr option" where
  "CustomClusterValidateUpdate V oldObj newObj = (case oldObj of
     RtCustomCluster _ \<Rightarrow> (case newObj of
         RtCustomCluster newCustomCluster \<Rightarrow> validateCustomCluster V newCustomCluster
       | _ \<Rightarrow> wrongType ''CustomCluster'' newObj)
   | _ \<Rightarrow> wrongType ''CustomCluster'' oldObj)"

section \<open>AttachedCluster\<close>

definition validateSecretKeyRef :: "vlib \<Rightarrow> SecretKeyRef \<Rightarrow> fieldErr list" where
  "validateSecretKeyRef V kubeconfig =
     (if SecretKeyName kubeconfig = [] then [FRequired (NewPath [''spec'', ''kubeconfig'', ''name'']) ''must be set'']
      else validateDNS1123Domain V (SecretKeyName kubeconfig) (NewPath [''spec'', ''kubeconfig'', ''name''])) @
     (if SecretKeyKey kubeconfig = [] then [FRequired (NewPath [''spec'', ''kubeconfig'', ''key'']) ''must be set'']
      else validateDNS1123Domain V (SecretKeyKey kubeconfig) (NewPath [''spec'', ''kubeconfig'', ''key'']))"

definition validateAttachedCluster :: "vlib \<Rightarrow> AttachedCluster \<Rightarrow> admissionErr option" where
  "validateAttachedCluster V in' =
     newInvalid ''AttachedCluster'' (m_name (at_meta in')) (validateSecretKeyRef V (at_kubeconfig in'))"

definition AttachedClusterValidateCreate :: "vlib \<Rightarrow> runtimeObj \<Rightarrow> admissionErr option" where
  "AttachedClusterValidateCreate V obj = (case obj of
     RtAttached in' \<Rightarrow> validateAttachedCluster V in'
   | _ \<Rightarrow> wrongType ''AttachedCluster'' obj)"

definition AttachedClusterValidateUpdate :: "vlib \<Rightarrow> runtimeObj \<Rightarrow> runtimeObj \<Rightarrow> admissionErr option" where
  "AttachedClusterValidateUpdate V oldObj newObj = (case oldObj of
     RtAttached _ \<Rightarrow> (case newObj of
         RtAttached newAttachedCluster \<Rightarrow> validateAttachedCluster V newAttachedCluster
       | _ \<Rightarrow> wrongType ''AttachedCluster'' newObj)
   | _ \<Rightarrow> wrongType ''AttachedCluster'' oldObj)"

section \<open>Cluster\<close>

definition validateInfra :: "Cluster \<Rightarrow> fieldErr list" where
  "validateInfra in' =
     (let spec = ku_spec in' in
      (if InfraType spec = [] then [FRequired (NewPath [''spec'', ''infraType'']) ''must be set''] else []) @
      (if InfraType spec = AWSClusterInfraType \<and> ClusterRegion spec = []
       then [FRequired (NewPath [''spec'', ''region'']) ''must be set''] else []) @
      (if Credential spec = None \<or> Credential spec = Some []
       then [FRequired (NewPath [''spec'', ''credential'', ''secretRef'']) ''must be set''] else []))"

definition validateVersion :: "vlib \<Rightarrow> Cluster \<Rightarrow> fieldErr list" where
  "validateVersion V in' =
     (let v = ClusterVersion (ku_spec in') in
      if v = [] then [FRequired (NewPath [''spec'', ''version'']) ''must be set'']
      else if \<not> kubeSemver V v
      then [FInvalid (NewPath [''spec'', ''version'']) (VString v) ''must be a valid Kubernetes version'']
      else [])"

definition validateCIDR :: "string \<Rightarrow> path \<Rightarrow> fieldErr list" where
  "validateCIDR cidr fldPath =
     (if ParseCIDR cidr = None then [FInvalid fldPath (VString cidr) (''invalid CIDR address: '' @ cidr)] else [])"

fun validateCIDRBlocksFrom :: "nat \<Rightarrow> string list \<Rightarrow> path \<Rightarrow> fieldErr list" where
  "validateCIDRBlocksFrom i [] fldPath = []"
| "validateCIDRBlocksFrom i (cidr # cidrs) fldPath =
     (if ParseCIDR cidr = None
      then [FInvalid (index fldPath i) (VString cidr) (''invalid CIDR address: '' @ cidr)] else []) @
     validateCIDRBlocksFrom (Suc i) cidrs fldPath"

definition validateCIDRBlocks :: "string list \<Rightarrow> path \<Rightarrow> fieldErr list" where
  "validateCIDRBlocks cidrBlocks fldPath = validateCIDRBlocksFrom 0 cidrBlocks fldPath"

definition validateNetwork :: "NetworkConfig \<Rightarrow> path \<Rightarrow> fieldErr list" where
  "validateNetwork network fldPath =
     validateCIDR (VPCCIDRBlock (VPC network)) (child fldPath [''vpc'', ''cidrBlock'']) @
     validateCIDRBlocks (PodCIDRs network) (child fldPath [''podCIDRs'']) @
     validateCIDRBlocks (ServiceCIDRs network) (child fldPath [''serviceCIDRs''])"

definition AWSMaxDataVolumeCount :: nat where
  "AWSMaxDataVolumeCount = 25"

definition volumesOf :: "NodeConfig \<Rightarrow> Volume0 list" where
  "volumesOf node = NonRootVolumes (nc_machine node)"

fun validateWorkerVolumes :: "nat \<Rightarrow> WorkerConfig list \<Rightarrow> fieldErr list" where
  "validateWorkerVolumes idx [] = []"
| "validateWorkerVolumes idx (node # nodes) =
     (if length (volumesOf (wc_node node)) > AWSMaxDataVolumeCount
      then [FTooMany (child (index (NewPath [''spec'', ''workers'']) idx) [''nonRootVolumes''])
             (length (volumesOf (wc_node node))) AWSMaxDataVolumeCount]
      else []) @ validateWorkerVolumes (Suc idx) nodes"

definition validateAWSVolume :: "Cluster \<Rightarrow> fieldErr list" where
  "validateAWSVolume in' =
     (let n = length (volumesOf (ClusterMaster (ku_spec in'))) in
      if n > AWSMaxDataVolumeCount
      then [FTooMany (NewPath [''spec'', ''master'', ''nonRootVolumes'']) n AWSMaxDataVolumeCount] else []) @
     validateWorkerVolumes 0 (ClusterWorkers (ku_spec in'))"

definition validateVolume :: "Cluster \<Rightarrow> fieldErr list" where
  "validateVolume in' = (if InfraType (ku_spec in') = AWSClusterInfraType then validateAWSVolume in' else [])"

definition resourceKey :: "ResourceRef \<Rightarrow> string" where
  "resourceKey resource = ResourceKind resource @ ''/'' @ ResourceName resource"

fun validateResourcesFrom :: "nat \<Rightarrow> string list \<Rightarrow> ResourceRef list \<Rightarrow> path \<Rightarrow> fieldErr list" where
  "validateResourcesFrom i keys [] fldPath = []"
| "validateResourcesFrom i keys (resource # rs) fldPath =
     (if ResourceName resource = [] then [FRequired (child (index fldPath i) [''name'']) ''must be set''] else []) @
     (if ResourceKind resource \<noteq> ''Secret'' \<and> ResourceKind resource \<noteq> ''ConfigMap''
      then [FRequired (child (index fldPath i) [''type'']) ''must be either Secret or ConfigMap''] else []) @
     (let key = resourceKey resource in
      if key \<in> set keys
      then FDuplicate (index fldPath i) key # validateResourcesFrom (Suc i) keys rs fldPath
      else validateResourcesFrom (Suc i) (key # keys) rs fldPath)"

definition validateAdditionalResource :: "ResourceRef list \<Rightarrow> path \<Rightarrow> fieldErr list" where
  "validateAdditionalResource in' fldPath = (if length in' = 0 then [] else validateResourcesFrom 0 [] in' fldPath)"

definition validateCluster :: "vlib \<Rightarrow> Cluster \<Rightarrow> admissionErr option" where
  "validateCluster V in' =
     newInvalid ''Cluster'' (m_name (ku_meta in'))
       (map (\<lambda>err. FInvalid (NewPath [''metadata'', ''name'']) (VString (m_name (ku_meta in')))
               (''must be a valid label value: '' @ err)) (isValidLabelValue V (m_name (ku_meta in'))) @
        validateInfra in' @ validateVersion V in' @
        validateNetwork (Network (ku_spec in')) (NewPath [''spec'', ''network'']) @
        validateVolume in' @
        validateAdditionalResource (AdditionalResources (ku_spec in')) (NewPath [''spec'', ''additionalResources'']))"

definition ClusterValidateCreate :: "vlib \<Rightarrow> runtimeObj \<Rightarrow> admissionErr option" where
  "ClusterValidateCreate V obj = (case obj of
     RtCluster in' \<Rightarrow> validateCluster V in'
   | _ \<Rightarrow> wrongType ''Cluster'' obj)"

definition ClusterValidateUpdate :: "vlib \<Rightarrow> runtimeObj \<Rightarrow> runtimeObj \<Rightarrow> admissionErr option" where
  "ClusterValidateUpdate V oldObj newObj = (case oldObj of
     RtCluster oldCluster \<Rightarrow> (case newObj of
         RtCluster newCluster \<Rightarrow>
           if InfraType (ku_spec oldCluster) \<noteq> InfraType (ku_spec newCluster)
           then Some (Invalid ''Cluster'' (m_name (ku_meta newCluster))
                  [FForbidden (NewPath [''spec'', ''infraType'']) ''field is immutable''])
           else validateCluster V newCluster
       | _ \<Rightarrow> wrongType ''Cluster'' newObj)
   | _ \<Rightarrow> wrongType ''Cluster'' oldObj)"

section \<open>Application\<close>

text \<open>The elements of \<open>SyncPolicies\<close> are pointers; none of them is nil.\<close>

definition policyFleet :: "ApplicationSyncPolicy \<Rightarrow> string" where
  "policyFleet policy = (case PolicyDestination policy of None \<Rightarrow> [] | Some d \<Rightarrow> DestFleet d)"

definition policyFleetPath :: "nat \<Rightarrow> path" where
  "policyFleetPath i = child (index (NewPath [''spec'', ''syncPolicies'']) i) [''destination'', ''fleet'']"

fun checkDefaultFleet :: "string \<Rightarrow> nat \<Rightarrow> ApplicationSyncPolicy list \<Rightarrow> fieldErr list" where
  "checkDefaultFleet defaultFleet i [] = []"
| "checkDefaultFleet defaultFleet i (policy # ps) =
     (if policyFleet policy \<noteq> [] \<and> defaultFleet \<noteq> policyFleet policy
      then [FInvalid (policyFleetPath i) (VString (policyFleet policy))
             (''must be same as application.spec.destination.fleet:'' @ defaultFleet @
              '', because fleet must be consistent throughout the application'')]
      else []) @ checkDefaultFleet defaultFleet (Suc i) ps"

text \<open>
  The loop of the other case: the fleet of the first policy that has one (\<open>None\<close> while \<open>isFirst\<close>)
  and \<open>isNil\<close>; with the errors it returns both.
\<close>

fun checkPolicyFleets ::
  "string option \<Rightarrow> bool \<Rightarrow> nat \<Rightarrow> ApplicationSyncPolicy list \<Rightarrow> fieldErr list \<times> string option \<times> bool" where
  "checkPolicyFleets first isNil i [] = ([], first, isNil)"
| "checkPolicyFleets first isNil i (policy # ps) =
     (if policyFleet policy = [] then checkPolicyFleets first True (Suc i) ps
      else let firstPolicyFleet = (case first of None \<Rightarrow> policyFleet policy | Some f \<Rightarrow> f);
               errs = (if firstPolicyFleet \<noteq> policyFleet policy
                 then [FInvalid (policyFleetPath i) (VString (policyFleet policy))
                        (''must be same as firstPolicyFleet:'' @ firstPolicyFleet @
                         '', because fleet must be consistent throughout the application'')]
                 else []);
               (rest, first', isNil') = checkPolicyFleets (Some firstPolicyFleet) isNil (Suc i) ps
           in (errs @ rest, first', isNil'))"

definition validateFleet :: "Application \<Rightarrow> fieldErr list" where
  "validateFleet in' =
     (let defaultFleet = (case AppDestination (app_spec in') of None \<Rightarrow> [] | Some d \<Rightarrow> DestFleet d);
          policies = SyncPolicies (app_spec in')
      in if defaultFleet \<noteq> [] then checkDefaultFleet defaultFleet 0 policies
         else let (errs, first, isNil) = checkPolicyFleets None False 0 policies
              in errs @ (if isNil \<and> first \<noteq> None
                then [FRequired (child (NewPath [''spec'', ''syncPolicies'']) [''destination'', ''fleet''])
                       ''must be set when application.spec.destination.fleet is not set'']
                else []))"

definition validateApplication :: "Application \<Rightarrow> admissionErr option" where
  "validateApplication in' = newInvalid ''Application'' (m_name (app_meta in')) (validateFleet in')"

definition ApplicationValidateCreate :: "runtimeObj \<Rightarrow> admissionErr option" where
  "ApplicationValidateCreate obj = (case obj of
     RtApplication in' \<Rightarrow> validateApplication in'
   | _ \<Rightarrow> wrongType ''Application'' obj)"

definition ApplicationValidateUpdate :: "runtimeObj \<Rightarrow> runtimeObj \<Rightarrow> admissionErr option" where
  "ApplicationValidateUpdate oldObj newObj = (case oldObj of
     RtApplication _ \<Rightarrow> (case newObj of
         RtApplication newApplication \<Rightarrow> validateApplication newApplication
       | _ \<Rightarrow> wrongType ''Application'' newObj)
   | _ \<Rightarrow> wrongType ''Application'' oldObj)"

text \<open>Defaulting: \<open>None\<close> is the panic of a nil rollout policy or a nil traffic routing.\<close>

definition defaultRouting ::
  "nat \<Rightarrow> Provider \<Rightarrow> TrafficRoutingConfig \<Rightarrow> admissionErr + TrafficRoutingConfig" where
  "defaultRouting i provider routing = (case provider of
     Nginx \<Rightarrow>
       if Host routing = []
       then Inl (BadRequest (''expected application.syncPolicies.Rollout.RolloutPolicy.TrafficRouting.Host in index '' @ showNat i))
       else Inr routing
   | Kuma \<Rightarrow> Inr (if Protocol routing = [] then routing\<lparr>Protocol := ''http''\<rparr> else routing)
   | _ \<Rightarrow> Inr routing)"

definition defaultRollout :: "nat \<Rightarrow> RolloutConfig \<Rightarrow> (admissionErr + RolloutConfig) option" where
  "defaultRollout i rollout =
     (if TrafficRoutingProvider rollout \<noteq> Nginx \<and> TrafficRoutingProvider rollout \<noteq> Kuma then Some (Inr rollout)
      else case RolloutPolicyConf rollout of
        None \<Rightarrow> None
      | Some policy \<Rightarrow> (case TrafficRouting policy of
            None \<Rightarrow> None
          | Some routing \<Rightarrow> (case defaultRouting i (TrafficRoutingProvider rollout) routing of
                Inl e \<Rightarrow> Some (Inl e)
              | Inr routing' \<Rightarrow> Some (Inr (rollout\<lparr>RolloutPolicyConf := Some (policy\<lparr>TrafficRouting := Some routing'\<rparr>)\<rparr>)))))"

fun defaultSyncPolicies ::
  "nat \<Rightarrow> ApplicationSyncPolicy list \<Rightarrow> (admissionErr + ApplicationSyncPolicy list) option" where
  "defaultSyncPolicies i [] = Some (Inr [])"
| "defaultSyncPolicies i (policy # ps) =
     (case Rollout policy of
        None \<Rightarrow> map_option (map_sum id (\<lambda>ps'. policy # ps')) (defaultSyncPolicies (Suc i) ps)
      | Some rollout \<Rightarrow> (case defaultRollout i rollout of
            None \<Rightarrow> None
          | Some (Inl e) \<Rightarrow> Some (Inl e)
          | Some (Inr rollout') \<Rightarrow>
              map_option (map_sum id (\<lambda>ps'. policy\<lparr>Rollout := Some rollout'\<rparr> # ps')) (defaultSyncPolicies (Suc i) ps)))"

definition defaultApp :: "Application \<Rightarrow> (admissionErr + Application) option" where
  "defaultApp app =
     map_option (map_sum id (\<lambda>ps. app\<lparr>app_spec := app_spec app\<lparr>SyncPolicies := ps\<rparr>\<rparr>))
       (defaultSyncPolicies 0 (SyncPolicies (app_spec app)))"

definition ApplicationDefault :: "runtimeObj \<Rightarrow> (admissionErr + runtimeObj) option" where
  "ApplicationDefault obj = (case obj of
     RtApplication app \<Rightarrow> map_option (map_sum id RtApplication) (defaultApp app)
   | _ \<Rightarrow> Some (Inl (BadRequest (''expected a Application but got a '' @ typeName obj))))"

section \<open>The contract of a webhook\<close>

text \<open>An object that was created and then updated, each time with the consent of the webhook.\<close>

fun updates :: "(runtimeObj \<Rightarrow> runtimeObj \<Rightarrow> admissionErr option) \<Rightarrow> runtimeObj \<Rightarrow> runtimeObj list \<Rightarrow> bool" where
  "updates update obj [] = True"
| "updates update obj (new # news) = (update obj new = None \<and> updates update new news)"

definition admitted ::
  "(runtimeObj \<Rightarrow> admissionErr option) \<Rightarrow> (runtimeObj \<Rightarrow> runtimeObj \<Rightarrow> admissionErr option) \<Rightarrow>
   runtimeObj \<Rightarrow> runtimeObj list \<Rightarrow> bool" where
  "admitted create update obj news \<longleftrightarrow> create obj = None \<and> updates update obj news"

locale admission_webhook =
  fixes create :: "runtimeObj \<Rightarrow> admissionErr option"
    and update :: "runtimeObj \<Rightarrow> runtimeObj \<Rightarrow> admissionErr option"
    and valid :: "runtimeObj \<Rightarrow> bool"
    and kept :: "runtimeObj \<Rightarrow> 'k"
  assumes create_valid: "create obj = None \<longleftrightarrow> valid obj"
    and update_valid: "update old new = None \<Longrightarrow> valid new"
    and update_kept: "update old new = None \<Longrightarrow> kept new = kept old"
begin

lemma updates_valid: "updates update obj news \<Longrightarrow> \<forall>new \<in> set news. valid new \<and> kept new = kept obj"
  by (induction news arbitrary: obj) (use update_valid update_kept in fastforce)+

lemma stored_valid:
  assumes "admitted create update obj news" and "new \<in> set (obj # news)"
  shows "valid new" and "kept new = kept obj" and "create new = None"
  using assms updates_valid create_valid by (auto simp: admitted_def)

end

interpretation customMachine: admission_webhook CustomMachineValidateCreate CustomMachineValidateUpdate
  "\<lambda>obj. case obj of RtCustomMachine m \<Rightarrow> validateCustomMachine m = None | _ \<Rightarrow> False" "\<lambda>_. ()"
  by unfold_locales
    (auto simp: CustomMachineValidateCreate_def CustomMachineValidateUpdate_def wrongType_def split: runtimeObj.splits)

interpretation customCluster: admission_webhook "CustomClusterValidateCreate V" "CustomClusterValidateUpdate V"
  "\<lambda>obj. case obj of RtCustomCluster m \<Rightarrow> validateCustomCluster V m = None | _ \<Rightarrow> False" "\<lambda>_. ()" for V
  by unfold_locales
    (auto simp: CustomClusterValidateCreate_def CustomClusterValidateUpdate_def wrongType_def split: runtimeObj.splits)

interpretation attachedCluster: admission_webhook "AttachedClusterValidateCreate V" "AttachedClusterValidateUpdate V"
  "\<lambda>obj. case obj of RtAttached m \<Rightarrow> validateAttachedCluster V m = None | _ \<Rightarrow> False" "\<lambda>_. ()" for V
  by unfold_locales
    (auto simp: AttachedClusterValidateCreate_def AttachedClusterValidateUpdate_def wrongType_def split: runtimeObj.splits)

interpretation application: admission_webhook ApplicationValidateCreate ApplicationValidateUpdate
  "\<lambda>obj. case obj of RtApplication m \<Rightarrow> validateApplication m = None | _ \<Rightarrow> False" "\<lambda>_. ()"
  by unfold_locales
    (auto simp: ApplicationValidateCreate_def ApplicationValidateUpdate_def wrongType_def split: runtimeObj.splits)

definition infraOf :: "runtimeObj \<Rightarrow> string option" where
  "infraOf obj = (case obj of RtCluster c \<Rightarrow> Some (InfraType (ku_spec c)) | _ \<Rightarrow> None)"

interpretation clusterHook: admission_webhook "ClusterValidateCreate V" "ClusterValidateUpdate V"
  "\<lambda>obj. case obj of RtCluster m \<Rightarrow> validateCluster V m = None | _ \<Rightarrow> False" infraOf for V
  by unfold_locales
    (auto simp: ClusterValidateCreate_def ClusterValidateUpdate_def wrongType_def infraOf_def
      split: runtimeObj.splits if_splits)

end
