(* ===== verification/WebhookProperties.thy ===== *)
theory WebhookProperties
  imports Webhooks
begin

text \<open>
  What the admission webhooks accept: each validation is characterised by what it guarantees of
  the object, and the guarantees hold for every version of a stored object.
\<close>

section \<open>Machines\<close>

lemma ParseIP_Nil [simp]: "ParseIP [] = None"
  by (simp add: ParseIP_def)

lemma validateIP_Nil: "validateIP s p = [] \<longleftrightarrow> ParseIP s \<noteq> None"
  by (simp add: validateIP_def)

lemma validateAddress_Nil: "validateAddress s p = [] \<longleftrightarrow> ParseIP s \<noteq> None"
  by (cases "s = []") (auto simp: validateAddress_def validateIP_Nil)

definition addressed :: "Machine \<Rightarrow> bool" where
  "addressed m \<longleftrightarrow> ParseIP (PrivateIP m) \<noteq> None \<and> ParseIP (PublicIP m) \<noteq> None"

lemma validateMachine_Nil: "validateMachine ms p = [] \<longleftrightarrow> list_all addressed ms"
proof -
  have "validateMachineFrom i ms p = [] \<longleftrightarrow> list_all addressed ms" for i
    by (induction ms arbitrary: i) (auto simp: validateAddress_Nil addressed_def)
  then show ?thesis by (simp add: validateMachine_def)
qed

lemma validateCustomMachine_None:
  "validateCustomMachine m = None \<longleftrightarrow>
     odd (length (Master (cmach_spec m))) \<and> Nodes (cmach_spec m) \<noteq> [] \<and>
     list_all addressed (Master (cmach_spec m) @ Nodes (cmach_spec m))"
  by (auto simp: validateCustomMachine_def newInvalid_def Let_def validateMachine_Nil even_iff_mod_2_eq_zero)

lemma addressed_wordNode: "addressed m \<Longrightarrow> goodWord (HostName m) \<Longrightarrow> wordNode (machineNode m)"
  by (simp add: addressed_def wordNode_def machineNode_def ParseIP_goodWord)

section \<open>Addresses\<close>

lemma ParseIPFrom_noColon:
  "CHR '':'' \<notin> set t \<Longrightarrow> ParseIPFrom s t = (if CHR ''.'' \<in> set t then parseIPv4 s else None)"
  by (induction t) auto

lemma parseIPv4_dot: "parseIPv4 s = Some ip \<Longrightarrow> CHR ''.'' \<in> set s"
  by (auto simp: parseIPv4_iff)

lemma ParseIP_noColon: "CHR '':'' \<notin> set s \<Longrightarrow> ParseIP s = parseIPv4 s"
  using parseIPv4_dot [of s] by (cases "parseIPv4 s") (auto simp: ParseIP_def ParseIPFrom_noColon)

lemma ParseCIDR_dotted:
  assumes "a < 256" "b < 256" "c < 256" "d < 256" and "n \<le> 32"
  shows "ParseCIDR ((showNat a @ ''.'' @ showNat b @ ''.'' @ showNat c @ ''.'' @ showNat d) @ CHR ''/'' # showNat n) =
    Some (v4InV6Prefix @ [of_nat a, of_nat b, of_nat c, of_nat d], n)"
proof -
  let ?s = "showNat a @ ''.'' @ showNat b @ ''.'' @ showNat c @ ''.'' @ showNat d"
  have ip: "parseIPv4 ?s = Some (v4InV6Prefix @ [of_nat a, of_nat b, of_nat c, of_nat d])"
    unfolding parseIPv4_iff using assms by blast
  have "\<not> addrChar CHR ''/''" by (simp add: addrChar_def hexVal_def)
  then have "CHR ''/'' \<notin> set ?s" using parseIPv4_shape(2) [OF ip] by blast
  then have addr: "takeWhile (\<lambda>c. c \<noteq> CHR ''/'') (?s @ CHR ''/'' # showNat n) = ?s"
    by (subst takeWhile_append2) auto
  have mask: "dtoi (showNat n) = (n, length (showNat n), True)"
    using dtoi_showNat [of n "[]"] assms(5) by (simp add: big_def)
  have ne: "(?s = ?s @ CHR ''/'' # showNat n) = False" by simp
  have rest: "drop (Suc (length xs)) (xs @ x # ys) = ys" for xs ys and x :: char by simp
  show ?thesis
    unfolding ParseCIDR_def addr Let_def ne rest if_False ip mask option.case prod.case using assms(5) by simp
qed

section \<open>Resources\<close>

lemma validateCIDRBlocks_Nil: "validateCIDRBlocks cs p = [] \<longleftrightarrow> list_all (\<lambda>c. ParseCIDR c \<noteq> None) cs"
proof -
  have "validateCIDRBlocksFrom i cs p = [] \<longleftrightarrow> list_all (\<lambda>c. ParseCIDR c \<noteq> None) cs" for i
    by (induction cs arbitrary: i) auto
  then show ?thesis by (simp add: validateCIDRBlocks_def)
qed

lemma validateWorkerVolumes_Nil:
  "validateWorkerVolumes i ws = [] \<longleftrightarrow> list_all (\<lambda>w. length (volumesOf (wc_node w)) \<le> 25) ws"
  by (induction ws arbitrary: i) (auto simp: AWSMaxDataVolumeCount_def)

definition goodResource :: "ResourceRef \<Rightarrow> bool" where
  "goodResource r \<longleftrightarrow> ResourceName r \<noteq> [] \<and> ResourceKind r \<in> {''Secret'', ''ConfigMap''}"

lemma resourceKey_inj:
  assumes "goodResource r" and "goodResource r'"
  shows "resourceKey r = resourceKey r' \<longleftrightarrow> r = r'"
  using assms by (cases r; cases r') (auto simp: goodResource_def resourceKey_def)

lemma validateResourcesFrom_Nil:
  "validateResourcesFrom i keys rs p = [] \<longleftrightarrow>
     list_all goodResource rs \<and> distinct (map resourceKey rs) \<and> set (map resourceKey rs) \<inter> set keys = {}"
  by (induction rs arbitrary: i keys) (auto simp: goodResource_def Let_def)

lemma validateAdditionalResource_Nil:
  "validateAdditionalResource rs p = [] \<longleftrightarrow> list_all goodResource rs \<and> distinct rs"
proof -
  have "list_all goodResource rs \<Longrightarrow> inj_on resourceKey (set rs)"
    using resourceKey_inj by (auto simp: inj_on_def list_all_iff)
  then show ?thesis
    by (auto simp: validateAdditionalResource_def validateResourcesFrom_Nil distinct_map)
qed

section \<open>Fleets\<close>

lemma checkDefaultFleet_Nil:
  "checkDefaultFleet f i ps = [] \<longleftrightarrow> list_all (\<lambda>p. policyFleet p = [] \<or> policyFleet p = f) ps"
  by (induction ps arbitrary: i) auto

lemma checkPolicyFleets_eq:
  "checkPolicyFleets (Some f) n i ps = (errs, first, n') \<Longrightarrow>
     first = Some f \<and> n' = (n \<or> list_ex (\<lambda>p. policyFleet p = []) ps) \<and>
     (errs = [] \<longleftrightarrow> list_all (\<lambda>p. policyFleet p = [] \<or> policyFleet p = f) ps)"
  by (induction ps arbitrary: n i errs) (auto simp: Let_def split: if_splits prod.splits)

lemma checkPolicyFleets_unset:
  "list_all (\<lambda>p. policyFleet p = []) ps \<Longrightarrow> checkPolicyFleets None n i ps = ([], None, n \<or> ps \<noteq> [])"
  by (induction ps arbitrary: n i) auto

lemma checkPolicyFleets_first:
  "list_all (\<lambda>p. policyFleet p = []) skip \<Longrightarrow> policyFleet p \<noteq> [] \<Longrightarrow>
   checkPolicyFleets None n i (skip @ p # rest) =
     checkPolicyFleets (Some (policyFleet p)) (n \<or> skip \<noteq> []) (i + length skip) (p # rest)"
  by (induction skip arbitrary: n i) (auto simp: Let_def)

definition sameFleet :: "string \<Rightarrow> string list \<Rightarrow> bool" where
  "sameFleet f fleets \<longleftrightarrow>
     (if f \<noteq> [] then list_all (\<lambda>g. g = [] \<or> g = f) fleets
      else list_all (\<lambda>g. g = []) fleets \<or> list_all (\<lambda>g. g \<noteq> [] \<and> g = hd fleets) fleets)"

lemma policyFleets_Nil:
  assumes "checkPolicyFleets None False 0 ps = (errs, first, isNil)"
  shows "errs = [] \<and> \<not> (isNil \<and> first \<noteq> None) \<longleftrightarrow> sameFleet [] (map policyFleet ps)"
proof (cases "list_all (\<lambda>p. policyFleet p = []) ps")
  case True
  then show ?thesis using assms by (auto simp: checkPolicyFleets_unset sameFleet_def list_all_iff)
next
  case False
  then have "\<exists>p \<in> set ps. policyFleet p \<noteq> []" by (auto simp: list_all_iff)
  from split_list_first_prop [OF this] obtain skip p rest
    where ps: "ps = skip @ p # rest" and p: "policyFleet p \<noteq> []" and skip: "\<forall>q \<in> set skip. policyFleet q = []" by auto
  have run: "checkPolicyFleets (Some (policyFleet p)) (skip \<noteq> []) (length skip) (p # rest) = (errs, first, isNil)"
    using assms skip p by (simp add: ps checkPolicyFleets_first list_all_iff)
  note r = checkPolicyFleets_eq [OF run]
  show ?thesis
  proof (cases skip)
    case Nil
    then show ?thesis using r p by (auto simp: ps sameFleet_def list_all_iff list_ex_iff)
  next
    case (Cons q qs)
    then have "policyFleet q = []" using skip by simp
    then have "\<not> sameFleet [] (map policyFleet ps)" using p Cons by (simp add: ps sameFleet_def)
    then show ?thesis using r Cons by simp
  qed
qed

definition defaultFleetOf :: "Application \<Rightarrow> string" where
  "defaultFleetOf app = (case AppDestination (app_spec app) of None \<Rightarrow> [] | Some d \<Rightarrow> DestFleet d)"

lemma validateFleet_Nil:
  "validateFleet app = [] \<longleftrightarrow> sameFleet (defaultFleetOf app) (map policyFleet (SyncPolicies (app_spec app)))"
proof (cases "defaultFleetOf app = []")
  case True
  obtain errs first isNil where r: "checkPolicyFleets None False 0 (SyncPolicies (app_spec app)) = (errs, first, isNil)"
    by (cases "checkPolicyFleets None False 0 (SyncPolicies (app_spec app))")
  show ?thesis
    using policyFleets_Nil [OF r] True by (auto simp: validateFleet_def defaultFleetOf_def r Let_def)
next
  case False
  then show ?thesis
    by (auto simp: validateFleet_def defaultFleetOf_def [symmetric] Let_def checkDefaultFleet_Nil sameFleet_def list_all_iff)
qed

section \<open>Defaults\<close>

definition routed :: "RolloutConfig \<Rightarrow> bool" where
  "routed r \<longleftrightarrow> (TrafficRoutingProvider r \<in> {Nginx, Kuma} \<longrightarrow>
     (\<exists>p t. RolloutPolicyConf r = Some p \<and> TrafficRouting p = Some t \<and>
       (TrafficRoutingProvider r = Nginx \<longrightarrow> Host t \<noteq> []) \<and> (TrafficRoutingProvider r = Kuma \<longrightarrow> Protocol t \<noteq> [])))"

lemma defaultRollout_routed:
  assumes "defaultRollout i r = Some (Inr r')"
  shows "routed r'" and "TrafficRoutingProvider r' = TrafficRoutingProvider r"
  using assms by (auto simp: defaultRollout_def defaultRouting_def routed_def
      split: if_splits option.splits sum.splits Provider.splits)

lemma defaultRollout_id: "routed r \<Longrightarrow> defaultRollout i r = Some (Inr r)"
  by (auto simp: defaultRollout_def defaultRouting_def routed_def split: Provider.splits)

lemma map_policies_Inr: "map_option (map_sum id f) x = Some (Inr y) \<longleftrightarrow> (\<exists>z. x = Some (Inr z) \<and> y = f z)"
proof (cases x)
  case (Some a)
  then show ?thesis by (cases a) auto
qed simp

lemma defaultSyncPolicies_routed:
  "defaultSyncPolicies i ps = Some (Inr ps') \<Longrightarrow>
     length ps' = length ps \<and> list_all (\<lambda>p. \<forall>r. Rollout p = Some r \<longrightarrow> routed r) ps'"
proof (induction ps arbitrary: i ps')
  case (Cons p ps)
  then show ?case
    by (auto split: option.splits sum.splits simp: defaultRollout_routed map_policies_Inr simp del: map_option_eq_Some)
qed simp

lemma defaultSyncPolicies_id:
  "list_all (\<lambda>p. \<forall>r. Rollout p = Some r \<longrightarrow> routed r) ps \<Longrightarrow> defaultSyncPolicies i ps = Some (Inr ps)"
  by (induction ps arbitrary: i) (auto simp: defaultRollout_id split: option.splits)

section \<open>Properties\<close>

text \<open>A CustomMachine is admitted exactly when it has an odd number of masters, at least one
  node, and every machine has a private and a public address that \<open>net.ParseIP\<close> accepts.\<close>

theorem machine_admission:
  "CustomMachineValidateCreate (RtCustomMachine m) = None \<longleftrightarrow>
     odd (length (Master (cmach_spec m))) \<and> Nodes (cmach_spec m) \<noteq> [] \<and>
     list_all addressed (Master (cmach_spec m) @ Nodes (cmach_spec m))"
  by (simp add: CustomMachineValidateCreate_def validateCustomMachine_None)

text \<open>C29. An address without a colon is accepted exactly when it consists of four numbers below 256
  in decimal, without leading zeros, separated by dots.\<close>

theorem dotted_addresses:
  assumes "CHR '':'' \<notin> set s"
  shows "validateIP s p = [] \<longleftrightarrow> (\<exists>a b c d. a < 256 \<and> b < 256 \<and> c < 256 \<and> d < 256 \<and>
    s = showNat a @ ''.'' @ showNat b @ ''.'' @ showNat c @ ''.'' @ showNat d)"
proof -
  have "validateIP s p = [] \<longleftrightarrow> (\<exists>ip. parseIPv4 s = Some ip)"
    using assms by (auto simp: validateIP_Nil ParseIP_noColon)
  also have "\<dots> \<longleftrightarrow> (\<exists>a b c d. a < 256 \<and> b < 256 \<and> c < 256 \<and> d < 256 \<and>
    s = showNat a @ ''.'' @ showNat b @ ''.'' @ showNat c @ ''.'' @ showNat d)" (is "?L \<longleftrightarrow> ?R")
  proof
    assume ?L
    then show ?R unfolding parseIPv4_iff by (elim exE conjE) (intro exI conjI)
  next
    assume ?R
    then show ?L unfolding parseIPv4_iff by (elim exE conjE) (intro exI conjI, assumption+, rule refl)
  qed
  finally show ?thesis .
qed

theorem dotted_addresses_witness:
  "validateIP ''192.168.0.1'' [] = []"
proof -
  have "showNat 192 @ ''.'' @ showNat 168 @ ''.'' @ showNat 0 @ ''.'' @ showNat 1 = ''192.168.0.1''" by code_simp
  then have "\<exists>a b c d. a < 256 \<and> b < 256 \<and> c < 256 \<and> d < 256 \<and>
    ''192.168.0.1'' = showNat a @ ''.'' @ showNat b @ ''.'' @ showNat c @ ''.'' @ showNat d"
    by (intro exI [of _ 192] exI [of _ 168] exI [of _ 0] exI [of _ 1]) simp
  then show "validateIP ''192.168.0.1'' [] = []" using dotted_addresses [of "''192.168.0.1''" "[]"] by simp
qed

text \<open>An Application is admitted exactly when its fleets are consistent: with a default fleet,
  every policy has that fleet or none; without one, all policies have the same fleet, or none of
  them has one.\<close>

theorem fleets_consistent:
  "ApplicationValidateCreate (RtApplication app) = None \<longleftrightarrow>
     sameFleet (defaultFleetOf app) (map policyFleet (SyncPolicies (app_spec app)))"
  by (simp add: ApplicationValidateCreate_def validateApplication_def newInvalid_def validateFleet_Nil)

text \<open>Defaulting an Application is idempotent: what it returns, it returns again, and every
  rollout through Nginx then has a host and every one through Kuma a protocol.\<close>

theorem default_idempotent:
  assumes "ApplicationDefault (RtApplication app) = Some (Inr obj)"
  shows "\<exists>app'. obj = RtApplication app' \<and> ApplicationDefault obj = Some (Inr obj) \<and>
    length (SyncPolicies (app_spec app')) = length (SyncPolicies (app_spec app)) \<and>
    list_all (\<lambda>p. \<forall>r. Rollout p = Some r \<longrightarrow> routed r) (SyncPolicies (app_spec app'))"
proof -
  obtain ps where ps: "defaultSyncPolicies 0 (SyncPolicies (app_spec app)) = Some (Inr ps)"
    and obj: "obj = RtApplication (app\<lparr>app_spec := app_spec app\<lparr>SyncPolicies := ps\<rparr>\<rparr>)"
    using assms by (auto simp: ApplicationDefault_def defaultApp_def map_policies_Inr simp del: map_option_eq_Some)
  note r = defaultSyncPolicies_routed [OF ps]
  show ?thesis
    using r defaultSyncPolicies_id [of ps 0] by (simp add: obj ApplicationDefault_def defaultApp_def)
qed

definition demoRollout :: "Provider \<Rightarrow> string \<Rightarrow> RolloutConfig" where
  "demoRollout provider host = \<lparr>TestLoader = None, TrafficRoutingProvider = provider, Workload = None,
     ServiceName = ''podinfo'', RolloutPort = 80, Primary = None, Preview = None,
     RolloutPolicyConf = Some \<lparr>TrafficRouting = Some \<lparr>RoutingTimeoutSeconds = 0, Gateways = [], Hosts = [],
         Retries = None, Headers = None, CorsPolicy = None, Host = host, Protocol = [], CanaryStrategy = None,
         AnalysisTimes = 0, MatchRequests = []\<rparr>, TrafficAnalysisConf = None, RolloutTimeoutSeconds = None,
       SkipTrafficAnalysis = False, RevertOnDeletion = False, Suspend = False\<rparr>\<rparr>"

definition demoPolicy :: "RolloutConfig option \<Rightarrow> ApplicationSyncPolicy" where
  "demoPolicy r = \<lparr>PolicyName = ''p'', Kustomization = None, Helm = None, PolicyDestination = None, Rollout = r\<rparr>"

definition demoApplication :: "ApplicationSyncPolicy list \<Rightarrow> Application" where
  "demoApplication ps = \<lparr>app_meta = newMeta ''app'' ''default'',
     app_spec = \<lparr>AppSource = \<lparr>GitRepository = None, HelmRepository = None, OCIRepository = None\<rparr>,
       SyncPolicies = ps, AppDestination = None\<rparr>,
     app_status = \<lparr>SourceStatus = None, SyncStatus = []\<rparr>\<rparr>"

text \<open>C19. Every version of a stored Cluster keeps the infrastructure type it was created with, has
  CIDR blocks that parse, on AWS at most 25 data volumes per node, and additional resources that
  are named, of a supported kind and pairwise different.\<close>

theorem stored_clusters:
  assumes "admitted (ClusterValidateCreate V) (ClusterValidateUpdate V) obj news"
    and "RtCluster c \<in> set (obj # news)"
  shows "infraOf obj = Some (InfraType (ku_spec c)) \<and>
    ParseCIDR (VPCCIDRBlock (VPC (Network (ku_spec c)))) \<noteq> None \<and>
    list_all (\<lambda>b. ParseCIDR b \<noteq> None) (PodCIDRs (Network (ku_spec c)) @ ServiceCIDRs (Network (ku_spec c))) \<and>
    (InfraType (ku_spec c) = AWSClusterInfraType \<longrightarrow>
      list_all (\<lambda>node. length (volumesOf node) \<le> 25) (ClusterMaster (ku_spec c) # map wc_node (ClusterWorkers (ku_spec c)))) \<and>
    list_all goodResource (AdditionalResources (ku_spec c)) \<and> distinct (AdditionalResources (ku_spec c))"
proof -
  have "validateCluster V c = None" "infraOf (RtCluster c) = infraOf obj"
    using clusterHook.stored_valid [OF assms] by simp_all
  then show ?thesis
    by (auto simp: validateCluster_def newInvalid_def validateNetwork_def validateCIDR_def validateCIDRBlocks_Nil
        validateVolume_def validateAWSVolume_def validateWorkerVolumes_Nil validateAdditionalResource_Nil
        AWSMaxDataVolumeCount_def infraOf_def Let_def list_all_iff split: if_splits)
qed

definition demoNodeConfig :: NodeConfig where
  "demoNodeConfig = \<lparr>nc_machine = \<lparr>Replicas = 1, InstanceType = ''t3.large'', SSHKeyName = [], ImageOS = [],
     RootVolume = None, NonRootVolumes = [\<lparr>VolumeType = ''gp3'', VolumeSize = 100\<rparr>], MachineExtraArgs = []\<rparr>,
     nc_registration = \<lparr>NodeLabels = None, NodeTaints = []\<rparr>\<rparr>"

definition demoKuratorCluster :: "string \<Rightarrow> Cluster" where
  "demoKuratorCluster v = \<lparr>ku_meta = newMeta ''quickstart'' ''default'',
     ku_spec = \<lparr>InfraType = ''aws'', Credential = Some ''cluster-creds'', ClusterVersion = v, ClusterRegion = ''us-east-1'',
       Network = \<lparr>VPC = \<lparr>VPCID = [], VPCName = [], VPCCIDRBlock = ''10.0.0.0/16''\<rparr>, PodCIDRs = [''192.168.0.0/16''],
         ServiceCIDRs = [''10.96.0.0/12''], NetworkCNIType = ''calico'', NetworkCNIExtraArgs = []\<rparr>,
       ClusterMaster = demoNodeConfig, ClusterWorkers = [\<lparr>wc_node = demoNodeConfig, wc_strategy = None\<rparr>],
       PodIdentityEnabled = False, AdditionalResources = [\<lparr>ResourceName = ''extra'', ResourceKind = ''ConfigMap''\<rparr>]\<rparr>,
     ku_status = \<lparr>ClusterConditions = [], ClusterPhase = [], ClusterAPIEndpoint = [], ClusterKubeconfigSecretRef = [],
       ServiceAccountIssuer = []\<rparr>\<rparr>"

definition demoVlib :: vlib where
  "demoVlib = \<lparr>isDNS1123Label = (\<lambda>s. []), isDNS1123Subdomain = (\<lambda>s. []), isValidLabelValue = (\<lambda>s. []),
     kubeSemver = (\<lambda>s. True)\<rparr>"

lemma demoCluster_valid:
  "ClusterValidateCreate demoVlib (RtCluster (demoKuratorCluster ''1.23.0'')) = None"
  "ClusterValidateUpdate demoVlib (RtCluster (demoKuratorCluster ''1.23.0'')) (RtCluster (demoKuratorCluster ''1.24.0'')) = None"
proof -
  have "showNat 10 @ ''.'' @ showNat 0 @ ''.'' @ showNat 0 @ ''.'' @ showNat 0 = ''10.0.0.0''" "showNat 16 = ''16''"
    "showNat 192 @ ''.'' @ showNat 168 @ ''.'' @ showNat 0 @ ''.'' @ showNat 0 = ''192.168.0.0''"
    "showNat 10 @ ''.'' @ showNat 96 @ ''.'' @ showNat 0 @ ''.'' @ showNat 0 = ''10.96.0.0''" "showNat 12 = ''12''"
    by code_simp+
  then have "ParseCIDR ''10.0.0.0/16'' \<noteq> None" "ParseCIDR ''192.168.0.0/16'' \<noteq> None" "ParseCIDR ''10.96.0.0/12'' \<noteq> None"
    using ParseCIDR_dotted [of 10 0 0 0 16] ParseCIDR_dotted [of 192 168 0 0 16] ParseCIDR_dotted [of 10 96 0 0 12] by simp_all
  then show "ClusterValidateCreate demoVlib (RtCluster (demoKuratorCluster ''1.23.0'')) = None"
    "ClusterValidateUpdate demoVlib (RtCluster (demoKuratorCluster ''1.23.0'')) (RtCluster (demoKuratorCluster ''1.24.0'')) = None"
    by (simp_all add: ClusterValidateCreate_def ClusterValidateUpdate_def validateCluster_def newInvalid_def validateInfra_def
        validateVersion_def validateNetwork_def validateCIDR_def validateCIDRBlocks_def validateVolume_def validateAWSVolume_def
        validateAdditionalResource_def AWSMaxDataVolumeCount_def AWSClusterInfraType_def volumesOf_def
        demoVlib_def demoKuratorCluster_def demoNodeConfig_def newMeta_def)
qed

theorem stored_clusters_witness:
  "admitted (ClusterValidateCreate demoVlib) (ClusterValidateUpdate demoVlib)
     (RtCluster (demoKuratorCluster ''1.23.0'')) [RtCluster (demoKuratorCluster ''1.24.0'')] \<and>
   infraOf (RtCluster (demoKuratorCluster ''1.23.0'')) = Some ''aws'' \<and>
   distinct (AdditionalResources (ku_spec (demoKuratorCluster ''1.24.0'')))"
proof -
  have a: "admitted (ClusterValidateCreate demoVlib) (ClusterValidateUpdate demoVlib)
     (RtCluster (demoKuratorCluster ''1.23.0'')) [RtCluster (demoKuratorCluster ''1.24.0'')]"
    using demoCluster_valid by (simp add: admitted_def)
  show ?thesis
    using stored_clusters [OF a, of "demoKuratorCluster ''1.24.0''"] a by (simp add: demoKuratorCluster_def)
qed

end
