(* ===== verification/ClusterScope.thy ===== *)
theory ClusterScope
  imports WebhookProperties
begin

text \<open>
  The scope of a Cluster (\<open>pkg/infra/scope/cluster.go\<close>): the defaults and the instances the
  infrastructure providers work with. The names of data volumes are related to the limit that
  the webhook of Cluster enforces. \<open>util.GenerateUID\<close> hashes with packages outside the
  repository and is a parameter.
\<close>

section \<open>Scope\<close>

definition VpcDefaultCIDR :: string where "VpcDefaultCIDR = ''10.0.0.0/16''"
definition ClusterNameLabel :: string where "ClusterNameLabel = ''cluster.kurator.dev/cluster-name''"
definition ClusterNamespaceLabel :: string where "ClusterNamespaceLabel = ''cluster.kurator.dev/cluster-namespace''"
definition BucketNamePrefix :: string where "BucketNamePrefix = ''kuratorcluster-''"

record InstanceVolume =
  DeviceName :: string
  DeviceSize :: int
  DeviceType :: string

record Instance =
  InstReplicas :: int
  InstType :: string
  InstSSHKey :: string
  InstImageOS :: string
  InstRootVolume :: "InstanceVolume option"
  DataVolumes :: "InstanceVolume list"

record ScopeCluster =
  sc_uid :: string
  sc_infraType :: string
  sc_key :: objkey
  sc_credentialSecretRef :: string
  sc_version :: string
  sc_region :: string
  sc_vpcCIDR :: string
  sc_podCIDR :: "string list"
  sc_serviceCIDR :: "string list"
  sc_cniType :: string
  sc_controlPlane :: Instance
  sc_workers :: "Instance list"
  sc_enablePodIdentity :: bool
  sc_bucketName :: string

text \<open>\<open>%c\<close> prints a rune in UTF-8, an invalid one as U+FFFD.\<close>

definition runeText :: "nat \<Rightarrow> string" where
  "runeText n =
     (if n < 0x80 then [char_of n]
      else if n < 0x800 then [char_of (0xC0 + n div 64), char_of (0x80 + n mod 64)]
      else if 0xD800 \<le> n \<and> n < 0xE000 \<or> n > 0x10FFFF then [char_of (0xEF::nat), char_of (0xBF::nat), char_of (0xBD::nat)]
      else if n < 0x10000
      then [char_of (0xE0 + n div 4096), char_of (0x80 + n div 64 mod 64), char_of (0x80 + n mod 64)]
      else [char_of (0xF0 + n div 262144), char_of (0x80 + n div 4096 mod 64), char_of (0x80 + n div 64 mod 64),
            char_of (0x80 + n mod 64)])"

definition deviceName :: "string \<Rightarrow> nat \<Rightarrow> string" where
  "deviceName infra idx =
     (if infra = AWSClusterInfraType then ''/dev/sd'' @ runeText (98 + idx) else ''Not implemented'')"

fun dataVolumesFrom :: "string \<Rightarrow> nat \<Rightarrow> Volume0 list \<Rightarrow> InstanceVolume list" where
  "dataVolumesFrom infraType idx [] = []"
| "dataVolumesFrom infraType idx (vol # vols) =
     \<lparr>DeviceName = deviceName infraType idx, DeviceSize = VolumeSize vol, DeviceType = VolumeType vol\<rparr> #
     dataVolumesFrom infraType (Suc idx) vols"

definition NewInstance :: "string \<Rightarrow> MachineConfig \<Rightarrow> Instance" where
  "NewInstance infraType machine =
     \<lparr>InstReplicas = Replicas machine, InstType = InstanceType machine, InstSSHKey = SSHKeyName machine,
      InstImageOS = ImageOS machine,
      InstRootVolume = map_option (\<lambda>v. \<lparr>DeviceName = [], DeviceSize = VolumeSize v, DeviceType = VolumeType v\<rparr>)
        (RootVolume machine),
      DataVolumes = dataVolumesFrom infraType 0 (NonRootVolumes machine)\<rparr>"

definition NewCluster :: "(objkey \<Rightarrow> string) \<Rightarrow> Cluster \<Rightarrow> ScopeCluster" where
  "NewCluster generateUID cluster =
     (let spec = ku_spec cluster; nn = keyOf (ku_meta cluster); uid = generateUID nn in
      \<lparr>sc_uid = uid, sc_infraType = InfraType spec, sc_key = nn,
       sc_credentialSecretRef = (case Credential spec of None \<Rightarrow> [] | Some ref \<Rightarrow> ref),
       sc_version = ClusterVersion spec, sc_region = ClusterRegion spec,
       sc_vpcCIDR = (if VPCCIDRBlock (VPC (Network spec)) = [] then VpcDefaultCIDR else VPCCIDRBlock (VPC (Network spec))),
       sc_podCIDR = PodCIDRs (Network spec), sc_serviceCIDR = ServiceCIDRs (Network spec),
       sc_cniType = (if NetworkCNIType (Network spec) \<noteq> [] then NetworkCNIType (Network spec) else ''calico''),
       sc_controlPlane = NewInstance (InfraType spec) (nc_machine (ClusterMaster spec)),
       sc_workers = map (\<lambda>worker. NewInstance (InfraType spec) (nc_machine (wc_node worker))) (ClusterWorkers spec),
       sc_enablePodIdentity = PodIdentityEnabled spec,
       sc_bucketName = BucketNamePrefix @ uid\<rparr>)"

definition SecretName :: "ScopeCluster \<Rightarrow> string" where
  "SecretName c = k_namespace (sc_key c) @ ''-'' @ k_name (sc_key c) @ ''-'' @ sc_uid c"

definition StackSuffix :: "ScopeCluster \<Rightarrow> string" where
  "StackSuffix c = ''.'' @ sc_uid c @ ''.kurator.dev''"

definition StackName :: "ScopeCluster \<Rightarrow> string" where
  "StackName c = ''cf'' @ ''-'' @ sc_uid c @ ''-cluster-kurator-dev''"

definition MatchingLabels :: "ScopeCluster \<Rightarrow> (string \<times> string) list" where
  "MatchingLabels c = [(ClusterNameLabel, k_name (sc_key c)), (ClusterNamespaceLabel, k_namespace (sc_key c))]"

definition AdditionalResourceRefs :: "Cluster \<Rightarrow> ResourceRef list" where
  "AdditionalResourceRefs infraCluster =
     map (\<lambda>r. \<lparr>ResourceName = ResourceName r, ResourceKind = ResourceKind r\<rparr>) (AdditionalResources (ku_spec infraCluster))"

section \<open>Device names\<close>

lemma dataVolumes_names:
  "map DeviceName (dataVolumesFrom infra i vols) = map (deviceName infra) [i..<i + length vols]"
  by (induction vols arbitrary: i) (auto simp: upt_conv_Cons simp del: upt_Suc)

definition deviceLetters :: string where
  "deviceLetters = ''bcdefghijklmnopqrstuvwxyz''"

lemma deviceLetters: "length deviceLetters = 25" "distinct deviceLetters"
  "map (\<lambda>i. runeText (98 + i)) [0..<25] = map (\<lambda>c. [c]) deviceLetters"
  by code_simp+

lemma aws_names:
  assumes "length vols \<le> 25"
  shows "map DeviceName (dataVolumesFrom AWSClusterInfraType 0 vols) =
    map (\<lambda>c. ''/dev/sd'' @ [c]) (take (length vols) deviceLetters)"
proof -
  have "map DeviceName (dataVolumesFrom AWSClusterInfraType 0 vols) =
      map (\<lambda>t. ''/dev/sd'' @ t) (map (\<lambda>i. runeText (98 + i)) [0..<length vols])"
    by (simp add: dataVolumes_names deviceName_def)
  also have "[0..<length vols] = take (length vols) [0..<25]" using assms by (simp add: take_upt)
  also have "map (\<lambda>i. runeText (98 + i)) (take (length vols) [0..<25]) = take (length vols) (map (\<lambda>c. [c]) deviceLetters)"
    using deviceLetters(3) by (simp only: take_map [symmetric])
  finally show ?thesis by (simp add: take_map)
qed

section \<open>Properties\<close>

text \<open>C30. The limit of 25 data volumes is exactly what the device names allow: for every version of
  a stored AWS Cluster, the data volumes of every instance get the names /dev/sdb, /dev/sdc and
  so on up to /dev/sdz, one each.\<close>

theorem stored_device_names:
  assumes "admitted (ClusterValidateCreate V) (ClusterValidateUpdate V) obj news"
    and "RtCluster c \<in> set (obj # news)" and "InfraType (ku_spec c) = AWSClusterInfraType"
    and "inst \<in> set (sc_controlPlane (NewCluster uid c) # sc_workers (NewCluster uid c))"
  shows "map DeviceName (DataVolumes inst) = map (\<lambda>l. ''/dev/sd'' @ [l]) (take (length (DataVolumes inst)) deviceLetters) \<and>
    distinct (map DeviceName (DataVolumes inst))"
proof -
  have "validateCluster V c = None" using clusterHook.stored_valid [OF assms(1,2)] by simp
  then have "list_all (\<lambda>node. length (volumesOf node) \<le> 25) (ClusterMaster (ku_spec c) # map wc_node (ClusterWorkers (ku_spec c)))"
    using assms(3) by (auto simp: validateCluster_def newInvalid_def validateVolume_def validateAWSVolume_def
        validateWorkerVolumes_Nil AWSMaxDataVolumeCount_def Let_def list_all_iff split: if_splits)
  then obtain vols where vols: "DataVolumes inst = dataVolumesFrom AWSClusterInfraType 0 vols" "length vols \<le> 25"
    using assms(3,4) by (auto simp: NewCluster_def NewInstance_def volumesOf_def Let_def list_all_iff)
  have "length (DataVolumes inst) = length vols"
    using arg_cong [OF dataVolumes_names [of AWSClusterInfraType 0 vols], of length] vols(1) by simp
  moreover have "distinct (map (\<lambda>l. ''/dev/sd'' @ [l]) (take (length vols) deviceLetters))"
    using deviceLetters(2) by (simp add: distinct_map inj_on_def)
  ultimately show ?thesis using aws_names [OF vols(2)] vols(1) by simp
qed

theorem stored_device_names_witness:
  "map DeviceName (DataVolumes (sc_controlPlane (NewCluster (\<lambda>k. ''1234'') (demoKuratorCluster ''1.23.0'')))) = [''/dev/sdb'']"
proof -
  let ?c = "demoKuratorCluster ''1.23.0''"
  have "admitted (ClusterValidateCreate demoVlib) (ClusterValidateUpdate demoVlib) (RtCluster ?c) []"
    using demoCluster_valid by (simp add: admitted_def)
  from stored_device_names [OF this, of ?c "sc_controlPlane (NewCluster (\<lambda>k. ''1234'') ?c)" "\<lambda>k. ''1234''"]
  show ?thesis
    by (simp add: demoKuratorCluster_def AWSClusterInfraType_def NewCluster_def NewInstance_def demoNodeConfig_def
        deviceLetters_def Let_def)
qed

end
