(* ===== verification/ClusterController.thy ===== *)
theory ClusterController
  imports ClusterScope CustomClusterPhases
begin

text \<open>
  The controllers of Cluster, CustomMachine and AttachedCluster in \<open>pkg/cluster-operator\<close>.
  The infrastructure provider is the interface \<open>pkg/infra/provider\<close>, a record of its methods;
  rendering and applying the CNI resources goes through Helm and is a parameter.
\<close>

section \<open>State and environment\<close>

record 'w clstate = "'w kst" +
  s_cluster :: Cluster

text \<open>
  A method of a provider may change the status of the Cluster it was made for; it returns the
  status with its outcome.
\<close>

type_synonym 'w pvcall = "ClusterStatus \<Rightarrow> 'w \<Rightarrow> unit outcome \<times> ClusterStatus \<times> 'w"

record 'w provider =
  pv_Precheck :: "'w pvcall"
  pv_Reconcile :: "'w pvcall"
  pv_Clean :: "'w pvcall"
  pv_IsInitialized :: "'w pvcall"
  pv_IsReady :: "'w pvcall"

record ClusterResourceSet =
  crs_meta :: ObjectMeta
  crs_selector :: "(string \<times> string) list"
  crs_resources :: "ResourceRef list"

record 'w clenv =
  c_cluster :: "('w, Cluster) api"
  c_secret :: "('w, Secret) api"
  c_capi :: "('w, CapiCluster) api"
  c_crs :: "('w, ClusterResourceSet) api"
  c_cm :: "('w, ConfigMap) api"
  c_awsProvider :: "ScopeCluster \<Rightarrow> 'w \<Rightarrow> (goerr + 'w provider) \<times> 'w"
  c_generateUID :: "objkey \<Rightarrow> string"
  c_renderCNI :: "ScopeCluster \<Rightarrow> goerr + string"
  c_patchResources :: "string \<Rightarrow> 'w \<Rightarrow> (goerr + unit) \<times> 'w"
  c_errText :: "goerr \<Rightarrow> string"
  c_lib :: capilib
  c_containsFinalizer :: "string list \<Rightarrow> string \<Rightarrow> bool"
  c_parseGroupVersion :: "string \<Rightarrow> goerr + string \<times> string"
  c_requeueAfter :: int

type_synonym ('w, 'a) clproc = "('w clstate, 'a) proc"

definition KindCluster :: string where "KindCluster = ''Cluster''"
definition ClusterFinalizer :: string where "ClusterFinalizer = ''cluster.cluster.kurator.dev''"
definition clusterAPIVersion :: string where "clusterAPIVersion = ''cluster.kurator.dev/v1alpha1''"

text \<open>A call of a provider's method, recorded as a request with the name of the method.\<close>

definition providerCall :: "string \<Rightarrow> 'w pvcall \<Rightarrow> ('w, unit) clproc" where
  "providerCall name m s = (case m (ku_status (s_cluster s)) (world s) of (r, st, w') \<Rightarrow>
     (r, s\<lparr>world := w', reqs := reqs s @ [RExternal name []], s_cluster := s_cluster s\<lparr>ku_status := st\<rparr>\<rparr>))"

definition setClusterPhase :: "string \<Rightarrow> ('w, unit) clproc" where
  "setClusterPhase p = modifyP (\<lambda>s. s\<lparr>s_cluster := s_cluster s\<lparr>ku_status := ku_status (s_cluster s)\<lparr>ClusterPhase := p\<rparr>\<rparr>\<rparr>)"

definition setClusterConditions :: "(Condition list \<Rightarrow> Condition list) \<Rightarrow> ('w, unit) clproc" where
  "setClusterConditions f = modifyP (\<lambda>s. s\<lparr>s_cluster := s_cluster s\<lparr>ku_status :=
     ku_status (s_cluster s)\<lparr>ClusterConditions := f (ClusterConditions (ku_status (s_cluster s)))\<rparr>\<rparr>\<rparr>)"

definition setFinalizers :: "(string list \<Rightarrow> string list) \<Rightarrow> ('w, unit) clproc" where
  "setFinalizers f = modifyP (\<lambda>s. s\<lparr>s_cluster := s_cluster s\<lparr>ku_meta :=
     ku_meta (s_cluster s)\<lparr>m_finalizers := f (m_finalizers (ku_meta (s_cluster s)))\<rparr>\<rparr>\<rparr>)"

definition clusterOwnerRef :: "Cluster \<Rightarrow> OwnerReference" where
  "clusterOwnerRef cluster = \<lparr>or_apiVersion = clusterAPIVersion, or_kind = KindCluster,
     or_name = m_name (ku_meta cluster), or_uid = m_uid (ku_meta cluster)\<rparr>"

section \<open>Credentials\<close>

definition reconcileSecretOwnerReference :: "'w clenv \<Rightarrow> ('w, unit) clproc" where
  "reconcileSecretOwnerReference E = bindP (getP s_cluster) (\<lambda>cluster.
     case Credential (ku_spec cluster) of
       None \<Rightarrow> retP ()
     | Some ref \<Rightarrow>
         bindP (onErr (getK ''Secret'' (c_secret E) \<lparr>k_namespace = m_namespace (ku_meta cluster), k_name = ref\<rparr>)
           (\<lambda>e. failP (EMsg ''failed to get cluster credential secret''))) (\<lambda>s.
         seqP (onErr (callP (RExternal ''NewHelper'' []) (api_newHelper (c_secret E) s))
           (\<lambda>e. failP (EMsg ''failed to init patch helper for secret'')))
         (let refs = m_ownerRefs (sec_meta s);
              refs' = (if m_deletionTimestamp (ku_meta cluster) \<noteq> None
                then removeOwnerRef (c_lib E) refs (clusterOwnerRef cluster)
                else ensureOwnerRef (c_lib E) refs (clusterOwnerRef cluster))
          in patchK ''Secret'' sec_meta (c_secret E) s (s\<lparr>sec_meta := sec_meta s\<lparr>m_ownerRefs := refs'\<rparr>\<rparr>))))"

definition newProvider :: "'w clenv \<Rightarrow> ScopeCluster \<Rightarrow> ('w, 'w provider) clproc" where
  "newProvider E scope =
     (if sc_infraType scope = AWSClusterInfraType then extE (c_awsProvider E scope)
      else failP (EMsg (''unknown infra type '' @ sc_infraType scope)))"

section \<open>Deletion\<close>

definition clusterKey :: "Cluster \<Rightarrow> objkey" where
  "clusterKey cluster = \<lparr>k_namespace = m_namespace (ku_meta cluster), k_name = m_name (ku_meta cluster)\<rparr>"

definition deleteCAPIClusterIfNeeded :: "'w clenv \<Rightarrow> ('w, unit) clproc" where
  "deleteCAPIClusterIfNeeded E = bindP (getP s_cluster) (\<lambda>infraCluster.
     tryP (getK ''CAPICluster'' (c_capi E) (clusterKey infraCluster)) (\<lambda>r. case r of
       Inl e \<Rightarrow> if isNotFound e then retP () else failP (EWrap ''failed to get CAPI Cluster'' e)
     | Inr cluster \<Rightarrow> onErr (deleteK ''CAPICluster'' cl_meta (c_capi E) cluster)
         (\<lambda>e. if isNotFound e then retP () else failP (EWrap ''failed to delete CAPI Cluster'' e))))"

definition deleteClusterResourceSets :: "'w clenv \<Rightarrow> ScopeCluster \<Rightarrow> ('w, unit) clproc" where
  "deleteClusterResourceSets E scope =
     bindP (onErr (listK ''ClusterResourceSet'' (c_crs E) (k_namespace (sc_key scope)) (MatchingLabels scope))
       (\<lambda>e. failP (EWrap ''failed to list ClusterResourceSet'' e))) (\<lambda>csrList.
     forEach csrList (\<lambda>csr.
       onErr (deleteK ''ClusterResourceSet'' crs_meta (c_crs E) csr)
         (\<lambda>e. if isNotFound e then retP () else failP (EWrap ''failed to delete ClusterResourceSet'' e))))"

definition reconcileClusterDelete :: "'w clenv \<Rightarrow> ScopeCluster \<Rightarrow> 'w provider \<Rightarrow> ('w, Result) clproc" where
  "reconcileClusterDelete E scope provider =
     seqP (onErr (deleteCAPIClusterIfNeeded E) (\<lambda>e. failP (EWrap ''failed to delete CAPI Cluster'' e)))
     (bindP (getP s_cluster) (\<lambda>cluster.
      tryP (getK ''CAPICluster'' (c_capi E) (clusterKey cluster)) (\<lambda>r.
        if (case r of Inl e \<Rightarrow> \<not> isNotFound e | Inr _ \<Rightarrow> True) then retP (requeueAfter (c_requeueAfter E))
        else seqP (onErr (providerCall ''Clean'' (pv_Clean provider)) (\<lambda>e. failP (EWrap ''failed to delete Cluster'' e)))
          (seqP (onErr (deleteClusterResourceSets E scope) (\<lambda>e. failP (EWrap ''failed to delete ClusterResourceSet for Cluster'' e)))
          (seqP (onErr (reconcileSecretOwnerReference E) (\<lambda>e. failP (EWrap ''failed to delete secret for Cluster'' e)))
          (seqP (setFinalizers (\<lambda>fs. removeFinalizer (c_lib E) fs ClusterFinalizer))
            (retP noRequeue)))))))"

section \<open>Resources\<close>

definition newResourceSet :: "Cluster \<Rightarrow> ResourceRef list \<Rightarrow> ClusterResourceSet" where
  "newResourceSet infraCluster refs =
     \<lparr>crs_meta = (newMeta (m_name (ku_meta infraCluster)) (m_namespace (ku_meta infraCluster)))\<lparr>m_labels :=
        Some [ClusterNameLabel \<mapsto> m_name (ku_meta infraCluster), ClusterNamespaceLabel \<mapsto> m_namespace (ku_meta infraCluster)]\<rparr>,
      crs_selector = [(ClusterNameLabel, m_name (ku_meta infraCluster)), (ClusterNamespaceLabel, m_namespace (ku_meta infraCluster))],
      crs_resources = refs\<rparr>"

definition reconcileAdditionalResources :: "'w clenv \<Rightarrow> ('w, unit) clproc" where
  "reconcileAdditionalResources E = bindP (getP s_cluster) (\<lambda>infraCluster.
     if length (AdditionalResources (ku_spec infraCluster)) = 0 then retP ()
     else let refs = AdditionalResourceRefs infraCluster in
       bindP (onErr (getK ''ClusterResourceSet'' (c_crs E) (clusterKey infraCluster)) (\<lambda>e.
           if isNotFound e
           then onErr (createK ''ClusterResourceSet'' crs_meta (c_crs E) (newResourceSet infraCluster refs))
             (\<lambda>e'. failP (EWrap ''failed to create ClusterResourceSet'' e'))
           else failP (EWrap ''failed to get ClusterResourceSet'' e))) (\<lambda>csr.
       if crs_resources csr = refs then retP ()
       else bindP (onErr (updateK ''ClusterResourceSet'' crs_meta (c_crs E) (csr\<lparr>crs_resources := refs\<rparr>))
              (\<lambda>e. failP (EWrap ''failed to update ClusterResourceSet'' e))) (\<lambda>_. retP ())))"

definition ensureConfigMapRef :: "'w clenv \<Rightarrow> string \<Rightarrow> string \<Rightarrow> OwnerReference \<Rightarrow> ('w, unit) clproc" where
  "ensureConfigMapRef E namespace name ownerRef =
     tryP (getK ''ConfigMap'' (c_cm E) \<lparr>k_namespace = namespace, k_name = name\<rparr>) (\<lambda>r. case r of
       Inl e \<Rightarrow> if isNotFound e then retP () else failP (EWrap ''failed to get ConfigMap'' e)
     | Inr cm \<Rightarrow> bindP (onErr (updateK ''ConfigMap'' cm_meta (c_cm E) (cm\<lparr>cm_meta := cm_meta cm\<lparr>m_ownerRefs :=
           ensureOwnerRef (c_lib E) (m_ownerRefs (cm_meta cm)) ownerRef\<rparr>\<rparr>))
         (\<lambda>e. failP (EWrap ''failed to update ConfigMap'' e))) (\<lambda>_. retP ()))"

definition ensureSecretRef :: "'w clenv \<Rightarrow> string \<Rightarrow> string \<Rightarrow> OwnerReference \<Rightarrow> ('w, unit) clproc" where
  "ensureSecretRef E namespace name ownerRef =
     tryP (getK ''Secret'' (c_secret E) \<lparr>k_namespace = namespace, k_name = name\<rparr>) (\<lambda>r. case r of
       Inl e \<Rightarrow> if isNotFound e then retP () else failP (EWrap ''failed to get Secret'' e)
     | Inr secret \<Rightarrow> bindP (onErr (updateK ''Secret'' sec_meta (c_secret E) (secret\<lparr>sec_meta := sec_meta secret\<lparr>m_ownerRefs :=
           ensureOwnerRef (c_lib E) (m_ownerRefs (sec_meta secret)) ownerRef\<rparr>\<rparr>))
         (\<lambda>e. failP (EWrap ''failed to update Secret'' e))) (\<lambda>_. retP ()))"

definition ensureClusterResourceSetRefsOwnerRef ::
  "'w clenv \<Rightarrow> ClusterResourceSet \<Rightarrow> OwnerReference \<Rightarrow> ('w, unit) clproc" where
  "ensureClusterResourceSetRefsOwnerRef E csr ownerRef =
     forEach (crs_resources csr) (\<lambda>ref.
       if ResourceKind ref = ''ConfigMap'' then ensureConfigMapRef E (m_namespace (crs_meta csr)) (ResourceName ref) ownerRef
       else if ResourceKind ref = ''Secret'' then ensureSecretRef E (m_namespace (crs_meta csr)) (ResourceName ref) ownerRef
       else retP ())"

definition ensureOwnerReference :: "'w clenv \<Rightarrow> ScopeCluster \<Rightarrow> ('w, unit) clproc" where
  "ensureOwnerReference E scope = bindP (getP s_cluster) (\<lambda>infraCluster.
     bindP (onErr (listK ''ClusterResourceSet'' (c_crs E) [] (MatchingLabels scope))
       (\<lambda>e. failP (EWrap ''failed to list ClusterResourceSet for cluster'' e))) (\<lambda>csrList.
     forEach csrList (\<lambda>csr.
       onErr (ensureClusterResourceSetRefsOwnerRef E csr (clusterOwnerRef infraCluster))
         (\<lambda>e. failP (EWrap ''failed to delete refs for ClusterResourceSet'' e)))))"

definition reconcileCNI :: "'w clenv \<Rightarrow> ScopeCluster \<Rightarrow> ('w, unit) clproc" where
  "reconcileCNI E scopeCluster = (case c_renderCNI E scopeCluster of
     Inl e \<Rightarrow> failP (EWrap ''failed to render CNI resources'' e)
   | Inr cni \<Rightarrow> onErr (extE (c_patchResources E cni)) (\<lambda>e. failP (EWrap ''failed to apply CNI resources'' e)))"

section \<open>Reconciling a Cluster\<close>

definition clusterMarkFalse :: "'w clenv \<Rightarrow> string \<Rightarrow> string \<Rightarrow> CondSeverity \<Rightarrow> string \<Rightarrow> ('w, unit) clproc" where
  "clusterMarkFalse E t reason severity message =
     setClusterConditions (\<lambda>cs. markFalse (c_lib E) cs t reason severity message)"

definition clusterMarkTrue :: "'w clenv \<Rightarrow> string \<Rightarrow> ('w, unit) clproc" where
  "clusterMarkTrue E t = setClusterConditions (\<lambda>cs. markTrue (c_lib E) cs t)"

text \<open>An error that marks a condition false and is returned wrapped.\<close>

definition failMarked :: "'w clenv \<Rightarrow> string \<Rightarrow> string \<Rightarrow> string \<Rightarrow> ('w, unit) clproc \<Rightarrow> ('w, unit) clproc" where
  "failMarked E t reason message m = onErr m (\<lambda>e.
     seqP (clusterMarkFalse E t reason SeverityError (c_errText E e)) (failP (EWrap message e)))"

text \<open>A check whose failure marks a condition false and ends the run with a requeue.\<close>

definition waitMarked :: "'w clenv \<Rightarrow> string \<Rightarrow> string \<Rightarrow> ('w, unit) clproc \<Rightarrow> ('w, Result) clproc \<Rightarrow> ('w, Result) clproc" where
  "waitMarked E t reason m k = tryP m (\<lambda>r. case r of
     Inl e \<Rightarrow> seqP (clusterMarkFalse E t reason SeverityWarning (c_errText E e)) (retP (requeueAfter (c_requeueAfter E)))
   | Inr _ \<Rightarrow> k)"

definition reconcileCluster :: "'w clenv \<Rightarrow> ScopeCluster \<Rightarrow> 'w provider \<Rightarrow> ('w, Result) clproc" where
  "reconcileCluster E scope provider =
     seqP (failMarked E InfrastructureReadyCondition InfrastructureProvisionFailedReason ''failed to reconcile Cluster''
       (providerCall ''Reconcile'' (pv_Reconcile provider)))
     (waitMarked E InfrastructureReadyCondition InfrastructureNotReadyReason
       (providerCall ''IsInitialized'' (pv_IsInitialized provider))
     (seqP (clusterMarkTrue E InfrastructureReadyCondition)
     (seqP (failMarked E CNICondition CNIProvisionFailedReason ''failed to reconcile CNI resources'' (reconcileCNI E scope))
     (waitMarked E CNICondition CNINotReadyReason (providerCall ''IsReady'' (pv_IsReady provider))
     (seqP (clusterMarkTrue E CNICondition)
     (seqP (failMarked E ClusterReadyCondition ClusterResourceSetProvisionFailedReason
         ''failed to reconcile additional resources for cluster'' (reconcileAdditionalResources E))
     (seqP (failMarked E ClusterReadyCondition ClusterResourceSetProvisionFailedReason
         ''failed to reconcile ClusterResourceSet for cluster'' (ensureOwnerReference E scope))
     (seqP (clusterMarkTrue E ClusterReadyCondition)
     (seqP (setClusterPhase ClusterPhaseReady) (retP noRequeue))))))))))"

definition addClusterFinalizer :: "'w clenv \<Rightarrow> ('w, unit) clproc" where
  "addClusterFinalizer E = bindP (getP s_cluster) (\<lambda>cluster.
     ifP (\<not> c_containsFinalizer E (m_finalizers (ku_meta cluster)) ClusterFinalizer)
       (seqP (setClusterPhase ClusterPhaseProvisioning)
       (seqP (clusterMarkFalse E ClusterReadyCondition ProvisioningReason SeverityError ''Provisioning'')
       (setFinalizers (\<lambda>fs. addFinalizer (c_lib E) fs ClusterFinalizer)))))"

definition reconcileDeleting :: "'w clenv \<Rightarrow> ScopeCluster \<Rightarrow> 'w provider \<Rightarrow> ('w, Result) clproc" where
  "reconcileDeleting E scope provider = bindP (getP s_cluster) (\<lambda>cluster.
     if ClusterPhase (ku_status cluster) \<noteq> ClusterPhaseDeleting
     then seqP (setClusterPhase ClusterPhaseDeleting)
          (seqP (clusterMarkFalse E ClusterReadyCondition DeletingReason SeverityError ''Deleting'') (retP noRequeue))
     else reconcileClusterDelete E scope provider)"

definition reconcileWithProvider :: "'w clenv \<Rightarrow> ScopeCluster \<Rightarrow> 'w provider \<Rightarrow> ('w, Result) clproc" where
  "reconcileWithProvider E scope provider =
     tryP (providerCall ''Precheck'' (pv_Precheck provider)) (\<lambda>r. case r of
       Inl e \<Rightarrow> seqP (clusterMarkFalse E ClusterReadyCondition PrecheckFailedReason SeverityError (c_errText E e))
                 (seqP (setClusterPhase ClusterPhaseFailed) (retP noRequeue))
     | Inr _ \<Rightarrow>
         seqP (addClusterFinalizer E)
         (bindP (getP s_cluster) (\<lambda>cluster.
          if m_deletionTimestamp (ku_meta cluster) \<noteq> None then reconcileDeleting E scope provider
          else reconcileCluster E scope provider)))"

definition reconcileClusterBody :: "'w clenv \<Rightarrow> ('w, Result) clproc" where
  "reconcileClusterBody E =
     tryP (reconcileSecretOwnerReference E) (\<lambda>r. case r of
       Inl e \<Rightarrow> seqP (setClusterPhase ClusterPhaseFailed) (retP noRequeue)
     | Inr _ \<Rightarrow>
         bindP (getP (\<lambda>s. NewCluster (c_generateUID E) (s_cluster s))) (\<lambda>scope.
         tryP (newProvider E scope) (\<lambda>p. case p of
           Inl e \<Rightarrow> seqP (clusterMarkFalse E ClusterReadyCondition ProviderInitializeFailedReason SeverityError (c_errText E e))
                     (failP (EWrap ''failed to create Cluster Provider'' e))
         | Inr provider \<Rightarrow> reconcileWithProvider E scope provider)))"

text \<open>The deferred function: an error sets the phase Failed before the patch.\<close>

definition reconcileClusterPatched :: "'w clenv \<Rightarrow> Cluster \<Rightarrow> ('w, Result) clproc" where
  "reconcileClusterPatched E before =
     deferErr (onErr (reconcileClusterBody E) (\<lambda>e. seqP (setClusterPhase ClusterPhaseFailed) (failP e)))
       (bindP (getP s_cluster) (\<lambda>after.
        onErr (patchK ''Cluster'' ku_meta (c_cluster E) before after) (\<lambda>e. failP (EWrap ''failed to patch cluster'' e))))"

definition ReconcileCluster :: "'w clenv \<Rightarrow> objkey \<Rightarrow> ('w, Result) clproc" where
  "ReconcileCluster E req =
     tryP (getK ''Cluster'' (c_cluster E) req) (\<lambda>r. case r of
       Inl e \<Rightarrow> if isNotFound e then retP noRequeue else failP (EWrap ''failed to get cluster'' e)
     | Inr cluster \<Rightarrow>
         seqP (modifyP (\<lambda>s. s\<lparr>s_cluster := cluster\<rparr>))
         (seqP (onErr (callP (RExternal ''NewHelper'' []) (api_newHelper (c_cluster E) cluster))
           (\<lambda>e. failP (EWrap ''failed to init patch helper for cluster'' e)))
         (reconcileClusterPatched E cluster)))"

section \<open>Secrets that trigger a Cluster\<close>

definition clusterGroup :: string where "clusterGroup = ''cluster.kurator.dev''"
definition clusterVersion :: string where "clusterVersion = ''v1alpha1''"

definition SecretToClusterFunc :: "'w clenv \<Rightarrow> Secret \<Rightarrow> objkey list" where
  "SecretToClusterFunc E obj = concat (map (\<lambda>ref.
     if or_kind ref \<noteq> KindCluster then []
     else case c_parseGroupVersion E (or_apiVersion ref) of
       Inl e \<Rightarrow> []
     | Inr (gvGroup, gvVersion) \<Rightarrow>
         if gvGroup \<noteq> clusterGroup \<or> gvVersion \<noteq> clusterVersion then []
         else [\<lparr>k_namespace = m_namespace (sec_meta obj), k_name = or_name ref\<rparr>]) (m_ownerRefs (sec_meta obj)))"

end
