(* ===== verification/ClusterControllerProperties.thy ===== *)
theory ClusterControllerProperties
  imports ClusterController
begin

text \<open>
  Properties of the Cluster controller: a Cluster becomes Ready only after the checks of its
  provider, its finalizer goes only after the Cluster API object and the infrastructure are gone,
  and a missing credential ends the run. The infrastructure provider is assumed to leave the phase
  and the conditions of the Cluster alone (\<open>provider_laws\<close>); \<open>okProvider\<close> is an instance.
\<close>

section \<open>Frames\<close>

definition clPhase :: "'w clstate \<Rightarrow> string" where
  "clPhase s = ClusterPhase (ku_status (s_cluster s))"

definition clConds :: "'w clstate \<Rightarrow> Condition list" where
  "clConds s = ClusterConditions (ku_status (s_cluster s))"

text \<open>The Cluster in memory stays and requests are only appended; or no request is sent at all.\<close>

definition keepsCluster :: "'w clstate \<Rightarrow> 'w clstate \<Rightarrow> bool" where
  "keepsCluster s s' \<longleftrightarrow> s_cluster s' = s_cluster s \<and> sends (\<lambda>_. True) s s'"

definition silent :: "'w clstate \<Rightarrow> 'w clstate \<Rightarrow> bool" where
  "silent s s' \<longleftrightarrow> s_cluster s' = s_cluster s \<and> reqs s' = reqs s"

interpretation keepsCluster: client_frame keepsCluster "\<lambda>_. True"
proof unfold_locales
  show "\<lbrakk>keepsCluster s t; keepsCluster t u\<rbrakk> \<Longrightarrow> keepsCluster s u" for s t u :: "'a clstate"
    using sends.R_trans by (auto simp: keepsCluster_def)
qed (auto simp: keepsCluster_def sends_def)

interpretation silent: client_frame silent "\<lambda>_. False"
  by unfold_locales (auto simp: silent_def)

lemma resources_keepCluster:
  "pres keepsCluster (reconcileAdditionalResources E)"
  "pres keepsCluster (ensureOwnerReference E scope)"
  "pres keepsCluster (deleteClusterResourceSets E scope)"
  "pres keepsCluster (reconcileSecretOwnerReference E)"
  "pres keepsCluster (deleteCAPIClusterIfNeeded E)"
  unfolding reconcileAdditionalResources_def ensureOwnerReference_def ensureClusterResourceSetRefsOwnerRef_def
    ensureConfigMapRef_def ensureSecretRef_def deleteClusterResourceSets_def reconcileSecretOwnerReference_def
    deleteCAPIClusterIfNeeded_def apiK_defs
  by (intro pres_rules TrueI)+

lemma reconcileCNI_silent: "pres silent (reconcileCNI E scope)"
  unfolding reconcileCNI_def by (intro pres_rules)+

lemma wp_frame: "pres R m \<Longrightarrow> (\<And>r s'. R s s' \<Longrightarrow> Q r s') \<Longrightarrow> wp m Q s"
  by (simp add: wpI presD)

lemma wp_frame_run: "pres R m \<Longrightarrow> (\<And>r s'. R s s' \<Longrightarrow> m s = (r, s') \<Longrightarrow> Q r s') \<Longrightarrow> wp m Q s"
  by (simp add: wpI presD)

lemma keepsClusterE:
  assumes "pres keepsCluster m"
    and "\<And>r t qs. s_cluster t = s_cluster s \<Longrightarrow> reqs t = reqs s @ qs \<Longrightarrow> Q r t"
  shows "wp m Q s"
  by (rule wp_frame [OF assms(1)]) (unfold keepsCluster_def sends_def, elim conjE exE, rule assms(2))

section \<open>Providers\<close>

text \<open>A method of a provider does not change the phase and the conditions of the Cluster.\<close>

definition method_law :: "'w pvcall \<Rightarrow> bool" where
  "method_law m \<longleftrightarrow> (\<forall>st w. case m st w of (r, st', w') \<Rightarrow>
     ClusterPhase st' = ClusterPhase st \<and> ClusterConditions st' = ClusterConditions st)"

definition provider_laws :: "'w provider \<Rightarrow> bool" where
  "provider_laws p \<longleftrightarrow> method_law (pv_Precheck p) \<and> method_law (pv_Reconcile p) \<and> method_law (pv_Clean p) \<and>
     method_law (pv_IsInitialized p) \<and> method_law (pv_IsReady p)"

lemma wp_providerCall:
  assumes law: "method_law m"
    and post: "\<And>r t. \<lbrakk>clPhase t = clPhase s; clConds t = clConds s; ku_meta (s_cluster t) = ku_meta (s_cluster s);
      ku_spec (s_cluster t) = ku_spec (s_cluster s); reqs t = reqs s @ [RExternal name []];
      providerCall name m s = (r, t)\<rbrakk> \<Longrightarrow> Q r t"
  shows "wp (providerCall name m) Q s"
proof -
  obtain r st w where m: "m (ku_status (s_cluster s)) (world s) = (r, st, w)"
    by (cases "m (ku_status (s_cluster s)) (world s)") auto
  have "ClusterPhase st = clPhase s" "ClusterConditions st = clConds s"
    using law [unfolded method_law_def, rule_format, of "ku_status (s_cluster s)" "world s"] m
    by (simp_all add: clPhase_def clConds_def)
  then show ?thesis
    by (auto simp: wp_def providerCall_def m clPhase_def clConds_def intro!: post split: sum.splits)
qed

lemma wp_clusterSets:
  "wp (setClusterPhase p) Q s = Q (Ok ()) (s\<lparr>s_cluster := s_cluster s\<lparr>ku_status := ku_status (s_cluster s)\<lparr>ClusterPhase := p\<rparr>\<rparr>\<rparr>)"
  "wp (clusterMarkTrue E t) Q s = Q (Ok ()) (s\<lparr>s_cluster := s_cluster s\<lparr>ku_status :=
     ku_status (s_cluster s)\<lparr>ClusterConditions := markTrue (c_lib E) (clConds s) t\<rparr>\<rparr>\<rparr>)"
  "wp (clusterMarkFalse E t reason sev msg) Q s = Q (Ok ()) (s\<lparr>s_cluster := s_cluster s\<lparr>ku_status :=
     ku_status (s_cluster s)\<lparr>ClusterConditions := markFalse (c_lib E) (clConds s) t reason sev msg\<rparr>\<rparr>\<rparr>)"
  "wp (setFinalizers f) Q s = Q (Ok ()) (s\<lparr>s_cluster := s_cluster s\<lparr>ku_meta :=
     ku_meta (s_cluster s)\<lparr>m_finalizers := f (m_finalizers (ku_meta (s_cluster s)))\<rparr>\<rparr>\<rparr>)"
  by (simp_all add: setClusterPhase_def clusterMarkTrue_def clusterMarkFalse_def setClusterConditions_def setFinalizers_def
      clConds_def wp_modifyP)

section \<open>A ready cluster\<close>

lemma clPhase_updates [simp]:
  "clPhase (s\<lparr>s_cluster := s_cluster s\<lparr>ku_status := ku_status (s_cluster s)\<lparr>ClusterConditions := cs\<rparr>\<rparr>\<rparr>) = clPhase s"
  "clConds (s\<lparr>s_cluster := s_cluster s\<lparr>ku_status := ku_status (s_cluster s)\<lparr>ClusterConditions := cs\<rparr>\<rparr>\<rparr>) = cs"
  "clPhase (s\<lparr>s_cluster := s_cluster s\<lparr>ku_status := ku_status (s_cluster s)\<lparr>ClusterPhase := p\<rparr>\<rparr>\<rparr>) = p"
  "clConds (s\<lparr>s_cluster := s_cluster s\<lparr>ku_status := ku_status (s_cluster s)\<lparr>ClusterPhase := p\<rparr>\<rparr>\<rparr>) = clConds s"
  by (simp_all add: clPhase_def clConds_def)

lemma same_cluster: "s_cluster t = s_cluster s \<Longrightarrow> clPhase t = clPhase s \<and> clConds t = clConds s"
  by (simp add: clPhase_def clConds_def)

text \<open>
  The checks of a provider succeeded one after the other: \<open>Reconcile\<close>, \<open>IsInitialized\<close> and, once the
  network plugin has been applied, \<open>IsReady\<close>.
\<close>

definition checkedBy :: "'w clenv \<Rightarrow> ScopeCluster \<Rightarrow> 'w provider \<Rightarrow> 'w clstate \<Rightarrow> 'w clstate \<Rightarrow> bool" where
  "checkedBy E scope p s s' \<longleftrightarrow> (\<exists>t u v. providerCall ''Reconcile'' (pv_Reconcile p) s = (Ok (), t) \<and>
     providerCall ''IsInitialized'' (pv_IsInitialized p) t = (Ok (), u) \<and>
     seqP (clusterMarkTrue E InfrastructureReadyCondition) (reconcileCNI E scope) u = (Ok (), v) \<and>
     providerCall ''IsReady'' (pv_IsReady p) v = (Ok (), s') \<and>
     reqs s' = reqs s @ [RExternal ''Reconcile'' [], RExternal ''IsInitialized'' [], RExternal ''IsReady'' []])"

text \<open>What holds at the end of a run that set the phase Ready.\<close>

definition readyRun :: "'w clenv \<Rightarrow> ScopeCluster \<Rightarrow> 'w provider \<Rightarrow> 'w clstate \<Rightarrow> Result outcome \<Rightarrow> 'w clstate \<Rightarrow> bool" where
  "readyRun E scope p s r s' \<longleftrightarrow> r = Ok noRequeue \<and> (\<exists>t qs. checkedBy E scope p s t \<and> reqs s' = reqs t @ qs) \<and>
     statusOf (clConds s') InfrastructureReadyCondition = Some CondTrue \<and>
     statusOf (clConds s') CNICondition = Some CondTrue \<and> statusOf (clConds s') ClusterReadyCondition = Some CondTrue"

lemma mark_status:
  assumes "capilib_laws L"
  shows "statusOf (markTrue L cs t) t = Some CondTrue"
    and "t' \<noteq> t \<Longrightarrow> statusOf (markTrue L cs t) t' = statusOf cs t'"
  using assms by (simp_all add: capilib_laws_def)

lemma cond_types: "InfrastructureReadyCondition \<noteq> CNICondition" "InfrastructureReadyCondition \<noteq> ClusterReadyCondition"
  "CNICondition \<noteq> ClusterReadyCondition"
  by (simp_all add: InfrastructureReadyCondition_def CNICondition_def ClusterReadyCondition_def)

text \<open>The stages of the reconciliation: one that fails or waits leaves the phase as it was.\<close>

definition ifReady :: "(Result outcome \<Rightarrow> 'w clstate \<Rightarrow> bool) \<Rightarrow> Result outcome \<Rightarrow> 'w clstate \<Rightarrow> bool" where
  "ifReady R r s \<longleftrightarrow> (clPhase s = ClusterPhaseReady \<longrightarrow> R r s)"

lemma wp_failMarked_stage:
  assumes "wp m (\<lambda>r t. clPhase t \<noteq> ClusterPhaseReady \<and> (r = Ok () \<longrightarrow> wp k (ifReady R) t)) s"
  shows "wp (seqP (failMarked E c reason message m) k) (ifReady R) s"
  unfolding wp_steps failMarked_def
  by (rule wp_mono [OF assms]) (auto simp: wp_steps wp_clusterSets ifReady_def split: outcome.splits)

lemma wp_waitMarked_stage:
  assumes "wp m (\<lambda>r t. clPhase t \<noteq> ClusterPhaseReady \<and> (r = Ok () \<longrightarrow> wp k (ifReady R) t)) s"
  shows "wp (waitMarked E c reason m k) (ifReady R) s"
  unfolding wp_steps waitMarked_def
  by (rule wp_mono [OF assms]) (auto simp: wp_steps wp_clusterSets ifReady_def split: outcome.splits)

lemma wp_markTrue_stage:
  assumes "wp k Q (s\<lparr>s_cluster := s_cluster s\<lparr>ku_status :=
     ku_status (s_cluster s)\<lparr>ClusterConditions := markTrue (c_lib E) (clConds s) t\<rparr>\<rparr>\<rparr>)"
  shows "wp (seqP (clusterMarkTrue E t) k) Q s"
  using assms by (simp add: wp_steps wp_clusterSets)

lemma wp_readyResources:
  fixes s :: "'a clstate"
  assumes L: "capilib_laws (c_lib E)" and new: "clPhase s \<noteq> ClusterPhaseReady"
    and R: "\<And>t qs. \<lbrakk>reqs t = reqs s @ qs; clConds t = markTrue (c_lib E) (clConds s) ClusterReadyCondition\<rbrakk> \<Longrightarrow> R (Ok noRequeue) t"
  shows "wp (seqP (failMarked E c1 r1 m1 (reconcileAdditionalResources E))
     (seqP (failMarked E c2 r2 m2 (ensureOwnerReference E scope))
     (seqP (clusterMarkTrue E ClusterReadyCondition)
     (seqP (setClusterPhase ClusterPhaseReady) (retP noRequeue))))) (ifReady R) s"
proof (rule wp_failMarked_stage, rule keepsClusterE [OF resources_keepCluster(1)], intro conjI impI)
  fix r and t :: "'a clstate" and qs assume t: "s_cluster t = s_cluster s" "reqs t = reqs s @ qs"
  then show "clPhase t \<noteq> ClusterPhaseReady"
    using new by (simp add: clPhase_def)
  show "wp (seqP (failMarked E c2 r2 m2 (ensureOwnerReference E scope))
     (seqP (clusterMarkTrue E ClusterReadyCondition)
     (seqP (setClusterPhase ClusterPhaseReady) (retP noRequeue)))) (ifReady R) t"
  proof (rule wp_failMarked_stage, rule keepsClusterE [OF resources_keepCluster(2)], intro conjI impI)
    fix r' and u :: "'a clstate" and qs' assume u: "s_cluster u = s_cluster t" "reqs u = reqs t @ qs'"
    then show "clPhase u \<noteq> ClusterPhaseReady"
      using new t by (simp add: clPhase_def)
    have "clConds u = clConds s"
      using t u by (simp add: clConds_def)
    then show "wp (seqP (clusterMarkTrue E ClusterReadyCondition)
     (seqP (setClusterPhase ClusterPhaseReady) (retP noRequeue))) (ifReady R) u"
      using t u by (auto simp: wp_steps wp_clusterSets ifReady_def clConds_def intro!: R)
  qed
qed

lemma reconcileCluster_ready:
  assumes L: "capilib_laws (c_lib E)" and P: "provider_laws p" and new: "clPhase s \<noteq> ClusterPhaseReady"
  shows "wp (reconcileCluster E scope p) (ifReady (readyRun E scope p s)) s"
  unfolding reconcileCluster_def
proof (rule wp_failMarked_stage, rule wp_providerCall, goal_cases)
  case (2 r t)
  note t = this
  show ?case
  proof (intro conjI impI, use t new in simp, rule wp_waitMarked_stage, rule wp_providerCall, goal_cases)
    case (2 r' u)
    note u = this
    show ?case
    proof (intro conjI impI, use t u new in simp, rule wp_markTrue_stage, rule wp_failMarked_stage,
        rule wp_frame_run [OF reconcileCNI_silent], goal_cases)
      case (1 r2 v)
      then have v: "clPhase v = clPhase s" "clConds v = markTrue (c_lib E) (clConds s) InfrastructureReadyCondition" "reqs v = reqs u"
        using t u by (simp_all add: silent_def clPhase_def clConds_def)
      have run: "seqP (clusterMarkTrue E InfrastructureReadyCondition) (reconcileCNI E scope) u = (r2, v)"
        using 1 by (simp add: seqP_def bindP_def clusterMarkTrue_def setClusterConditions_def modifyP_def clConds_def)
      show ?case
      proof (intro conjI impI, use v new in simp, rule wp_waitMarked_stage, rule wp_providerCall, goal_cases)
        case (2 r3 w)
        have checked: "checkedBy E scope p s w" if "r3 = Ok ()"
          using t u v 2 \<open>r = Ok ()\<close> \<open>r' = Ok ()\<close> \<open>r2 = Ok ()\<close> run that unfolding checkedBy_def by (intro exI conjI) simp_all
        have "readyRun E scope p s (Ok noRequeue) s'" if "reqs s' = reqs w @ qs" "r3 = Ok ()"
          "clConds s' = markTrue (c_lib E) (markTrue (c_lib E) (markTrue (c_lib E) (clConds s) InfrastructureReadyCondition) CNICondition) ClusterReadyCondition"
          for s' qs
          using checked that by (auto simp: readyRun_def mark_status [OF L] cond_types cond_types [symmetric])
        then show ?case
          using t u v new 2 by (auto intro!: wp_markTrue_stage wp_readyResources [OF L])
      qed (use P in \<open>simp add: provider_laws_def\<close>)
    qed
  qed (use P in \<open>simp add: provider_laws_def\<close>)
qed (use P in \<open>simp add: provider_laws_def\<close>)

text \<open>The whole body: what comes before the reconciliation leaves the phase or sets another one.\<close>

definition readyBody :: "'w clenv \<Rightarrow> ScopeCluster \<Rightarrow> 'w provider \<Rightarrow> 'w clstate \<Rightarrow> Result outcome \<Rightarrow> 'w clstate \<Rightarrow> bool" where
  "readyBody E scope p s r s' \<longleftrightarrow>
     (\<exists>t pre. reqs t = reqs s @ pre \<and> m_deletionTimestamp (ku_meta (s_cluster s)) = None \<and> readyRun E scope p t r s')"

lemma readyBodyI:
  "\<lbrakk>readyRun E scope p t r s'; reqs t = reqs s @ pre; m_deletionTimestamp (ku_meta (s_cluster s)) = None\<rbrakk> \<Longrightarrow>
   readyBody E scope p s r s'"
  unfolding readyBody_def by blast

lemma phase_names: "ClusterPhaseFailed \<noteq> ClusterPhaseReady" "ClusterPhaseProvisioning \<noteq> ClusterPhaseReady"
  "ClusterPhaseDeleting \<noteq> ClusterPhaseReady"
  by (simp_all add: ClusterPhaseFailed_def ClusterPhaseProvisioning_def ClusterPhaseDeleting_def ClusterPhaseReady_def)

definition keepsPhase :: "'w clstate \<Rightarrow> 'w clstate \<Rightarrow> bool" where
  "keepsPhase s s' \<longleftrightarrow> clPhase s' = clPhase s"

interpretation keepsPhase: client_frame keepsPhase "\<lambda>_. True"
  by unfold_locales (simp_all add: keepsPhase_def clPhase_def)

lemma keepsPhase_calls [pres_rules]:
  "method_law m \<Longrightarrow> pres keepsPhase (providerCall name m)"
  "pres keepsPhase (setFinalizers f)"
  by (auto simp: pres_def keepsPhase_def wp_clusterSets clPhase_def intro!: wp_providerCall)

lemma reconcileClusterDelete_keepsPhase:
  assumes "provider_laws p"
  shows "pres keepsPhase (reconcileClusterDelete E scope p)"
proof -
  have "method_law (pv_Clean p)"
    using assms by (simp add: provider_laws_def)
  then show ?thesis
    unfolding reconcileClusterDelete_def deleteCAPIClusterIfNeeded_def deleteClusterResourceSets_def
      reconcileSecretOwnerReference_def apiK_defs
    by (intro pres_rules TrueI)+
qed

lemma reconcileDeleting_notReady:
  assumes P: "provider_laws p" and new: "clPhase s \<noteq> ClusterPhaseReady"
  shows "wp (reconcileDeleting E scope p) (\<lambda>r s'. clPhase s' \<noteq> ClusterPhaseReady) s"
  using new wp_frame [OF reconcileClusterDelete_keepsPhase [OF P]]
  by (auto simp: reconcileDeleting_def wp_steps wp_clusterSets phase_names keepsPhase_def)

lemma wp_addClusterFinalizer:
  assumes "capilib_laws (c_lib E)"
    and "\<And>t. \<lbrakk>clPhase t = clPhase s \<or> clPhase t = ClusterPhaseProvisioning; reqs t = reqs s;
      m_deletionTimestamp (ku_meta (s_cluster t)) = m_deletionTimestamp (ku_meta (s_cluster s));
      clusterKey (s_cluster t) = clusterKey (s_cluster s);
      set (m_finalizers (ku_meta (s_cluster s))) \<subseteq> set (m_finalizers (ku_meta (s_cluster t)))\<rbrakk> \<Longrightarrow> Q (Ok ()) t"
  shows "wp (addClusterFinalizer E) Q s"
  using assms(1)
  by (auto simp: addClusterFinalizer_def wp_steps wp_clusterSets clPhase_def clusterKey_def capilib_laws_def intro!: assms(2))

lemma reconcileWithProvider_ready:
  assumes L: "capilib_laws (c_lib E)" and P: "provider_laws p" and new: "clPhase s \<noteq> ClusterPhaseReady"
  shows "wp (reconcileWithProvider E scope p) (ifReady (readyBody E scope p s)) s"
  unfolding reconcileWithProvider_def wp_tryP
proof (rule wp_providerCall, goal_cases)
  case (2 r t)
  have rest: "wp (bindP (getP s_cluster) (\<lambda>cluster.
          if m_deletionTimestamp (ku_meta cluster) \<noteq> None then reconcileDeleting E scope p
          else reconcileCluster E scope p)) (ifReady (readyBody E scope p s)) u"
    if u: "clPhase u \<noteq> ClusterPhaseReady" "reqs u = reqs s @ pre"
      "m_deletionTimestamp (ku_meta (s_cluster u)) = m_deletionTimestamp (ku_meta (s_cluster s))" for u pre
  proof (cases "m_deletionTimestamp (ku_meta (s_cluster u)) = None")
    case True
    then show ?thesis
      using u readyBodyI by (auto simp: wp_steps ifReady_def intro!: wp_mono [OF reconcileCluster_ready [OF L P]])
  next
    case False
    then show ?thesis
      using u by (auto simp: wp_steps ifReady_def intro!: wp_mono [OF reconcileDeleting_notReady [OF P]])
  qed
  show ?case
  proof (cases r)
    case (Ok x)
    show ?thesis
      unfolding Ok outcome.case sum.case wp_seqP
      by (rule wp_addClusterFinalizer [OF L], unfold outcome.case, rule rest) (use 2 new in \<open>auto simp: phase_names\<close>)
  qed (use 2 new in \<open>auto simp: wp_steps wp_clusterSets phase_names ifReady_def\<close>)
qed (use P in \<open>simp add: provider_laws_def\<close>)

text \<open>The provider that \<open>NewProvider\<close> makes obeys the law of providers.\<close>

definition lawfulEnv :: "'w clenv \<Rightarrow> bool" where
  "lawfulEnv E \<longleftrightarrow> (\<forall>scope w. case c_awsProvider E scope w of (Inr p, _) \<Rightarrow> provider_laws p | _ \<Rightarrow> True)"

text \<open>The provider that the environment makes for the Cluster.\<close>

definition providerOf :: "'w clenv \<Rightarrow> Cluster \<Rightarrow> 'w provider \<Rightarrow> bool" where
  "providerOf E c p \<longleftrightarrow> (\<exists>w w'. c_awsProvider E (NewCluster (c_generateUID E) c) w = (Inr p, w'))"

definition readyFor :: "'w clenv \<Rightarrow> 'w clstate \<Rightarrow> Result outcome \<Rightarrow> 'w clstate \<Rightarrow> bool" where
  "readyFor E s r s' \<longleftrightarrow>
     (\<exists>p. providerOf E (s_cluster s) p \<and> readyBody E (NewCluster (c_generateUID E) (s_cluster s)) p s r s')"

lemma wp_newProvider:
  assumes "lawfulEnv E"
    and "\<And>r t. \<lbrakk>s_cluster t = s_cluster s; reqs t = reqs s; 
        \<And>p. r = Ok p \<Longrightarrow> provider_laws p \<and> (\<exists>w w'. c_awsProvider E scope w = (Inr p, w'))\<rbrakk> \<Longrightarrow> Q r t"
  shows "wp (newProvider E scope) Q s"
  using assms(1) [unfolded lawfulEnv_def, rule_format, of scope "world s"]
  by (auto simp: newProvider_def wp_steps wp_extE intro!: assms(2) split: prod.splits sum.splits)

lemma readyBody_later:
  "\<lbrakk>readyBody E scope p t r s'; reqs t = reqs s @ pre; ku_meta (s_cluster t) = ku_meta (s_cluster s)\<rbrakk> \<Longrightarrow> readyBody E scope p s r s'"
  unfolding readyBody_def by (metis append_assoc)

lemma reconcileClusterBody_ready:
  assumes L: "capilib_laws (c_lib E)" and P: "lawfulEnv E" and new: "clPhase s \<noteq> ClusterPhaseReady"
  shows "wp (reconcileClusterBody E) (ifReady (readyFor E s)) s"
  unfolding reconcileClusterBody_def wp_tryP
proof (rule keepsClusterE [OF resources_keepCluster(4)], goal_cases)
  case (1 r t qs)
  let ?scope = "NewCluster (c_generateUID E) (s_cluster t)"
  have t: "clPhase t \<noteq> ClusterPhaseReady"
    using 1 new by (simp add: clPhase_def)
  have main: "wp (tryP (newProvider E ?scope) (\<lambda>p. case p of
           Inl e \<Rightarrow> seqP (clusterMarkFalse E ClusterReadyCondition ProviderInitializeFailedReason SeverityError (c_errText E e))
                     (failP (EWrap ''failed to create Cluster Provider'' e))
         | Inr provider \<Rightarrow> reconcileWithProvider E ?scope provider)) (ifReady (readyFor E s)) t"
    unfolding wp_tryP
  proof (rule wp_newProvider [OF P], goal_cases)
    case u1: (1 r' u)
    then have u: "clPhase u \<noteq> ClusterPhaseReady" "reqs u = reqs s @ qs" "ku_meta (s_cluster u) = ku_meta (s_cluster s)"
      using t 1 by (simp_all add: clPhase_def)
    show ?case
    proof (cases r')
      case (Ok p)
      then have "providerOf E (s_cluster s) p"
        using u1(3) [OF Ok] 1 by (simp add: providerOf_def)
      then have "readyBody E ?scope p u r0 s' \<Longrightarrow> readyFor E s r0 s'" for r0 s'
        using readyBody_later [OF _ u(2,3)] 1 by (auto simp: readyFor_def)
      then show ?thesis
        using u1(3) [OF Ok, THEN conjunct1] u Ok
        by (auto simp: ifReady_def intro!: wp_mono [OF reconcileWithProvider_ready [OF L]])
    qed (use u in \<open>auto simp: wp_steps wp_clusterSets ifReady_def\<close>)
  qed
  show ?case
  proof (cases r)
    case (Ok x)
    then show ?thesis
      using main by (simp add: wp_bindP wp_getP)
  qed (use t in \<open>auto simp: wp_steps wp_clusterSets ifReady_def phase_names\<close>)
qed

section \<open>Deletion\<close>

definition clFinalizers :: "'w clstate \<Rightarrow> string list" where
  "clFinalizers s = m_finalizers (ku_meta (s_cluster s))"

text \<open>The metadata of the Cluster stays and requests are only appended.\<close>

definition keepsMeta :: "'w clstate \<Rightarrow> 'w clstate \<Rightarrow> bool" where
  "keepsMeta s s' \<longleftrightarrow> ku_meta (s_cluster s') = ku_meta (s_cluster s) \<and> sends (\<lambda>_. True) s s'"

interpretation keepsMeta: client_frame keepsMeta "\<lambda>_. True"
proof unfold_locales
  show "\<lbrakk>keepsMeta s t; keepsMeta t u\<rbrakk> \<Longrightarrow> keepsMeta s u" for s t u :: "'a clstate"
    using sends.R_trans by (auto simp: keepsMeta_def)
qed (auto simp: keepsMeta_def sends_def)

lemma keepsMeta_calls [pres_rules]:
  "pres keepsMeta (providerCall name m)"
  "pres keepsMeta (setClusterPhase p)"
  "pres keepsMeta (setClusterConditions f)"
  by (auto simp: pres_def wp_def providerCall_def setClusterPhase_def setClusterConditions_def modifyP_def
      keepsMeta_def sends_def split: prod.splits)

lemma keepsMetaD:
  assumes "keepsMeta s t"
  shows "clFinalizers t = clFinalizers s" "clusterKey (s_cluster t) = clusterKey (s_cluster s)" "\<exists>q. reqs t = reqs s @ q"
  using assms by (auto simp: keepsMeta_def clFinalizers_def clusterKey_def sends_def)

lemma reconcile_keepsMeta:
  "pres keepsMeta (reconcileCluster E scope p)"
  "pres keepsMeta (reconcileSecretOwnerReference E)"
  "pres keepsMeta (deleteCAPIClusterIfNeeded E)"
  "pres keepsMeta (deleteClusterResourceSets E scope)"
  unfolding reconcileCluster_def failMarked_def waitMarked_def clusterMarkTrue_def clusterMarkFalse_def reconcileCNI_def
    reconcileAdditionalResources_def ensureOwnerReference_def ensureClusterResourceSetRefsOwnerRef_def
    ensureConfigMapRef_def ensureSecretRef_def deleteClusterResourceSets_def reconcileSecretOwnerReference_def
    deleteCAPIClusterIfNeeded_def apiK_defs
  by (intro pres_rules TrueI)+

text \<open>
  The Cluster API object was seen to be gone, and the provider then cleaned up, between the two
  states.
\<close>

definition cleanedUp :: "'w clenv \<Rightarrow> 'w provider \<Rightarrow> 'w clstate \<Rightarrow> 'w clstate \<Rightarrow> bool" where
  "cleanedUp E p s s' \<longleftrightarrow> (\<exists>t e u v q q'. reqs t = reqs s @ q \<and>
     getK ''CAPICluster'' (c_capi E) (clusterKey (s_cluster s)) t = (Err e, u) \<and> isNotFound e \<and>
     providerCall ''Clean'' (pv_Clean p) u = (Ok (), v) \<and> reqs s' = reqs v @ q')"

text \<open>A step whose error is wrapped and returned, with its run at hand.\<close>

lemma wp_seqErrI:
  assumes "\<And>x t. m s = (Ok x, t) \<Longrightarrow> wp k Q t" and "\<And>e t. m s = (Err e, t) \<Longrightarrow> Q (Err (h e)) t"
    and "\<And>t. m s = (Panic, t) \<Longrightarrow> Q Panic t"
  shows "wp (seqP (onErr m (\<lambda>e. failP (h e))) k) Q s"
  unfolding wp_seqP wp_onErr by (rule wpI) (use assms in \<open>auto simp: wp_failP split: outcome.splits\<close>)

lemma keepsMeta_run: "pres keepsMeta m \<Longrightarrow> keepsMeta s t \<Longrightarrow> m t = (r, u) \<Longrightarrow> keepsMeta s u"
  by (rule keepsMeta.R_trans) (auto dest: presD)

definition cleanedIfRemoved :: "'w clenv \<Rightarrow> 'w provider \<Rightarrow> 'w clstate \<Rightarrow> Result outcome \<Rightarrow> 'w clstate \<Rightarrow> bool" where
  "cleanedIfRemoved E p s r s' \<longleftrightarrow> (clFinalizers s' \<noteq> clFinalizers s \<longrightarrow> r = Ok noRequeue \<and> cleanedUp E p s s')"

lemma cleanedIfRemoved_same: "keepsMeta s t \<Longrightarrow> cleanedIfRemoved E p s r t"
  by (simp add: cleanedIfRemoved_def keepsMetaD(1))

lemma clean_and_release:
  assumes get: "getK ''CAPICluster'' (c_capi E) (clusterKey (s_cluster s)) t = (Err e, u)" "isNotFound e" "reqs t = reqs s @ q"
    and u: "keepsMeta s u"
  shows "wp (seqP (onErr (providerCall ''Clean'' (pv_Clean p)) (\<lambda>e. failP (EWrap m1 e)))
          (seqP (onErr (deleteClusterResourceSets E scope) (\<lambda>e. failP (EWrap m2 e)))
          (seqP (onErr (reconcileSecretOwnerReference E) (\<lambda>e. failP (EWrap m3 e)))
          (seqP (setFinalizers (\<lambda>fs. removeFinalizer (c_lib E) fs ClusterFinalizer))
            (retP noRequeue))))) (cleanedIfRemoved E p s) u"
proof (rule wp_seqErrI, goal_cases)
  case (1 x v)
  note clean = 1 and v = keepsMeta_run [OF keepsMeta_calls(1) u 1]
  show ?case
  proof (rule wp_seqErrI, goal_cases)
    case (1 y w)
    note w = keepsMeta_run [OF reconcile_keepsMeta(4) v 1] and vw = keepsMeta_run [OF reconcile_keepsMeta(4) keepsMeta.R_refl 1]
    show ?case
    proof (rule wp_seqErrI, goal_cases)
      case (1 z a)
      obtain q' where "reqs a = reqs v @ q'"
        using keepsMetaD(3) [OF keepsMeta_run [OF reconcile_keepsMeta(2) vw 1]] by blast
      then have "cleanedUp E p s b" if "reqs b = reqs a" for b
        using get clean that unfolding cleanedUp_def by (intro exI conjI) simp_all
      then show ?case
        by (simp add: wp_steps wp_clusterSets cleanedIfRemoved_def)
    qed (auto intro!: cleanedIfRemoved_same elim: keepsMeta_run [OF reconcile_keepsMeta(2) w])
  qed (auto intro!: cleanedIfRemoved_same elim: keepsMeta_run [OF reconcile_keepsMeta(4) v])
qed (auto intro!: cleanedIfRemoved_same elim: keepsMeta_run [OF keepsMeta_calls(1) u])

lemma reconcileClusterDelete_cleaned:
  "wp (reconcileClusterDelete E scope p) (cleanedIfRemoved E p s) s"
  unfolding reconcileClusterDelete_def
proof (rule wp_seqErrI, goal_cases)
  case (1 x t)
  note t = keepsMeta_run [OF reconcile_keepsMeta(3) keepsMeta.R_refl 1]
  then obtain q where q: "reqs t = reqs s @ q"
    using keepsMetaD(3) by blast
  have get: "pres keepsMeta (getK ''CAPICluster'' (c_capi E) key)" for key
    unfolding apiK_defs by (intro pres_rules TrueI)
  show ?case
    unfolding wp_bindP wp_getP outcome.case wp_tryP
  proof (rule wpI, goal_cases)
    case (1 r u)
    note u = keepsMeta_run [OF get t 1]
    show ?case
      using 1 u q keepsMetaD(2) [OF t] cleanedIfRemoved_same
      by (cases r) (auto simp: wp_retP intro!: clean_and_release)
  qed
qed (auto intro!: cleanedIfRemoved_same elim: keepsMeta_run [OF reconcile_keepsMeta(3) keepsMeta.R_refl])

lemma cleanedUp_widen:
  assumes "cleanedUp E p t u" and "reqs t = reqs s @ q" and "clusterKey (s_cluster t) = clusterKey (s_cluster s)" and "reqs s' = reqs u @ q'"
  shows "cleanedUp E p s s'"
proof -
  obtain a e b v q1 q2 where "reqs a = reqs t @ q1" and get: "getK ''CAPICluster'' (c_capi E) (clusterKey (s_cluster t)) a = (Err e, b)"
    and nf: "isNotFound e" and clean: "providerCall ''Clean'' (pv_Clean p) b = (Ok (), v)" and "reqs u = reqs v @ q2"
    using assms(1) unfolding cleanedUp_def by (elim exE conjE)
  then have "reqs a = reqs s @ q @ q1" "reqs s' = reqs v @ q2 @ q'"
    using assms(2,4) by simp_all
  then show ?thesis
    using get nf clean assms(3) unfolding cleanedUp_def by metis
qed

text \<open>
  A run that removed the finalizer found the Cluster in deletion, in phase Deleting, and one of the
  providers of \<open>G\<close> cleaned up.
\<close>

definition releasedRun :: "'w clenv \<Rightarrow> ('w provider \<Rightarrow> bool) \<Rightarrow> 'w clstate \<Rightarrow> 'w clstate \<Rightarrow> bool" where
  "releasedRun E G s s' \<longleftrightarrow> m_deletionTimestamp (ku_meta (s_cluster s)) \<noteq> None \<and> clPhase s = ClusterPhaseDeleting \<and>
     (\<exists>p. G p \<and> cleanedUp E p s s')"

definition ifReleased :: "'w clenv \<Rightarrow> ('w provider \<Rightarrow> bool) \<Rightarrow> 'w clstate \<Rightarrow> 'r \<Rightarrow> 'w clstate \<Rightarrow> bool" where
  "ifReleased E G s r s' \<longleftrightarrow>
     (ClusterFinalizer \<in> set (clFinalizers s) \<longrightarrow> ClusterFinalizer \<notin> set (clFinalizers s') \<longrightarrow> releasedRun E G s s')"

lemma ifReleased_same: "keepsMeta s s' \<Longrightarrow> ifReleased E G s r s'"
  by (simp add: ifReleased_def keepsMetaD(1))

lemma ifReleased_later:
  assumes "ifReleased E G t r s'" and "keepsMeta s t" and "clPhase t = clPhase s"
  shows "ifReleased E G s r s'"
proof -
  obtain q where "reqs t = reqs s @ q"
    using keepsMetaD(3) [OF assms(2)] by blast
  then have "cleanedUp E p t s' \<Longrightarrow> cleanedUp E p s s'" for p
    using cleanedUp_widen [OF _ _ keepsMetaD(2) [OF assms(2)], where s' = s' and u = s' and q' = "[]"] by simp
  then show ?thesis
    using assms by (auto simp: ifReleased_def releasedRun_def keepsMeta_def clFinalizers_def)
qed

lemma reconcileDeleting_released:
  assumes "ClusterFinalizer \<in> set (clFinalizers s)" and "ClusterFinalizer \<notin> set (clFinalizers s')"
    and "reconcileDeleting E scope p s = (r, s')"
  shows "clPhase s = ClusterPhaseDeleting \<and> cleanedUp E p s s'"
proof -
  have "wp (reconcileDeleting E scope p) (\<lambda>r s'. ClusterFinalizer \<notin> set (clFinalizers s') \<longrightarrow>
      clPhase s = ClusterPhaseDeleting \<and> cleanedUp E p s s') s"
    using assms(1)
    by (auto simp: reconcileDeleting_def wp_steps wp_clusterSets clFinalizers_def clPhase_def cleanedIfRemoved_def
        intro!: wp_mono [OF reconcileClusterDelete_cleaned])
  then show ?thesis
    using assms(2,3) by (auto dest: wpD)
qed

lemma dispatch_released:
  assumes u: "clPhase u = clPhase t \<or> clPhase u = ClusterPhaseProvisioning" "reqs u = reqs t"
        "m_deletionTimestamp (ku_meta (s_cluster u)) = m_deletionTimestamp (ku_meta (s_cluster t))"
        "clusterKey (s_cluster u) = clusterKey (s_cluster t)"
        "set (m_finalizers (ku_meta (s_cluster t))) \<subseteq> set (m_finalizers (ku_meta (s_cluster u)))"
    and G: "G p"
  shows "wp (bindP (getP s_cluster) (\<lambda>cluster.
          if m_deletionTimestamp (ku_meta cluster) \<noteq> None then reconcileDeleting E scope p
          else reconcileCluster E scope p)) (ifReleased E G t) u"
proof (cases "m_deletionTimestamp (ku_meta (s_cluster u)) = None")
  case True
  then show ?thesis
    using u by (auto simp: wp_steps ifReleased_def clFinalizers_def keepsMeta_def intro!: wp_frame [OF reconcile_keepsMeta(1)])
next
  case False
  have "releasedRun E G t s'" if "ClusterFinalizer \<in> set (clFinalizers t)" "ClusterFinalizer \<notin> set (clFinalizers s')"
    "reconcileDeleting E scope p u = (r', s')" for r' s'
  proof -
    have "ClusterFinalizer \<in> set (clFinalizers u)"
      using that(1) u(5) by (auto simp: clFinalizers_def)
    then have "clPhase u = ClusterPhaseDeleting" "cleanedUp E p u s'"
      using reconcileDeleting_released that(2,3) by blast+
    then show ?thesis
      using u G False cleanedUp_widen [where t = u and s = t and u = s' and s' = s' and q = "[]" and q' = "[]"]
      by (auto simp: releasedRun_def ClusterPhaseDeleting_def ClusterPhaseProvisioning_def)
  qed
  then show ?thesis
    using False by (auto simp: wp_steps ifReleased_def intro!: wpI)
qed

lemma reconcileWithProvider_released:
  assumes L: "capilib_laws (c_lib E)" and P: "provider_laws p" and G: "G p"
  shows "wp (reconcileWithProvider E scope p) (ifReleased E G s) s"
  unfolding reconcileWithProvider_def wp_tryP
proof (rule wpI, goal_cases)
  case (1 r t)
  note t = keepsMeta_run [OF keepsMeta_calls(1) keepsMeta.R_refl 1]
  have ph: "clPhase t = clPhase s"
    using presD [OF keepsPhase_calls(1) 1] P by (simp add: provider_laws_def keepsPhase_def)
  show ?case
  proof (cases r)
    case (Ok x)
    have "wp (seqP (addClusterFinalizer E) (bindP (getP s_cluster) (\<lambda>cluster.
          if m_deletionTimestamp (ku_meta cluster) \<noteq> None then reconcileDeleting E scope p
          else reconcileCluster E scope p))) (ifReleased E G t) t"
      unfolding wp_seqP by (rule wp_addClusterFinalizer [OF L]) (simp only: outcome.case dispatch_released G)
    then show ?thesis
      using ifReleased_later [OF _ t ph] unfolding Ok outcome.case sum.case by (rule wp_mono)
  qed (use t in \<open>auto simp: wp_steps wp_clusterSets ifReleased_def clFinalizers_def keepsMeta_def\<close>)
qed

lemma reconcileClusterBody_released:
  assumes L: "capilib_laws (c_lib E)" and P: "lawfulEnv E"
  shows "wp (reconcileClusterBody E) (ifReleased E (providerOf E (s_cluster s)) s) s"
  unfolding reconcileClusterBody_def wp_tryP
proof (rule keepsClusterE [OF resources_keepCluster(4)], goal_cases)
  case (1 r t qs)
  let ?G = "providerOf E (s_cluster s)" and ?scope = "NewCluster (c_generateUID E) (s_cluster t)"
  have "wp (tryP (newProvider E ?scope) (\<lambda>p. case p of
           Inl e \<Rightarrow> seqP (clusterMarkFalse E ClusterReadyCondition ProviderInitializeFailedReason SeverityError (c_errText E e))
                     (failP (EWrap ''failed to create Cluster Provider'' e))
         | Inr provider \<Rightarrow> reconcileWithProvider E ?scope provider)) (ifReleased E ?G s) t"
    unfolding wp_tryP
  proof (rule wp_newProvider [OF P], goal_cases)
    case u: (1 r' u)
    then have later: "keepsMeta s u" "clPhase u = clPhase s"
      using 1 by (simp_all add: keepsMeta_def sends_def clPhase_def list_all_iff)
    show ?case
    proof (cases r')
      case (Ok p)
      then have "?G p"
        using u(3) [OF Ok] 1 by (simp add: providerOf_def)
      then show ?thesis
        using Ok u(3) [OF Ok] by (auto intro: wp_mono [OF reconcileWithProvider_released [OF L, where G = ?G]] ifReleased_later [OF _ later])
    qed (use later in \<open>auto simp: wp_steps wp_clusterSets ifReleased_def clFinalizers_def keepsMeta_def\<close>)
  qed
  note main = this
  show ?case
  proof (cases r)
    case (Ok x)
    then show ?thesis
      using main by (simp add: wp_bindP wp_getP)
  qed (use 1 in \<open>auto simp: wp_steps wp_clusterSets ifReleased_def clFinalizers_def\<close>)
qed

text \<open>The deferred patch of the Cluster follows the body and leaves the object as the body made it.\<close>

lemma reconcileClusterPatched_run:
  assumes "reconcileClusterPatched E before s = (r, s')"
  obtains r0 t where "reconcileClusterBody E s = (r0, t)" and "reqs s' = reqs t @ [RPatch ''Cluster'' (ku_meta (s_cluster t))]"
    and "s_cluster s' = (case r0 of Err _ \<Rightarrow> s_cluster t\<lparr>ku_status := ku_status (s_cluster t)\<lparr>ClusterPhase := ClusterPhaseFailed\<rparr>\<rparr>
      | _ \<Rightarrow> s_cluster t)"
proof -
  obtain r0 t where body: "reconcileClusterBody E s = (r0, t)"
    by fastforce
  have "wp (reconcileClusterPatched E before) (\<lambda>_ s'. reqs s' = reqs t @ [RPatch ''Cluster'' (ku_meta (s_cluster t))] \<and>
     s_cluster s' = (case r0 of Err _ \<Rightarrow> s_cluster t\<lparr>ku_status := ku_status (s_cluster t)\<lparr>ClusterPhase := ClusterPhaseFailed\<rparr>\<rparr>
      | _ \<Rightarrow> s_cluster t)) s"
    unfolding reconcileClusterPatched_def wp_deferErr wp_onErr
    by (rule wpI) (use body in \<open>auto simp: wp_steps wp_clusterSets apiK_defs wp_callP split: outcome.splits prod.splits sum.splits\<close>)
  then show ?thesis
    using that body assms by (auto dest: wpD)
qed

lemma reconcileClusterPatched_released:
  assumes "capilib_laws (c_lib E)" and "lawfulEnv E" and "reconcileClusterPatched E before s = (r, s')"
    and "ClusterFinalizer \<in> set (clFinalizers s)" and "ClusterFinalizer \<notin> set (clFinalizers s')"
  shows "releasedRun E (providerOf E (s_cluster s)) s s'"
proof -
  obtain r0 t where body: "reconcileClusterBody E s = (r0, t)"
    and q: "reqs s' = reqs t @ [RPatch ''Cluster'' (ku_meta (s_cluster t))]"
    and c: "s_cluster s' = (case r0 of Err _ \<Rightarrow> s_cluster t\<lparr>ku_status := ku_status (s_cluster t)\<lparr>ClusterPhase := ClusterPhaseFailed\<rparr>\<rparr>
      | _ \<Rightarrow> s_cluster t)"
    using reconcileClusterPatched_run [OF assms(3)] .
  have "clFinalizers s' = clFinalizers t"
    using c by (auto simp: clFinalizers_def split: outcome.splits)
  then have "releasedRun E (providerOf E (s_cluster s)) s t"
    using wpD [OF reconcileClusterBody_released [OF assms(1,2)] body] assms(4,5) by (simp add: ifReleased_def)
  then show ?thesis
    using cleanedUp_widen [where t = s and s = s and q = "[]" and u = t and s' = s', OF _ _ refl q] by (auto simp: releasedRun_def)
qed

section \<open>An environment\<close>

text \<open>A provider whose calls succeed, and an API server; the Cluster API object exists or is gone.\<close>

definition okMethod :: "unit pvcall" where
  "okMethod st w = (Ok (), st, w)"

definition okProvider :: "unit provider" where
  "okProvider = \<lparr>pv_Precheck = okMethod, pv_Reconcile = okMethod, pv_Clean = okMethod, pv_IsInitialized = okMethod,
     pv_IsReady = okMethod\<rparr>"

definition demoClEnv :: "unit clenv" where
  "demoClEnv = \<lparr>c_cluster = yesApi (demoKuratorCluster ''1.24.0''),
     c_secret = yesApi \<lparr>sec_meta = newMeta ''cluster-creds'' ''default'', sec_data = None\<rparr>,
     c_capi = goneApi, c_crs = goneApi, c_cm = goneApi, c_awsProvider = (\<lambda>scope w. (Inr okProvider, w)),
     c_generateUID = (\<lambda>k. ''k8s1''), c_renderCNI = (\<lambda>scope. Inr ''manifest''), c_patchResources = (\<lambda>m w. (Inr (), w)),
     c_errText = (\<lambda>e. ''error''), c_lib = stdLib, c_containsFinalizer = (\<lambda>fs f. f \<in> set fs),
     c_parseGroupVersion = (\<lambda>s. Inr (''cluster.kurator.dev'', ''v1alpha1'')), c_requeueAfter = 10\<rparr>"

definition demoClState :: "int option \<Rightarrow> string \<Rightarrow> unit clstate" where
  "demoClState del phase = \<lparr>world = (), reqs = [], s_cluster = (demoKuratorCluster ''1.24.0'')\<lparr>
     ku_meta := (newMeta ''quickstart'' ''default'')\<lparr>m_deletionTimestamp := del, m_finalizers := [ClusterFinalizer]\<rparr>,
     ku_status := (ku_status (demoKuratorCluster ''1.24.0''))\<lparr>ClusterPhase := phase\<rparr>\<rparr>\<rparr>"

lemma demoClEnv_laws: "capilib_laws (c_lib demoClEnv)" "lawfulEnv demoClEnv"
  by (simp_all add: demoClEnv_def stdLib_laws lawfulEnv_def provider_laws_def okProvider_def method_law_def okMethod_def)

section \<open>Properties\<close>

text \<open>C14.
  A run of the Cluster controller that brings a Cluster into phase Ready found it not being deleted;
  \<open>Reconcile\<close>, \<open>IsInitialized\<close> and \<open>IsReady\<close> of the provider made for this Cluster were called in this order and
  all succeeded, the network plugin was applied without error before the last one, and the
  conditions InfrastructureReady, CNIProvisioned and Ready are true in the object the run patches.
\<close>

theorem cluster_ready_is_checked:
  assumes "capilib_laws (c_lib E)" and "lawfulEnv E" and "clPhase s \<noteq> ClusterPhaseReady"
    and run: "reconcileClusterPatched E before s = (r, s')" and ready: "clPhase s' = ClusterPhaseReady"
  shows "m_deletionTimestamp (ku_meta (s_cluster s)) = None \<and>
    (\<exists>p t u pre qs. providerOf E (s_cluster s) p \<and> reqs t = reqs s @ pre \<and>
       checkedBy E (NewCluster (c_generateUID E) (s_cluster s)) p t u \<and> reqs s' = reqs u @ qs) \<and>
    statusOf (clConds s') InfrastructureReadyCondition = Some CondTrue \<and>
    statusOf (clConds s') CNICondition = Some CondTrue \<and> statusOf (clConds s') ClusterReadyCondition = Some CondTrue"
proof -
  obtain r0 t where body: "reconcileClusterBody E s = (r0, t)"
    and q: "reqs s' = reqs t @ [RPatch ''Cluster'' (ku_meta (s_cluster t))]"
    and c: "s_cluster s' = (case r0 of Err _ \<Rightarrow> s_cluster t\<lparr>ku_status := ku_status (s_cluster t)\<lparr>ClusterPhase := ClusterPhaseFailed\<rparr>\<rparr>
      | _ \<Rightarrow> s_cluster t)"
    using reconcileClusterPatched_run [OF run] .
  have same: "s_cluster s' = s_cluster t"
    using c ready phase_names by (auto simp: clPhase_def split: outcome.splits)
  then have "readyFor E s r0 t"
    using wpD [OF reconcileClusterBody_ready [OF assms(1-3)] body] ready by (simp add: ifReady_def clPhase_def)
  then obtain p u pre v qs where "providerOf E (s_cluster s) p" "reqs u = reqs s @ pre" "m_deletionTimestamp (ku_meta (s_cluster s)) = None"
    "checkedBy E (NewCluster (c_generateUID E) (s_cluster s)) p u v" "reqs t = reqs v @ qs" "readyRun E (NewCluster (c_generateUID E) (s_cluster s)) p u r0 t"
    unfolding readyFor_def readyBody_def readyRun_def by blast
  moreover from this have "reqs s' = reqs v @ qs @ [RPatch ''Cluster'' (ku_meta (s_cluster t))]"
    using q by simp
  ultimately show ?thesis
    using same unfolding readyRun_def clConds_def by metis
qed

lemma demoCl_ready:
  "clPhase (snd (reconcileClusterPatched demoClEnv c (demoClState None ''Provisioning''))) = ClusterPhaseReady"
  "clPhase (demoClState None ''Provisioning'') \<noteq> ClusterPhaseReady"
  by code_simp+

theorem cluster_ready_is_checked_witness:
  "statusOf (clConds (snd (reconcileClusterPatched demoClEnv (demoKuratorCluster ''1.24.0'') (demoClState None ''Provisioning''))))
     CNICondition = Some CondTrue"
  using cluster_ready_is_checked [OF demoClEnv_laws demoCl_ready(2) _ demoCl_ready(1), OF surjective_pairing] by blast

text \<open>C15.
  The finalizer of a Cluster is only removed when the Cluster is being deleted and was already in
  phase Deleting, after a Get of the Cluster API object of its name answered NotFound and, right
  after it, \<open>Clean\<close> of the provider made for this Cluster succeeded; the patch that stores the removal comes later.
\<close>

theorem cluster_released_after_cleanup:
  assumes "capilib_laws (c_lib E)" and "lawfulEnv E" and "reconcileClusterPatched E before s = (r, s')"
    and "ClusterFinalizer \<in> set (clFinalizers s)" and "ClusterFinalizer \<notin> set (clFinalizers s')"
  shows "m_deletionTimestamp (ku_meta (s_cluster s)) \<noteq> None \<and> clPhase s = ClusterPhaseDeleting \<and>
    (\<exists>p. providerOf E (s_cluster s) p \<and> cleanedUp E p s s')"
  using reconcileClusterPatched_released [OF assms] unfolding releasedRun_def .

lemma demoCl_deleted:
  "ClusterFinalizer \<in> set (clFinalizers (demoClState (Some 1) ''Deleting''))"
  "ClusterFinalizer \<notin> set (clFinalizers (snd (reconcileClusterPatched demoClEnv c (demoClState (Some 1) ''Deleting''))))"
  by code_simp+

theorem cluster_released_after_cleanup_witness:
  "\<exists>p. providerOf demoClEnv (s_cluster (demoClState (Some 1) ''Deleting'')) p \<and> cleanedUp demoClEnv p (demoClState (Some 1) ''Deleting'')
     (snd (reconcileClusterPatched demoClEnv (demoKuratorCluster ''1.24.0'') (demoClState (Some 1) ''Deleting'')))"
  using cluster_released_after_cleanup [OF demoClEnv_laws _ demoCl_deleted, OF surjective_pairing] by blast

text \<open>When the Secret that holds the credential of a Cluster cannot be read, the run sends nothing but
  that Get and the patch of the Cluster, puts the Cluster into phase Failed and is not repeated. This
  holds for a Cluster that is being deleted too: its finalizer stays.
\<close>

theorem missing_credential_fails:
  assumes "Credential (ku_spec (s_cluster s)) = Some ref"
    and "api_get (c_secret E) \<lparr>k_namespace = m_namespace (ku_meta (s_cluster s)), k_name = ref\<rparr> (world s) = (Inl e, w)"
    and "reconcileClusterPatched E before s = (r, s')"
  shows "s_cluster s' = s_cluster s\<lparr>ku_status := ku_status (s_cluster s)\<lparr>ClusterPhase := ClusterPhaseFailed\<rparr>\<rparr> \<and>
    reqs s' = reqs s @ [RGet ''Secret'' \<lparr>k_namespace = m_namespace (ku_meta (s_cluster s)), k_name = ref\<rparr>,
      RPatch ''Cluster'' (ku_meta (s_cluster s))] \<and>
    (r = Ok noRequeue \<or> (\<exists>e'. r = Err e'))"
proof -
  have "wp (reconcileClusterPatched E before) (\<lambda>r s'.
      s_cluster s' = s_cluster s\<lparr>ku_status := ku_status (s_cluster s)\<lparr>ClusterPhase := ClusterPhaseFailed\<rparr>\<rparr> \<and>
      reqs s' = reqs s @ [RGet ''Secret'' \<lparr>k_namespace = m_namespace (ku_meta (s_cluster s)), k_name = ref\<rparr>,
        RPatch ''Cluster'' (ku_meta (s_cluster s))] \<and> (r = Ok noRequeue \<or> (\<exists>e'. r = Err e'))) s"
    using assms(1,2)
    by (simp add: reconcileClusterPatched_def reconcileClusterBody_def reconcileSecretOwnerReference_def apiK_defs wp_steps
        wp_callP wp_clusterSets split: prod.splits sum.splits)
  then show ?thesis
    using assms(3) by (auto dest: wpD)
qed

end
