(* ===== verification/AwsProvider.thy ===== *)
theory AwsProvider
  imports ClusterControllerProperties
begin

text \<open>
  The AWS provider (\<open>pkg/infra/aws\<close>, \<open>pkg/infra/service\<close>): the implementation of the provider interface the
  Cluster controller uses. It works on the status of the Cluster it was made for. The AWS services
  (sessions, STS, IAM, S3, CloudFormation), generating keys, the Cluster API helpers and executing the
  embedded template of the Cluster API resources are parameters. The type and the write-only text of
  a Secret are not part of its record.
\<close>

section \<open>Environment\<close>

record CapiState = CapiCluster +
  cl_conditions :: "Condition list"

record MachineSet =
  ms_meta :: ObjectMeta
  ms_replicas :: "int option"
  ms_readyReplicas :: int

record AWSCluster =
  awc_meta :: ObjectMeta
  awc_region :: string
  awc_identityRef :: "(string \<times> string) option"
  awc_vpcCIDR :: string
  awc_endpoint :: foreign

record AWSIdentity =
  awi_meta :: ObjectMeta
  awi_namespaces :: "string list"
  awi_secretRef :: string

record AWSConfig =
  cfg_region :: string
  cfg_ak :: string
  cfg_sk :: string
  cfg_token :: string

text \<open>What the code sets in the template of the bootstrap stack.\<close>

record StackTemplate =
  stk_nameSuffix :: "string option"
  stk_disableEKS :: bool
  stk_stackName :: string
  stk_controlPlane :: "foreign list"
  stk_controllers :: "foreign list"

record S3File =
  f_name :: string
  f_content :: string
  f_acl :: string

record Cert =
  crt_private :: string
  crt_public :: string
  crt_keys :: "goerr + string"

record 'w awsenv =
  aw_secret :: "('w, Secret) api"
  aw_capi :: "('w, CapiState) api"
  aw_machineSet :: "('w, MachineSet) api"
  aw_awsCluster :: "('w, AWSCluster) api"
  aw_identity :: "('w, AWSIdentity) api"
  aw_newSession :: "AWSConfig \<Rightarrow> 'w \<Rightarrow> (goerr + foreign) \<times> 'w"
  aw_callerIdentity :: "foreign \<Rightarrow> 'w \<Rightarrow> (goerr + string option) \<times> 'w"
  aw_getOIDC :: "foreign \<Rightarrow> string \<Rightarrow> 'w \<Rightarrow> (goerr + unit) \<times> 'w"
  aw_createOIDC :: "foreign \<Rightarrow> string \<Rightarrow> 'w \<Rightarrow> (goerr + unit) \<times> 'w"
  aw_deleteOIDC :: "foreign \<Rightarrow> string \<Rightarrow> 'w \<Rightarrow> (goerr + unit) \<times> 'w"
  aw_noSuchEntity :: "goerr \<Rightarrow> bool"
  aw_headBucket :: "foreign \<Rightarrow> string \<Rightarrow> 'w \<Rightarrow> (goerr + unit) \<times> 'w"
  aw_createBucket :: "foreign \<Rightarrow> string \<Rightarrow> 'w \<Rightarrow> (goerr + unit) \<times> 'w"
  aw_openBucket :: "foreign \<Rightarrow> string \<Rightarrow> 'w \<Rightarrow> (goerr + unit) \<times> 'w"
  aw_upload :: "foreign \<Rightarrow> string \<Rightarrow> S3File \<Rightarrow> 'w \<Rightarrow> (goerr + unit) \<times> 'w"
  aw_emptyBucket :: "foreign \<Rightarrow> string \<Rightarrow> 'w \<Rightarrow> (goerr + unit) \<times> 'w"
  aw_deleteBucket :: "foreign \<Rightarrow> string \<Rightarrow> 'w \<Rightarrow> (goerr + unit) \<times> 'w"
  aw_newCert :: "'w \<Rightarrow> (goerr + Cert) \<times> 'w"
  aw_newTemplate :: StackTemplate
  aw_statement :: "string \<Rightarrow> string \<Rightarrow> foreign"
  aw_reconcileStack :: "foreign \<Rightarrow> string \<Rightarrow> StackTemplate \<Rightarrow> 'w \<Rightarrow> (goerr + unit) \<times> 'w"
  aw_deleteStack :: "foreign \<Rightarrow> string \<Rightarrow> 'w \<Rightarrow> (goerr + unit) \<times> 'w"
  aw_managerNamespace :: string
  aw_renderClusterAPI :: "ScopeCluster \<Rightarrow> goerr + string"
  aw_patchResources :: "string \<Rightarrow> 'w \<Rightarrow> (goerr + unit) \<times> 'w"
  aw_isFalse :: "Condition list \<Rightarrow> string \<Rightarrow> bool"
  aw_getMessage :: "Condition list \<Rightarrow> string \<Rightarrow> string"
  aw_endpointValid :: "foreign \<Rightarrow> bool"
  aw_endpointString :: "foreign \<Rightarrow> string"
  aw_kubeconfigSecret :: "objkey \<Rightarrow> 'w \<Rightarrow> (goerr + Secret) \<times> 'w"

record 'w awstate = "'w kst" +
  s_status :: ClusterStatus

type_synonym ('w, 'a) awproc = "('w awstate, 'a) proc"

text \<open>A call of a service, recorded with its name and argument.\<close>

definition serviceCall :: "string \<Rightarrow> string \<Rightarrow> ('w \<Rightarrow> (goerr + 'a) \<times> 'w) \<Rightarrow> ('w, 'a) awproc" where
  "serviceCall name arg f = callO (RExternal name [arg]) (\<lambda>w. apfst sumO (f w))"

record AWSProvider =
  ap_scope :: ScopeCluster
  ap_config :: AWSConfig

definition AccessKeyDataKey :: string where "AccessKeyDataKey = ''AccessKeyID''"
definition SecretAccessKeyDataKey :: string where "SecretAccessKeyDataKey = ''SecretAccessKey''"
definition SessionTokenDataKey :: string where "SessionTokenDataKey = ''SessionToken''"
definition ClusterStaticIdentityKind :: string where "ClusterStaticIdentityKind = ''AWSClusterStaticIdentity''"
definition CapiReadyCondition :: string where "CapiReadyCondition = ''Ready''"
definition CapiClusterNameLabel :: string where "CapiClusterNameLabel = ''cluster.x-k8s.io/cluster-name''"

section \<open>Buckets and pod identity\<close>

definition BucketExists :: "'w awsenv \<Rightarrow> foreign \<Rightarrow> string \<Rightarrow> ('w, bool) awproc" where
  "BucketExists A sess bucket = tryP (serviceCall ''HeadBucket'' bucket (aw_headBucket A sess bucket)) (\<lambda>r. retP (case r of Inl _ \<Rightarrow> False | Inr _ \<Rightarrow> True))"

definition MakeBucket :: "'w awsenv \<Rightarrow> foreign \<Rightarrow> string \<Rightarrow> ('w, unit) awproc" where
  "MakeBucket A sess bucket =
     seqP (onErr (serviceCall ''CreateBucket'' bucket (aw_createBucket A sess bucket)) (\<lambda>e. failP (EWrap ''failed to create bucket'' e)))
     (onErr (serviceCall ''PutPublicAccessBlock'' bucket (aw_openBucket A sess bucket))
       (\<lambda>e. failP (EWrap ''failed to update public access block'' e)))"

definition PutObject :: "'w awsenv \<Rightarrow> foreign \<Rightarrow> string \<Rightarrow> S3File \<Rightarrow> ('w, unit) awproc" where
  "PutObject A sess bucket f =
     bindP (BucketExists A sess bucket) (\<lambda>exists.
     seqP (ifP (\<not> exists) (onErr (MakeBucket A sess bucket) (\<lambda>e. failP (EOpaque ''failed to create bucket'' e))))
     (onErr (serviceCall ''Upload'' (f_name f) (aw_upload A sess bucket f)) (\<lambda>e. failP (EOpaque ''failed to upload file'' e))))"

definition DeleteBucket :: "'w awsenv \<Rightarrow> foreign \<Rightarrow> string \<Rightarrow> ('w, unit) awproc" where
  "DeleteBucket A sess bucket =
     bindP (BucketExists A sess bucket) (\<lambda>exists.
     if \<not> exists then retP ()
     else seqP (onErr (serviceCall ''DeleteObjects'' bucket (aw_emptyBucket A sess bucket))
         (\<lambda>e. failP (EWrap ''failed to delete object in bucket'' e)))
       (onErr (serviceCall ''DeleteBucket'' bucket (aw_deleteBucket A sess bucket)) (\<lambda>e. failP (EWrap ''failed to delete bucket'' e))))"

definition OpenIDConfiguration :: "string \<Rightarrow> string" where
  "OpenIDConfiguration issuer = linesOf [
     ''{'',
     ''    \"issuer\": \"'' @ issuer @ ''\",'',
     ''    \"jwks_uri\": \"'' @ issuer @ ''/keys.json\",'',
     ''    \"authorization_endpoint\": \"urn:kubernetes:programmatic_authorization\",'',
     ''    \"response_types_supported\": ['',
     ''        \"id_token\"'',
     ''    ],'',
     ''    \"subject_types_supported\": ['',
     ''        \"public\"'',
     ''    ],'',
     ''    \"id_token_signing_alg_values_supported\": ['',
     ''        \"RS256\"'',
     ''    ],'',
     ''    \"claims_supported\": ['',
     ''        \"sub\",'',
     ''        \"iss\"'',
     ''    ]'',
     ''}'']"

definition S3Files :: "'w awsenv \<Rightarrow> string \<Rightarrow> ('w, S3File list) awproc" where
  "S3Files A issuerHost =
     bindP (onErr (extE (aw_newCert A)) (\<lambda>e. failP (EWrap ''failed to create oidc cert'' e))) (\<lambda>cert.
     bindP (onErr (liftE (crt_keys cert)) (\<lambda>e. failP (EOpaque ''failed to marshal keys.json'' e))) (\<lambda>keys.
     retP [\<lparr>f_name = ''.well-known/openid-configuration'', f_content = OpenIDConfiguration issuerHost, f_acl = ''public-read''\<rparr>,
       \<lparr>f_name = ''keys.json'', f_content = keys, f_acl = ''public-read''\<rparr>,
       \<lparr>f_name = ''sa-signer.key'', f_content = crt_private cert, f_acl = ''private''\<rparr>,
       \<lparr>f_name = ''sa-signer-pkcs8.pub'', f_content = crt_public cert, f_acl = ''private''\<rparr>]))"

definition OpenIDConnectProviderArn :: "string \<Rightarrow> string \<Rightarrow> string" where
  "OpenIDConnectProviderArn accountID bucket = ''arn:aws:iam::'' @ accountID @ '':oidc-provider/'' @ bucket @ ''.s3.amazonaws.com''"

definition issuerOf :: "string \<Rightarrow> string" where
  "issuerOf bucketName = ''https://'' @ bucketName @ ''.s3.amazonaws.com''"

definition newSession :: "'w awsenv \<Rightarrow> AWSConfig \<Rightarrow> string \<Rightarrow> ('w, foreign) awproc" where
  "newSession A config msg = onErr (extE (aw_newSession A config)) (\<lambda>e. failP (EWrap msg e))"

definition openIDConnectProviderExists :: "'w awsenv \<Rightarrow> foreign \<Rightarrow> string \<Rightarrow> ('w, bool) awproc" where
  "openIDConnectProviderExists A sess bucketName =
     bindP (onErr (serviceCall ''GetCallerIdentity'' [] (aw_callerIdentity A sess)) (\<lambda>e. failP (EWrap ''failed to get caller identity'' e))) (\<lambda>out.
     bindP (derefP out) (\<lambda>account.
     tryP (serviceCall ''GetOpenIDConnectProvider'' bucketName (aw_getOIDC A sess (OpenIDConnectProviderArn account bucketName))) (\<lambda>r. case r of
       Inl e \<Rightarrow> if aw_noSuchEntity A e then retP False else failP (EWrap ''failed to get OIDC provider'' e)
     | Inr _ \<Rightarrow> retP True)))"

text \<open>The error of asking whether the OpenID provider exists is dropped.\<close>

definition podIdentityReconcile :: "'w awsenv \<Rightarrow> AWSConfig \<Rightarrow> string \<Rightarrow> ('w, unit) awproc" where
  "podIdentityReconcile A config bucketName =
     bindP (newSession A config ''failed to create S3 client'') (\<lambda>s3client.
     bindP (newSession A config ''failed to create AWS session'') (\<lambda>s.
     bindP (tryP (openIDConnectProviderExists A s bucketName) (\<lambda>r. retP (case r of Inl _ \<Rightarrow> False | Inr exist \<Rightarrow> exist))) (\<lambda>exist.
     if exist then retP ()
     else bindP (onErr (S3Files A (issuerOf bucketName)) (\<lambda>e. failP (EWrap ''failed to get OIDC S3 files'' e))) (\<lambda>files.
       seqP (forEach files (\<lambda>f. onErr (PutObject A s3client bucketName f) (\<lambda>e. failP (EWrap ''failed to put object'' e))))
       (serviceCall ''CreateOpenIDConnectProvider'' bucketName (aw_createOIDC A s (issuerOf bucketName)))))))"

definition deleteOpenIDConnectProvider :: "'w awsenv \<Rightarrow> AWSConfig \<Rightarrow> string \<Rightarrow> ('w, unit) awproc" where
  "deleteOpenIDConnectProvider A config bucketName =
     bindP (newSession A config ''failed to create AWS session'') (\<lambda>sess.
     bindP (onErr (serviceCall ''GetCallerIdentity'' [] (aw_callerIdentity A sess)) (\<lambda>e. failP (EWrap ''failed to get caller identity'' e))) (\<lambda>out.
     bindP (derefP out) (\<lambda>account.
     tryP (serviceCall ''GetOpenIDConnectProvider'' bucketName (aw_getOIDC A sess (OpenIDConnectProviderArn account bucketName))) (\<lambda>r. case r of
       Inl e \<Rightarrow> if aw_noSuchEntity A e then retP () else failP (EWrap ''failed to get OIDC provider'' e)
     | Inr _ \<Rightarrow> onErr (serviceCall ''DeleteOpenIDConnectProvider'' bucketName
         (aw_deleteOIDC A sess (OpenIDConnectProviderArn account bucketName)))
         (\<lambda>e. failP (EWrap ''failed to delete OIDC provider'' e))))))"

definition podIdentityDelete :: "'w awsenv \<Rightarrow> AWSConfig \<Rightarrow> string \<Rightarrow> ('w, unit) awproc" where
  "podIdentityDelete A config bucketName =
     bindP (newSession A config ''failed to create S3 client'') (\<lambda>s3client.
     seqP (onErr (DeleteBucket A s3client bucketName) (\<lambda>e. failP (EWrap ''failed to clean S3 bucket'' e)))
     (deleteOpenIDConnectProvider A config bucketName))"

text \<open>A Cluster without pod identity has \<open>NopPodIdentity\<close>, which does nothing.\<close>

definition identityReconcile :: "'w awsenv \<Rightarrow> AWSProvider \<Rightarrow> ('w, unit) awproc" where
  "identityReconcile A p = (if sc_enablePodIdentity (ap_scope p)
     then podIdentityReconcile A (ap_config p) (sc_bucketName (ap_scope p)) else retP ())"

definition identityDelete :: "'w awsenv \<Rightarrow> AWSProvider \<Rightarrow> ('w, unit) awproc" where
  "identityDelete A p = (if sc_enablePodIdentity (ap_scope p)
     then podIdentityDelete A (ap_config p) (sc_bucketName (ap_scope p)) else retP ())"

definition identityIssuer :: "AWSProvider \<Rightarrow> string" where
  "identityIssuer p = (if sc_enablePodIdentity (ap_scope p) then issuerOf (sc_bucketName (ap_scope p)) else [])"

section \<open>Credentials\<close>

definition awsConfig :: "string \<Rightarrow> string \<Rightarrow> string \<Rightarrow> string \<Rightarrow> AWSConfig" where
  "awsConfig region ak sk tok = \<lparr>cfg_region = region, cfg_ak = ak, cfg_sk = sk, cfg_token = tok\<rparr>"

definition credentialKey :: "ScopeCluster \<Rightarrow> objkey" where
  "credentialKey scope = \<lparr>k_namespace = k_namespace (sc_key scope), k_name = sc_credentialSecretRef scope\<rparr>"

definition NewAWSCredentials :: "'w awsenv \<Rightarrow> ScopeCluster \<Rightarrow> 'w \<Rightarrow> (goerr + AWSConfig) \<times> 'w" where
  "NewAWSCredentials A scope w = (case api_get (aw_secret A) (credentialKey scope) w of
     (Inl e, w') \<Rightarrow> (Inl (EWrap ''failed to get cluster secret'' (EApi e)), w')
   | (Inr secret, w') \<Rightarrow> (Inr (awsConfig (sc_region scope) (mapAt (sec_data secret) AccessKeyDataKey)
       (mapAt (sec_data secret) SecretAccessKeyDataKey) (mapAt (sec_data secret) SessionTokenDataKey)), w'))"

definition reconcileAWSClusterSecret :: "'w awsenv \<Rightarrow> AWSProvider \<Rightarrow> Secret \<Rightarrow> ('w, Secret) awproc" where
  "reconcileAWSClusterSecret A p credSecret =
     tryP (getK ''Secret'' (aw_secret A) \<lparr>k_namespace = aw_managerNamespace A, k_name = SecretName (ap_scope p)\<rparr>) (\<lambda>r. case r of
       Inl e \<Rightarrow> if \<not> isNotFound e then failP (EWrap ''failed to get secret'' e)
         else onErr (createK ''Secret'' sec_meta (aw_secret A) \<lparr>sec_meta = newMeta (SecretName (ap_scope p)) (aw_managerNamespace A),
             sec_data = sec_data credSecret\<rparr>) (\<lambda>e. failP (EWrap ''failed to create secret'' e))
     | Inr clusterCreds \<Rightarrow> onErr (updateK ''Secret'' sec_meta (aw_secret A) (clusterCreds\<lparr>sec_data := sec_data credSecret\<rparr>))
         (\<lambda>e. failP (EWrap ''failed to update secret'' e)))"

definition identityLabels :: "ScopeCluster \<Rightarrow> (string \<rightharpoonup> string)" where
  "identityLabels scope = map_of (MatchingLabels scope)"

definition reconcileAWSIdentity :: "'w awsenv \<Rightarrow> AWSProvider \<Rightarrow> Secret \<Rightarrow> ('w, unit) awproc" where
  "reconcileAWSIdentity A p clusterSecret =
     (let name = m_name (sec_meta clusterSecret); ns = k_namespace (sc_key (ap_scope p)) in
      tryP (getK ''AWSClusterStaticIdentity'' (aw_identity A) \<lparr>k_namespace = [], k_name = name\<rparr>) (\<lambda>r. case r of
        Inl e \<Rightarrow> if \<not> isNotFound e then failP (EWrap ''failed to get AWSIdentity'' e)
          else bindP (onErr (createK ''AWSClusterStaticIdentity'' awi_meta (aw_identity A)
            \<lparr>awi_meta = (newMeta name [])\<lparr>m_labels := Some (identityLabels (ap_scope p))\<rparr>, awi_namespaces = [ns], awi_secretRef = name\<rparr>)
            (\<lambda>e. failP (EWrap ''failed to create AWSClusterStaticIdentity'' e))) (\<lambda>_. retP ())
      | Inr awsIdentity \<Rightarrow> bindP (onErr (updateK ''AWSClusterStaticIdentity'' awi_meta (aw_identity A)
            (awsIdentity\<lparr>awi_namespaces := [ns], awi_secretRef := name\<rparr>))
            (\<lambda>e. failP (EWrap ''failed to update AWSClusterStaticIdentity'' e))) (\<lambda>_. retP ())))"

definition reconcileAWSCreds :: "'w awsenv \<Rightarrow> AWSProvider \<Rightarrow> ('w, unit) awproc" where
  "reconcileAWSCreds A p =
     bindP (onErr (getK ''Secret'' (aw_secret A) (credentialKey (ap_scope p))) (\<lambda>e. failP (EWrap ''failed to get secret'' e))) (\<lambda>credSecret.
     bindP (onErr (reconcileAWSClusterSecret A p credSecret) (\<lambda>e. failP (EWrap ''failed to reconcile cluster secret'' e))) (\<lambda>clusterSecret.
     onErr (reconcileAWSIdentity A p clusterSecret) (\<lambda>e. failP (EWrap ''failed to reconcile IAM profile'' e))))"

section \<open>Cluster API resources\<close>

definition StackTemplateOf :: "'w awsenv \<Rightarrow> ScopeCluster \<Rightarrow> StackTemplate" where
  "StackTemplateOf A scope =
     (let tpl = (aw_newTemplate A)\<lparr>stk_nameSuffix := Some (StackSuffix scope), stk_disableEKS := True\<rparr> in
      if sc_enablePodIdentity scope
      then tpl\<lparr>stk_stackName := ''pod-identity'' @ StackSuffix scope,
        stk_controlPlane := stk_controllers tpl @ [aw_statement A ''s3:GetObject'' (''arn:*:s3:::'' @ sc_bucketName scope @ ''/*'')]\<rparr>
      else tpl)"

definition reconcileAWSBootstrapStack :: "'w awsenv \<Rightarrow> AWSProvider \<Rightarrow> ('w, unit) awproc" where
  "reconcileAWSBootstrapStack A p =
     bindP (newSession A (ap_config p) ''failed to create AWS session'') (\<lambda>s.
     onErr (serviceCall ''ReconcileBootstrapStack'' (StackName (ap_scope p))
       (aw_reconcileStack A s (StackName (ap_scope p)) (StackTemplateOf A (ap_scope p))))
       (\<lambda>e. failP (EWrap ''failed to reconcile bootstrap stack'' e)))"

definition deleteAWSBootstrapStack :: "'w awsenv \<Rightarrow> AWSProvider \<Rightarrow> ('w, unit) awproc" where
  "deleteAWSBootstrapStack A p =
     bindP (newSession A (ap_config p) ''failed to create AWS session'') (\<lambda>s.
     onErr (serviceCall ''DeleteStack'' (StackName (ap_scope p)) (aw_deleteStack A s (StackName (ap_scope p))))
       (\<lambda>e. failP (EWrap ''failed to delete bootstrap stack'' e)))"

definition reconcileAWSCluster :: "'w awsenv \<Rightarrow> AWSProvider \<Rightarrow> ('w, unit) awproc" where
  "reconcileAWSCluster A p =
     (let scope = ap_scope p; ref = Some (ClusterStaticIdentityKind, SecretName scope) in
      tryP (getK ''AWSCluster'' (aw_awsCluster A) (sc_key scope)) (\<lambda>r. case r of
        Inl e \<Rightarrow> if isNotFound e
          then bindP (onErr (createK ''AWSCluster'' awc_meta (aw_awsCluster A)
            \<lparr>awc_meta = newMeta (k_name (sc_key scope)) (k_namespace (sc_key scope)), awc_region = sc_region scope, awc_identityRef = ref,
             awc_vpcCIDR = sc_vpcCIDR scope, awc_endpoint = []\<rparr>) (\<lambda>e. failP (EWrap ''failed to create AWSCluster'' e))) (\<lambda>_. retP ())
          else failP (EWrap ''failed to get AWSCluster'' e)
      | Inr awsCluster \<Rightarrow> bindP (onErr (updateK ''AWSCluster'' awc_meta (aw_awsCluster A)
            (awsCluster\<lparr>awc_vpcCIDR := sc_vpcCIDR scope, awc_identityRef := ref\<rparr>))
            (\<lambda>e. failP (EWrap ''failed to update AWSCluster'' e))) (\<lambda>_. retP ())))"

definition reconcileAWSClusterAPIResources :: "'w awsenv \<Rightarrow> AWSProvider \<Rightarrow> ('w, unit) awproc" where
  "reconcileAWSClusterAPIResources A p =
     seqP (onErr (reconcileAWSCluster A p) (\<lambda>e. failP (EWrap ''failed to reconcile AWSCluster'' e)))
     (bindP (onErr (liftE (aw_renderClusterAPI A (ap_scope p))) (\<lambda>e. failP (EWrap ''failed to render Cluster API resources'' e))) (\<lambda>b.
      onErr (serviceCall ''PatchResources'' b (aw_patchResources A b)) (\<lambda>e. failP (EWrap ''failed to apply Cluster API resources'' e))))"

definition reconcileKubeconfig :: "'w awsenv \<Rightarrow> AWSProvider \<Rightarrow> ('w, unit) awproc" where
  "reconcileKubeconfig A p =
     bindP (getP (\<lambda>s. ClusterPhase (s_status s))) (\<lambda>phase.
     if phase \<noteq> ClusterPhaseReady then retP ()
     else bindP (onErr (getK ''AWSCluster'' (aw_awsCluster A) (sc_key (ap_scope p))) (\<lambda>e. failP (EWrap ''failed to get AWSCluster'' e))) (\<lambda>awsCluster.
       if \<not> aw_endpointValid A (awc_endpoint awsCluster) then retP ()
       else bindP (onErr (serviceCall ''secret.Get'' (m_name (awc_meta awsCluster)) (aw_kubeconfigSecret A (keyOf (awc_meta awsCluster))))
           (\<lambda>e. failP (EWrap ''failed to get kubeconfig secret for cluster'' e))) (\<lambda>kubeconfig.
         modifyP (\<lambda>s. s\<lparr>s_status := s_status s\<lparr>ClusterKubeconfigSecretRef := m_name (sec_meta kubeconfig),
           ClusterAPIEndpoint := aw_endpointString A (awc_endpoint awsCluster)\<rparr>\<rparr>))))"

section \<open>The provider\<close>

definition awsPrecheck :: "'w awsenv \<Rightarrow> AWSProvider \<Rightarrow> ('w, unit) awproc" where
  "awsPrecheck A p =
     bindP (onErr (extE (aw_newSession A (ap_config p))) (\<lambda>_. failP (EMsg ''failed to create AWS session''))) (\<lambda>sess.
     bindP (onErr (serviceCall ''GetCallerIdentity'' [] (aw_callerIdentity A sess)) (\<lambda>_.
       failP (EMsg (''failed to get caller identity, please check your credentials secret '' @ sc_credentialSecretRef (ap_scope p))))) (\<lambda>_.
     retP ()))"

definition awsReconcile :: "'w awsenv \<Rightarrow> AWSProvider \<Rightarrow> ('w, unit) awproc" where
  "awsReconcile A p =
     seqP (onErr (reconcileAWSCreds A p) (\<lambda>e. failP (EWrap ''failed to reconcile cluster credentials'' e)))
     (seqP (onErr (reconcileAWSBootstrapStack A p) (\<lambda>e. failP (EWrap ''failed to reconcile IAM profile'' e)))
     (seqP (onErr (identityReconcile A p) (\<lambda>e. failP (EWrap ''failed to reconcile Pod Identity'' e)))
     (seqP (modifyP (\<lambda>s. s\<lparr>s_status := s_status s\<lparr>ServiceAccountIssuer := identityIssuer p\<rparr>\<rparr>))
     (seqP (onErr (reconcileAWSClusterAPIResources A p) (\<lambda>e. failP (EWrap ''failed to reconcile Cluster API resources'' e)))
     (onErr (reconcileKubeconfig A p) (\<lambda>e. failP (EWrap ''failed to reconcile kubeconfig'' e)))))))"

definition deleteIdentity :: "'w awsenv \<Rightarrow> AWSIdentity \<Rightarrow> ('w, unit) awproc" where
  "deleteIdentity A identity = onErr (deleteK ''AWSClusterStaticIdentity'' awi_meta (aw_identity A) identity)
     (\<lambda>e. if isNotFound e then retP () else failP (EWrap ''failed to delete AWSClusterStaticIdentity'' e))"

definition awsClean :: "'w awsenv \<Rightarrow> AWSProvider \<Rightarrow> ('w, unit) awproc" where
  "awsClean A p =
     seqP (onErr (identityDelete A p) (\<lambda>e. failP (EWrap ''failed to delete Pod Identity'' e)))
     (seqP (onErr (deleteAWSBootstrapStack A p) (\<lambda>e. failP (EWrap ''failed to delete bootstrap stack'' e)))
     (bindP (onErr (listK ''AWSClusterStaticIdentity'' (aw_identity A) [] (MatchingLabels (ap_scope p)))
       (\<lambda>e. failP (EWrap ''failed to list AWSClusterStaticIdentity'' e))) (\<lambda>awsIdentities.
      forEach awsIdentities (deleteIdentity A))))"

text \<open>An aggregate of no errors is nil.\<close>

definition newAggregate :: "goerr list \<Rightarrow> ('w, unit) awproc" where
  "newAggregate errs = (if errs = [] then retP () else failP (EAggregate errs))"

definition awsIsInitialized :: "'w awsenv \<Rightarrow> AWSProvider \<Rightarrow> ('w, unit) awproc" where
  "awsIsInitialized A p =
     bindP (onErr (getK ''CAPICluster'' (aw_capi A) (sc_key (ap_scope p))) (\<lambda>e. failP (EOpaque ''failed to get Cluster'' e))) (\<lambda>capiCluster.
     if aw_isFalse A (cl_conditions capiCluster) CapiReadyCondition
     then newAggregate (map (\<lambda>c. EMsg (cond_message c))
       (filter (\<lambda>c. \<not> (cond_status c = CondTrue \<or> cond_type c = CapiReadyCondition)) (cl_conditions capiCluster)))
     else retP ())"

definition machineSetReady :: "MachineSet \<Rightarrow> ('w, unit) awproc" where
  "machineSetReady ms = bindP (derefP (ms_replicas ms)) (\<lambda>replicas.
     if ms_readyReplicas ms \<noteq> replicas then failP (EMsg (''not all machines of '' @ m_name (ms_meta ms) @ '' are ready'')) else retP ())"

definition awsIsReady :: "'w awsenv \<Rightarrow> AWSProvider \<Rightarrow> ('w, unit) awproc" where
  "awsIsReady A p =
     bindP (onErr (getK ''CAPICluster'' (aw_capi A) (sc_key (ap_scope p))) (\<lambda>e. failP (EOpaque ''failed to get Cluster'' e))) (\<lambda>capiCluster.
     if aw_isFalse A (cl_conditions capiCluster) CapiReadyCondition
     then failP (EMsg (aw_getMessage A (cl_conditions capiCluster) CapiReadyCondition))
     else bindP (onErr (listK ''MachineSet'' (aw_machineSet A) (k_namespace (sc_key (ap_scope p)))
         [(CapiClusterNameLabel, k_name (sc_key (ap_scope p)))]) (\<lambda>e. failP (EOpaque ''failed to list MachineSets'' e))) (\<lambda>msList.
       forEach msList machineSetReady))"

text \<open>A method of the provider as the Cluster controller calls it.\<close>

definition asCall :: "('w, unit) awproc \<Rightarrow> 'w pvcall" where
  "asCall m st w = (case m \<lparr>world = w, reqs = [], s_status = st\<rparr> of (r, s) \<Rightarrow> (r, s_status s, world s))"

definition awsProvider :: "'w awsenv \<Rightarrow> AWSProvider \<Rightarrow> 'w provider" where
  "awsProvider A p = \<lparr>pv_Precheck = asCall (awsPrecheck A p), pv_Reconcile = asCall (awsReconcile A p), pv_Clean = asCall (awsClean A p),
     pv_IsInitialized = asCall (awsIsInitialized A p), pv_IsReady = asCall (awsIsReady A p)\<rparr>"

definition NewProvider :: "'w awsenv \<Rightarrow> ScopeCluster \<Rightarrow> 'w \<Rightarrow> (goerr + 'w provider) \<times> 'w" where
  "NewProvider A scope w = (case NewAWSCredentials A scope w of
     (Inl e, w') \<Rightarrow> (Inl (EWrap ''failed to create credentials'' e), w')
   | (Inr cfg, w') \<Rightarrow> (Inr (awsProvider A \<lparr>ap_scope = scope, ap_config = cfg\<rparr>), w'))"

end
