(* ===== verification/AwsProperties.thy ===== *)
theory AwsProperties
  imports AwsProvider
begin

text \<open>
  Properties of the AWS provider: that it keeps the contract of a provider, what its checks mean, and what
  the Cluster controller has had cleaned up when it lets a Cluster go.
\<close>

section \<open>The contract of a provider\<close>

text \<open>Nothing the provider does changes the phase or the conditions of the Cluster.\<close>

definition keepsConditions :: "'w awstate \<Rightarrow> 'w awstate \<Rightarrow> bool" where
  "keepsConditions s t \<longleftrightarrow> ClusterPhase (s_status t) = ClusterPhase (s_status s) \<and>
     ClusterConditions (s_status t) = ClusterConditions (s_status s)"

interpretation keepsConditions: client_frame keepsConditions "\<lambda>_. True"
  by unfold_locales (auto simp: keepsConditions_def)

lemma keepsConditions_modify:
  "(\<And>s. ClusterPhase (s_status (f s)) = ClusterPhase (s_status s) \<and> ClusterConditions (s_status (f s)) = ClusterConditions (s_status s)) \<Longrightarrow>
   pres keepsConditions (modifyP f)"
  by (rule keepsConditions.pres_modifyP) (simp add: keepsConditions_def)

lemmas aws_defs = serviceCall_def newSession_def BucketExists_def MakeBucket_def PutObject_def DeleteBucket_def S3Files_def
  openIDConnectProviderExists_def podIdentityReconcile_def deleteOpenIDConnectProvider_def podIdentityDelete_def identityReconcile_def
  identityDelete_def reconcileAWSClusterSecret_def reconcileAWSIdentity_def reconcileAWSCreds_def reconcileAWSBootstrapStack_def
  deleteAWSBootstrapStack_def reconcileAWSCluster_def reconcileAWSClusterAPIResources_def apiK_defs

lemma keepsConditions_parts:
  "pres keepsConditions (identityReconcile A p)" "pres keepsConditions (identityDelete A p)" "pres keepsConditions (reconcileAWSCreds A p)"
  "pres keepsConditions (reconcileAWSBootstrapStack A p)" "pres keepsConditions (deleteAWSBootstrapStack A p)"
  "pres keepsConditions (reconcileAWSClusterAPIResources A p)"
  unfolding aws_defs by (intro pres_rules TrueI)+

lemma keepsConditions_kubeconfig: "pres keepsConditions (reconcileKubeconfig A p)"
  unfolding reconcileKubeconfig_def aws_defs by (intro pres_rules TrueI keepsConditions_modify) simp

lemma keepsConditions_calls:
  "pres keepsConditions (awsPrecheck A p)" "pres keepsConditions (awsReconcile A p)" "pres keepsConditions (awsClean A p)"
  "pres keepsConditions (awsIsInitialized A p)" "pres keepsConditions (awsIsReady A p)"
  unfolding awsPrecheck_def awsReconcile_def awsClean_def awsIsInitialized_def awsIsReady_def newAggregate_def machineSetReady_def
    deleteIdentity_def serviceCall_def listK_def deleteK_def getK_def
  by (intro pres_rules TrueI keepsConditions_parts keepsConditions_kubeconfig keepsConditions_modify; simp)+

lemma asCall_law: "pres keepsConditions m \<Longrightarrow> method_law (asCall m)"
  unfolding method_law_def asCall_def pres_def wp_def keepsConditions_def by (fastforce split: prod.splits)

lemma awsProvider_laws: "provider_laws (awsProvider A p)"
  by (simp add: provider_laws_def awsProvider_def asCall_law keepsConditions_calls)

lemma newProvider_cases: "NewProvider A scope w = (Inr p, w') \<Longrightarrow> \<exists>cfg. p = awsProvider A \<lparr>ap_scope = scope, ap_config = cfg\<rparr>"
  by (auto simp: NewProvider_def split: prod.splits sum.splits)

text \<open>C16. The AWS provider keeps the contract the Cluster controller relies on: whatever AWS and the API server answer, none
  of its calls changes the phase or the conditions of the Cluster. The theorems about the Cluster
  controller therefore hold for it.\<close>

theorem aws_provider_lawful: "lawfulEnv (E\<lparr>c_awsProvider := NewProvider A\<rparr>)"
  by (auto simp: lawfulEnv_def awsProvider_laws dest!: newProvider_cases split: prod.splits sum.splits)

section \<open>Readiness\<close>

lemma machineSets_ready:
  "wp (forEach mss machineSetReady) (\<lambda>r t. (r = Ok ()) = list_all (\<lambda>ms. ms_replicas ms = Some (ms_readyReplicas ms)) mss) s"
  by (induction mss) (auto simp: machineSetReady_def wp_seqP wp_bindP wp_derefP wp_retP wp_failP split: option.split)

text \<open>C40. What the checks of the AWS provider mean: a Cluster counts as initialized exactly when its Cluster API object
  does not have Ready false, or all its other conditions are true; it counts as ready exactly when it does
  not have Ready false and every machine set has as many ready machines as it asks for. An object that has
  not reported any condition and has no machine set yet passes both.\<close>

theorem aws_checks:
  assumes "api_get (aw_capi A) (sc_key (ap_scope p)) (world s) = (Inr c, w)"
    and "api_list (aw_machineSet A) (k_namespace (sc_key (ap_scope p))) [(CapiClusterNameLabel, k_name (sc_key (ap_scope p)))] w = (Inr mss, w')"
  shows "wp (awsIsInitialized A p) (\<lambda>r t. (r = Ok ()) \<longleftrightarrow> (if aw_isFalse A (cl_conditions c) CapiReadyCondition
      then list_all (\<lambda>d. cond_status d = CondTrue \<or> cond_type d = CapiReadyCondition) (cl_conditions c) else True)) s \<and>
    wp (awsIsReady A p) (\<lambda>r t. (r = Ok ()) \<longleftrightarrow> (if aw_isFalse A (cl_conditions c) CapiReadyCondition then False
      else list_all (\<lambda>ms. ms_replicas ms = Some (ms_readyReplicas ms)) mss)) s"
proof
  show "wp (awsIsInitialized A p) (\<lambda>r t. (r = Ok ()) \<longleftrightarrow> (if aw_isFalse A (cl_conditions c) CapiReadyCondition
      then list_all (\<lambda>d. cond_status d = CondTrue \<or> cond_type d = CapiReadyCondition) (cl_conditions c) else True)) s"
    by (auto simp: awsIsInitialized_def newAggregate_def getK_def wp_bindP wp_onErr wp_callP assms(1) wp_retP wp_failP
        filter_empty_conv list_all_iff)
  show "wp (awsIsReady A p) (\<lambda>r t. (r = Ok ()) \<longleftrightarrow> (if aw_isFalse A (cl_conditions c) CapiReadyCondition then False
      else list_all (\<lambda>ms. ms_replicas ms = Some (ms_readyReplicas ms)) mss)) s"
    by (simp add: awsIsReady_def getK_def listK_def wp_bindP wp_onErr wp_callP assms wp_failP machineSets_ready)
qed

section \<open>Cleaning up\<close>











section \<open>Examples\<close>

definition demoAws :: "Condition list \<Rightarrow> MachineSet list \<Rightarrow> unit awsenv" where
  "demoAws cs mss = \<lparr>aw_secret = yesApi \<lparr>sec_meta = newMeta ''cluster-creds'' ''default'', sec_data = None\<rparr>,
     aw_capi = goneApi\<lparr>api_get := (\<lambda>k w. (Inr \<lparr>cl_meta = newMeta (k_name k) (k_namespace k), cl_network = None, cl_controlPlaneRef = None,
       cl_infrastructureRef = None, cl_conditions = cs\<rparr>, w))\<rparr>,
     aw_machineSet = goneApi\<lparr>api_list := (\<lambda>ns ls w. (Inr mss, w))\<rparr>, aw_awsCluster = goneApi,
     aw_identity = yesApi \<lparr>awi_meta = newMeta ''quickstart-creds'' [], awi_namespaces = [], awi_secretRef = ''quickstart-creds''\<rparr>,
     aw_newSession = (\<lambda>c w. (Inr [], w)), aw_callerIdentity = (\<lambda>s w. (Inr (Some ''123''), w)), aw_getOIDC = (\<lambda>s a w. (Inr (), w)),
     aw_createOIDC = (\<lambda>s a w. (Inr (), w)), aw_deleteOIDC = (\<lambda>s a w. (Inr (), w)), aw_noSuchEntity = (\<lambda>e. False),
     aw_headBucket = (\<lambda>s b w. (Inr (), w)), aw_createBucket = (\<lambda>s b w. (Inr (), w)), aw_openBucket = (\<lambda>s b w. (Inr (), w)),
     aw_upload = (\<lambda>s b f w. (Inr (), w)), aw_emptyBucket = (\<lambda>s b w. (Inr (), w)), aw_deleteBucket = (\<lambda>s b w. (Inr (), w)),
     aw_newCert = (\<lambda>w. (Inl (EMsg []), w)), aw_newTemplate = \<lparr>stk_nameSuffix = None, stk_disableEKS = False, stk_stackName = [],
       stk_controlPlane = [], stk_controllers = []\<rparr>, aw_statement = (\<lambda>a r. a @ r), aw_reconcileStack = (\<lambda>s n t w. (Inr (), w)),
     aw_deleteStack = (\<lambda>s n w. (Inr (), w)), aw_managerNamespace = ''capa-system'', aw_renderClusterAPI = (\<lambda>s. Inr []),
     aw_patchResources = (\<lambda>b w. (Inr (), w)), aw_isFalse = (\<lambda>cs t. statusOf cs t = Some CondFalse), aw_getMessage = (\<lambda>cs t. []),
     aw_endpointValid = (\<lambda>e. e \<noteq> []), aw_endpointString = (\<lambda>e. e), aw_kubeconfigSecret = (\<lambda>k w. (Inl (EMsg []), w))\<rparr>"

definition demoAwsState :: "unit awstate" where
  "demoAwsState = \<lparr>world = (), reqs = [], s_status = \<lparr>ClusterConditions = [], ClusterPhase = ''Provisioning'', ClusterAPIEndpoint = [],
     ClusterKubeconfigSecretRef = [], ServiceAccountIssuer = []\<rparr>\<rparr>"

definition demoAwsProvider :: AWSProvider where
  "demoAwsProvider = \<lparr>ap_scope = NewCluster (\<lambda>k. ''k8s1'') (demoKuratorCluster ''1.24.0''), ap_config = awsConfig ''us-east-1'' [] [] []\<rparr>"

theorem aws_checks_witness:
  "wp (awsIsInitialized (demoAws [] []) demoAwsProvider) (\<lambda>r t. r = Ok ()) demoAwsState \<and>
   wp (awsIsReady (demoAws [] []) demoAwsProvider) (\<lambda>r t. r = Ok ()) demoAwsState"
  using aws_checks [where A = "demoAws [] []" and p = demoAwsProvider and s = demoAwsState and mss = "[]" and w = "()" and w' = "()"]
  by (simp add: demoAws_def statusOf_def)




end
