(* ===== verification/MachineControllers.thy ===== *)
theory MachineControllers
  imports ClusterController
begin

text \<open>
  The controllers of CustomMachine and AttachedCluster in \<open>pkg/cluster-operator\<close>. Both are short:
  the first sets a CustomMachine ready once the object with its SSH key is found and watched, the
  second sets an AttachedCluster ready when the cluster behind its kubeconfig answers. Reading an
  external object, setting its controller and watching it are parameters, and so is the client for
  the attached cluster.
\<close>

section \<open>CustomMachine\<close>

record 'w machineEnv =
  me_machine :: "('w, CustomMachine) api"
  me_externalGet :: "ObjectReference option \<Rightarrow> string \<Rightarrow> 'w \<Rightarrow> (apierr + ObjectMeta) \<times> 'w"
  me_setControllerReference :: "CustomMachine \<Rightarrow> ObjectMeta \<Rightarrow> goerr + ObjectMeta"
  me_watch :: "ObjectMeta \<Rightarrow> 'w \<Rightarrow> (goerr + unit) \<times> 'w"

type_synonym ('w, 'a) mproc = "('w kst, 'a) proc"

text \<open>The message for an object that is not found reads the kind and the name from the reference.\<close>

definition reconcileCustomMachine :: "'w machineEnv \<Rightarrow> CustomMachine \<Rightarrow> ('w, Result) mproc" where
  "reconcileCustomMachine E customMachine = (case Master (cmach_spec customMachine) of
     [] \<Rightarrow> panicP
   | master # _ \<Rightarrow>
       let keyRef = SSHKey master in
       tryP (callP (RExternal ''Get'' []) (me_externalGet E keyRef (m_namespace (cmach_meta customMachine)))) (\<lambda>r. case r of
         Inl e \<Rightarrow> if isNotFound e then bindP (derefP keyRef) (\<lambda>_. retP (requeueAfter 5)) else failP e
       | Inr obj \<Rightarrow>
           seqP (callP (RExternal ''NewHelper'' []) (api_newHelper (me_machine E) customMachine))
           (bindP (liftE (me_setControllerReference E customMachine obj)) (\<lambda>obj'.
            seqP (extE (me_watch E obj'))
            (seqP (patchK ''CustomMachine'' cmach_meta (me_machine E) customMachine
               (customMachine\<lparr>cmach_status := (cmach_status customMachine)\<lparr>MachineReady := Some True\<rparr>\<rparr>))
             (retP noRequeue))))))"

definition ReconcileCustomMachine :: "'w machineEnv \<Rightarrow> objkey \<Rightarrow> ('w, Result) mproc" where
  "ReconcileCustomMachine E req =
     tryP (getK ''CustomMachine'' (me_machine E) req) (\<lambda>r. case r of
       Inl e \<Rightarrow> if isNotFound e then retP noRequeue else failP e
     | Inr customMachine \<Rightarrow> reconcileCustomMachine E customMachine)"

section \<open>AttachedCluster\<close>

record 'w atstate = "'w kst" +
  s_attached :: AttachedCluster

record 'w attachedEnv =
  ae_attached :: "('w, AttachedCluster) api"
  ae_secret :: "('w, Secret) api"
  ae_restConfig :: "string \<Rightarrow> goerr + string"
  ae_newForConfig :: "string \<Rightarrow> string option"
  ae_getNamespace :: "string \<Rightarrow> string \<Rightarrow> 'w \<Rightarrow> (goerr + unit) \<times> 'w"

type_synonym ('w, 'a) atproc = "('w atstate, 'a) proc"

definition NamespaceSystem :: string where "NamespaceSystem = ''kube-system''"

definition setAttachedReady :: "bool \<Rightarrow> ('w, unit) atproc" where
  "setAttachedReady b = modifyP (\<lambda>s. s\<lparr>s_attached := s_attached s\<lparr>at_ready := b\<rparr>\<rparr>)"

text \<open>\<open>NewForConfigOrDie\<close> panics on a bad configuration.\<close>

definition reconcileAttached :: "'w attachedEnv \<Rightarrow> ('w, Result) atproc" where
  "reconcileAttached E =
     seqP (setAttachedReady False)
     (bindP (getP s_attached) (\<lambda>attachedCluster.
      bindP (getK ''Secret'' (ae_secret E) \<lparr>k_namespace = m_namespace (at_meta attachedCluster),
          k_name = SecretKeyName (at_kubeconfig attachedCluster)\<rparr>) (\<lambda>secret.
      bindP (onErr (liftE (ae_restConfig E (mapAt (sec_data secret) (GetSecretKey (FAttached attachedCluster)))))
          (\<lambda>e. failP (EOpaque ''build restconfig for controlplane failed '' e))) (\<lambda>config.
      bindP (derefP (ae_newForConfig E config)) (\<lambda>controlPlaneKubeClient.
      seqP (extE (ae_getNamespace E controlPlaneKubeClient NamespaceSystem))
      (seqP (setAttachedReady True) (retP noRequeue)))))))"

definition ReconcileAttached :: "'w attachedEnv \<Rightarrow> objkey \<Rightarrow> ('w, Result) atproc" where
  "ReconcileAttached E req =
     tryP (getK ''AttachedCluster'' (ae_attached E) req) (\<lambda>r. case r of
       Inl e \<Rightarrow> if isNotFound e then retP noRequeue else failP e
     | Inr attachedCluster \<Rightarrow>
         seqP (modifyP (\<lambda>s. s\<lparr>s_attached := attachedCluster\<rparr>))
         (seqP (onErr (callP (RExternal ''NewHelper'' []) (api_newHelper (ae_attached E) attachedCluster))
           (\<lambda>e. failP (EWrap ''failed to init patch helper for fleet'' e)))
         (deferErr (reconcileAttached E)
           (bindP (getP s_attached) (\<lambda>after.
            onErr (patchK ''AttachedCluster'' at_meta (ae_attached E) attachedCluster after)
              (\<lambda>e. failP (EWrap ''failed to patch fleet'' e)))))))"

section \<open>Properties\<close>

lemma wp_setAttachedReady [wp_simps]:
  "wp (setAttachedReady b) Q s = Q (Ok ()) (s\<lparr>s_attached := s_attached s\<lparr>at_ready := b\<rparr>\<rparr>)"
  by (simp add: setAttachedReady_def wp_modifyP)

text \<open>The cluster behind the kubeconfig of an AttachedCluster answers.\<close>

definition attachedReachable :: "'w attachedEnv \<Rightarrow> AttachedCluster \<Rightarrow> 'w \<Rightarrow> bool" where
  "attachedReachable E a w =
     (case api_get (ae_secret E) \<lparr>k_namespace = m_namespace (at_meta a), k_name = SecretKeyName (at_kubeconfig a)\<rparr> w of
        (Inl _, _) \<Rightarrow> False
      | (Inr secret, w1) \<Rightarrow>
          (case ae_restConfig E (mapAt (sec_data secret) (SecretKeyKey (at_kubeconfig a))) of
             Inl _ \<Rightarrow> False
           | Inr config \<Rightarrow> (case ae_newForConfig E config of
               None \<Rightarrow> False
             | Some client \<Rightarrow> \<not> isl (fst (ae_getNamespace E client NamespaceSystem w1)))))"

lemma reconcileAttached_ready:
  "wp (reconcileAttached E) (\<lambda>r s'. (at_ready (s_attached s') \<longleftrightarrow> attachedReachable E (s_attached s) (world s)) \<and>
     (r = Ok noRequeue \<longleftrightarrow> at_ready (s_attached s')) \<and> s_attached s' = s_attached s\<lparr>at_ready := at_ready (s_attached s')\<rparr>) s"
  by (auto simp: reconcileAttached_def attachedReachable_def apiK_defs wp_steps wp_callP wp_extE wp_derefP wp_liftE wp_setAttachedReady
      split: prod.splits sum.splits option.splits)

text \<open>A run of the AttachedCluster controller on an object that exists hands an object to its patch, as
  the last request, that is ready exactly when the Secret can be read, its kubeconfig is accepted
  and the system namespace of the cluster answers. An error or a panic on the way leaves it not
  ready, whatever it was before.
\<close>

theorem attached_ready_iff_reachable:
  assumes "api_get (ae_attached E) req (world s) = (Inr a, w1)" and "api_newHelper (ae_attached E) a w1 = (Inr (), w2)"
    and "ReconcileAttached E req s = (r, s')"
  shows "s_attached s' = a\<lparr>at_ready := attachedReachable E a w2\<rparr> \<and> last (reqs s') = RPatch ''AttachedCluster'' (at_meta a)"
proof -
  have "wp (ReconcileAttached E req) (\<lambda>r s'. s_attached s' = a\<lparr>at_ready := attachedReachable E a w2\<rparr> \<and>
      last (reqs s') = RPatch ''AttachedCluster'' (at_meta a)) s"
    unfolding ReconcileAttached_def
    by (simp add: apiK_defs wp_steps wp_callP assms(1,2) wp_deferErr)
      (auto simp: wp_failP intro!: wp_mono [OF reconcileAttached_ready] split: prod.splits sum.splits)
  then show ?thesis
    using assms(3) by (auto dest: wpD)
qed

definition demoAttached :: AttachedCluster where
  "demoAttached = \<lparr>at_meta = newMeta ''edge'' ''default'', at_kubeconfig = \<lparr>SecretKeyName = ''edge-kubeconfig'', SecretKeyKey = ''config''\<rparr>,
     at_ready = False\<rparr>"

definition demoAttachedEnv :: "unit attachedEnv" where
  "demoAttachedEnv = \<lparr>ae_attached = yesApi demoAttached,
     ae_secret = yesApi \<lparr>sec_meta = newMeta ''edge-kubeconfig'' ''default'', sec_data = Some [''config'' \<mapsto> ''kubeconfig'']\<rparr>,
     ae_restConfig = Inr, ae_newForConfig = Some, ae_getNamespace = (\<lambda>c n w. (Inr (), w))\<rparr>"

text \<open>The object with the SSH key is looked up by a reference that is not set, and the answer is that there is none.\<close>

definition unsetKeyNotFound :: "'w machineEnv \<Rightarrow> CustomMachine \<Rightarrow> 'w \<Rightarrow> bool" where
  "unsetKeyNotFound E m w \<longleftrightarrow> SSHKey (hd (Master (cmach_spec m))) = None \<and>
     fst (me_externalGet E None (m_namespace (cmach_meta m)) w) = Inl NotFound"

lemma isNotFound_EApi: "isNotFound (EApi e) \<longleftrightarrow> e = NotFound"
  by (cases e) simp_all

lemma reconcileCustomMachine_panics:
  "Master (cmach_spec m) \<noteq> [] \<Longrightarrow> wp (reconcileCustomMachine E m) (\<lambda>r s'. r = Panic \<longleftrightarrow> unsetKeyNotFound E m (world s)) s"
  by (cases "Master (cmach_spec m)")
    (auto simp: reconcileCustomMachine_def unsetKeyNotFound_def isNotFound_EApi apiK_defs wp_steps wp_callP wp_extE wp_liftE wp_derefP Let_def
      split: prod.splits sum.splits option.splits)

end
