(* ===== verification/FleetTypes.thy ===== *)
theory FleetTypes
  imports AppTypes
begin

text \<open>
  The API types of a Fleet (\<open>pkg/apis/fleet/v1alpha1/types.go\<close>). JSON arguments are the raw bytes or
  nil; affinities, tolerations and topology constraints of Kubernetes are carried as opaque text.
\<close>

section \<open>Phases\<close>

text \<open>\<open>FleetNoPhase\<close> is the empty string of a Fleet whose status was never written.\<close>

datatype FleetPhase =
    FleetNoPhase
  | FleetPending
  | FleetRunning
  | FleetFailed
  | FleetReady
  | FleetTerminating
  | FleetTerminateFailed
  | FleetTerminateSucceeded

definition ControlplaneAnnotation :: string where
  "ControlplaneAnnotation = ''fleet.kurator.dev/controlplane''"

section \<open>Plugins\<close>

type_synonym rawJSON = "string option"

record ApiChartConfig =
  ch_repository :: string
  ch_name :: string
  ch_version :: string

record PrometheusConfig =
  prom_chart :: "ApiChartConfig option"
  prom_nodeExporter :: "bool option"
  prom_kubeStateMetrics :: "bool option"
  prom_extraArgs :: rawJSON

record ThanosConfig =
  th_chart :: "ApiChartConfig option"
  th_objectStoreSecret :: string
  th_extraArgs :: rawJSON

record MetricConfig =
  Thanos :: ThanosConfig
  Prometheus :: PrometheusConfig

record GrafanaConfig =
  gr_chart :: "ApiChartConfig option"
  gr_extraArgs :: rawJSON

record PodSecurityPolicy =
  Standard :: string
  Severity :: string
  ValidationFailureAction :: string

record KyvernoConfig =
  ky_chart :: "ApiChartConfig option"
  ky_podSecurity :: "PodSecurityPolicy option"
  ky_extraArgs :: rawJSON

record PolicyConfig =
  Kyverno :: "KyvernoConfig option"

record BackupStorageLocation =
  Bucket :: string
  bsl_provider :: string
  bsl_endpoint :: string
  bsl_region :: string
  bsl_config :: "(string \<times> string) list"

record BackupStorage =
  bs_location :: BackupStorageLocation
  bs_secretName :: string

record BackupConfig =
  bk_chart :: "ApiChartConfig option"
  bk_storage :: BackupStorage
  bk_extraArgs :: rawJSON

record Placement =
  pl_nodeAffinity :: "string option"
  pl_podAffinity :: "string option"
  pl_podAntiAffinity :: "string option"
  pl_tolerations :: "string list"
  pl_topologySpread :: "string list"

text \<open>\<open>MonSpec\<close> and \<open>MgrSpec\<close> have the same fields.\<close>

record MonSpec =
  mon_count :: "int option"
  mon_annotations :: "(string \<times> string) list option"
  mon_labels :: "(string \<times> string) list option"
  mon_placement :: "Placement option"

record Device =
  dev_name :: string
  dev_config :: "(string \<times> string) list"

record StorageNode =
  sn_name :: string
  sn_devices :: "Device list"

record StorageScopeSpec =
  ss_nodes :: "StorageNode list"
  ss_useAllNodes :: bool
  ss_devices :: "Device list"

record DistributedStorage =
  ds_dataDirHostPath :: "string option"
  ds_monitor :: "MonSpec option"
  ds_manager :: "MonSpec option"
  ds_storage :: "StorageScopeSpec option"

record DistributedStorageConfig =
  dsc_chart :: "ApiChartConfig option"
  dsc_storage :: "DistributedStorage option"
  dsc_extraArgs :: rawJSON

record ProviderConfig =
  pc_chart :: "ApiChartConfig option"
  pc_extraArgs :: rawJSON

record FlaggerConfig =
  fg_chart :: "ApiChartConfig option"
  fg_extraArgs :: rawJSON
  fg_provider :: Provider
  fg_publicTestloader :: bool
  fg_providerConfig :: "ProviderConfig option"

record SubMarinerOperatorConfig =
  sm_chart :: "ApiChartConfig option"
  sm_extraArgs :: rawJSON
  sm_brokerCluster :: string
  sm_clusterCidrs :: gomap
  sm_serviceCidrs :: gomap
  sm_globalcidrs :: gomap

record PluginConfig =
  pg_metric :: "MetricConfig option"
  pg_grafana :: "GrafanaConfig option"
  pg_policy :: "PolicyConfig option"
  pg_backup :: "BackupConfig option"
  pg_distributedStorage :: "DistributedStorageConfig option"
  pg_flagger :: "FlaggerConfig option"
  pg_submariner :: "SubMarinerOperatorConfig option"

section \<open>Fleet\<close>

text \<open>The clusters are pointers in the source; the API server never stores a nil one.\<close>

record FleetSpec =
  Clusters :: "ObjectReference list"
  FleetPlugin :: "PluginConfig option"

record FleetStatus =
  CredentialSecret :: "string option"
  FleetPhaseOf :: FleetPhase
  FleetReason :: string
  PluginEndpoints :: "(string \<times> string list) list"
  ReadyClusters :: int
  UnReadyClusters :: int

record Fleet =
  fl_kind :: string
  fl_meta :: ObjectMeta
  fl_spec :: FleetSpec
  fl_status :: FleetStatus

end
