(* ===== verification/FleetRender.thy ===== *)
theory FleetRender
  imports FleetTypes "HOL-Library.AList"
begin

text \<open>
  Rendering the Helm resources of the fleet plugins (\<open>pkg/fleet-manager/plugin/plugin.go\<close> and
  \<open>render.go\<close>). What is rendered is a \<open>FleetPluginConfig\<close>: a chart, values and the names that follow
  from the component and the cluster. Reading the embedded files, parsing YAML and JSON, merging
  maps and executing the template are libraries, the fields of \<open>renv\<close>.
\<close>

section \<open>Values\<close>

text \<open>
  The dynamic values of a chart. A map of strings and the API structs are leaves: they are not of
  type \<open>map[string]interface{}\<close>, so merging does not look into them.
\<close>

datatype yval =
    YStr string
  | YInt int
  | YBool bool
  | YList "yval list"
  | YMap "(string \<times> yval) list"
  | YStrMap "(string \<times> string) list"
  | YPlacement Placement
  | YStorage StorageScopeSpec

type_synonym vmap = "(string \<times> yval) list"

section \<open>Configuration\<close>

record KubeConfigSecretRef =
  kc_name :: string
  kc_secretName :: string
  kc_secretKey :: string

record ChartConfig =
  cc_type :: string
  cc_repo :: string
  cc_name :: string
  cc_version :: string
  cc_targetNamespace :: string
  cc_values :: "vmap option"

record FleetPluginConfig =
  fp_name :: string
  fp_component :: string
  fp_fleet :: objkey
  fp_ownerReference :: OwnerReference
  fp_cluster :: "KubeConfigSecretRef option"
  fp_chart :: ChartConfig
  fp_values :: "vmap option"

record renv =
  re_readFile :: "string \<Rightarrow> goerr + string"
  re_unmarshalChart :: "string \<Rightarrow> goerr + ChartConfig"
  re_unmarshalJSON :: "string \<Rightarrow> goerr + vmap option"
  re_mergeMaps :: "vmap option \<Rightarrow> vmap option \<Rightarrow> vmap option"
  re_execute :: "string \<Rightarrow> FleetPluginConfig \<Rightarrow> goerr + string"

definition ResourceName :: "FleetPluginConfig \<Rightarrow> string" where
  "ResourceName plugin = (case fp_cluster plugin of
     Some cluster \<Rightarrow> fp_component plugin @ ''-'' @ kc_name cluster
   | None \<Rightarrow> fp_component plugin)"

definition StorageNamespace :: "FleetPluginConfig \<Rightarrow> string" where
  "StorageNamespace plugin = (case fp_cluster plugin of
     Some _ \<Rightarrow> cc_targetNamespace (fp_chart plugin)
   | None \<Rightarrow> k_namespace (fp_fleet plugin))"

definition getFleetPluginChart :: "renv \<Rightarrow> string \<Rightarrow> ChartConfig outcome" where
  "getFleetPluginChart R pluginName =
     bindO (sumO (re_readFile R (''plugins/'' @ pluginName @ ''.yaml''))) (\<lambda>out. sumO (re_unmarshalChart R out))"

definition renderFleetPlugin :: "renv \<Rightarrow> FleetPluginConfig \<Rightarrow> string outcome" where
  "renderFleetPlugin R cfg = bindO (sumO (re_readFile R ''plugin.tpl'')) (\<lambda>out. sumO (re_execute R out cfg))"

definition OCIReposiotryPrefix :: string where "OCIReposiotryPrefix = ''oci://''"
definition HelmRepositoryTypeOCI :: string where "HelmRepositoryTypeOCI = ''oci''"
definition HelmRepositoryTypeDefault :: string where "HelmRepositoryTypeDefault = ''default''"

definition mergeChartConfig :: "ChartConfig \<Rightarrow> ApiChartConfig option \<Rightarrow> ChartConfig" where
  "mergeChartConfig origin target = (case target of
     None \<Rightarrow> origin
   | Some t \<Rightarrow> origin\<lparr>cc_name := ch_name t, cc_repo := ch_repository t, cc_version := ch_version t,
       cc_type := (if ch_repository t \<noteq> [] \<and> prefix OCIReposiotryPrefix (ch_repository t)
         then HelmRepositoryTypeOCI else HelmRepositoryTypeDefault)\<rparr>)"

definition toMap :: "renv \<Rightarrow> rawJSON \<Rightarrow> vmap option outcome" where
  "toMap R args = (case args of None \<Rightarrow> Ok None | Some raw \<Rightarrow> sumO (re_unmarshalJSON R raw))"

definition stringMapToInterfaceMap :: "(string \<times> string) list \<Rightarrow> vmap" where
  "stringMapToInterfaceMap args = map (\<lambda>(k, v). (k, YStr v)) args"

section \<open>Names\<close>

definition MetricPluginName :: string where "MetricPluginName = ''metric''"
definition GrafanaPluginName :: string where "GrafanaPluginName = ''grafana''"
definition KyvernoPluginName :: string where "KyvernoPluginName = ''kyverno''"
definition BackupPluginName :: string where "BackupPluginName = ''backup''"
definition StorageOperatorPluginName :: string where "StorageOperatorPluginName = ''storage-operator''"
definition ClusterStoragePluginName :: string where "ClusterStoragePluginName = ''cluster-storage''"
definition FlaggerPluginName :: string where "FlaggerPluginName = ''flagger''"
definition PublicTestloaderName :: string where "PublicTestloaderName = ''testloader''"
definition SubMarinerBrokerPluginName :: string where "SubMarinerBrokerPluginName = ''submariner-broker''"
definition SubMarinerOperatorPluginName :: string where "SubMarinerOperatorPluginName = ''submariner-operator''"

definition ThanosComponentName :: string where "ThanosComponentName = ''thanos''"
definition PrometheusComponentName :: string where "PrometheusComponentName = ''prometheus''"
definition GrafanaComponentName :: string where "GrafanaComponentName = ''grafana''"
definition KyvernoComponentName :: string where "KyvernoComponentName = ''kyverno''"
definition KyvernoPolicyComponentName :: string where "KyvernoPolicyComponentName = ''kyverno-policies''"
definition VeleroComponentName :: string where "VeleroComponentName = ''velero''"
definition RookOperatorComponentName :: string where "RookOperatorComponentName = ''rook''"
definition RookClusterComponentName :: string where "RookClusterComponentName = ''rook-ceph''"
definition FlaggerComponentName :: string where "FlaggerComponentName = ''flagger''"
definition TestloaderComponentName :: string where "TestloaderComponentName = ''testloader''"
definition SubMarinerBrokerComponentName :: string where "SubMarinerBrokerComponentName = ''sm-broker''"
definition SubMarinerOperatorComponentName :: string where "SubMarinerOperatorComponentName = ''sm-operator''"

text \<open>A provider that is not in the map gives the empty namespace.\<close>

fun ProviderNamespace :: "Provider \<Rightarrow> string" where
  "ProviderNamespace Istio = ''istio-system''"
| "ProviderNamespace Kuma = ''kuma-system''"
| "ProviderNamespace Nginx = ''ingress-nginx''"
| "ProviderNamespace (OtherProvider _) = []"

fun providerName :: "Provider \<Rightarrow> string" where
  "providerName Istio = ''istio''"
| "providerName Kuma = ''kuma''"
| "providerName Nginx = ''nginx''"
| "providerName (OtherProvider p) = p"

section \<open>Charts without special values\<close>

definition RenderKyvernoPolicy ::
  "renv \<Rightarrow> objkey \<Rightarrow> OwnerReference \<Rightarrow> KubeConfigSecretRef \<Rightarrow> KyvernoConfig \<Rightarrow> string outcome" where
  "RenderKyvernoPolicy R fleetNN fleetRef cluster kyvernoCfg =
     bindO (getFleetPluginChart R KyvernoPolicyComponentName) (\<lambda>c.
     bindO (derefO (ky_podSecurity kyvernoCfg)) (\<lambda>podSecurity.
     renderFleetPlugin R \<lparr>fp_name = KyvernoPluginName, fp_component = KyvernoPolicyComponentName, fp_fleet = fleetNN,
       fp_ownerReference = fleetRef, fp_cluster = Some cluster, fp_chart = mergeChartConfig c (ky_chart kyvernoCfg),
       fp_values = Some [(''podSecurityStandard'', YStr (Standard podSecurity)),
         (''podSecuritySeverity'', YStr (Severity podSecurity)),
         (''validationFailureAction'', YStr (ValidationFailureAction podSecurity))]\<rparr>))"

definition RenderKyverno ::
  "renv \<Rightarrow> objkey \<Rightarrow> OwnerReference \<Rightarrow> KubeConfigSecretRef \<Rightarrow> KyvernoConfig \<Rightarrow> string outcome" where
  "RenderKyverno R fleetNN fleetRef cluster kyvernoCfg =
     bindO (getFleetPluginChart R KyvernoComponentName) (\<lambda>c.
     bindO (toMap R (ky_extraArgs kyvernoCfg)) (\<lambda>values.
     renderFleetPlugin R \<lparr>fp_name = KyvernoPluginName, fp_component = KyvernoComponentName, fp_fleet = fleetNN,
       fp_ownerReference = fleetRef, fp_cluster = Some cluster, fp_chart = mergeChartConfig c (ky_chart kyvernoCfg),
       fp_values = values\<rparr>))"

record GrafanaDataSource =
  gds_name :: string
  gds_sourceType :: string
  gds_url :: string
  gds_access :: string
  gds_isDefault :: bool

definition dataSourceValue :: "GrafanaDataSource \<Rightarrow> yval" where
  "dataSourceValue d = YMap [(''name'', YStr (gds_name d)), (''type'', YStr (gds_sourceType d)), (''url'', YStr (gds_url d)),
     (''access'', YStr (gds_access d)), (''isDefault'', YBool (gds_isDefault d))]"

definition RenderGrafana ::
  "renv \<Rightarrow> objkey \<Rightarrow> OwnerReference \<Rightarrow> GrafanaConfig \<Rightarrow> GrafanaDataSource list \<Rightarrow> string outcome" where
  "RenderGrafana R fleetNN fleetRef grafanaCfg datasources =
     bindO (getFleetPluginChart R GrafanaComponentName) (\<lambda>c.
     bindO (toMap R (gr_extraArgs grafanaCfg)) (\<lambda>values.
     let values' = (if length datasources \<noteq> 0
           then re_mergeMaps R values (Some [(''datasources'', YMap [(''secretDefinition'', YMap
             [(''apiVersion'', YInt 1), (''datasources'', YList (map dataSourceValue datasources))])])])
           else values)
     in renderFleetPlugin R \<lparr>fp_name = GrafanaPluginName, fp_component = GrafanaComponentName, fp_fleet = fleetNN,
       fp_ownerReference = fleetRef, fp_cluster = None,
       fp_chart = (mergeChartConfig c (gr_chart grafanaCfg))\<lparr>cc_targetNamespace := k_namespace fleetNN\<rparr>, fp_values = values'\<rparr>))"

definition RenderThanos :: "renv \<Rightarrow> objkey \<Rightarrow> OwnerReference \<Rightarrow> MetricConfig \<Rightarrow> string outcome" where
  "RenderThanos R fleetNN fleetRef metricCfg =
     bindO (getFleetPluginChart R ThanosComponentName) (\<lambda>c.
     bindO (toMap R (th_extraArgs (Thanos metricCfg))) (\<lambda>values.
     renderFleetPlugin R \<lparr>fp_name = MetricPluginName, fp_component = ThanosComponentName, fp_fleet = fleetNN,
       fp_ownerReference = fleetRef, fp_cluster = None,
       fp_chart = (mergeChartConfig c (th_chart (Thanos metricCfg)))\<lparr>cc_targetNamespace := k_namespace fleetNN\<rparr>,
       fp_values = re_mergeMaps R values (Some
         [(''existingObjstoreSecret'', YStr (th_objectStoreSecret (Thanos metricCfg))),
          (''query'', YMap [(''dnsDiscovery'', YMap [(''sidecarsNamespace'', YStr (k_namespace fleetNN))])])])\<rparr>))"

definition RenderPrometheus ::
  "renv \<Rightarrow> objkey \<Rightarrow> OwnerReference \<Rightarrow> KubeConfigSecretRef \<Rightarrow> MetricConfig \<Rightarrow> string outcome" where
  "RenderPrometheus R fleetName fleetRef cluster metricCfg =
     bindO (getFleetPluginChart R PrometheusComponentName) (\<lambda>c.
     bindO (toMap R (prom_extraArgs (Prometheus metricCfg))) (\<lambda>values.
     renderFleetPlugin R \<lparr>fp_name = MetricPluginName, fp_component = PrometheusComponentName, fp_fleet = fleetName,
       fp_ownerReference = fleetRef, fp_cluster = Some cluster,
       fp_chart = mergeChartConfig c (prom_chart (Prometheus metricCfg)),
       fp_values = re_mergeMaps R values (Some
         [(''prometheus'', YMap [(''externalLabels'', YMap [(''cluster'', YStr (kc_name cluster))]),
           (''thanos'', YMap [(''objectStorageConfig'', YMap [(''secretName'', YStr (th_objectStoreSecret (Thanos metricCfg)))])])])])\<rparr>))"

section \<open>Velero\<close>

definition buildAWSProviderValues :: "renv \<Rightarrow> vmap option" where
  "buildAWSProviderValues R = re_mergeMaps R (Some []) (Some
     [(''initContainers'', YList [YMap [(''image'', YStr ''velero/velero-plugin-for-aws:v1.7.1''),
        (''name'', YStr ''velero-plugin-for-aws''),
        (''volumeMounts'', YList [YMap [(''mountPath'', YStr ''/target''), (''name'', YStr ''plugins'')]])]])])"

definition buildHuaWeiCloudProviderValues :: "renv \<Rightarrow> vmap option" where
  "buildHuaWeiCloudProviderValues R = buildAWSProviderValues R"

definition buildGCPProviderValues :: "vmap option" where "buildGCPProviderValues = None"
definition buildAzureProviderValues :: "vmap option" where "buildAzureProviderValues = None"

definition getProviderValues :: "renv \<Rightarrow> string \<Rightarrow> vmap option outcome" where
  "getProviderValues R provider =
     (if provider = ''aws'' then Ok (buildAWSProviderValues R)
      else if provider = ''huaweicloud'' then Ok (buildHuaWeiCloudProviderValues R)
      else if provider = ''gcp'' then Ok buildGCPProviderValues
      else if provider = ''azure'' then Ok buildAzureProviderValues
      else Err (EMsg (''unknown objStoreProvider: '' @ provider)))"

definition getProviderFrombackupCfg :: "BackupConfig \<Rightarrow> string" where
  "getProviderFrombackupCfg backupCfg =
     (let provider = bsl_provider (bs_location (bk_storage backupCfg))
      in if provider = ''huaweicloud'' then ''aws'' else provider)"

text \<open>The storage location that is handed to Velero.\<close>

definition veleroObjectStoreLocation :: "renv \<Rightarrow> BackupConfig \<Rightarrow> yval" where
  "veleroObjectStoreLocation R backupCfg =
     (let location = bs_location (bk_storage backupCfg);
          config = re_mergeMaps R (Some (stringMapToInterfaceMap (bsl_config location)))
            (Some [(''s3Url'', YStr (bsl_endpoint location)), (''region'', YStr (bsl_region location)),
              (''s3ForcePathStyle'', YBool True)])
      in YMap [(''bucket'', YStr (Bucket location)), (''provider'', YStr (getProviderFrombackupCfg backupCfg)),
           (''config'', YMap (case config of None \<Rightarrow> [] | Some m \<Rightarrow> m))])"

definition RenderVelero ::
  "renv \<Rightarrow> objkey \<Rightarrow> OwnerReference \<Rightarrow> KubeConfigSecretRef \<Rightarrow> BackupConfig \<Rightarrow> string \<Rightarrow> string outcome" where
  "RenderVelero R fleetNN fleetRef cluster backupCfg veleroSecretName =
     bindO (getFleetPluginChart R VeleroComponentName) (\<lambda>c0.
     let c = mergeChartConfig c0 (bk_chart backupCfg) in
     bindO (getProviderValues R (bsl_provider (bs_location (bk_storage backupCfg)))) (\<lambda>providerValues.
     let defaultValues = re_mergeMaps R (cc_values c) providerValues;
         customValues = re_mergeMaps R (Some []) (Some
           [(''configuration'', YMap [(''backupStorageLocation'', YList [veleroObjectStoreLocation R backupCfg])]),
            (''credentials'', YMap [(''useSecret'', YBool True), (''existingSecret'', YStr veleroSecretName)])])
     in bindO (toMap R (bk_extraArgs backupCfg)) (\<lambda>extraValues.
     renderFleetPlugin R \<lparr>fp_name = BackupPluginName, fp_component = VeleroComponentName, fp_fleet = fleetNN,
       fp_ownerReference = fleetRef, fp_cluster = Some cluster, fp_chart = c,
       fp_values = re_mergeMaps R defaultValues (re_mergeMaps R customValues extraValues)\<rparr>)))"

section \<open>Rook\<close>

definition RenderStorageOperator ::
  "renv \<Rightarrow> objkey \<Rightarrow> OwnerReference \<Rightarrow> KubeConfigSecretRef \<Rightarrow> DistributedStorageConfig \<Rightarrow> string outcome" where
  "RenderStorageOperator R fleetNN fleetRef cluster distributedStorageCfg =
     bindO (getFleetPluginChart R RookOperatorComponentName) (\<lambda>c.
     bindO (toMap R (dsc_extraArgs distributedStorageCfg)) (\<lambda>values.
     renderFleetPlugin R \<lparr>fp_name = StorageOperatorPluginName, fp_component = RookOperatorComponentName, fp_fleet = fleetNN,
       fp_ownerReference = fleetRef, fp_cluster = Some cluster, fp_chart = mergeChartConfig c (dsc_chart distributedStorageCfg),
       fp_values = values\<rparr>))"

text \<open>
  A value under \<open>key\<close>, \<open>sub\<close>: the map under \<open>key\<close> is made when it is missing. The type assertion on an
  existing value panics when it is not a map.
\<close>

definition putNested :: "string \<Rightarrow> string \<Rightarrow> yval \<Rightarrow> vmap \<Rightarrow> vmap outcome" where
  "putNested key sub v m = (case map_of m key of
     None \<Rightarrow> Ok (AList.update key (YMap [(sub, v)]) m)
   | Some (YMap inner) \<Rightarrow> Ok (AList.update key (YMap (AList.update sub v inner)) m)
   | Some _ \<Rightarrow> Panic)"

definition putDaemon :: "string \<Rightarrow> MonSpec option \<Rightarrow> vmap \<Rightarrow> vmap outcome" where
  "putDaemon daemon spec m = (case spec of None \<Rightarrow> Ok m | Some cfg \<Rightarrow>
     bindO (Ok (case mon_count cfg of None \<Rightarrow> m | Some n \<Rightarrow> AList.update daemon (YMap [(''count'', YInt n)]) m)) (\<lambda>m.
     bindO (case mon_labels cfg of None \<Rightarrow> Ok m | Some ls \<Rightarrow> putNested ''labels'' daemon (YStrMap ls) m) (\<lambda>m.
     bindO (case mon_annotations cfg of None \<Rightarrow> Ok m | Some as \<Rightarrow> putNested ''annotations'' daemon (YStrMap as) m) (\<lambda>m.
     case mon_placement cfg of None \<Rightarrow> Ok m | Some p \<Rightarrow> putNested ''placement'' daemon (YPlacement p) m))))"

definition buildStorageClusterValue :: "DistributedStorageConfig \<Rightarrow> vmap outcome" where
  "buildStorageClusterValue distributedStorageCfg =
     bindO (derefO (dsc_storage distributedStorageCfg)) (\<lambda>storage.
     let m = (case ds_dataDirHostPath storage of None \<Rightarrow> [] | Some path \<Rightarrow> [(''dataDirHostPath'', YStr path)]);
         m = (case ds_storage storage of None \<Rightarrow> m | Some s \<Rightarrow> AList.update ''storage'' (YStorage s) m)
     in bindO (putDaemon ''mon'' (ds_monitor storage) m) (\<lambda>m. putDaemon ''mgr'' (ds_manager storage) m))"

definition RenderClusterStorage ::
  "renv \<Rightarrow> objkey \<Rightarrow> OwnerReference \<Rightarrow> KubeConfigSecretRef \<Rightarrow> DistributedStorageConfig \<Rightarrow> string outcome" where
  "RenderClusterStorage R fleetNN fleetRef cluster distributedStorageCfg =
     bindO (getFleetPluginChart R RookClusterComponentName) (\<lambda>c0.
     let c = mergeChartConfig c0 (dsc_chart distributedStorageCfg) in
     bindO (buildStorageClusterValue distributedStorageCfg) (\<lambda>customValues.
     bindO (toMap R (dsc_extraArgs distributedStorageCfg)) (\<lambda>extraValues.
     renderFleetPlugin R \<lparr>fp_name = ClusterStoragePluginName, fp_component = RookClusterComponentName, fp_fleet = fleetNN,
       fp_ownerReference = fleetRef, fp_cluster = Some cluster, fp_chart = c,
       fp_values = re_mergeMaps R (cc_values c)
         (re_mergeMaps R (Some [(''cephClusterSpec'', YMap customValues)]) extraValues)\<rparr>)))"

section \<open>Flagger and its provider\<close>

definition RenderFlagger ::
  "renv \<Rightarrow> objkey \<Rightarrow> OwnerReference \<Rightarrow> KubeConfigSecretRef \<Rightarrow> FlaggerConfig \<Rightarrow> string outcome" where
  "RenderFlagger R fleetNN fleetRef cluster flaggerConfig =
     bindO (getFleetPluginChart R FlaggerComponentName) (\<lambda>c.
     bindO (toMap R (fg_extraArgs flaggerConfig)) (\<lambda>values.
     renderFleetPlugin R \<lparr>fp_name = FlaggerPluginName, fp_component = FlaggerComponentName, fp_fleet = fleetNN,
       fp_ownerReference = fleetRef, fp_cluster = Some cluster,
       fp_chart = (mergeChartConfig c (fg_chart flaggerConfig))\<lparr>cc_targetNamespace := ProviderNamespace (fg_provider flaggerConfig)\<rparr>,
       fp_values = (if fg_provider flaggerConfig = Nginx
         then re_mergeMaps R values (Some [(''prometheus'', YMap [(''install'', YBool True)]), (''meshProvider'', YStr ''nginx'')])
         else values)\<rparr>))"

definition RenderProvider ::
  "renv \<Rightarrow> objkey \<Rightarrow> OwnerReference \<Rightarrow> KubeConfigSecretRef \<Rightarrow> FlaggerConfig \<Rightarrow> string outcome" where
  "RenderProvider R fleetNN fleetRef cluster flaggerConfig =
     (let name = providerName (fg_provider flaggerConfig) in
      bindO (getFleetPluginChart R name) (\<lambda>c.
      bindO (case fg_providerConfig flaggerConfig of
          None \<Rightarrow> Ok (c, Some [])
        | Some providerConfig \<Rightarrow> bindO (toMap R (pc_extraArgs providerConfig)) (\<lambda>values.
            Ok (mergeChartConfig c (pc_chart providerConfig), values))) (\<lambda>(c, values).
      renderFleetPlugin R \<lparr>fp_name = name, fp_component = name, fp_fleet = fleetNN, fp_ownerReference = fleetRef,
        fp_cluster = Some cluster, fp_chart = c\<lparr>cc_targetNamespace := ProviderNamespace (fg_provider flaggerConfig)\<rparr>,
        fp_values = values\<rparr>)))"

definition RenderRolloutTestloader ::
  "renv \<Rightarrow> objkey \<Rightarrow> OwnerReference \<Rightarrow> KubeConfigSecretRef \<Rightarrow> FlaggerConfig \<Rightarrow> string outcome" where
  "RenderRolloutTestloader R fleetNN fleetRef cluster flaggerConfig =
     bindO (getFleetPluginChart R TestloaderComponentName) (\<lambda>c.
     bindO (toMap R (fg_extraArgs flaggerConfig)) (\<lambda>values.
     renderFleetPlugin R \<lparr>fp_name = PublicTestloaderName, fp_component = TestloaderComponentName, fp_fleet = fleetNN,
       fp_ownerReference = fleetRef, fp_cluster = Some cluster,
       fp_chart = mergeChartConfig (c\<lparr>cc_targetNamespace := ProviderNamespace (fg_provider flaggerConfig)\<rparr>) None,
       fp_values = values\<rparr>))"

section \<open>Submariner\<close>

definition RenderSubmarinerBroker ::
  "renv \<Rightarrow> objkey \<Rightarrow> OwnerReference \<Rightarrow> KubeConfigSecretRef \<Rightarrow> string outcome" where
  "RenderSubmarinerBroker R fleetNN fleetRef cluster =
     bindO (getFleetPluginChart R SubMarinerBrokerComponentName) (\<lambda>c.
     renderFleetPlugin R \<lparr>fp_name = SubMarinerBrokerPluginName, fp_component = SubMarinerBrokerComponentName,
       fp_fleet = fleetNN, fp_ownerReference = fleetRef, fp_cluster = Some cluster, fp_chart = c, fp_values = None\<rparr>)"

definition RenderSubmarinerOperator ::
  "renv \<Rightarrow> objkey \<Rightarrow> OwnerReference \<Rightarrow> KubeConfigSecretRef \<Rightarrow> SubMarinerOperatorConfig \<Rightarrow> vmap \<Rightarrow> string outcome" where
  "RenderSubmarinerOperator R fleetNN fleetRef cluster cfg brokerConfig =
     bindO (getFleetPluginChart R SubMarinerOperatorComponentName) (\<lambda>c.
     bindO (toMap R (sm_extraArgs cfg)) (\<lambda>values.
     let globalCidr = mapAt (sm_globalcidrs cfg) (kc_name cluster);
         globalnet = (mapHas (sm_globalcidrs cfg) (kc_name cluster) \<and> globalCidr \<noteq> [])
     in renderFleetPlugin R \<lparr>fp_name = SubMarinerOperatorPluginName, fp_component = SubMarinerOperatorComponentName,
       fp_fleet = fleetNN, fp_ownerReference = fleetRef, fp_cluster = Some cluster,
       fp_chart = mergeChartConfig c (sm_chart cfg),
       fp_values = re_mergeMaps R values (Some
         [(''broker'', YMap (AList.update ''globalnet'' (YBool globalnet) brokerConfig)),
          (''serviceAccounts'', YMap [(''globalnet'', YMap [(''create'', YBool globalnet)])]),
          (''submariner'', YMap [(''clusterId'', YStr (kc_name cluster)),
            (''clusterCidr'', YStr (mapAt (sm_clusterCidrs cfg) (kc_name cluster))),
            (''serviceCidr'', YStr (mapAt (sm_serviceCidrs cfg) (kc_name cluster))),
            (''globalCidr'', YStr globalCidr)])])\<rparr>))"

end
