(* ===== verification/FleetManager.thy ===== *)
theory FleetManager
  imports FleetRender ClusterTypes GoNet
begin

text \<open>
  The fleet manager (\<open>pkg/fleet-manager\<close>): its environment, the clusters of a fleet
  (\<open>clusters.go\<close>, \<open>fleet_cluster.go\<close>), the control plane (\<open>controlplane.go\<close>) and the helpers of
  \<open>util.go\<close>. The clients of the host cluster and of the member clusters, Karmada, Helm and the helper
  packages of Cluster API are fields of the environment.
\<close>

section \<open>Environment\<close>

record Subject =
  sub_kind :: string
  sub_name :: string
  sub_namespace :: string

record ClusterRoleBinding =
  crb_meta :: ObjectMeta
  crb_subjects :: "Subject list"

record HelmRelease =
  hr_meta :: ObjectMeta
  hr_conditions :: "(string \<times> CondStatus) list"

record EndpointPort =
  ep_name :: string
  ep_port :: nat
  ep_protocol :: string
  ep_appProtocol :: "string option"

record EndpointSubset =
  es_addresses :: "string list"
  es_ports :: "EndpointPort list"

record Endpoints =
  ep_meta :: ObjectMeta
  ep_subsets :: "EndpointSubset list"

record Service =
  svc_meta :: ObjectMeta
  svc_type :: string
  svc_clusterIP :: string
  svc_ports :: "EndpointPort list"
  svc_ingress :: "string list"

text \<open>The clients of a member cluster. Of workloads and namespaces only the metadata is used.\<close>

record 'w member =
  mb_statefulSet :: "('w, ObjectMeta) api"
  mb_deployment :: "('w, ObjectMeta) api"
  mb_namespace :: "('w, ObjectMeta) api"
  mb_secret :: "('w, Secret) api"
  mb_service :: "('w, Service) api"
  mb_endpoints :: "('w, Endpoints) api"
  mb_syncNamespace :: "ObjectMeta \<Rightarrow> 'w \<Rightarrow> (apierr + ObjectMeta) \<times> 'w"
  mb_syncSecret :: "Secret \<Rightarrow> 'w \<Rightarrow> (apierr + Secret) \<times> 'w"

text \<open>A resource that Helm applied.\<close>

record resource =
  rs_kind :: string
  rs_key :: objkey

record FleetCluster =
  fc_secret :: string
  fc_secretKey :: string
  fc_client :: string

type_synonym ClusterKey = "string \<times> string"
type_synonym fleetClusters = "(ClusterKey \<times> FleetCluster) list"

record 'w flenv =
  fe_fleet :: "('w, Fleet) api"
  fe_cluster :: "('w, Cluster) api"
  fe_attached :: "('w, AttachedCluster) api"
  fe_secret :: "('w, Secret) api"
  fe_pod :: "('w, Pod) api"
  fe_serviceAccount :: "('w, ObjectMeta) api"
  fe_roleBinding :: "('w, ClusterRoleBinding) api"
  fe_helmRepository :: "('w, ObjectMeta) api"
  fe_helmRelease :: "('w, HelmRelease) api"
  fe_service :: "('w, Service) api"
  fe_endpoints :: "('w, Endpoints) api"
  fe_member :: "string \<Rightarrow> 'w member"
  fe_kind :: "fleetCluster \<Rightarrow> string"
  fe_restConfig :: "string \<Rightarrow> goerr + string"
  fe_newClient :: "string \<Rightarrow> goerr + string"
  fe_karmadaClient :: "string \<Rightarrow> string option"
  fe_kubeClient :: "string \<Rightarrow> string option"
  fe_obtainClusterID :: "string \<Rightarrow> 'w \<Rightarrow> (goerr + string) \<times> 'w"
  fe_isClusterIdentifyUnique :: "string \<Rightarrow> string \<Rightarrow> 'w \<Rightarrow> (goerr + bool) \<times> 'w"
  fe_runJoin :: "string \<Rightarrow> string \<Rightarrow> string \<Rightarrow> 'w \<Rightarrow> (goerr + unit) \<times> 'w"
  fe_runUnjoin :: "string \<Rightarrow> string \<Rightarrow> string \<Rightarrow> 'w \<Rightarrow> (goerr + unit) \<times> 'w"
  fe_render :: renv
  fe_patchResources :: "string \<Rightarrow> 'w \<Rightarrow> (goerr + resource list) \<times> 'w"
  fe_range :: "fleetClusters \<Rightarrow> 'w \<Rightarrow> fleetClusters \<times> 'w"
  fe_schedule :: "'w \<Rightarrow> nat list \<times> 'w"
  fe_hasOwnerRef :: "OwnerReference list \<Rightarrow> OwnerReference \<Rightarrow> bool"
  fe_containsFinalizer :: "string list \<Rightarrow> string \<Rightarrow> bool"
  fe_base64 :: "string \<Rightarrow> string"
  fe_errText :: "goerr \<Rightarrow> string"
  fe_lib :: capilib

record 'w flstate = "'w kst" +
  s_fleet :: Fleet

type_synonym ('w, 'a) flproc = "('w flstate, 'a) proc"

section \<open>Helpers\<close>

definition FleetRequeueAfter :: int where "FleetRequeueAfter = 5"
definition FleetFinalizer :: string where "FleetFinalizer = ''fleet.kurator.dev''"
definition FleetLabel :: string where "FleetLabel = ''fleet.kurator.dev/fleet-name''"
definition FleetNameLabel :: string where "FleetNameLabel = ''fleet.kurator.dev/name''"
definition FleetPluginName :: string where "FleetPluginName = ''fleet.kurator.dev/plugin''"
definition ManagedByLabel :: string where "ManagedByLabel = ''app.kubernetes.io/managed-by''"
definition ManagedByFleetManager :: string where "ManagedByFleetManager = ''fleet-manager''"

definition fleetResourceLabels :: "string \<Rightarrow> (string \<times> string) list" where
  "fleetResourceLabels fleetName = [(ManagedByLabel, ManagedByFleetManager), (FleetNameLabel, fleetName)]"

definition fleetMetricResourceLabels :: "string \<Rightarrow> (string \<times> string) list" where
  "fleetMetricResourceLabels fleetName =
     [(ManagedByLabel, ManagedByFleetManager), (FleetNameLabel, fleetName), (FleetPluginName, ''metric'')]"

definition isReady :: "(string \<times> CondStatus) list \<Rightarrow> bool" where
  "isReady conditions = list_ex (\<lambda>(t, s). t = ''Ready'' \<and> s = CondTrue) conditions"

definition fleetAPIVersion :: string where "fleetAPIVersion = ''fleet.kurator.dev/v1alpha1''"

definition ownerReference :: "Fleet \<Rightarrow> OwnerReference" where
  "ownerReference fleet = \<lparr>or_apiVersion = fleetAPIVersion, or_kind = fl_kind fleet, or_name = m_name (fl_meta fleet),
     or_uid = m_uid (fl_meta fleet)\<rparr>"

definition fleetKey :: "Fleet \<Rightarrow> string \<Rightarrow> objkey" where
  "fleetKey fleet name = \<lparr>k_namespace = m_namespace (fl_meta fleet), k_name = name\<rparr>"

definition controlplaneOf :: "Fleet \<Rightarrow> string" where
  "controlplaneOf fleet = mapAt (m_annotations (fl_meta fleet)) ControlplaneAnnotation"

text \<open>\<open>int32\<close> of a count.\<close>

definition int32 :: "int \<Rightarrow> int" where
  "int32 n = (n + 2 ^ 31) mod 2 ^ 32 - 2 ^ 31"

definition setFleetStatus :: "(FleetStatus \<Rightarrow> FleetStatus) \<Rightarrow> ('w, unit) flproc" where
  "setFleetStatus f = modifyP (\<lambda>s. s\<lparr>s_fleet := s_fleet s\<lparr>fl_status := f (fl_status (s_fleet s))\<rparr>\<rparr>)"

definition setFleetPhase :: "FleetPhase \<Rightarrow> ('w, unit) flproc" where
  "setFleetPhase p = setFleetStatus (\<lambda>st. st\<lparr>FleetPhaseOf := p\<rparr>)"

section \<open>The clusters of a fleet\<close>

definition ClusterKind :: string where "ClusterKind = ''Cluster''"
definition AttachedClusterKind :: string where "AttachedClusterKind = ''AttachedCluster''"

definition getFleetClusterInterface :: "'w flenv \<Rightarrow> string \<Rightarrow> objkey \<Rightarrow> (('w, 'm) kst_scheme, fleetCluster) proc" where
  "getFleetClusterInterface E kind nn =
     (if kind = ClusterKind \<or> kind = [] then bindP (getK ''Cluster'' (fe_cluster E) nn) (\<lambda>c. retP (FCluster c))
      else if kind = AttachedClusterKind then bindP (getK ''AttachedCluster'' (fe_attached E) nn) (\<lambda>a. retP (FAttached a))
      else failP (EMsg ''unsupported cluster kind''))"

definition toLowerChar :: "char \<Rightarrow> char" where
  "toLowerChar c = (let n = of_char c :: nat in if 65 \<le> n \<and> n \<le> 90 then char_of (n + 32) else c)"

definition ToLower :: "string \<Rightarrow> string" where
  "ToLower s = map toLowerChar s"

definition generateClusterNameInKarmada :: "'w flenv \<Rightarrow> fleetCluster \<Rightarrow> string" where
  "generateClusterNameInKarmada E cluster =
     (let name = m_name (metaOf cluster) @ ''-'' @ ToLower (fe_kind E cluster)
      in if length name > 63 then take 63 name else name)"

primrec withLabels :: "gomap \<Rightarrow> fleetCluster \<Rightarrow> fleetCluster" where
  "withLabels ls (FCluster c) = FCluster (c\<lparr>ku_meta := ku_meta c\<lparr>m_labels := ls\<rparr>\<rparr>)"
| "withLabels ls (FAttached a) = FAttached (a\<lparr>at_meta := at_meta a\<lparr>m_labels := ls\<rparr>\<rparr>)"

primrec updateFleetCluster :: "'w flenv \<Rightarrow> fleetCluster \<Rightarrow> ('w, fleetCluster) flproc" where
  "updateFleetCluster E (FCluster c) = bindP (updateK ''Cluster'' ku_meta (fe_cluster E) c) (\<lambda>c'. retP (FCluster c'))"
| "updateFleetCluster E (FAttached a) = bindP (updateK ''AttachedCluster'' at_meta (fe_attached E) a) (\<lambda>a'. retP (FAttached a'))"

text \<open>The label of the fleet is set on a cluster that does not have it.\<close>

definition labelCluster :: "'w flenv \<Rightarrow> string \<Rightarrow> fleetCluster \<Rightarrow> ('w, fleetCluster) flproc" where
  "labelCluster E fleetName cluster =
     (let labels = (case m_labels (metaOf cluster) of None \<Rightarrow> Map.empty | Some ls \<Rightarrow> ls) in
      if mapAt (Some labels) FleetLabel \<noteq> fleetName
      then updateFleetCluster E (withLabels (Some (labels(FleetLabel \<mapsto> fleetName))) cluster)
      else retP (withLabels (Some labels) cluster))"

text \<open>The label of the fleet is removed from a cluster that has it.\<close>

definition unlabelCluster :: "'w flenv \<Rightarrow> string \<Rightarrow> fleetCluster \<Rightarrow> ('w, unit) flproc" where
  "unlabelCluster E fleetName cluster =
     ifP (mapAt (m_labels (metaOf cluster)) FleetLabel = fleetName)
       (bindP (updateFleetCluster E (withLabels (map_option (\<lambda>ls. ls(FleetLabel := None)) (m_labels (metaOf cluster))) cluster))
         (\<lambda>_. retP ()))"

text \<open>The loop over the clusters of the specification: the ready ones, the number of others, the names.\<close>

fun labelClusters :: "'w flenv \<Rightarrow> Fleet \<Rightarrow> ObjectReference list \<Rightarrow> ('w, fleetCluster list \<times> nat \<times> string list) flproc" where
  "labelClusters E fleet [] = retP ([], 0, [])"
| "labelClusters E fleet (cluster # rest) =
     tryP (getFleetClusterInterface E (r_kind cluster) (fleetKey fleet (r_name cluster))) (\<lambda>r. case r of
       Inl e \<Rightarrow> if \<not> isNotFound e then failP e
         else bindP (labelClusters E fleet rest) (\<lambda>(ready, unready, names). retP (ready, Suc unready, names))
     | Inr currentCluster \<Rightarrow>
         bindP (labelCluster E (m_name (fl_meta fleet)) currentCluster) (\<lambda>labelled.
         bindP (labelClusters E fleet rest) (\<lambda>(ready, unready, names).
         if IsReady labelled
         then retP (labelled # ready, unready, generateClusterNameInKarmada E currentCluster # names)
         else retP (ready, Suc unready, generateClusterNameInKarmada E currentCluster # names))))"

definition memberConfig :: "'w flenv \<Rightarrow> fleetCluster \<Rightarrow> ('w, string) flproc" where
  "memberConfig E cluster =
     bindP (derefP (GetSecretName cluster)) (\<lambda>secretName.
     bindP (onErr (getK ''Secret'' (fe_secret E) \<lparr>k_namespace = m_namespace (metaOf cluster), k_name = secretName\<rparr>)
       (\<lambda>e. failP (EOpaque ''get secret for cluster failed '' e))) (\<lambda>secret.
     onErr (liftE (fe_restConfig E (mapAt (sec_data secret) (GetSecretKey cluster))))
       (\<lambda>e. failP (EOpaque ''build restconfig for cluster failed '' e))))"

definition isClusterAlreadyJoined :: "'w flenv \<Rightarrow> string \<Rightarrow> string \<Rightarrow> ('w, bool) flproc" where
  "isClusterAlreadyJoined E controlPlane clusterConfig =
     bindP (derefP (fe_karmadaClient E controlPlane)) (\<lambda>karmadaClient.
     bindP (derefP (fe_kubeClient E clusterConfig)) (\<lambda>clusterKubeClient.
     bindP (extE (fe_obtainClusterID E clusterKubeClient)) (\<lambda>ident.
     bindP (extE (fe_isClusterIdentifyUnique E karmadaClient ident)) (\<lambda>unique. retP (\<not> unique)))))"

definition joinCluster :: "'w flenv \<Rightarrow> string \<Rightarrow> fleetCluster \<Rightarrow> ('w, unit) flproc" where
  "joinCluster E controlPlane cluster =
     bindP (memberConfig E cluster) (\<lambda>clusterRestConfig.
     bindP (isClusterAlreadyJoined E controlPlane clusterRestConfig) (\<lambda>alreadyJoined.
     if alreadyJoined then retP ()
     else onErr (extE (fe_runJoin E controlPlane clusterRestConfig (generateClusterNameInKarmada E cluster)))
       (\<lambda>e. failP (EOpaque ''join cluster failed '' e))))"

definition unjoinCluster :: "'w flenv \<Rightarrow> string \<Rightarrow> fleetCluster \<Rightarrow> ('w, unit) flproc" where
  "unjoinCluster E controlPlane cluster =
     bindP (memberConfig E cluster) (\<lambda>clusterRestConfig.
     onErr (extE (fe_runUnjoin E controlPlane clusterRestConfig (generateClusterNameInKarmada E cluster)))
       (\<lambda>e. failP (EOpaque ''unjoin cluster failed '' e)))"

text \<open>The configuration of the control plane, \<open>None\<close> when the fleet has none.\<close>

definition controlplaneConfig :: "'w flenv \<Rightarrow> Fleet \<Rightarrow> ('w, string option) flproc" where
  "controlplaneConfig E fleet =
     (if length (controlplaneOf fleet) = 0 then retP None
      else bindP (getK ''Secret'' (fe_secret E) (fleetKey fleet ''kubeconfig'')) (\<lambda>kubeconfig.
        bindP (onErr (liftE (fe_restConfig E (mapAt (sec_data kubeconfig) ''kubeconfig'')))
          (\<lambda>e. failP (EOpaque ''build restconfig for controlplane failed '' e))) (\<lambda>config. retP (Some config))))"

definition dropCluster :: "'w flenv \<Rightarrow> Fleet \<Rightarrow> string option \<Rightarrow> string list \<Rightarrow> fleetCluster \<Rightarrow> ('w, unit) flproc" where
  "dropCluster E fleet controlplane names cluster =
     ifP (generateClusterNameInKarmada E cluster \<notin> set names)
       (seqP (case controlplane of None \<Rightarrow> retP () | Some config \<Rightarrow> unjoinCluster E config cluster)
         (unlabelCluster E (m_name (fl_meta fleet)) cluster))"

definition reconcileClusters :: "'w flenv \<Rightarrow> ('w, Result) flproc" where
  "reconcileClusters E = bindP (getP s_fleet) (\<lambda>fleet.
     bindP (labelClusters E fleet (Clusters (fl_spec fleet))) (\<lambda>(readyClusters, unreadyClusters, names).
     seqP (setFleetStatus (\<lambda>st. st\<lparr>ReadyClusters := int32 (int (length readyClusters)),
       UnReadyClusters := int32 (int unreadyClusters)\<rparr>))
     (bindP (controlplaneConfig E fleet) (\<lambda>controlplane.
      seqP (case controlplane of None \<Rightarrow> retP () | Some config \<Rightarrow> forEach readyClusters (joinCluster E config))
      (bindP (listK ''Cluster'' (fe_cluster E) (m_namespace (fl_meta fleet)) [(FleetLabel, m_name (fl_meta fleet))]) (\<lambda>clusterList.
       bindP (listK ''AttachedCluster'' (fe_attached E) (m_namespace (fl_meta fleet)) [(FleetLabel, m_name (fl_meta fleet))]) (\<lambda>attachedClusterList.
       seqP (forEach (map FCluster clusterList @ map FAttached attachedClusterList) (dropCluster E fleet controlplane names))
         (retP noRequeue))))))))"

definition reconcileClustersOnDelete :: "'w flenv \<Rightarrow> ('w, Result) flproc" where
  "reconcileClustersOnDelete E = bindP (getP s_fleet) (\<lambda>fleet.
     seqP (forEach (Clusters (fl_spec fleet)) (\<lambda>cluster.
       tryP (getFleetClusterInterface E (r_kind cluster) (fleetKey fleet (r_name cluster))) (\<lambda>r. case r of
         Inl e \<Rightarrow> if \<not> isNotFound e then failP e else retP ()
       | Inr currentCluster \<Rightarrow> unlabelCluster E (m_name (fl_meta fleet)) currentCluster)))
     (retP noRequeue))"

section \<open>Clients of the member clusters\<close>

definition ClientForCluster :: "'w flenv \<Rightarrow> string \<Rightarrow> fleetCluster \<Rightarrow> (('w, 'm) kst_scheme, string) proc" where
  "ClientForCluster E ns cluster =
     bindP (derefP (GetSecretName cluster)) (\<lambda>secretName.
     bindP (getK ''Secret'' (fe_secret E) \<lparr>k_namespace = ns, k_name = secretName\<rparr>) (\<lambda>secret.
     if \<not> mapHas (sec_data secret) (GetSecretKey cluster)
     then failP (EMsg (''key '' @ GetSecretKey cluster @ '' not found in secret''))
     else bindP (liftE (fe_restConfig E (mapAt (sec_data secret) (GetSecretKey cluster)))) (\<lambda>config.
       liftE (fe_newClient E config))))"

fun buildFleetClusters :: "'w flenv \<Rightarrow> Fleet \<Rightarrow> ObjectReference list \<Rightarrow> fleetClusters \<Rightarrow> (('w, 'm) kst_scheme, fleetClusters) proc" where
  "buildFleetClusters E fleet [] res = retP res"
| "buildFleetClusters E fleet (cluster # rest) res =
     bindP (getFleetClusterInterface E (r_kind cluster) (fleetKey fleet (r_name cluster))) (\<lambda>clusterInterface.
     if \<not> IsReady clusterInterface then buildFleetClusters E fleet rest res
     else bindP (ClientForCluster E (m_namespace (fl_meta fleet)) clusterInterface) (\<lambda>kclient.
       bindP (derefP (GetSecretName clusterInterface)) (\<lambda>secretName.
       buildFleetClusters E fleet rest (AList.update (r_kind cluster, r_name cluster)
         \<lparr>fc_secret = secretName, fc_secretKey = GetSecretKey clusterInterface, fc_client = kclient\<rparr> res))))"

definition BuildFleetClusters :: "'w flenv \<Rightarrow> Fleet \<Rightarrow> (('w, 'm) kst_scheme, fleetClusters) proc" where
  "BuildFleetClusters E fleet = buildFleetClusters E fleet (Clusters (fl_spec fleet)) []"

section \<open>The control plane\<close>

definition ServiceAccountName :: string where "ServiceAccountName = ''fleet-manager-worker''"
definition KarmadaCtlImage :: string where "KarmadaCtlImage = ''ghcr.io/kurator-dev/karmadactl:v0.1.0''"
definition FleetWorkerClusterRoleBindingName :: string where "FleetWorkerClusterRoleBindingName = ''fleet-worker''"

definition roleBindingKey :: objkey where
  "roleBindingKey = \<lparr>k_namespace = [], k_name = FleetWorkerClusterRoleBindingName\<rparr>"

definition fleetObjectMeta :: "Fleet \<Rightarrow> string \<Rightarrow> ObjectMeta" where
  "fleetObjectMeta fleet name = (newMeta name (m_namespace (fl_meta fleet)))\<lparr>
     m_labels := Some [FleetLabel \<mapsto> m_name (fl_meta fleet)], m_ownerRefs := [ownerReference fleet]\<rparr>"

definition fleetWorkerPod :: "Fleet \<Rightarrow> string \<Rightarrow> string \<Rightarrow> Pod" where
  "fleetWorkerPod fleet podName cmd = \<lparr>pod_meta = fleetObjectMeta fleet podName,
     pod_spec = \<lparr>ps_containers = [\<lparr>ct_name = podName, ct_image = KarmadaCtlImage, ct_command = [''/bin/sh'', ''-c''],
         ct_args = [cmd], ct_volumeMounts = []\<rparr>],
       ps_volumes = [], ps_serviceAccountName = ServiceAccountName, ps_restartPolicy = RestartPolicyNever\<rparr>,
     pod_phase = PodOther []\<rparr>"

definition workerSubject :: "string \<Rightarrow> Subject" where
  "workerSubject namespace = \<lparr>sub_kind = ''ServiceAccount'', sub_name = ServiceAccountName, sub_namespace = namespace\<rparr>"

definition createUnlessExists :: "('w, 'a) flproc \<Rightarrow> string \<Rightarrow> ('w, unit) flproc" where
  "createUnlessExists m message = tryP m (\<lambda>r. case r of
     Inl e \<Rightarrow> if \<not> isAlreadyExists e then failP (EOpaque message e) else retP ()
   | Inr _ \<Rightarrow> retP ())"

definition initControlPlane :: "'w flenv \<Rightarrow> Fleet \<Rightarrow> ('w, unit) flproc" where
  "initControlPlane E fleet =
     seqP (createUnlessExists (createK ''ServiceAccount'' (\<lambda>m. m) (fe_serviceAccount E) (fleetObjectMeta fleet ServiceAccountName))
       ''failed to create sa for init pod: '')
     (bindP (onErr (getK ''ClusterRoleBinding'' (fe_roleBinding E) roleBindingKey)
        (\<lambda>e. failP (EOpaque ''failed to get clusterrolebinding for init pod: '' e))) (\<lambda>clusterRolebinding.
      seqP (onErr (updateK ''ClusterRoleBinding'' crb_meta (fe_roleBinding E)
          (clusterRolebinding\<lparr>crb_subjects := crb_subjects clusterRolebinding @ [workerSubject (m_namespace (fl_meta fleet))]\<rparr>))
        (\<lambda>e. failP (EOpaque ''failed to update clusterrolebinding for init pod: '' e)))
      (seqP (createUnlessExists (createK ''Pod'' pod_meta (fe_pod E) (fleetWorkerPod fleet (m_name (fl_meta fleet) @ ''-init'')
          (''karmadactl init -n '' @ m_namespace (fl_meta fleet))))
        ''failed to create fleet control plane init pod: '')
       (setFleetPhase FleetRunning))))"

definition reconcileControlPlane :: "'w flenv \<Rightarrow> ('w, unit) flproc" where
  "reconcileControlPlane E = bindP (getP s_fleet) (\<lambda>fleet.
     if controlplaneOf fleet = []
     then setFleetStatus (\<lambda>st. st\<lparr>FleetPhaseOf := FleetReady, CredentialSecret := None\<rparr>)
     else tryP (getK ''Pod'' (fe_pod E) (fleetKey fleet (m_name (fl_meta fleet) @ ''-init''))) (\<lambda>r. case r of
       Inl e \<Rightarrow> if \<not> isNotFound e then failP e else initControlPlane E fleet
     | Inr pod \<Rightarrow> ifP (pod_phase pod = PodSucceeded)
         (setFleetStatus (\<lambda>st. st\<lparr>FleetPhaseOf := FleetReady, CredentialSecret := Some ''kubeconfig''\<rparr>))))"

text \<open>The first subject of the namespace goes.\<close>

fun removeSubject :: "string \<Rightarrow> Subject list \<Rightarrow> Subject list" where
  "removeSubject namespace [] = []"
| "removeSubject namespace (s # ss) = (if sub_namespace s = namespace then ss else s # removeSubject namespace ss)"

definition finishControlPlane :: "'w flenv \<Rightarrow> Fleet \<Rightarrow> ('w, unit) flproc" where
  "finishControlPlane E fleet =
     bindP (onErr (getK ''ClusterRoleBinding'' (fe_roleBinding E) roleBindingKey)
       (\<lambda>e. failP (EOpaque ''failed to get clusterrolebinding for init pod: '' e))) (\<lambda>clusterRolebinding.
     seqP (onErr (updateK ''ClusterRoleBinding'' crb_meta (fe_roleBinding E)
         (clusterRolebinding\<lparr>crb_subjects := removeSubject (m_namespace (fl_meta fleet)) (crb_subjects clusterRolebinding)\<rparr>))
       (\<lambda>e. failP (EOpaque ''failed to update clusterrolebinding: '' e)))
     (setFleetPhase FleetTerminateSucceeded))"

definition deleteControlPlane :: "'w flenv \<Rightarrow> ('w, unit) flproc" where
  "deleteControlPlane E = bindP (getP s_fleet) (\<lambda>fleet.
     if controlplaneOf fleet = []
     then setFleetStatus (\<lambda>st. st\<lparr>FleetPhaseOf := FleetTerminateSucceeded, CredentialSecret := None\<rparr>)
     else let podName = m_name (fl_meta fleet) @ ''-delete'' in
       tryP (getK ''Pod'' (fe_pod E) (fleetKey fleet podName)) (\<lambda>r. case r of
         Inl e \<Rightarrow> if \<not> isNotFound e then failP e
           else seqP (onErr (createK ''Pod'' pod_meta (fe_pod E) (fleetWorkerPod fleet podName
               (''echo y | karmadactl deinit -n '' @ m_namespace (fl_meta fleet))))
             (\<lambda>e. failP (EOpaque ''failed to create fleet control plane init pod: '' e)))
           (setFleetPhase FleetTerminating)
       | Inr pod \<Rightarrow>
           if pod_phase pod = PodSucceeded then finishControlPlane E fleet
           else ifP (pod_phase pod = PodFailed) (setFleetPhase FleetTerminateFailed)))"

end
