(* ===== verification/FleetPlugins.thy ===== *)
theory FleetPlugins
  imports FleetManager "HOL-Library.List_Lexorder" "HOL-Library.Char_ord"
begin

text \<open>
  The plugins of a fleet (\<open>fleet_plugin*.go\<close>). A plugin renders the resources of its charts, applies
  them and waits until the Helm releases are ready. The plugins run in goroutines: \<open>fe_schedule\<close> is
  the order in which they deliver their results, and each is one step of the model. Ranging over the
  map of clusters takes the order \<open>fe_range\<close> gives.
\<close>

section \<open>Resources\<close>

definition HelmRepositoryKind :: string where "HelmRepositoryKind = ''HelmRepository''"
definition HelmReleaseKind :: string where "HelmReleaseKind = ''HelmRelease''"

fun helmReleaseReady :: "'w flenv \<Rightarrow> Fleet \<Rightarrow> resource list \<Rightarrow> ('w, bool) flproc" where
  "helmReleaseReady E fleet [] = retP True"
| "helmReleaseReady E fleet (res # rest) =
     (if rs_kind res = HelmReleaseKind
      then tryP (getK ''HelmRelease'' (fe_helmRelease E) (fleetKey fleet (k_name (rs_key res)))) (\<lambda>r. case r of
        Inl e \<Rightarrow> retP False
      | Inr hr \<Rightarrow> if \<not> isReady (hr_conditions hr) then retP False else helmReleaseReady E fleet rest)
      else helmReleaseReady E fleet rest)"

definition reconcilePluginResources :: "'w flenv \<Rightarrow> Fleet \<Rightarrow> resource list \<Rightarrow> ('w, Result) flproc" where
  "reconcilePluginResources E fleet resources =
     (let repoDict = map rs_key (filter (\<lambda>r. rs_kind r = HelmRepositoryKind) resources);
          releaseDict = map rs_key (filter (\<lambda>r. rs_kind r = HelmReleaseKind) resources);
          fleetLabels = fleetResourceLabels (m_name (fl_meta fleet)); ns = m_namespace (fl_meta fleet)
      in bindP (listK ''HelmRepository'' (fe_helmRepository E) ns fleetLabels) (\<lambda>helmRepos.
         bindP (listK ''HelmRelease'' (fe_helmRelease E) ns fleetLabels) (\<lambda>helmReleases.
         seqP (forEach helmRepos (\<lambda>repo. ifP (keyOf repo \<notin> set repoDict)
           (deleteK ''HelmRepository'' (\<lambda>m. m) (fe_helmRepository E) repo)))
         (seqP (forEach helmReleases (\<lambda>release. ifP (keyOf (hr_meta release) \<notin> set releaseDict)
           (deleteK ''HelmRelease'' hr_meta (fe_helmRelease E) release)))
         (retP noRequeue)))))"

type_synonym pluginResult = "resource list \<times> Result"

text \<open>Releases that are not ready are waited for: 30 seconds, half the interval of a HelmRelease.\<close>

definition whenReady :: "'w flenv \<Rightarrow> Fleet \<Rightarrow> resource list \<Rightarrow> ('w, pluginResult) flproc \<Rightarrow> ('w, pluginResult) flproc" where
  "whenReady E fleet resources k =
     bindP (helmReleaseReady E fleet resources) (\<lambda>ready. if \<not> ready then retP ([], requeueAfter 30) else k)"

definition applyChart :: "'w flenv \<Rightarrow> string outcome \<Rightarrow> ('w, resource list) flproc" where
  "applyChart E rendered = bindP (liftO rendered) (\<lambda>b. extE (fe_patchResources E b))"

definition kubeRef :: "ClusterKey \<Rightarrow> FleetCluster \<Rightarrow> KubeConfigSecretRef" where
  "kubeRef key cluster = \<lparr>kc_name = snd key, kc_secretName = fc_secret cluster, kc_secretKey = fc_secretKey cluster\<rparr>"

text \<open>A chart is applied for every cluster of the fleet, in the order of the range.\<close>

definition applyToClusters ::
  "'w flenv \<Rightarrow> fleetClusters \<Rightarrow> (KubeConfigSecretRef \<Rightarrow> ('w, resource list) flproc) \<Rightarrow> ('w, resource list) flproc" where
  "applyToClusters E clusters f = bindP (extP (fe_range E clusters)) (\<lambda>cs.
     bindP (mapP cs (\<lambda>(key, cluster). f (kubeRef key cluster))) (\<lambda>rss. retP (concat rss)))"

definition nnOf :: "Fleet \<Rightarrow> objkey" where "nnOf fleet = keyOf (fl_meta fleet)"

section \<open>Metric\<close>

definition MonitoringNamespace :: string where "MonitoringNamespace = ''monitoring''"
definition PrometheusThanosServiceName :: string where "PrometheusThanosServiceName = ''prometheus-prometheus-thanos''"
definition NoneClusterIP :: string where "NoneClusterIP = ''None''"

definition clusterAt :: "fleetClusters \<Rightarrow> ObjectReference \<Rightarrow> FleetCluster option" where
  "clusterAt clusters cluster = map_of clusters (r_kind cluster, r_name cluster)"

definition inMonitoring :: "string \<Rightarrow> objkey" where
  "inMonitoring name = \<lparr>k_namespace = MonitoringNamespace, k_name = name\<rparr>"

definition reconcileObjStoreSecretOwnerReference :: "'w flenv \<Rightarrow> Fleet \<Rightarrow> MetricConfig \<Rightarrow> fleetClusters \<Rightarrow> ('w, unit) flproc" where
  "reconcileObjStoreSecretOwnerReference E fleet metricCfg clusters =
     forEach (Clusters (fl_spec fleet)) (\<lambda>cluster. case clusterAt clusters cluster of
       None \<Rightarrow> retP ()
     | Some fleetCluster \<Rightarrow>
         let M = fe_member E (fc_client fleetCluster) in
         bindP (getK ''StatefulSet'' (mb_statefulSet M) (inMonitoring ''prometheus-prometheus-prometheus'')) (\<lambda>sts.
         bindP (getK ''Secret'' (mb_secret M) (inMonitoring (th_objectStoreSecret (Thanos metricCfg)))) (\<lambda>secret.
         let ref = \<lparr>or_apiVersion = ''apps/v1'', or_kind = ''StatefulSet'', or_name = m_name sts, or_uid = m_uid sts\<rparr> in
         ifP (\<not> fe_hasOwnerRef E (m_ownerRefs (sec_meta secret)) ref)
           (bindP (updateK ''Secret'' sec_meta (mb_secret M)
             (secret\<lparr>sec_meta := sec_meta secret\<lparr>m_ownerRefs := m_ownerRefs (sec_meta secret) @ [ref]\<rparr>\<rparr>)) (\<lambda>_. retP ())))))"

definition grpcPort :: EndpointPort where
  "grpcPort = \<lparr>ep_name = ''grpc'', ep_port = 10901, ep_protocol = ''TCP'', ep_appProtocol = Some ''grpc''\<rparr>"

text \<open>The set of endpoints is kept as a list; its sorted elements become the addresses.\<close>

definition convertToSubset :: "string list \<Rightarrow> EndpointSubset list" where
  "convertToSubset endpoints = [\<lparr>es_addresses = sort (remdups endpoints), es_ports = [grpcPort]\<rparr>]"

definition sidecarEndpoints :: "'w flenv \<Rightarrow> Fleet \<Rightarrow> fleetClusters \<Rightarrow> ('w, string list) flproc" where
  "sidecarEndpoints E fleet clusters =
     bindP (mapP (Clusters (fl_spec fleet)) (\<lambda>cluster. case clusterAt clusters cluster of
       None \<Rightarrow> retP []
     | Some fleetCluster \<Rightarrow>
         bindP (getK ''Service'' (mb_service (fe_member E (fc_client fleetCluster))) (inMonitoring PrometheusThanosServiceName)) (\<lambda>svc.
         if svc_type svc \<noteq> ''LoadBalancer'' then retP []
         else retP (filter (\<lambda>ip. ParseIP ip \<noteq> None) (svc_ingress svc))))) (\<lambda>ipss. retP (concat ipss))"

definition labelMap :: "(string \<times> string) list \<Rightarrow> gomap" where
  "labelMap ls = Some (map_of ls)"

definition sidecarService :: "'w flenv \<Rightarrow> Fleet \<Rightarrow> OwnerReference \<Rightarrow> ('w, unit) flproc" where
  "sidecarService E fleet ref =
     bindP (onErr (getK ''Service'' (fe_service E) (fleetKey fleet ''thanos-sidecar-remote'')) (\<lambda>e.
       if \<not> isNotFound e then failP e
       else createK ''Service'' svc_meta (fe_service E)
         \<lparr>svc_meta = (newMeta ''thanos-sidecar-remote'' (m_namespace (fl_meta fleet)))\<lparr>
            m_labels := labelMap (fleetMetricResourceLabels (m_name (fl_meta fleet))), m_ownerRefs := [ref]\<rparr>,
          svc_type = [], svc_clusterIP = NoneClusterIP, svc_ports = [grpcPort], svc_ingress = []\<rparr>)) (\<lambda>svc.
     ifP (\<not> fe_hasOwnerRef E (m_ownerRefs (svc_meta svc)) ref)
       (bindP (updateK ''Service'' svc_meta (fe_service E)
         (svc\<lparr>svc_meta := svc_meta svc\<lparr>m_ownerRefs := m_ownerRefs (svc_meta svc) @ [ref]\<rparr>\<rparr>)) (\<lambda>_. retP ())))"

definition sidecarSubsets :: "'w flenv \<Rightarrow> Fleet \<Rightarrow> string list \<Rightarrow> ('w, unit) flproc" where
  "sidecarSubsets E fleet endpoints =
     bindP (onErr (getK ''Endpoints'' (fe_endpoints E) (fleetKey fleet ''thanos-sidecar-remote'')) (\<lambda>e.
       if \<not> isNotFound e then failP e
       else createK ''Endpoints'' ep_meta (fe_endpoints E)
         \<lparr>ep_meta = newMeta ''thanos-sidecar-remote'' (m_namespace (fl_meta fleet)), ep_subsets = convertToSubset endpoints\<rparr>)) (\<lambda>ep.
     if ep_subsets ep = convertToSubset endpoints then retP ()
     else bindP (updateK ''Endpoints'' ep_meta (fe_endpoints E) (ep\<lparr>ep_subsets := convertToSubset endpoints\<rparr>)) (\<lambda>_. retP ()))"

definition reconcileSidecarRemoteService :: "'w flenv \<Rightarrow> Fleet \<Rightarrow> fleetClusters \<Rightarrow> ('w, unit) flproc" where
  "reconcileSidecarRemoteService E fleet clusters =
     bindP (sidecarEndpoints E fleet clusters) (\<lambda>endpoints.
     bindP (getK ''HelmRelease'' (fe_helmRelease E) (fleetKey fleet ''thanos'')) (\<lambda>thanosHelmRelease.
     seqP (sidecarService E fleet \<lparr>or_apiVersion = ''helm.toolkit.fluxcd.io/v2beta1'', or_kind = HelmReleaseKind,
       or_name = m_name (hr_meta thanosHelmRelease), or_uid = m_uid (hr_meta thanosHelmRelease)\<rparr>)
     (sidecarSubsets E fleet endpoints)))"

text \<open>A Get that fails hands back an empty object, which is the one updated after the creation.\<close>

definition emptySecret :: Secret where
  "emptySecret = \<lparr>sec_meta = newMeta [] [], sec_data = None\<rparr>"

definition syncObjStoreSecret :: "'w flenv \<Rightarrow> FleetCluster \<Rightarrow> Secret \<Rightarrow> ('w, unit) flproc" where
  "syncObjStoreSecret E fleetCluster secret =
     (let M = fe_member E (fc_client fleetCluster); ns = m_namespace (sec_meta secret) in
      seqP (tryP (getK ''Namespace'' (mb_namespace M) \<lparr>k_namespace = [], k_name = ns\<rparr>) (\<lambda>r. case r of
          Inl e \<Rightarrow> if isNotFound e then createK ''Namespace'' (\<lambda>m. m) (mb_namespace M) (newMeta ns []) else failP e
        | Inr n \<Rightarrow> retP n))
      (bindP (tryP (getK ''Secret'' (mb_secret M) \<lparr>k_namespace = ns, k_name = m_name (sec_meta secret)\<rparr>) (\<lambda>r. case r of
          Inl e \<Rightarrow> if isNotFound e then seqP (createK ''Secret'' sec_meta (mb_secret M) secret) (retP emptySecret) else failP e
        | Inr s \<Rightarrow> retP s)) (\<lambda>s.
       bindP (updateK ''Secret'' sec_meta (mb_secret M) (s\<lparr>sec_data := sec_data secret\<rparr>)) (\<lambda>_. retP ()))))"

definition reconcileMetricPlugin :: "'w flenv \<Rightarrow> Fleet \<Rightarrow> PluginConfig \<Rightarrow> fleetClusters \<Rightarrow> ('w, pluginResult) flproc" where
  "reconcileMetricPlugin E fleet plugin clusters = (case pg_metric plugin of
     None \<Rightarrow> retP ([], noRequeue)
   | Some metricCfg \<Rightarrow>
       bindP (applyChart E (RenderThanos (fe_render E) (nnOf fleet) (ownerReference fleet) metricCfg)) (\<lambda>thanosResources.
       bindP (getK ''Secret'' (fe_secret E) (fleetKey fleet (th_objectStoreSecret (Thanos metricCfg)))) (\<lambda>objSecret.
       let promSecret = \<lparr>sec_meta = (newMeta (m_name (sec_meta objSecret)) MonitoringNamespace)\<lparr>
             m_labels := labelMap (fleetMetricResourceLabels (m_name (fl_meta fleet)))\<rparr>, sec_data = sec_data objSecret\<rparr> in
       bindP (mapP (Clusters (fl_spec fleet)) (\<lambda>c. case clusterAt clusters c of
           None \<Rightarrow> retP []
         | Some fleetCluster \<Rightarrow>
             seqP (onErr (syncObjStoreSecret E fleetCluster promSecret)
               (\<lambda>e. failP (EWrap ''failed to reconcile objstore secret for cluster'' e)))
             (applyChart E (RenderPrometheus (fe_render E) (nnOf fleet) (ownerReference fleet)
               \<lparr>kc_name = r_name c, kc_secretName = fc_secret fleetCluster, kc_secretKey = fc_secretKey fleetCluster\<rparr> metricCfg)))) (\<lambda>rss.
       let resources = thanosResources @ concat rss in
       whenReady E fleet resources
         (seqP (reconcileObjStoreSecretOwnerReference E fleet metricCfg clusters)
         (seqP (reconcileSidecarRemoteService E fleet clusters)
         (retP (resources, noRequeue))))))))"

section \<open>Grafana\<close>

definition reconcileGrafanaPlugin :: "'w flenv \<Rightarrow> Fleet \<Rightarrow> PluginConfig \<Rightarrow> fleetClusters \<Rightarrow> ('w, pluginResult) flproc" where
  "reconcileGrafanaPlugin E fleet plugin clusters = (case pg_grafana plugin of
     None \<Rightarrow> retP ([], noRequeue)
   | Some grafanaCfg \<Rightarrow>
       let dataSources = (if pg_metric plugin \<noteq> None
             then [\<lparr>gds_name = ''Thanos'', gds_sourceType = ''prometheus'',
                gds_url = ''http://'' @ m_namespace (fl_meta fleet) @ ''-thanos-query:9090'', gds_access = ''proxy'', gds_isDefault = True\<rparr>]
             else []) in
       bindP (applyChart E (RenderGrafana (fe_render E) (nnOf fleet) (ownerReference fleet) grafanaCfg dataSources)) (\<lambda>resources.
       whenReady E fleet resources (retP (resources, noRequeue))))"

section \<open>Kyverno\<close>

definition reconcileKyvernoPlugin :: "'w flenv \<Rightarrow> Fleet \<Rightarrow> PluginConfig \<Rightarrow> fleetClusters \<Rightarrow> ('w, pluginResult) flproc" where
  "reconcileKyvernoPlugin E fleet plugin clusters = (case Option.bind (pg_policy plugin) Kyverno of
     None \<Rightarrow> retP ([], noRequeue)
   | Some kyvernoCfg \<Rightarrow>
       bindP (applyToClusters E clusters (\<lambda>ref.
         applyChart E (RenderKyverno (fe_render E) (nnOf fleet) (ownerReference fleet) ref kyvernoCfg))) (\<lambda>resources.
       whenReady E fleet resources
         (bindP (if ky_podSecurity kyvernoCfg \<noteq> None
             then applyToClusters E clusters (\<lambda>ref.
               applyChart E (RenderKyvernoPolicy (fe_render E) (nnOf fleet) (ownerReference fleet) ref kyvernoCfg))
             else retP []) (\<lambda>policies.
          whenReady E fleet (resources @ policies) (retP (resources @ policies, noRequeue))))))"

section \<open>Backup\<close>

definition AccessKey :: string where "AccessKey = ''access-key''"
definition SecretKey :: string where "SecretKey = ''secret-key''"
definition AWSObjStoreSecretNameSuffix :: string where "AWSObjStoreSecretNameSuffix = ''-velero-s3''"
definition HuaWeiCloudObjStoreSecretNameSuffix :: string where "HuaWeiCloudObjStoreSecretNameSuffix = ''-velero-obs''"
definition ObjStoreSecretNamespace :: string where "ObjStoreSecretNamespace = ''velero''"

definition getObjStoreCredentials :: "'w flenv \<Rightarrow> string \<Rightarrow> string \<Rightarrow> ('w, string \<times> string) flproc" where
  "getObjStoreCredentials E namespace secretName =
     bindP (onErr (getK ''Secret'' (fe_secret E) \<lparr>k_namespace = namespace, k_name = secretName\<rparr>)
       (\<lambda>e. failP (EWrap ''failed to get cluster secret'' e))) (\<lambda>secret.
     retP (mapAt (sec_data secret) AccessKey, mapAt (sec_data secret) SecretKey))"

definition buildAWSSecret :: "'w flenv \<Rightarrow> string \<Rightarrow> objkey \<Rightarrow> string \<Rightarrow> ('w, Secret option) flproc" where
  "buildAWSSecret E secretName fleetNN s3SecretName =
     bindP (getObjStoreCredentials E (k_namespace fleetNN) secretName) (\<lambda>(accessKey, secretKey).
     retP (Some \<lparr>sec_meta = (newMeta s3SecretName ObjStoreSecretNamespace)\<lparr>m_labels := labelMap [(FleetPluginName, BackupPluginName)]\<rparr>,
       sec_data = Some [''cloud'' \<mapsto> ''[default]'' @ [CHR 0x0A] @ ''aws_access_key_id='' @ accessKey @ [CHR 0x0A] @
         ''aws_secret_access_key='' @ secretKey]\<rparr>))"

definition buildHuaWeiCloudSecret :: "'w flenv \<Rightarrow> string \<Rightarrow> objkey \<Rightarrow> string \<Rightarrow> ('w, Secret option) flproc" where
  "buildHuaWeiCloudSecret E secretName fleetNN name = buildAWSSecret E secretName fleetNN name"

definition buildGCPSecret :: "('w, Secret option) flproc" where "buildGCPSecret = retP None"
definition buildAzureSecret :: "('w, Secret option) flproc" where "buildAzureSecret = retP None"

definition buildNewSecret :: "'w flenv \<Rightarrow> string \<Rightarrow> string \<Rightarrow> objkey \<Rightarrow> ('w, Secret option) flproc" where
  "buildNewSecret E secretName objStoreProvider fleetNN =
     (if objStoreProvider = ''aws'' then buildAWSSecret E secretName fleetNN (k_name fleetNN @ AWSObjStoreSecretNameSuffix)
      else if objStoreProvider = ''huaweicloud''
        then buildHuaWeiCloudSecret E secretName fleetNN (k_name fleetNN @ HuaWeiCloudObjStoreSecretNameSuffix)
      else if objStoreProvider = ''gcp'' then buildGCPSecret
      else if objStoreProvider = ''azure'' then buildAzureSecret
      else failP (EMsg (''unknown objStoreProvider: '' @ objStoreProvider)))"

text \<open>The secret is one object for all clusters: each call hands on what the last one left in it.\<close>

definition createNewSecretInFleetCluster :: "'w flenv \<Rightarrow> FleetCluster \<Rightarrow> Secret \<Rightarrow> ('w, Secret) flproc" where
  "createNewSecretInFleetCluster E cluster newSecret =
     (let M = fe_member E (fc_client cluster); ns = m_namespace (sec_meta newSecret) in
      seqP (onErr (callP (RExternal ''CreateOrUpdate'' [''Namespace'']) (mb_syncNamespace M (newMeta ns [])))
        (\<lambda>e. failP (EWrap ''failed to sync namespace'' e)))
      (onErr (callP (RExternal ''CreateOrUpdate'' [''Secret'']) (mb_syncSecret M newSecret))
        (\<lambda>e. failP (EWrap ''failed to sync new secret in namespace'' e))))"

fun installVelero :: "'w flenv \<Rightarrow> Fleet \<Rightarrow> BackupConfig \<Rightarrow> fleetClusters \<Rightarrow> Secret option \<Rightarrow> ('w, resource list \<times> Secret option) flproc" where
  "installVelero E fleet veleroCfg [] newSecret = retP ([], newSecret)"
| "installVelero E fleet veleroCfg ((key, cluster) # rest) newSecret =
     bindP (derefP newSecret) (\<lambda>secret.
     bindP (onErr (liftO (RenderVelero (fe_render E) (nnOf fleet) (ownerReference fleet) (kubeRef key cluster) veleroCfg
         (m_name (sec_meta secret)))) (\<lambda>e. failP (EWrap ''error rendering Velero for fleet cluster'' e))) (\<lambda>b.
     bindP (onErr (createNewSecretInFleetCluster E cluster secret)
         (\<lambda>e. failP (EWrap ''error creating new secret in fleet cluster'' e))) (\<lambda>secret'.
     bindP (extE (fe_patchResources E b)) (\<lambda>veleroResources.
     bindP (installVelero E fleet veleroCfg rest (Some secret')) (\<lambda>(resources, left).
     retP (veleroResources @ resources, left))))))"

definition getVeleroDeploymentName :: "string \<Rightarrow> string" where
  "getVeleroDeploymentName clusterName = ''velero-'' @ VeleroComponentName @ ''-'' @ clusterName"

definition updateNewSecretOwnerReference :: "'w flenv \<Rightarrow> string \<Rightarrow> FleetCluster \<Rightarrow> Secret \<Rightarrow> ('w, Secret) flproc" where
  "updateNewSecretOwnerReference E clusterName cluster newSecret =
     (let M = fe_member E (fc_client cluster) in
      bindP (getK ''Deployment'' (mb_deployment M) \<lparr>k_namespace = m_namespace (sec_meta newSecret),
          k_name = getVeleroDeploymentName clusterName\<rparr>) (\<lambda>veleroDeployment.
      let secret = newSecret\<lparr>sec_meta := sec_meta newSecret\<lparr>m_ownerRefs := [\<lparr>or_apiVersion = ''apps/v1'', or_kind = ''Deployment'',
            or_name = m_name veleroDeployment, or_uid = m_uid veleroDeployment\<rparr>]\<rparr>\<rparr> in
      seqP (updateK ''Secret'' sec_meta (mb_secret M) secret) (retP secret)))"

fun ownSecrets :: "'w flenv \<Rightarrow> fleetClusters \<Rightarrow> Secret option \<Rightarrow> ('w, unit) flproc" where
  "ownSecrets E [] newSecret = retP ()"
| "ownSecrets E ((key, cluster) # rest) newSecret =
     bindP (derefP newSecret) (\<lambda>secret.
     bindP (onErr (updateNewSecretOwnerReference E (snd key) cluster secret)
         (\<lambda>e. failP (EWrap ''error updating owner reference for secret in cluster'' e))) (\<lambda>secret'.
     ownSecrets E rest (Some secret')))"

definition reconcileBackupPlugin :: "'w flenv \<Rightarrow> Fleet \<Rightarrow> PluginConfig \<Rightarrow> fleetClusters \<Rightarrow> ('w, pluginResult) flproc" where
  "reconcileBackupPlugin E fleet plugin clusters = (case pg_backup plugin of
     None \<Rightarrow> retP ([], noRequeue)
   | Some veleroCfg \<Rightarrow>
       bindP (onErr (buildNewSecret E (bs_secretName (bk_storage veleroCfg)) (bsl_provider (bs_location (bk_storage veleroCfg))) (nnOf fleet))
         (\<lambda>e. failP (EWrap ''error building new secret for objStoreProvider'' e))) (\<lambda>newSecret.
       bindP (extP (fe_range E clusters)) (\<lambda>cs.
       bindP (installVelero E fleet veleroCfg cs newSecret) (\<lambda>(resources, left).
       whenReady E fleet resources
         (bindP (extP (fe_range E clusters)) (\<lambda>cs'.
          seqP (ownSecrets E cs' left) (retP (resources, noRequeue))))))))"

section \<open>Distributed storage\<close>

definition reconcileDistributedStoragePlugin ::
  "'w flenv \<Rightarrow> Fleet \<Rightarrow> PluginConfig \<Rightarrow> fleetClusters \<Rightarrow> ('w, pluginResult) flproc" where
  "reconcileDistributedStoragePlugin E fleet plugin clusters = (case pg_distributedStorage plugin of
     None \<Rightarrow> retP ([], noRequeue)
   | Some cfg \<Rightarrow>
       bindP (applyToClusters E clusters (\<lambda>ref.
         applyChart E (RenderStorageOperator (fe_render E) (nnOf fleet) (ownerReference fleet) ref cfg))) (\<lambda>resources.
       whenReady E fleet resources
         (bindP (if dsc_storage cfg \<noteq> None
             then applyToClusters E clusters (\<lambda>ref.
               applyChart E (RenderClusterStorage (fe_render E) (nnOf fleet) (ownerReference fleet) ref cfg))
             else retP []) (\<lambda>ceph.
          whenReady E fleet (resources @ ceph) (retP (resources @ ceph, noRequeue))))))"

section \<open>Flagger and its provider\<close>

definition reconcileFlaggerPlugin :: "'w flenv \<Rightarrow> Fleet \<Rightarrow> PluginConfig \<Rightarrow> fleetClusters \<Rightarrow> ('w, pluginResult) flproc" where
  "reconcileFlaggerPlugin E fleet plugin clusters = (case pg_flagger plugin of
     None \<Rightarrow> retP ([], noRequeue)
   | Some flaggerCfg \<Rightarrow>
       bindP (applyToClusters E clusters (\<lambda>ref.
         bindP (applyChart E (RenderFlagger (fe_render E) (nnOf fleet) (ownerReference fleet) ref flaggerCfg)) (\<lambda>flagger.
         bindP (if fg_publicTestloader flaggerCfg
             then applyChart E (RenderRolloutTestloader (fe_render E) (nnOf fleet) (ownerReference fleet) ref flaggerCfg)
             else retP []) (\<lambda>testloader.
         retP (flagger @ testloader))))) (\<lambda>resources.
       whenReady E fleet resources (retP (resources, noRequeue))))"

definition reconcileProviderPlugin :: "'w flenv \<Rightarrow> Fleet \<Rightarrow> PluginConfig \<Rightarrow> fleetClusters \<Rightarrow> ('w, pluginResult) flproc" where
  "reconcileProviderPlugin E fleet plugin clusters = (case pg_flagger plugin of
     None \<Rightarrow> retP ([], noRequeue)
   | Some flaggerCfg \<Rightarrow>
       if fg_provider flaggerCfg = Istio then retP ([], noRequeue)
       else bindP (applyToClusters E clusters (\<lambda>ref.
           applyChart E (RenderProvider (fe_render E) (nnOf fleet) (ownerReference fleet) ref flaggerCfg))) (\<lambda>resources.
         whenReady E fleet resources (retP (resources, noRequeue))))"

section \<open>Submariner\<close>

definition brokerNs :: string where "brokerNs = ''submariner-k8s-broker''"

text \<open>Every address of a subset with an https port sets the URL; the last one stays.\<close>

definition brokerUrls :: "Endpoints \<Rightarrow> string list" where
  "brokerUrls endpoints = concat (map (\<lambda>subset. concat (map (\<lambda>addr.
     case find (\<lambda>port. ep_name port = ''https'') (es_ports subset) of
       None \<Rightarrow> []
     | Some port \<Rightarrow> [addr @ '':'' @ showNat (ep_port port) @ [CHR 0x0A]]) (es_addresses subset))) (ep_subsets endpoints))"

definition getBrokerConfig :: "'w flenv \<Rightarrow> string \<Rightarrow> FleetCluster option \<Rightarrow> ('w, vmap) flproc" where
  "getBrokerConfig E clusterName cluster =
     bindP (derefP cluster) (\<lambda>c.
     let M = fe_member E (fc_client c) in
     bindP (getK ''Secret'' (mb_secret M) \<lparr>k_namespace = brokerNs,
         k_name = brokerNs @ ''-'' @ SubMarinerBrokerComponentName @ ''-'' @ clusterName @ ''-client-token''\<rparr>) (\<lambda>secret.
     bindP (getK ''Endpoints'' (mb_endpoints M) \<lparr>k_namespace = ''default'', k_name = ''kubernetes''\<rparr>) (\<lambda>endpoints.
     if brokerUrls endpoints = [] then failP (EMsg ''broker url not found'')
     else retP [(''ca'', YStr (fe_base64 E (mapAt (sec_data secret) ''ca.crt''))), (''token'', YStr (mapAt (sec_data secret) ''token'')),
       (''server'', YStr (last (brokerUrls endpoints))), (''namespace'', YStr brokerNs)])))"

definition reconcileSubmarinerPlugin :: "'w flenv \<Rightarrow> Fleet \<Rightarrow> PluginConfig \<Rightarrow> fleetClusters \<Rightarrow> ('w, pluginResult) flproc" where
  "reconcileSubmarinerPlugin E fleet plugin clusters = (case pg_submariner plugin of
     None \<Rightarrow> retP ([], noRequeue)
   | Some cfg \<Rightarrow>
       if length clusters < 2 then failP (EMsg ''fleetClusters number < 2'')
       else bindP (if sm_brokerCluster cfg = []
           then bindP (derefP (indexO (Clusters (fl_spec fleet)) 0)) (\<lambda>c. retP (r_name c))
           else retP (sm_brokerCluster cfg)) (\<lambda>brokerClusterName.
         bindP (extP (fe_range E clusters)) (\<lambda>cs.
         let broker = find (\<lambda>(key, c). snd key = brokerClusterName) cs in
         bindP (case broker of
             None \<Rightarrow> retP []
           | Some (key, c) \<Rightarrow> applyChart E (RenderSubmarinerBroker (fe_render E) (nnOf fleet) (ownerReference fleet)
               \<lparr>kc_name = brokerClusterName, kc_secretName = fc_secret c, kc_secretKey = fc_secretKey c\<rparr>)) (\<lambda>brokerResources.
         whenReady E fleet brokerResources
           (bindP (getBrokerConfig E brokerClusterName (map_option snd broker)) (\<lambda>brokerCfg.
            bindP (applyToClusters E clusters (\<lambda>ref.
              applyChart E (RenderSubmarinerOperator (fe_render E) (nnOf fleet) (ownerReference fleet) ref cfg brokerCfg))) (\<lambda>operators.
            whenReady E fleet (brokerResources @ operators) (retP (brokerResources @ operators, noRequeue))))))))) "

section \<open>All plugins\<close>

definition pluginFuncs :: "'w flenv \<Rightarrow> (Fleet \<Rightarrow> PluginConfig \<Rightarrow> fleetClusters \<Rightarrow> ('w, pluginResult) flproc) list" where
  "pluginFuncs E = [reconcileMetricPlugin E, reconcileGrafanaPlugin E, reconcileKyvernoPlugin E, reconcileBackupPlugin E,
     reconcileDistributedStoragePlugin E, reconcileFlaggerPlugin E, reconcileSubmarinerPlugin E, reconcileProviderPlugin E]"

definition requeues :: "Result \<Rightarrow> bool" where
  "requeues r \<longleftrightarrow> Requeue r \<or> RequeueAfter r > 0"

text \<open>What is read from the channel: the errors, the results that ask for a requeue, the resources.\<close>

definition pluginErrors :: "(goerr + pluginResult) list \<Rightarrow> goerr list" where
  "pluginErrors rs = concat (map (\<lambda>r. case r of Inl e \<Rightarrow> [e] | Inr _ \<Rightarrow> []) rs)"

definition pluginRequeues :: "(goerr + pluginResult) list \<Rightarrow> Result list" where
  "pluginRequeues rs = concat (map (\<lambda>r. case r of Inl _ \<Rightarrow> [] | Inr (_, c) \<Rightarrow> if requeues c then [c] else []) rs)"

definition pluginResources :: "(goerr + pluginResult) list \<Rightarrow> resource list" where
  "pluginResources rs = concat (map (\<lambda>r. case r of Inl _ \<Rightarrow> [] | Inr (res, _) \<Rightarrow> res) rs)"

definition collectPlugins :: "'w flenv \<Rightarrow> Fleet \<Rightarrow> (goerr + pluginResult) list \<Rightarrow> ('w, Result) flproc" where
  "collectPlugins E fleet results =
     (if length (pluginErrors results) > 0
      then failP (EOpaque ''encountered multiple errors: '' (EAggregate (pluginErrors results)))
      else case pluginRequeues results of
        ctrlResult # _ \<Rightarrow> retP ctrlResult
      | [] \<Rightarrow> reconcilePluginResources E fleet (pluginResources results))"

definition reconcilePlugins :: "'w flenv \<Rightarrow> fleetClusters \<Rightarrow> ('w, Result) flproc" where
  "reconcilePlugins E clusters = bindP (getP s_fleet) (\<lambda>fleet. case FleetPlugin (fl_spec fleet) of
     None \<Rightarrow> reconcilePluginResources E fleet []
   | Some plugin \<Rightarrow>
       bindP (extP (fe_schedule E)) (\<lambda>order.
       bindP (mapP order (\<lambda>i. tryP ((pluginFuncs E ! i) fleet plugin clusters) retP)) (\<lambda>results.
       collectPlugins E fleet results)))"

section \<open>Reconciling a fleet\<close>

definition objectToFleetFunc :: "ObjectMeta \<Rightarrow> objkey list" where
  "objectToFleetFunc o' = (let name = mapAt (m_labels o') FleetLabel in
     if name \<noteq> [] then [\<lparr>k_namespace = m_namespace o', k_name = name\<rparr>] else [])"

definition reconcileFleet :: "'w flenv \<Rightarrow> ('w, Result) flproc" where
  "reconcileFleet E =
     seqP (onErr (reconcileControlPlane E) (\<lambda>e.
       seqP (setFleetStatus (\<lambda>st. st\<lparr>FleetPhaseOf := FleetFailed, FleetReason := fe_errText E e\<rparr>)) (failP e)))
     (bindP (getP (\<lambda>s. FleetPhaseOf (fl_status (s_fleet s)))) (\<lambda>phase.
      if phase \<noteq> FleetReady then retP noRequeue
      else bindP (reconcileClusters E) (\<lambda>res.
        if RequeueAfter res > 0 then retP res
        else bindP (bindP (getP s_fleet) (\<lambda>fleet. onErr (BuildFleetClusters E fleet)
            (\<lambda>e. failP (EWrap ''failed to build cluster clients'' e)))) (\<lambda>fleetClusters.
          bindP (reconcilePlugins E fleetClusters) (\<lambda>res.
          if RequeueAfter res > 0 then retP res else retP noRequeue)))))"

definition setFleetFinalizers :: "(string list \<Rightarrow> string list) \<Rightarrow> ('w, unit) flproc" where
  "setFleetFinalizers f = modifyP (\<lambda>s. s\<lparr>s_fleet := s_fleet s\<lparr>fl_meta :=
     fl_meta (s_fleet s)\<lparr>m_finalizers := f (m_finalizers (fl_meta (s_fleet s)))\<rparr>\<rparr>\<rparr>)"

definition reconcileFleetDelete :: "'w flenv \<Rightarrow> ('w, Result) flproc" where
  "reconcileFleetDelete E =
     seqP (reconcileClustersOnDelete E)
     (seqP (deleteControlPlane E)
     (bindP (getP (\<lambda>s. FleetPhaseOf (fl_status (s_fleet s)))) (\<lambda>phase.
      seqP (ifP (phase = FleetTerminateSucceeded) (setFleetFinalizers (\<lambda>fs. removeFinalizer (fe_lib E) fs FleetFinalizer)))
        (retP noRequeue))))"

definition reconcileFleetBody :: "'w flenv \<Rightarrow> ('w, Result) flproc" where
  "reconcileFleetBody E =
     bindP (getP s_fleet) (\<lambda>fleet.
     seqP (ifP (\<not> fe_containsFinalizer E (m_finalizers (fl_meta fleet)) FleetFinalizer)
       (seqP (setFleetPhase FleetRunning) (setFleetFinalizers (\<lambda>fs. addFinalizer (fe_lib E) fs FleetFinalizer))))
     (if m_deletionTimestamp (fl_meta fleet) \<noteq> None
      then seqP (setFleetPhase FleetTerminating) (reconcileFleetDelete E)
      else reconcileFleet E))"

definition ReconcileFleet :: "'w flenv \<Rightarrow> objkey \<Rightarrow> ('w, Result) flproc" where
  "ReconcileFleet E req =
     tryP (getK ''Fleet'' (fe_fleet E) req) (\<lambda>r. case r of
       Inl e \<Rightarrow> if isNotFound e then retP noRequeue else failP (EWrap ''failed to get fleet'' e)
     | Inr fleet \<Rightarrow>
         seqP (modifyP (\<lambda>s. s\<lparr>s_fleet := fleet\<rparr>))
         (seqP (onErr (callP (RExternal ''NewHelper'' []) (api_newHelper (fe_fleet E) fleet))
           (\<lambda>e. failP (EWrap ''failed to init patch helper for fleet'' e)))
         (deferErr (reconcileFleetBody E)
           (bindP (getP s_fleet) (\<lambda>after.
            onErr (patchK ''Fleet'' fl_meta (fe_fleet E) fleet after) (\<lambda>e. failP (EWrap ''failed to patch fleet'' e)))))))"

end
