(* ===== verification/FleetMembership.thy ===== *)
theory FleetMembership
  imports FleetPlugins
begin

text \<open>
  Which clusters belong to a fleet (\<open>clusters.go\<close>). The clusters and attached clusters the API server
  stores are one map from kind and key to object; \<open>relabel\<close> is the map a fleet asks for, and
  \<open>reconcileClusters\<close> is shown to compute it: first the loop that labels the clusters the fleet
  names, then the calls to the control plane, which leave the objects alone, then the loop that takes
  the label off the others.
\<close>

section \<open>What the server stores\<close>

text \<open>
  Clusters and attached clusters as one store, by kind and key. The kind of a reference that is
  empty means Cluster.
\<close>

type_synonym memberKey = "string \<times> objkey"

primrec kindOf :: "fleetCluster \<Rightarrow> string" where
  "kindOf (FCluster c) = ClusterKind"
| "kindOf (FAttached a) = AttachedClusterKind"

definition keyM :: "fleetCluster \<Rightarrow> memberKey" where
  "keyM c = (kindOf c, keyOf (metaOf c))"

definition memberView :: "('w \<Rightarrow> objkey \<rightharpoonup> Cluster) \<Rightarrow> ('w \<Rightarrow> objkey \<rightharpoonup> AttachedCluster) \<Rightarrow> 'w \<Rightarrow> memberKey \<rightharpoonup> fleetCluster" where
  "memberView cls ats w = (\<lambda>(kind, k). if kind = ClusterKind then map_option FCluster (cls w k)
     else if kind = AttachedClusterKind then map_option FAttached (ats w k) else None)"

definition canonicalKind :: "string \<Rightarrow> string" where
  "canonicalKind kind = (if kind = [] then ClusterKind else kind)"

definition refKey :: "Fleet \<Rightarrow> ObjectReference \<Rightarrow> memberKey" where
  "refKey fleet ref = (canonicalKind (r_kind ref), fleetKey fleet (r_name ref))"

definition labelOf :: "fleetCluster \<Rightarrow> string" where
  "labelOf c = mapAt (m_labels (metaOf c)) FleetLabel"

text \<open>
  The server keeps objects under their keys, answers lists with the objects of the namespace that
  have the label, and the calls that are not about clusters leave the clusters alone. The kind in a
  fetched object is its own.
\<close>

definition fleetServer :: "'w flenv \<Rightarrow> ('w \<Rightarrow> objkey \<rightharpoonup> Cluster) \<Rightarrow> ('w \<Rightarrow> objkey \<rightharpoonup> AttachedCluster) \<Rightarrow> bool" where
  "fleetServer E cls ats \<longleftrightarrow>
     serves ku_meta (fe_cluster E) cls (\<lambda>w w'. ats w' = ats w) \<and>
     serves at_meta (fe_attached E) ats (\<lambda>w w'. cls w' = cls w) \<and>
     (\<forall>ns name w. ns \<noteq> [] \<and> name \<noteq> [] \<longrightarrow> (\<exists>cs. api_list (fe_cluster E) ns [(FleetLabel, name)] w = (Inr cs, w) \<and>
        set cs = {c. \<exists>k. cls w k = Some c \<and> k_namespace k = ns \<and> labelOf (FCluster c) = name})) \<and>
     (\<forall>ns name w. ns \<noteq> [] \<and> name \<noteq> [] \<longrightarrow> (\<exists>as. api_list (fe_attached E) ns [(FleetLabel, name)] w = (Inr as, w) \<and>
        set as = {a. \<exists>k. ats w k = Some a \<and> k_namespace k = ns \<and> labelOf (FAttached a) = name})) \<and>
     (\<forall>k w. memberView cls ats (snd (api_get (fe_secret E) k w)) = memberView cls ats w) \<and>
     (\<forall>c w. memberView cls ats (snd (fe_obtainClusterID E c w)) = memberView cls ats w) \<and>
     (\<forall>c i w. memberView cls ats (snd (fe_isClusterIdentifyUnique E c i w)) = memberView cls ats w) \<and>
     (\<forall>p c n w. memberView cls ats (snd (fe_runJoin E p c n w)) = memberView cls ats w) \<and>
     (\<forall>p c n w. memberView cls ats (snd (fe_runUnjoin E p c n w)) = memberView cls ats w) \<and>
     (\<forall>c. fe_kind E c = kindOf c)"

definition namedFleet :: "Fleet \<Rightarrow> bool" where
  "namedFleet fleet \<longleftrightarrow> m_name (fl_meta fleet) \<noteq> [] \<and> m_namespace (fl_meta fleet) \<noteq> []"

definition wfStore :: "(memberKey \<rightharpoonup> fleetCluster) \<Rightarrow> bool" where
  "wfStore V \<longleftrightarrow> (\<forall>k c. V k = Some c \<longrightarrow> keyM c = k)"

section \<open>The abstract fleet\<close>

definition setLabel :: "string \<Rightarrow> fleetCluster \<Rightarrow> fleetCluster" where
  "setLabel name c = (if labelOf c = name then c
     else withLabels (Some ((case m_labels (metaOf c) of None \<Rightarrow> Map.empty | Some ls \<Rightarrow> ls)(FleetLabel \<mapsto> name))) c)"

definition dropLabel :: "fleetCluster \<Rightarrow> fleetCluster" where
  "dropLabel c = withLabels (map_option (\<lambda>ls. ls(FleetLabel := None)) (m_labels (metaOf c))) c"

text \<open>
  The membership a fleet asks for: the clusters of its specification carry its label, no other
  cluster of its namespace does, and nothing else changes.
\<close>

definition relabel :: "Fleet \<Rightarrow> (memberKey \<rightharpoonup> fleetCluster) \<Rightarrow> (memberKey \<rightharpoonup> fleetCluster)" where
  "relabel fleet V = (\<lambda>k. map_option (\<lambda>c.
     if k \<in> refKey fleet ` set (Clusters (fl_spec fleet)) then setLabel (m_name (fl_meta fleet)) c
     else if k_namespace (snd k) = m_namespace (fl_meta fleet) \<and> labelOf c = m_name (fl_meta fleet) then dropLabel c
     else c) (V k))"

lemma kindOf_neq: "ClusterKind \<noteq> AttachedClusterKind" "ClusterKind \<noteq> []" "AttachedClusterKind \<noteq> []"
  by (simp_all add: ClusterKind_def AttachedClusterKind_def)

lemma withLabels_simps [simp]:
  "kindOf (withLabels ls c) = kindOf c" "keyM (withLabels ls c) = keyM c" "IsReady (withLabels ls c) = IsReady c"
  "m_labels (metaOf (withLabels ls c)) = ls"
  "withLabels ls (withLabels ls' c) = withLabels ls c" "withLabels (m_labels (metaOf c)) c = c"
  "metaOf (withLabels ls c) = (metaOf c)\<lparr>m_labels := ls\<rparr>"
  by (cases c; simp add: keyM_def keyOf_def)+

lemma labels_simps [simp]:
  "keyM (setLabel name c) = keyM c" "IsReady (setLabel name c) = IsReady c" "labelOf (setLabel name c) = name"
  "setLabel name (setLabel name c) = setLabel name c" "keyM (dropLabel c) = keyM c"
  by (simp_all add: setLabel_def dropLabel_def labelOf_def mapAt_def)

lemma labelOf_drop: "labelOf (dropLabel c) = []"
  by (simp add: dropLabel_def labelOf_def mapAt_def split: option.splits)

section \<open>The calls on the store\<close>

lemma fleetServerD:
  assumes "fleetServer E cls ats"
  shows "serves ku_meta (fe_cluster E) cls (\<lambda>w w'. ats w' = ats w)" "serves at_meta (fe_attached E) ats (\<lambda>w w'. cls w' = cls w)"
    "fe_kind E c = kindOf c"
  using assms unfolding fleetServer_def by (elim conjE, simp)+

lemma wp_getFleetCluster:
  assumes S: "fleetServer E cls ats"
    and "\<And>e. \<not> isNotFound e \<Longrightarrow> canonicalKind kind \<notin> {ClusterKind, AttachedClusterKind} \<Longrightarrow> Q (Err e) s"
    and "\<And>t e. \<lbrakk>world t = world s; s_fleet t = s_fleet s; memberView cls ats (world s) (canonicalKind kind, k) = None; isNotFound e\<rbrakk> \<Longrightarrow> Q (Err e) t"
    and "\<And>t c. \<lbrakk>world t = world s; s_fleet t = s_fleet s; memberView cls ats (world s) (canonicalKind kind, k) = Some c\<rbrakk> \<Longrightarrow> Q (Ok c) t"
  shows "wp (getFleetClusterInterface E kind k) Q s"
proof -
  have g: "api_get (fe_cluster E) k w = (case cls w k of None \<Rightarrow> Inl NotFound | Some x \<Rightarrow> Inr x, w)"
    "api_get (fe_attached E) k w = (case ats w k of None \<Rightarrow> Inl NotFound | Some x \<Rightarrow> Inr x, w)" for w
    using servesD(1) [OF fleetServerD(1) [OF S]] servesD(1) [OF fleetServerD(2) [OF S]] by auto
  show ?thesis
    using assms(2-4) kindOf_neq
    by (auto simp: getFleetClusterInterface_def apiK_defs wp_steps wp_callP g canonicalKind_def memberView_def
        split: option.splits)
qed

lemma wp_updateFleetCluster:
  assumes S: "fleetServer E cls ats" and ex: "memberView cls ats (world s) (keyM c) \<noteq> None"
    and post: "\<And>t. \<lbrakk>memberView cls ats (world t) = (memberView cls ats (world s))(keyM c \<mapsto> c); s_fleet t = s_fleet s\<rbrakk> \<Longrightarrow> Q (Ok c) t"
  shows "wp (updateFleetCluster E c) Q s"
proof (cases c)
  case (FCluster x)
  then have "cls (world s) (keyOf (ku_meta x)) \<noteq> None"
    using ex by (simp add: memberView_def keyM_def)
  then obtain w' where w': "api_update (fe_cluster E) x (world s) = (Inr x, w')"
    "cls w' = (cls (world s))(keyOf (ku_meta x) \<mapsto> x)" "ats w' = ats (world s)"
    using servesD(3) [OF fleetServerD(1) [OF S]] by blast
  then have "memberView cls ats w' = (memberView cls ats (world s))(keyM c \<mapsto> c)"
    using FCluster kindOf_neq by (auto simp: memberView_def keyM_def fun_eq_iff)
  then show ?thesis
    using FCluster w' post by (simp add: apiK_defs wp_steps wp_callP)
next
  case (FAttached x)
  then have "ats (world s) (keyOf (at_meta x)) \<noteq> None"
    using ex kindOf_neq by (simp add: memberView_def keyM_def)
  then obtain w' where w': "api_update (fe_attached E) x (world s) = (Inr x, w')"
    "ats w' = (ats (world s))(keyOf (at_meta x) \<mapsto> x)" "cls w' = cls (world s)"
    using servesD(3) [OF fleetServerD(2) [OF S]] by blast
  then have "memberView cls ats w' = (memberView cls ats (world s))(keyM c \<mapsto> c)"
    using FAttached kindOf_neq by (auto simp: memberView_def keyM_def fun_eq_iff)
  then show ?thesis
    using FAttached w' post by (simp add: apiK_defs wp_steps wp_callP)
qed

lemma wp_labelCluster:
  assumes S: "fleetServer E cls ats" and c: "memberView cls ats (world s) (keyM c) = Some c" and name: "name \<noteq> []"
    and post: "\<And>t. \<lbrakk>memberView cls ats (world t) = (memberView cls ats (world s))(keyM c \<mapsto> setLabel name c); s_fleet t = s_fleet s\<rbrakk> \<Longrightarrow>
      Q (Ok (setLabel name c)) t"
  shows "wp (labelCluster E name c) Q s"
proof (cases "labelOf c = name")
  case True
  then have l: "m_labels (metaOf c) \<noteq> None"
    using name by (auto simp: labelOf_def mapAt_def split: option.splits)
  then have "withLabels (Some (case m_labels (metaOf c) of None \<Rightarrow> Map.empty | Some ls \<Rightarrow> ls)) c = c"
    by (metis (no_types, lifting) option.case(2) option.exhaust withLabels_simps(6))
  moreover have "(memberView cls ats (world s))(keyM c \<mapsto> c) = memberView cls ats (world s)"
    using c by (simp add: fun_upd_idem)
  ultimately show ?thesis
    using True l post [of s] c
    by (auto simp: labelCluster_def Let_def wp_steps labelOf_def setLabel_def)
next
  case False
  then have "mapAt (Some (case m_labels (metaOf c) of None \<Rightarrow> Map.empty | Some ls \<Rightarrow> ls)) FleetLabel \<noteq> name"
    using name by (auto simp: labelOf_def mapAt_def split: option.splits)
  then show ?thesis
    using False c post
    by (auto simp: labelCluster_def Let_def setLabel_def intro!: wp_updateFleetCluster [OF S])
qed

section \<open>Labelling the clusters of the specification\<close>

definition labelOn :: "string \<Rightarrow> memberKey set \<Rightarrow> (memberKey \<rightharpoonup> fleetCluster) \<Rightarrow> (memberKey \<rightharpoonup> fleetCluster)" where
  "labelOn name K V = (\<lambda>k. if k \<in> K then map_option (setLabel name) (V k) else V k)"

definition readyRef :: "Fleet \<Rightarrow> (memberKey \<rightharpoonup> fleetCluster) \<Rightarrow> ObjectReference \<Rightarrow> bool" where
  "readyRef fleet V ref = (case V (refKey fleet ref) of None \<Rightarrow> False | Some c \<Rightarrow> IsReady c)"

definition genKey :: "memberKey \<Rightarrow> string" where
  "genKey k = take 63 (k_name (snd k) @ ''-'' @ ToLower (fst k))"

lemma generate_genKey: "fleetServer E cls ats \<Longrightarrow> generateClusterNameInKarmada E c = genKey (keyM c)"
  by (simp add: generateClusterNameInKarmada_def genKey_def Let_def fleetServerD(3) keyM_def keyOf_def)

lemma labelOn_simps:
  "labelOn name {} V = V" "labelOn name K (labelOn name L V) = labelOn name (K \<union> L) V"
  "(labelOn name K V k = None) = (V k = None)" "readyRef fleet (labelOn name K V) = readyRef fleet V"
  "wfStore V \<Longrightarrow> wfStore (labelOn name K V)"
  by (auto simp: labelOn_def readyRef_def wfStore_def fun_eq_iff option.map_comp comp_def split: option.splits)

lemma labelOn_one: "V k = Some c \<Longrightarrow> V(k \<mapsto> setLabel name c) = labelOn name {k} V"
  by (simp add: labelOn_def fun_eq_iff)

lemma labelOn_absent: "V k = None \<Longrightarrow> labelOn name {k} V = V"
  by (simp add: labelOn_def fun_eq_iff)

definition labelledRun ::
  "Fleet \<Rightarrow> ObjectReference list \<Rightarrow> (memberKey \<rightharpoonup> fleetCluster) \<Rightarrow> (memberKey \<rightharpoonup> fleetCluster) \<Rightarrow>
   (fleetCluster list \<times> nat \<times> string list) outcome \<Rightarrow> bool" where
  "labelledRun fleet refs V V' r = (case r of
     Ok (ready, unready, names) \<Rightarrow>
       V' = labelOn (m_name (fl_meta fleet)) (refKey fleet ` set refs) V \<and>
       length ready = length (filter (readyRef fleet V) refs) \<and> length ready + unready = length refs \<and>
       set names = genKey ` {k \<in> refKey fleet ` set refs. V k \<noteq> None}
   | Err _ \<Rightarrow> \<exists>ref \<in> set refs. canonicalKind (r_kind ref) \<notin> {ClusterKind, AttachedClusterKind}
   | Panic \<Rightarrow> False)"

lemma labelledRun_skip:
  assumes "labelledRun fleet refs V V' r" and "V (refKey fleet ref) = None"
  shows "labelledRun fleet (ref # refs) V V' (bindO r (\<lambda>(ready, unready, names). Ok (ready, Suc unready, names)))"
proof -
  have "labelOn name (insert (refKey fleet ref) K) V = labelOn name K V" for name K
    using assms(2) by (simp add: labelOn_def fun_eq_iff)
  moreover have "{k \<in> insert (refKey fleet ref) K. V k \<noteq> None} = {k \<in> K. V k \<noteq> None}" for K
    using assms(2) by auto
  ultimately show ?thesis
    using assms by (auto simp: labelledRun_def readyRef_def split: outcome.splits)
qed

lemma labelledRun_found:
  assumes "labelledRun fleet refs (labelOn (m_name (fl_meta fleet)) {refKey fleet ref} V) V' r" and V: "V (refKey fleet ref) = Some c"
  shows "labelledRun fleet (ref # refs) V V' (bindO r (\<lambda>(ready, unready, names).
      if IsReady c then Ok (c' # ready, unready, genKey (refKey fleet ref) # names)
      else Ok (ready, Suc unready, genKey (refKey fleet ref) # names)))"
proof -
  have "{k \<in> insert (refKey fleet ref) K. V k \<noteq> None} = insert (refKey fleet ref) {k \<in> K. V k \<noteq> None}" for K
    using V by auto
  then show ?thesis
    using assms by (auto simp: labelledRun_def readyRef_def labelOn_simps split: outcome.splits)
qed

lemma wp_bind_pure: "wp (bindP m (\<lambda>x. liftO (f x))) Q s = wp m (\<lambda>r t. Q (bindO r f) t) s"
  by (simp add: wp_def bindP_def liftO_def split: prod.splits outcome.splits)

lemma labelClusters_run:
  assumes S: "fleetServer E cls ats" and name: "m_name (fl_meta fleet) \<noteq> []" and "wfStore (memberView cls ats (world s))"
  shows "wp (labelClusters E fleet refs) (\<lambda>r t. s_fleet t = s_fleet s \<and>
    labelledRun fleet refs (memberView cls ats (world s)) (memberView cls ats (world t)) r) s"
  using assms(3)
proof (induction refs arbitrary: s)
  case Nil
  then show ?case
    by (simp add: wp_retP labelledRun_def labelOn_simps)
next
  case (Cons ref refs)
  let ?V = "memberView cls ats (world s)"
  have key: "(canonicalKind (r_kind ref), fleetKey fleet (r_name ref)) = refKey fleet ref"
    by (simp add: refKey_def)
  show ?case
    unfolding labelClusters.simps wp_tryP
  proof (rule wp_getFleetCluster [OF S], goal_cases)
    case (1 e)
    then show ?case
      by (simp add: wp_failP labelledRun_def)
  next
    case (2 t e)
    have "wp (labelClusters E fleet refs) (\<lambda>r u. s_fleet u = s_fleet t \<and>
      labelledRun fleet refs (memberView cls ats (world t)) (memberView cls ats (world u)) r) t"
      using Cons.IH [of t] Cons.prems 2 by simp
    then show ?case
      using 2 labelledRun_skip [of fleet refs ?V _ _ ref] unfolding key
      by (auto simp: wp_bindP wp_retP split: outcome.splits elim!: wp_mono) fastforce+
  next
    case (3 t c)
    then have V: "?V (refKey fleet ref) = Some c" and t: "world t = world s" "s_fleet t = s_fleet s"
      unfolding key by simp_all
    then have k: "keyM c = refKey fleet ref"
      using Cons.prems unfolding wfStore_def by blast
    let ?c = "setLabel (m_name (fl_meta fleet)) c"
    have rest: "wp (bindP (labelClusters E fleet refs) (\<lambda>(ready, unready, names). if IsReady ?c
             then retP (?c # ready, unready, generateClusterNameInKarmada E c # names)
             else retP (ready, Suc unready, generateClusterNameInKarmada E c # names)))
             (\<lambda>r t. s_fleet t = s_fleet s \<and> labelledRun fleet (ref # refs) ?V (memberView cls ats (world t)) r) u"
      if fl: "s_fleet u = s_fleet t" and "memberView cls ats (world u) = (memberView cls ats (world t))(keyM c \<mapsto> ?c)" for u
    proof -
      have u: "memberView cls ats (world u) = labelOn (m_name (fl_meta fleet)) {refKey fleet ref} ?V"
        using V t k labelOn_one [of ?V, OF V] that by simp
      then have "wp (labelClusters E fleet refs) (\<lambda>r x. s_fleet x = s_fleet u \<and>
          labelledRun fleet refs (labelOn (m_name (fl_meta fleet)) {refKey fleet ref} ?V) (memberView cls ats (world x)) r) u"
        using Cons.IH [of u] Cons.prems by (simp add: labelOn_simps)
      then show ?thesis
        using labelledRun_found [where V = ?V and c = c and fleet = fleet and ref = ref and refs = refs and c' = ?c, OF _ V] fl t(2)
        unfolding generate_genKey [OF S] k
        by (auto simp: wp_bindP wp_retP split: outcome.splits elim!: wp_mono) fastforce+
    qed
    show ?case
      unfolding outcome.case sum.case
      by (rule wp_bindP [THEN iffD2], rule wp_labelCluster [OF S _ name], simp add: V t k, unfold outcome.case, rule rest) simp_all
  qed
qed

section \<open>Joining and leaving the control plane\<close>

definition keepsMembers :: "('w \<Rightarrow> objkey \<rightharpoonup> Cluster) \<Rightarrow> ('w \<Rightarrow> objkey \<rightharpoonup> AttachedCluster) \<Rightarrow> 'w flstate \<Rightarrow> 'w flstate \<Rightarrow> bool" where
  "keepsMembers cls ats s t \<longleftrightarrow> memberView cls ats (world t) = memberView cls ats (world s) \<and> s_fleet t = s_fleet s"

interpretation keepsMembers: frame_rule "keepsMembers cls ats" for cls ats
  by unfold_locales (simp_all add: keepsMembers_def)

lemma keepsMembers_calls:
  assumes "fleetServer E cls ats"
  shows "pres (keepsMembers cls ats) (getK ''Secret'' (fe_secret E) k)"
    "pres (keepsMembers cls ats) (extE (fe_obtainClusterID E c))"
    "pres (keepsMembers cls ats) (extE (fe_isClusterIdentifyUnique E c i))"
    "pres (keepsMembers cls ats) (extE (fe_runJoin E p c n))"
    "pres (keepsMembers cls ats) (extE (fe_runUnjoin E p c n))"
proof -
  have "memberView cls ats (snd (api_get (fe_secret E) k w)) = memberView cls ats w"
    "memberView cls ats (snd (fe_obtainClusterID E c w)) = memberView cls ats w"
    "memberView cls ats (snd (fe_isClusterIdentifyUnique E c i w)) = memberView cls ats w"
    "memberView cls ats (snd (fe_runJoin E p c n w)) = memberView cls ats w"
    "memberView cls ats (snd (fe_runUnjoin E p c n w)) = memberView cls ats w" for k c i p n w
    using assms unfolding fleetServer_def by (elim conjE, simp)+
  then show "pres (keepsMembers cls ats) (getK ''Secret'' (fe_secret E) k)"
    "pres (keepsMembers cls ats) (extE (fe_obtainClusterID E c))"
    "pres (keepsMembers cls ats) (extE (fe_isClusterIdentifyUnique E c i))"
    "pres (keepsMembers cls ats) (extE (fe_runJoin E p c n))"
    "pres (keepsMembers cls ats) (extE (fe_runUnjoin E p c n))"
    by (auto simp: pres_def keepsMembers_def apiK_defs wp_callP wp_extE split: prod.splits sum.splits) (metis snd_conv)+
qed

lemma join_keepsMembers:
  assumes "fleetServer E cls ats"
  shows "pres (keepsMembers cls ats) (joinCluster E cp c)"
    "pres (keepsMembers cls ats) (unjoinCluster E cp c)"
    "pres (keepsMembers cls ats) (controlplaneConfig E fleet)"
  unfolding joinCluster_def unjoinCluster_def controlplaneConfig_def memberConfig_def isClusterAlreadyJoined_def
  by (intro pres_rules keepsMembers_calls [OF assms])+

section \<open>Dropping the other clusters\<close>

definition dropOn :: "memberKey set \<Rightarrow> (memberKey \<rightharpoonup> fleetCluster) \<Rightarrow> (memberKey \<rightharpoonup> fleetCluster)" where
  "dropOn D V = (\<lambda>k. if k \<in> D then map_option dropLabel (V k) else V k)"

lemma dropOn_simps:
  "dropOn {} V = V" "V k = Some c \<Longrightarrow> (dropOn D V)(k \<mapsto> dropLabel c) = dropOn (insert k D) V"
  "(dropOn D V k = None) = (V k = None)"
  by (auto simp: dropOn_def fun_eq_iff)

lemma wp_unlabelCluster:
  assumes S: "fleetServer E cls ats" and view: "memberView cls ats (world s) = dropOn D V" and c: "V (keyM c) = Some c" "labelOf c = name"
    and post: "\<And>t. \<lbrakk>memberView cls ats (world t) = dropOn (insert (keyM c) D) V; s_fleet t = s_fleet s\<rbrakk> \<Longrightarrow> Q (Ok ()) t"
  shows "wp (unlabelCluster E name c) Q s"
proof -
  have "memberView cls ats (world s) (keyM (dropLabel c)) \<noteq> None"
    using view c by (simp add: dropOn_simps)
  moreover have "(dropOn D V)(keyM (dropLabel c) \<mapsto> dropLabel c) = dropOn (insert (keyM c) D) V"
    using c by (simp add: dropOn_simps)
  ultimately have "wp (updateFleetCluster E (dropLabel c)) (\<lambda>r t. r = Ok (dropLabel c) \<and>
      memberView cls ats (world t) = dropOn (insert (keyM c) D) V \<and> s_fleet t = s_fleet s) s"
    using view by (auto intro!: wp_updateFleetCluster [OF S])
  then show ?thesis
    using c(2) post
    by (auto simp: unlabelCluster_def wp_ifP wp_bindP wp_retP dropLabel_def labelOf_def elim!: wp_mono)
qed

lemma dropClusters_run:
  assumes S: "fleetServer E cls ats" and "\<forall>c \<in> set cs. V (keyM c) = Some c \<and> labelOf c = m_name (fl_meta fleet)"
    and "memberView cls ats (world s) = dropOn D V"
  shows "wp (forEach cs (dropCluster E fleet cp names)) (\<lambda>r t. s_fleet t = s_fleet s \<and>
    (r = Ok () \<longrightarrow> memberView cls ats (world t) = dropOn (D \<union> keyM ` {c \<in> set cs. genKey (keyM c) \<notin> set names}) V) \<and>
    (cp = None \<longrightarrow> r = Ok ())) s"
  using assms(2,3)
proof (induction cs arbitrary: s D)
  case Nil
  then show ?case
    by (simp add: wp_retP)
next
  case (Cons c cs)
  define D' where "D' = (if genKey (keyM c) \<notin> set names then insert (keyM c) D else D)"
  have step: "wp (dropCluster E fleet cp names c) (\<lambda>r t. s_fleet t = s_fleet s \<and>
      (r = Ok () \<longrightarrow> memberView cls ats (world t) = dropOn D' V) \<and> (cp = None \<longrightarrow> r = Ok ())) s"
  proof (cases "genKey (keyM c) \<in> set names")
    case True
    then show ?thesis
      using Cons.prems by (simp add: dropCluster_def wp_ifP generate_genKey [OF S] D'_def)
  next
    case False
    have "wp (case cp of None \<Rightarrow> retP () | Some config \<Rightarrow> unjoinCluster E config c)
       (\<lambda>r t. keepsMembers cls ats s t \<and> (cp = None \<longrightarrow> r = Ok ())) s"
      using join_keepsMembers(2) [OF S] by (cases cp) (auto simp: wp_retP keepsMembers.R_refl intro: wpI dest: presD)
    then show ?thesis
      using False Cons.prems
      by (auto simp: dropCluster_def wp_ifP wp_seqP generate_genKey [OF S] keepsMembers_def D'_def
          intro!: wp_unlabelCluster [OF S, where D = D and V = V] split: outcome.splits elim!: wp_mono)
  qed
  have D: "D \<union> keyM ` {x \<in> set (c # cs). genKey (keyM x) \<notin> set names} = D' \<union> keyM ` {x \<in> set cs. genKey (keyM x) \<notin> set names}"
    by (auto simp: D'_def)
  have rest: "wp (forEach cs (dropCluster E fleet cp names)) (\<lambda>r u. s_fleet u = s_fleet s \<and>
    (r = Ok () \<longrightarrow> memberView cls ats (world u) = dropOn (D' \<union> keyM ` {c \<in> set cs. genKey (keyM c) \<notin> set names}) V) \<and>
    (cp = None \<longrightarrow> r = Ok ())) t"
    if "s_fleet t = s_fleet s" "memberView cls ats (world t) = dropOn D' V" for t
    using Cons.IH [of t D'] Cons.prems(1) that by simp
  show ?case
    unfolding forEach.simps wp_seqP D
    by (rule wp_mono [OF step], elim conjE, case_tac r) (simp_all add: rest)
qed

definition freshNames :: "Fleet \<Rightarrow> (memberKey \<rightharpoonup> fleetCluster) \<Rightarrow> bool" where
  "freshNames fleet V \<longleftrightarrow> inj_on genKey {k. V k \<noteq> None \<and> k_namespace (snd k) = m_namespace (fl_meta fleet)}"

lemma refKey_namespace: "k \<in> refKey fleet ` refs \<Longrightarrow> k_namespace (snd k) = m_namespace (fl_meta fleet)"
  by (auto simp: refKey_def fleetKey_def)

lemma labelled_keys:
  assumes wf1: "wfStore V1"
    and L: "L = {c. \<exists>k. V1 k = Some c \<and> k_namespace (snd k) = m_namespace (fl_meta fleet) \<and> labelOf c = m_name (fl_meta fleet)}"
  shows "k \<in> keyM ` {c \<in> L. genKey (keyM c) \<notin> N} \<longleftrightarrow>
    (\<exists>c. V1 k = Some c \<and> k_namespace (snd k) = m_namespace (fl_meta fleet) \<and> labelOf c = m_name (fl_meta fleet) \<and> genKey k \<notin> N)"
proof
  assume "k \<in> keyM ` {c \<in> L. genKey (keyM c) \<notin> N}"
  then obtain c k' where c: "k = keyM c" "V1 k' = Some c" "k_namespace (snd k') = m_namespace (fl_meta fleet)"
    "labelOf c = m_name (fl_meta fleet)" "genKey (keyM c) \<notin> N"
    unfolding L by blast
  moreover have "keyM c = k'"
    using wf1 c(2) unfolding wfStore_def by blast
  ultimately show "\<exists>c. V1 k = Some c \<and> k_namespace (snd k) = m_namespace (fl_meta fleet) \<and> labelOf c = m_name (fl_meta fleet) \<and> genKey k \<notin> N"
    by simp
next
  assume "\<exists>c. V1 k = Some c \<and> k_namespace (snd k) = m_namespace (fl_meta fleet) \<and> labelOf c = m_name (fl_meta fleet) \<and> genKey k \<notin> N"
  then obtain c where "V1 k = Some c" "k_namespace (snd k) = m_namespace (fl_meta fleet)" "labelOf c = m_name (fl_meta fleet)" "genKey k \<notin> N"
    by blast
  moreover from this have "keyM c = k"
    using wf1 unfolding wfStore_def by blast
  ultimately show "k \<in> keyM ` {c \<in> L. genKey (keyM c) \<notin> N}"
    unfolding L by blast
qed

lemma relabel_phases:
  assumes wf: "wfStore V" and fresh: "freshNames fleet V"
    and K: "K = refKey fleet ` set (Clusters (fl_spec fleet))" and V1: "V1 = labelOn (m_name (fl_meta fleet)) K V"
    and L: "L = {c. \<exists>k. V1 k = Some c \<and> k_namespace (snd k) = m_namespace (fl_meta fleet) \<and> labelOf c = m_name (fl_meta fleet)}"
    and N: "N = genKey ` {k \<in> K. V k \<noteq> None}"
  shows "dropOn (keyM ` {c \<in> L. genKey (keyM c) \<notin> N}) V1 = relabel fleet V"
proof
  fix k
  have wf1: "wfStore V1"
    using wf V1 by (simp add: labelOn_simps)
  note key = labelled_keys [OF wf1 L, of k N]
  show "dropOn (keyM ` {c \<in> L. genKey (keyM c) \<notin> N}) V1 k = relabel fleet V k"
  proof (cases "V k")
    case None
    then show ?thesis
      by (simp add: dropOn_def V1 labelOn_def relabel_def)
  next
    case (Some c)
    show ?thesis
    proof (cases "k \<in> K")
      case True
      then have "genKey k \<in> N"
        using Some N by blast
      then show ?thesis
        using True Some K by (simp add: dropOn_def key) (simp add: V1 labelOn_def relabel_def)
    next
      case False
      have "genKey k \<notin> N" if ns: "k_namespace (snd k) = m_namespace (fl_meta fleet)"
      proof
        assume "genKey k \<in> N"
        then obtain k' where k': "k' \<in> K" "V k' \<noteq> None" "genKey k = genKey k'"
          unfolding N by blast
        then have "k = k'"
          using fresh Some ns refKey_namespace [of k' fleet] unfolding K freshNames_def by (auto dest!: inj_onD)
        then show False
          using False k'(1) by simp
      qed
      then show ?thesis
        using False Some K by (auto simp: dropOn_def key) (auto simp: V1 labelOn_def relabel_def)
    qed
  qed
qed

section \<open>The whole reconciliation of the clusters\<close>

lemma wp_setFleetStatus: "wp (setFleetStatus f) Q s = Q (Ok ()) (s\<lparr>s_fleet := s_fleet s\<lparr>fl_status := f (fl_status (s_fleet s))\<rparr>\<rparr>)"
  by (simp add: setFleetStatus_def wp_modifyP)

text \<open>The parts after the labels: joining, and dropping the other clusters.\<close>

definition joinReady :: "'w flenv \<Rightarrow> fleetCluster list \<Rightarrow> string option \<Rightarrow> ('w, unit) flproc" where
  "joinReady E ready cp = (case cp of None \<Rightarrow> retP () | Some config \<Rightarrow> forEach ready (joinCluster E config))"

definition dropOthers :: "'w flenv \<Rightarrow> Fleet \<Rightarrow> string list \<Rightarrow> string option \<Rightarrow> ('w, Result) flproc" where
  "dropOthers E fleet names cp =
     bindP (listK ''Cluster'' (fe_cluster E) (m_namespace (fl_meta fleet)) [(FleetLabel, m_name (fl_meta fleet))]) (\<lambda>clusterList.
     bindP (listK ''AttachedCluster'' (fe_attached E) (m_namespace (fl_meta fleet)) [(FleetLabel, m_name (fl_meta fleet))]) (\<lambda>attachedClusterList.
     seqP (forEach (map FCluster clusterList @ map FAttached attachedClusterList) (dropCluster E fleet cp names)) (retP noRequeue)))"

definition leaveOthers :: "'w flenv \<Rightarrow> Fleet \<Rightarrow> fleetCluster list \<Rightarrow> string list \<Rightarrow> ('w, Result) flproc" where
  "leaveOthers E fleet ready names =
     bindP (controlplaneConfig E fleet) (\<lambda>cp. seqP (joinReady E ready cp) (dropOthers E fleet names cp))"

lemma reconcileClusters_split:
  "reconcileClusters E = bindP (getP s_fleet) (\<lambda>fleet.
     bindP (labelClusters E fleet (Clusters (fl_spec fleet))) (\<lambda>(ready, unready, names).
     seqP (setFleetStatus (\<lambda>st. st\<lparr>ReadyClusters := int32 (int (length ready)), UnReadyClusters := int32 (int unready)\<rparr>))
       (leaveOthers E fleet ready names)))"
  by (simp add: reconcileClusters_def leaveOthers_def joinReady_def dropOthers_def)

definition labelledMembers :: "Fleet \<Rightarrow> (memberKey \<rightharpoonup> fleetCluster) \<Rightarrow> fleetCluster set" where
  "labelledMembers fleet V =
     {c. \<exists>k. V k = Some c \<and> k_namespace (snd k) = m_namespace (fl_meta fleet) \<and> labelOf c = m_name (fl_meta fleet)}"

lemma fleetServer_lists:
  assumes S: "fleetServer E cls ats" and named: "namedFleet fleet"
  obtains cs as where
    "api_list (fe_cluster E) (m_namespace (fl_meta fleet)) [(FleetLabel, m_name (fl_meta fleet))] w = (Inr cs, w)"
    "api_list (fe_attached E) (m_namespace (fl_meta fleet)) [(FleetLabel, m_name (fl_meta fleet))] w = (Inr as, w)"
    "set (map FCluster cs @ map FAttached as) = labelledMembers fleet (memberView cls ats w)"
proof -
  obtain cs where cs: "api_list (fe_cluster E) (m_namespace (fl_meta fleet)) [(FleetLabel, m_name (fl_meta fleet))] w = (Inr cs, w)"
    "set cs = {c. \<exists>k. cls w k = Some c \<and> k_namespace k = m_namespace (fl_meta fleet) \<and> labelOf (FCluster c) = m_name (fl_meta fleet)}"
    using S [unfolded fleetServer_def, THEN conjunct2, THEN conjunct2, THEN conjunct1] named unfolding namedFleet_def by meson
  obtain as where as: "api_list (fe_attached E) (m_namespace (fl_meta fleet)) [(FleetLabel, m_name (fl_meta fleet))] w = (Inr as, w)"
    "set as = {a. \<exists>k. ats w k = Some a \<and> k_namespace k = m_namespace (fl_meta fleet) \<and> labelOf (FAttached a) = m_name (fl_meta fleet)}"
    using S [unfolded fleetServer_def, THEN conjunct2, THEN conjunct2, THEN conjunct2, THEN conjunct1] named unfolding namedFleet_def by meson
  have "labelledMembers fleet (memberView cls ats w) = FCluster ` set cs \<union> FAttached ` set as"
    using kindOf_neq unfolding labelledMembers_def memberView_def cs(2) as(2) by (force split: if_splits)
  then show ?thesis
    using that cs(1) as(1) by simp
qed

definition leftOthers ::
  "Fleet \<Rightarrow> string list \<Rightarrow> (memberKey \<rightharpoonup> fleetCluster) \<Rightarrow> (memberKey \<rightharpoonup> fleetCluster)" where
  "leftOthers fleet names V = dropOn (keyM ` {c \<in> labelledMembers fleet V. genKey (keyM c) \<notin> set names}) V"

lemma dropOthers_run:
  assumes S: "fleetServer E cls ats" and named: "namedFleet fleet" and wf: "wfStore V" and V: "memberView cls ats (world u) = V"
  shows "wp (dropOthers E fleet names cp) (\<lambda>r t. s_fleet t = s_fleet u \<and>
    (r = Ok noRequeue \<longrightarrow> memberView cls ats (world t) = leftOthers fleet names V) \<and> (cp = None \<longrightarrow> r = Ok noRequeue)) u"
proof -
  obtain cs as where lists: "api_list (fe_cluster E) (m_namespace (fl_meta fleet)) [(FleetLabel, m_name (fl_meta fleet))] (world u) = (Inr cs, world u)"
    "api_list (fe_attached E) (m_namespace (fl_meta fleet)) [(FleetLabel, m_name (fl_meta fleet))] (world u) = (Inr as, world u)"
    and set: "set (map FCluster cs @ map FAttached as) = labelledMembers fleet V"
    using fleetServer_lists [OF S named, of "world u"] V by metis
  have "\<forall>c \<in> set (map FCluster cs @ map FAttached as). V (keyM c) = Some c \<and> labelOf c = m_name (fl_meta fleet)"
    using wf unfolding set labelledMembers_def wfStore_def by auto
  then have loop: "wp (forEach (map FCluster cs @ map FAttached as) (dropCluster E fleet cp names)) (\<lambda>r t. s_fleet t = s_fleet v \<and>
      (r = Ok () \<longrightarrow> memberView cls ats (world t) = leftOthers fleet names V) \<and> (cp = None \<longrightarrow> r = Ok ())) v" if "world v = world u" for v
    using dropClusters_run [OF S, of "map FCluster cs @ map FAttached as" V fleet v "{}" cp names] V that
    unfolding set leftOthers_def by (simp add: dropOn_simps)
  show ?thesis
    unfolding dropOthers_def apiK_defs wp_bindP wp_seqP wp_callP
    by (simp add: lists wp_retP) (rule wp_mono [OF loop], simp, elim conjE, case_tac r, simp_all add: wp_retP)
qed

lemma joinReady_run:
  assumes "fleetServer E cls ats"
  shows "wp (joinReady E ready cp) (\<lambda>r u. keepsMembers cls ats t u \<and> (cp = None \<longrightarrow> r = Ok ())) t"
proof (cases cp)
  case (Some config)
  have "pres (keepsMembers cls ats) (forEach ready (joinCluster E config))"
    by (intro pres_rules join_keepsMembers [OF assms])
  then show ?thesis
    using Some by (auto simp: joinReady_def intro!: wpI dest!: presD)
qed (simp add: joinReady_def wp_retP keepsMembers.R_refl)

lemma leaveOthers_run:
  assumes S: "fleetServer E cls ats" and named: "namedFleet fleet" and wf: "wfStore V" and V: "memberView cls ats (world s) = V"
  shows "wp (leaveOthers E fleet ready names) (\<lambda>r t. s_fleet t = s_fleet s \<and>
    (r = Ok noRequeue \<longrightarrow> memberView cls ats (world t) = leftOthers fleet names V) \<and>
    (controlplaneOf fleet = [] \<longrightarrow> r = Ok noRequeue)) s"
proof -
  have config: "wp (controlplaneConfig E fleet) (\<lambda>r t. keepsMembers cls ats s t \<and> (controlplaneOf fleet = [] \<longrightarrow> r = Ok None)) s"
  proof (cases "controlplaneOf fleet = []")
    case False
    then show ?thesis
      using presD [OF join_keepsMembers(3) [OF S]] by (auto intro!: wpI)
  qed (simp add: controlplaneConfig_def wp_retP keepsMembers.R_refl)
  have rest: "wp (seqP (joinReady E ready cp) (dropOthers E fleet names cp)) (\<lambda>r u. s_fleet u = s_fleet s \<and>
      (r = Ok noRequeue \<longrightarrow> memberView cls ats (world u) = leftOthers fleet names V) \<and> (cp = None \<longrightarrow> r = Ok noRequeue)) t"
    if "keepsMembers cls ats s t" for cp t
    unfolding wp_seqP using that V
    by (intro wp_mono [OF joinReady_run [OF S]])
      (auto simp: keepsMembers_def split: outcome.splits intro: wp_mono [OF dropOthers_run [OF S named wf]])
  show ?thesis
    unfolding leaveOthers_def wp_bindP
    by (rule wp_mono [OF config], elim conjE, case_tac r) (auto simp: keepsMembers_def intro: wp_mono [OF rest])
qed

lemma leftOthers_relabel:
  assumes "wfStore V" and "freshNames fleet V"
    and "set names = genKey ` {k \<in> refKey fleet ` set (Clusters (fl_spec fleet)). V k \<noteq> None}"
  shows "leftOthers fleet names (labelOn (m_name (fl_meta fleet)) (refKey fleet ` set (Clusters (fl_spec fleet))) V) = relabel fleet V"
  unfolding leftOthers_def using relabel_phases [OF assms(1,2) refl refl refl] assms(3) by (simp add: labelledMembers_def)

definition supported :: "Fleet \<Rightarrow> bool" where
  "supported fleet \<longleftrightarrow> list_all (\<lambda>ref. canonicalKind (r_kind ref) \<in> {ClusterKind, AttachedClusterKind}) (Clusters (fl_spec fleet))"

lemma reconcileClusters_run:
  assumes S: "fleetServer E cls ats" and fleet: "fleet = s_fleet s" and named: "namedFleet fleet"
    and wf: "wfStore V" and fresh: "freshNames fleet V" and V: "memberView cls ats (world s) = V"
  shows "wp (reconcileClusters E) (\<lambda>r t.
    (r = Ok noRequeue \<longrightarrow> memberView cls ats (world t) = relabel fleet V \<and>
      ReadyClusters (fl_status (s_fleet t)) = int32 (int (length (filter (readyRef fleet V) (Clusters (fl_spec fleet))))) \<and>
      UnReadyClusters (fl_status (s_fleet t)) = int32 (int (length (filter (\<lambda>ref. \<not> readyRef fleet V ref) (Clusters (fl_spec fleet)))))) \<and>
    (controlplaneOf fleet = [] \<and> supported fleet \<longrightarrow> r = Ok noRequeue)) s"
proof -
  let ?refs = "Clusters (fl_spec fleet)" and ?V1 = "labelOn (m_name (fl_meta fleet)) (refKey fleet ` set (Clusters (fl_spec fleet))) V"
  have name: "m_name (fl_meta fleet) \<noteq> []"
    using named by (simp add: namedFleet_def)
  note label = labelClusters_run [OF S name, of s ?refs, unfolded V, OF wf]
  have rest: "wp (seqP (setFleetStatus (\<lambda>st. st\<lparr>ReadyClusters := int32 (int (length ready)), UnReadyClusters := int32 (int unready)\<rparr>))
       (leaveOthers E fleet ready names)) (\<lambda>r t.
    (r = Ok noRequeue \<longrightarrow> memberView cls ats (world t) = relabel fleet V \<and>
      ReadyClusters (fl_status (s_fleet t)) = int32 (int (length (filter (readyRef fleet V) ?refs))) \<and>
      UnReadyClusters (fl_status (s_fleet t)) = int32 (int (length (filter (\<lambda>ref. \<not> readyRef fleet V ref) ?refs)))) \<and>
    (controlplaneOf fleet = [] \<and> supported fleet \<longrightarrow> r = Ok noRequeue)) t"
    if run: "labelledRun fleet ?refs V (memberView cls ats (world t)) (Ok (ready, unready, names))" for t ready unready names
  proof -
    have V1: "memberView cls ats (world t) = ?V1" "wfStore ?V1"
      and n: "length ready = length (filter (readyRef fleet V) ?refs)" "length ready + unready = length ?refs"
      and names: "leftOthers fleet names ?V1 = relabel fleet V"
      using run wf leftOthers_relabel [OF wf fresh, of names] by (simp_all add: labelledRun_def labelOn_simps)
    have "unready = length (filter (\<lambda>ref. \<not> readyRef fleet V ref) ?refs)"
      using n sum_length_filter_compl [of "readyRef fleet V" ?refs] by linarith
    then show ?thesis
      unfolding wp_seqP wp_setFleetStatus outcome.case using V1 n names
      by (intro wp_mono [OF leaveOthers_run [OF S named V1(2)]]) auto
  qed
  show ?thesis
    unfolding reconcileClusters_split wp_bindP wp_getP outcome.case fleet [symmetric]
  proof (rule wp_mono [OF label], elim conjE, goal_cases)
    case (1 r t)
    note run = 1
    then show ?case
    proof (cases r)
      case (Ok x)
      obtain ready unready names where "x = (ready, unready, names)"
        by (cases x)
      then show ?thesis
        using Ok run(2) by (simp only: outcome.case prod.case) (rule rest)
    qed (auto simp: labelledRun_def supported_def list_all_iff)
  qed
qed

lemma relabel_idem: "m_name (fl_meta fleet) \<noteq> [] \<Longrightarrow> relabel fleet (relabel fleet V) = relabel fleet V"
  by (auto simp: relabel_def fun_eq_iff labelOf_drop map_option_case split: option.splits)

section \<open>A server in memory\<close>

text \<open>Two lists of objects; an object is listed when it is the one stored under its key.\<close>

type_synonym memberWorld = "Cluster list \<times> AttachedCluster list"

definition storeApi ::
  "('o \<Rightarrow> ObjectMeta) \<Rightarrow> ('w \<Rightarrow> 'o list) \<Rightarrow> (('o list \<Rightarrow> 'o list) \<Rightarrow> 'w \<Rightarrow> 'w) \<Rightarrow> ('w, 'o) api" where
  "storeApi meta sel upd = (memApi meta sel upd)\<lparr>api_list := (\<lambda>ns labels w.
     (Inr (filter (\<lambda>x. lookupKey meta (sel w) (keyOf (meta x)) = Some x \<and> (ns = [] \<or> m_namespace (meta x) = ns) \<and>
        labelsMatch labels (meta x)) (sel w)), w))\<rparr>"

text \<open>An environment with the given clusters whose other servers are empty.\<close>

definition quietEnv :: "('w, Cluster) api \<Rightarrow> ('w, AttachedCluster) api \<Rightarrow> 'w flenv" where
  "quietEnv clusters attached = \<lparr>fe_fleet = goneApi, fe_cluster = clusters, fe_attached = attached,
     fe_secret = goneApi, fe_pod = goneApi, fe_serviceAccount = goneApi, fe_roleBinding = goneApi, fe_helmRepository = goneApi,
     fe_helmRelease = goneApi, fe_service = goneApi, fe_endpoints = goneApi,
     fe_member = (\<lambda>c. \<lparr>mb_statefulSet = goneApi, mb_deployment = goneApi, mb_namespace = goneApi, mb_secret = goneApi,
        mb_service = goneApi, mb_endpoints = goneApi, mb_syncNamespace = (\<lambda>x w. (Inr x, w)), mb_syncSecret = (\<lambda>x w. (Inr x, w))\<rparr>),
     fe_kind = kindOf, fe_restConfig = Inr, fe_newClient = Inr, fe_karmadaClient = Some, fe_kubeClient = Some,
     fe_obtainClusterID = (\<lambda>c w. (Inr c, w)), fe_isClusterIdentifyUnique = (\<lambda>c i w. (Inr True, w)),
     fe_runJoin = (\<lambda>p c n w. (Inr (), w)), fe_runUnjoin = (\<lambda>p c n w. (Inr (), w)),
     fe_render = \<lparr>re_readFile = Inr, re_unmarshalChart = (\<lambda>x. Inl (EMsg ''no chart'')), re_unmarshalJSON = (\<lambda>x. Inr None),
        re_mergeMaps = (\<lambda>x y. y), re_execute = (\<lambda>t p. Inr t)\<rparr>,
     fe_patchResources = (\<lambda>m w. (Inr [], w)), fe_range = Pair, fe_schedule = Pair [0..<8],
     fe_hasOwnerRef = (\<lambda>os o'. o' \<in> set os), fe_containsFinalizer = (\<lambda>fs f. f \<in> set fs), fe_base64 = (\<lambda>x. x),
     fe_errText = (\<lambda>e. ''error''), fe_lib = stdLib\<rparr>"

definition demoMembers :: "memberWorld flenv" where
  "demoMembers = quietEnv (storeApi ku_meta fst apfst) (storeApi at_meta snd apsnd)"

definition demoEdge :: "string \<Rightarrow> (string \<rightharpoonup> string) option \<Rightarrow> bool \<Rightarrow> AttachedCluster" where
  "demoEdge name labels ready = \<lparr>at_meta = (newMeta name ''default'')\<lparr>m_labels := labels\<rparr>,
     at_kubeconfig = \<lparr>SecretKeyName = name, SecretKeyKey = ''config''\<rparr>, at_ready = ready\<rparr>"

definition demoFleet :: Fleet where
  "demoFleet = \<lparr>fl_kind = ''Fleet'', fl_meta = newMeta ''quickstart'' ''default'',
     fl_spec = \<lparr>Clusters = [\<lparr>r_kind = ''AttachedCluster'', r_apiVersion = [], r_namespace = [], r_name = ''edge1''\<rparr>],
       FleetPlugin = None\<rparr>,
     fl_status = \<lparr>CredentialSecret = None, FleetPhaseOf = FleetNoPhase, FleetReason = [], PluginEndpoints = [],
       ReadyClusters = 0, UnReadyClusters = 0\<rparr>\<rparr>"

definition demoFleetState :: "memberWorld flstate" where
  "demoFleetState = \<lparr>world = ([], [demoEdge ''edge1'' None True, demoEdge ''edge2'' (Some [FleetLabel \<mapsto> ''quickstart'']) True]),
     reqs = [], s_fleet = demoFleet\<rparr>"

definition storedClusters :: "memberWorld \<Rightarrow> objkey \<rightharpoonup> Cluster" where
  "storedClusters w = lookupKey ku_meta (fst w)"

definition storedAttached :: "memberWorld \<Rightarrow> objkey \<rightharpoonup> AttachedCluster" where
  "storedAttached w = lookupKey at_meta (snd w)"

lemma storeApi_serves:
  assumes "\<And>f w. sel (upd f w) = f (sel w)" and "\<And>f w. frame w (upd f w)" and "\<And>w. frame w w"
  shows "serves meta (storeApi meta sel upd) (\<lambda>w. lookupKey meta (sel w)) frame"
  using memApi_serves [of sel upd frame meta, OF assms] by (simp add: serves_def storeApi_def)

lemma lookupKey_key: "lookupKey meta xs k = Some x \<Longrightarrow> keyOf (meta x) = k \<and> x \<in> set xs"
  by (auto simp: lookupKey_def find_Some_iff)

lemma storeApi_lists:
  assumes "ns \<noteq> []" and "name \<noteq> []"
  shows "\<exists>xs. api_list (storeApi meta sel upd) ns [(FleetLabel, name)] w = (Inr xs, w) \<and>
    set xs = {x. \<exists>k. lookupKey meta (sel w) k = Some x \<and> k_namespace k = ns \<and> mapAt (m_labels (meta x)) FleetLabel = name}"
proof -
  have match: "labelsMatch [(FleetLabel, name)] m \<longleftrightarrow> mapAt (m_labels m) FleetLabel = name" for m
    using assms(2) by (auto simp: labelsMatch_def mapHas_def mapAt_def split: option.splits)
  have keyed: "x \<in> set (sel w) \<and> lookupKey meta (sel w) (keyOf (meta x)) = Some x \<and> m_namespace (meta x) = ns \<longleftrightarrow>
      (\<exists>k. lookupKey meta (sel w) k = Some x \<and> k_namespace k = ns)" for x
  proof -
    have "m_namespace m = k_namespace (keyOf m)" for m
      by (simp add: keyOf_def)
    then show ?thesis
      by (metis lookupKey_key)
  qed
  show ?thesis
    using assms(1) keyed by (simp add: storeApi_def match) blast
qed

lemma demoMembers_serves: "fleetServer demoMembers storedClusters storedAttached"
proof -
  have "serves ku_meta (storeApi ku_meta fst apfst) storedClusters (\<lambda>w w'. storedAttached w' = storedAttached w)"
    "serves at_meta (storeApi at_meta snd apsnd) storedAttached (\<lambda>w w'. storedClusters w' = storedClusters w)"
    unfolding storedClusters_def storedAttached_def by (rule storeApi_serves; simp)+
  then show ?thesis
    unfolding fleetServer_def demoMembers_def quietEnv_def storedClusters_def storedAttached_def
    by (simp add: storeApi_lists labelOf_def goneApi_def)
qed

section \<open>Properties\<close>

text \<open>C7.
  Reconciling the clusters of a fleet implements its specification on the clusters the API server
  stores. When it succeeds, the clusters the fleet names carry its label, no other cluster of its
  namespace does, nothing else of the clusters has changed, and the status counts the named clusters
  that are ready and those that are not or do not exist. A fleet without control plane that names
  kinds of clusters only succeeds. The fleet has a name and a namespace and the names generated for
  the clusters in its namespace, which are cut after 63 characters, are different.
\<close>

theorem fleet_membership:
  assumes "fleetServer E cls ats" and "namedFleet (s_fleet s)"
    and "wfStore (memberView cls ats (world s))" and "freshNames (s_fleet s) (memberView cls ats (world s))"
  shows "wp (reconcileClusters E) (\<lambda>r t.
    (r = Ok noRequeue \<longrightarrow> memberView cls ats (world t) = relabel (s_fleet s) (memberView cls ats (world s)) \<and>
      ReadyClusters (fl_status (s_fleet t)) =
        int32 (int (length (filter (readyRef (s_fleet s) (memberView cls ats (world s))) (Clusters (fl_spec (s_fleet s)))))) \<and>
      UnReadyClusters (fl_status (s_fleet t)) =
        int32 (int (length (filter (\<lambda>ref. \<not> readyRef (s_fleet s) (memberView cls ats (world s)) ref) (Clusters (fl_spec (s_fleet s))))))) \<and>
    (controlplaneOf (s_fleet s) = [] \<and> supported (s_fleet s) \<longrightarrow> r = Ok noRequeue)) s"
  by (rule reconcileClusters_run [OF assms(1) refl assms(2-4) refl])

lemma demoFleet_fresh:
  "namedFleet demoFleet" "wfStore (memberView storedClusters storedAttached w)"
  "freshNames demoFleet (memberView storedClusters storedAttached (world demoFleetState))"
  "controlplaneOf demoFleet = []" "supported demoFleet" "s_fleet demoFleetState = demoFleet"
proof -
  show "wfStore (memberView storedClusters storedAttached w)"
    by (auto simp: wfStore_def memberView_def storedClusters_def storedAttached_def keyM_def kindOf_neq dest: lookupKey_key split: if_splits)
  show "namedFleet demoFleet" "controlplaneOf demoFleet = []" "supported demoFleet" "s_fleet demoFleetState = demoFleet"
    by (simp_all add: namedFleet_def demoFleet_def newMeta_def controlplaneOf_def supported_def canonicalKind_def demoFleetState_def mapAt_def AttachedClusterKind_def)
  define k1 k2 where "k1 = \<lparr>k_namespace = ''default'', k_name = ''edge1''\<rparr>" and "k2 = \<lparr>k_namespace = ''default'', k_name = ''edge2''\<rparr>"
  have keys: "keyOf (at_meta (demoEdge ''edge1'' ls b)) = k1" "keyOf (at_meta (demoEdge ''edge2'' ls b)) = k2" for ls b
    by (simp_all add: demoEdge_def newMeta_def keyOf_def k1_def k2_def)
  have "key \<in> {k1, k2}" if "lookupKey at_meta (snd (world demoFleetState)) key = Some a" for key a
    using lookupKey_key [OF that] by (auto simp: demoFleetState_def keys)
  then have "{k. memberView storedClusters storedAttached (world demoFleetState) k \<noteq> None} \<subseteq> {(AttachedClusterKind, k1), (AttachedClusterKind, k2)}"
    unfolding memberView_def storedClusters_def storedAttached_def
    by (force simp: demoFleetState_def lookupKey_def split: if_splits)
  moreover have "genKey (AttachedClusterKind, k1) \<noteq> genKey (AttachedClusterKind, k2)"
    by (simp add: genKey_def k1_def k2_def)
  then have "inj_on genKey {(AttachedClusterKind, k1), (AttachedClusterKind, k2)}"
    by auto
  ultimately show "freshNames demoFleet (memberView storedClusters storedAttached (world demoFleetState))"
    unfolding freshNames_def by (elim inj_on_subset) (simp add: Collect_mono subset_iff)
qed

theorem fleet_membership_witness:
  "wp (reconcileClusters demoMembers) (\<lambda>r t. r = Ok noRequeue \<and>
     memberView storedClusters storedAttached (world t) =
       relabel demoFleet (memberView storedClusters storedAttached (world demoFleetState)) \<and>
     ReadyClusters (fl_status (s_fleet t)) = 1 \<and> UnReadyClusters (fl_status (s_fleet t)) = 0) demoFleetState"
proof -
  have ready: "filter (readyRef demoFleet (memberView storedClusters storedAttached (world demoFleetState))) (Clusters (fl_spec demoFleet)) =
      Clusters (fl_spec demoFleet)" "length (Clusters (fl_spec demoFleet)) = 1"
    "filter (\<lambda>ref. \<not> readyRef demoFleet (memberView storedClusters storedAttached (world demoFleetState)) ref) (Clusters (fl_spec demoFleet)) = []"
    by (simp_all add: demoFleet_def readyRef_def refKey_def canonicalKind_def fleetKey_def memberView_def storedAttached_def
        demoFleetState_def demoEdge_def newMeta_def lookupKey_def keyOf_def ClusterKind_def AttachedClusterKind_def)
  note demo = demoFleet_fresh
  show ?thesis
    using fleet_membership [OF demoMembers_serves, of demoFleetState, unfolded demo(6), OF demo(1-3)] demo(4,5)
    by (auto simp: ready int32_def elim!: wp_mono)
qed

end
