(* ===== verification/FleetProperties.thy ===== *)
theory FleetProperties
  imports FleetMembership "HOL-Library.Multiset"
begin

text \<open>
  Properties of the fleet controller: when it gives up its finalizer, that the order in which the
  plugins finish does not matter, which Helm releases it deletes, and what a backup provider without
  a secret does to it.
\<close>

section \<open>What the plugins leave alone\<close>

definition keepsFleet :: "'w flstate \<Rightarrow> 'w flstate \<Rightarrow> bool" where
  "keepsFleet s t \<longleftrightarrow> s_fleet t = s_fleet s"

interpretation keepsFleet: client_frame keepsFleet "\<lambda>_. True"
  by unfold_locales (simp_all add: keepsFleet_def)

definition keepsFleetMeta :: "'w flstate \<Rightarrow> 'w flstate \<Rightarrow> bool" where
  "keepsFleetMeta s t \<longleftrightarrow> fl_meta (s_fleet t) = fl_meta (s_fleet s)"

interpretation keepsFleetMeta: client_frame keepsFleetMeta "\<lambda>_. True"
  by unfold_locales (simp_all add: keepsFleetMeta_def)

lemma keepsFleet_weaken: "pres keepsFleet m \<Longrightarrow> pres keepsFleetMeta m"
  by (intro presI) (auto dest!: presD simp: keepsFleet_def keepsFleetMeta_def)

lemma helmReleaseReady_keepsFleet [pres_rules]: "pres keepsFleet (helmReleaseReady E fleet resources)"
  by (induction resources) (auto simp: apiK_defs intro!: pres_rules)

lemma installVelero_keepsFleet [pres_rules]: "pres keepsFleet (installVelero E fleet cfg clusters secret)"
proof (induction clusters arbitrary: secret)
  case (Cons c clusters)
  then show ?case
    by (cases c) (simp add: createNewSecretInFleetCluster_def, intro pres_rules TrueI Cons.IH)
qed (simp, intro pres_rules)

lemma ownSecrets_keepsFleet [pres_rules]: "pres keepsFleet (ownSecrets E clusters secret)"
proof (induction clusters arbitrary: secret)
  case (Cons c clusters)
  then show ?case
    by (cases c) (simp add: updateNewSecretOwnerReference_def apiK_defs Let_def, intro pres_rules TrueI Cons.IH)
qed (simp, intro pres_rules)

lemma whenReady_keepsFleet [pres_rules]: "pres keepsFleet k \<Longrightarrow> pres keepsFleet (whenReady E fleet resources k)"
  unfolding whenReady_def by (intro pres_rules TrueI)

lemma applyToClusters_keepsFleet [pres_rules]:
  "(\<And>ref. pres keepsFleet (f ref)) \<Longrightarrow> pres keepsFleet (applyToClusters E clusters f)"
  unfolding applyToClusters_def by (intro pres_rules TrueI) (simp add: split_beta)

lemma applyChart_keepsFleet [pres_rules]: "pres keepsFleet (applyChart E rendered)"
  unfolding applyChart_def by (intro pres_rules TrueI)

lemma metric_keepsFleet: "pres keepsFleet (reconcileMetricPlugin E fleet plugin clusters)"
  unfolding reconcileMetricPlugin_def reconcileObjStoreSecretOwnerReference_def reconcileSidecarRemoteService_def sidecarEndpoints_def
    sidecarService_def sidecarSubsets_def syncObjStoreSecret_def apiK_defs Let_def
  by (intro pres_rules TrueI)

lemmas plugin_defs = reconcileGrafanaPlugin_def reconcileKyvernoPlugin_def reconcileBackupPlugin_def
  reconcileDistributedStoragePlugin_def reconcileFlaggerPlugin_def reconcileSubmarinerPlugin_def reconcileProviderPlugin_def

lemma plugins_keepFleet: "i < length (pluginFuncs E) \<Longrightarrow> pres keepsFleet ((pluginFuncs E ! i) fleet plugin clusters)"
proof -
  have "\<forall>f \<in> set (pluginFuncs E). pres keepsFleet (f fleet plugin clusters)"
    unfolding pluginFuncs_def plugin_defs buildNewSecret_def buildAWSSecret_def buildHuaWeiCloudSecret_def buildGCPSecret_def
      buildAzureSecret_def getObjStoreCredentials_def getBrokerConfig_def apiK_defs Let_def list.set ball_simps
    by (intro conjI pres_rules TrueI metric_keepsFleet)
  then show "i < length (pluginFuncs E) \<Longrightarrow> ?thesis"
    by simp
qed

text \<open>Every goroutine delivers its result once; ranging over a map visits every entry once.\<close>

definition fairSchedule :: "'w flenv \<Rightarrow> bool" where
  "fairSchedule E \<longleftrightarrow> (\<forall>w. mset (fst (fe_schedule E w)) = mset [0..<length (pluginFuncs E)]) \<and>
     (\<forall>clusters w. mset (fst (fe_range E clusters w)) = mset clusters)"

lemma reconcilePluginResources_keepsFleet: "pres keepsFleet (reconcilePluginResources E fleet resources)"
  unfolding reconcilePluginResources_def apiK_defs Let_def by (intro pres_rules TrueI)

lemma collectPlugins_keepsFleet: "pres keepsFleet (collectPlugins E fleet results)"
  unfolding collectPlugins_def
  by (intro pres_rules) (auto split: list.split intro: keepsFleet.pres_retP reconcilePluginResources_keepsFleet)

lemma keepsFleet_schedule:
  assumes "\<And>w. pres keepsFleet (f (fst (g w)))"
  shows "pres keepsFleet (bindP (extP g) f)"
proof -
  have "wp (f (fst (g (world s)))) (\<lambda>_. keepsFleet s) (s\<lparr>world := snd (g (world s))\<rparr>)" for s
    using presD [OF assms] by (auto intro!: wpI simp: keepsFleet_def)
  then show ?thesis
    by (simp add: pres_def wp_bindP wp_extP split_beta)
qed

lemma reconcilePlugins_keepsFleet:
  assumes "fairSchedule E"
  shows "pres keepsFleet (reconcilePlugins E clusters)"
proof -
  have "set (fst (fe_schedule E w)) = {..<length (pluginFuncs E)}" for w
    using assms unfolding fairSchedule_def by (metis set_mset_mset set_upt atLeast0LessThan)
  then have results: "pres keepsFleet (bindP (extP (fe_schedule E)) (\<lambda>order.
      bindP (mapP order (\<lambda>i. tryP ((pluginFuncs E ! i) fleet plugin clusters) retP)) (collectPlugins E fleet)))" for fleet plugin
    by (intro keepsFleet_schedule pres_rules collectPlugins_keepsFleet plugins_keepFleet) simp
  show ?thesis
    unfolding reconcilePlugins_def
    by (rule keepsFleet.pres_bindP [OF keepsFleet.pres_getP]) (auto split: option.split intro: results reconcilePluginResources_keepsFleet)
qed

lemma buildFleetClusters_keepsFleet [pres_rules]: "pres keepsFleet (buildFleetClusters E fleet refs res)"
proof (induction refs arbitrary: res)
  case (Cons ref refs)
  then show ?case
    unfolding buildFleetClusters.simps getFleetClusterInterface_def ClientForCluster_def apiK_defs
    by (intro pres_rules TrueI Cons.IH)
qed (simp, intro pres_rules)

lemma updateFleetCluster_keepsFleet [pres_rules]: "pres keepsFleet (updateFleetCluster E c)"
  by (cases c) (auto simp: apiK_defs intro!: pres_rules)

lemma labelClusters_keepsFleet [pres_rules]: "pres keepsFleet (labelClusters E fleet refs)"
proof (induction refs)
  case (Cons ref refs)
  then show ?case
    unfolding labelClusters.simps getFleetClusterInterface_def labelCluster_def apiK_defs Let_def
    by (intro pres_rules TrueI Cons.IH)
qed (simp, intro pres_rules)

lemma unlabelCluster_keepsFleet [pres_rules]: "pres keepsFleet (unlabelCluster E name c)"
  unfolding unlabelCluster_def by (intro pres_rules TrueI)

lemma onDelete_keepsFleet: "pres keepsFleet (reconcileClustersOnDelete E)"
  unfolding reconcileClustersOnDelete_def getFleetClusterInterface_def apiK_defs by (intro pres_rules TrueI)

lemma setFleetStatus_keepsMeta [pres_rules]: "pres keepsFleetMeta (setFleetStatus f)"
  by (simp add: pres_def setFleetStatus_def wp_modifyP keepsFleetMeta_def)

lemma reconcileClusters_keepsMeta: "pres keepsFleetMeta (reconcileClusters E)"
  unfolding reconcileClusters_def controlplaneConfig_def dropCluster_def joinCluster_def unjoinCluster_def memberConfig_def
    isClusterAlreadyJoined_def apiK_defs
  by (intro pres_rules TrueI keepsFleet_weaken [OF labelClusters_keepsFleet] keepsFleet_weaken [OF unlabelCluster_keepsFleet])

lemma controlPlane_keepsMeta: "pres keepsFleetMeta (reconcileControlPlane E)"
  unfolding reconcileControlPlane_def initControlPlane_def createUnlessExists_def setFleetPhase_def apiK_defs
  by (intro pres_rules TrueI)

lemma reconcileFleet_keepsMeta: "fairSchedule E \<Longrightarrow> pres keepsFleetMeta (reconcileFleet E)"
  unfolding reconcileFleet_def BuildFleetClusters_def
  by (intro pres_rules TrueI controlPlane_keepsMeta reconcileClusters_keepsMeta keepsFleet_weaken [OF buildFleetClusters_keepsFleet]
      keepsFleet_weaken [OF reconcilePlugins_keepsFleet])

section \<open>Deleting a fleet\<close>

text \<open>The control plane is gone: there was none, or the pod that removes it has succeeded.\<close>

definition tornDown :: "'w flenv \<Rightarrow> Fleet \<Rightarrow> bool" where
  "tornDown E fleet \<longleftrightarrow> controlplaneOf fleet = [] \<or>
     (\<exists>w w' pod. api_get (fe_pod E) (fleetKey fleet (m_name (fl_meta fleet) @ ''-delete'')) w = (Inr pod, w') \<and>
        pod_phase pod = PodSucceeded)"

definition fleetPhase :: "'w flstate \<Rightarrow> FleetPhase" where
  "fleetPhase s = FleetPhaseOf (fl_status (s_fleet s))"

lemma tornDown_simps [simp]:
  "tornDown E (fleet\<lparr>fl_status := st\<rparr>) = tornDown E fleet"
  "tornDown E (fleet\<lparr>fl_meta := fl_meta fleet\<lparr>m_finalizers := fs\<rparr>\<rparr>) = tornDown E fleet"
  by (simp_all add: tornDown_def controlplaneOf_def fleetKey_def)

lemma deleteControlPlane_tornDown:
  assumes "fleetPhase s \<noteq> FleetTerminateSucceeded"
  shows "wp (deleteControlPlane E) (\<lambda>r t. fl_meta (s_fleet t) = fl_meta (s_fleet s) \<and>
    (r = Ok () \<longrightarrow> fleetPhase t = FleetTerminateSucceeded \<longrightarrow> tornDown E (s_fleet s))) s"
proof (cases "controlplaneOf (s_fleet s) = []")
  case True
  then show ?thesis
    by (simp add: deleteControlPlane_def setFleetStatus_def wp_steps tornDown_def)
next
  case False
  let ?key = "fleetKey (s_fleet s) (m_name (fl_meta (s_fleet s)) @ ''-delete'')"
  have finish: "wp (finishControlPlane E (s_fleet s)) (\<lambda>r t. fl_meta (s_fleet t) = fl_meta (s_fleet s)) u"
    if "s_fleet u = s_fleet s" for u
    using that unfolding finishControlPlane_def setFleetPhase_def setFleetStatus_def apiK_defs
    by (simp add: wp_steps) (intro wp_any; simp add: wp_steps; intro wp_any; simp add: wp_steps)
  have create: "wp (seqP (onErr (createK ''Pod'' pod_meta (fe_pod E) pod) (\<lambda>e. failP (f e))) (setFleetPhase FleetTerminating))
      (\<lambda>r t. fl_meta (s_fleet t) = fl_meta (s_fleet s) \<and> (r = Ok () \<longrightarrow> fleetPhase t \<noteq> FleetTerminateSucceeded)) u"
    if "s_fleet u = s_fleet s" for u f pod
    using that unfolding apiK_defs setFleetPhase_def setFleetStatus_def wp_seqP wp_onErr
    by (intro wp_callP_any) (simp_all add: wp_steps fleetPhase_def)
  obtain r w where get: "api_get (fe_pod E) ?key (world s) = (r, w)"
    by fastforce
  show ?thesis
  proof (cases r)
    case (Inl e)
    then show ?thesis
      using False get unfolding deleteControlPlane_def wp_bindP wp_getP outcome.case Let_def if_not_P [OF False] wp_tryP apiK_defs(1)
      by (auto simp: wp_callP wp_failP intro!: wp_mono [OF create])
  next
    case (Inr pod)
    then have "tornDown E (s_fleet s)" if "pod_phase pod = PodSucceeded"
      using get that by (auto simp: tornDown_def)
    then show ?thesis
      using get Inr assms unfolding deleteControlPlane_def wp_bindP wp_getP outcome.case Let_def if_not_P [OF False] wp_tryP apiK_defs(1)
      by (auto simp: wp_callP wp_ifP setFleetPhase_def setFleetStatus_def wp_modifyP fleetPhase_def intro!: wp_mono [OF finish])
  qed
qed

lemma reconcileFleetDelete_released:
  assumes L: "capilib_laws (fe_lib E)" and phase: "fleetPhase s \<noteq> FleetTerminateSucceeded"
    and fin: "FleetFinalizer \<in> set (m_finalizers (fl_meta (s_fleet s)))"
  shows "wp (reconcileFleetDelete E) (\<lambda>r t. FleetFinalizer \<notin> set (m_finalizers (fl_meta (s_fleet t))) \<longrightarrow>
    r = Ok noRequeue \<and> fleetPhase t = FleetTerminateSucceeded \<and> tornDown E (s_fleet s)) s"
proof -
  have clusters: "wp (reconcileClustersOnDelete E) (\<lambda>r t. s_fleet t = s_fleet s) s"
    using presD [OF onDelete_keepsFleet] by (auto intro!: wpI simp: keepsFleet_def)
  have plane: "wp (deleteControlPlane E) (\<lambda>r u. fl_meta (s_fleet u) = fl_meta (s_fleet s) \<and>
      (r = Ok () \<longrightarrow> fleetPhase u = FleetTerminateSucceeded \<longrightarrow> tornDown E (s_fleet s))) t" if "s_fleet t = s_fleet s" for t
    using deleteControlPlane_tornDown [of t E] that phase by (simp add: fleetPhase_def)
  show ?thesis
    unfolding reconcileFleetDelete_def wp_seqP
  proof (rule wp_mono [OF clusters], goal_cases)
    case (1 r t)
    show ?case
    proof (cases r)
      case (Ok x)
      show ?thesis
        unfolding Ok outcome.case
        using fin by (intro wp_mono [OF plane [OF 1]])
          (auto simp: wp_steps fleetPhase_def setFleetFinalizers_def split: outcome.splits)
    qed (use 1 fin in simp_all)
  qed
qed

lemma reconcileFleetBody_released:
  assumes L: "capilib_laws (fe_lib E)" and C: "\<And>fs f. fe_containsFinalizer E fs f \<longleftrightarrow> f \<in> set fs" and F: "fairSchedule E"
  shows "wp (reconcileFleetBody E) (\<lambda>r t. FleetFinalizer \<notin> set (m_finalizers (fl_meta (s_fleet t))) \<longrightarrow>
    m_deletionTimestamp (fl_meta (s_fleet s)) \<noteq> None \<and> r = Ok noRequeue \<and> fleetPhase t = FleetTerminateSucceeded \<and>
    tornDown E (s_fleet s)) s"
proof -
  have rest: "wp (if deleting then seqP (setFleetPhase FleetTerminating) (reconcileFleetDelete E) else reconcileFleet E)
      (\<lambda>r t. FleetFinalizer \<notin> set (m_finalizers (fl_meta (s_fleet t))) \<longrightarrow>
        deleting \<and> r = Ok noRequeue \<and> fleetPhase t = FleetTerminateSucceeded \<and> tornDown E (s_fleet s)) u"
    if fin: "FleetFinalizer \<in> set (m_finalizers (fl_meta (s_fleet u)))" and same: "tornDown E (s_fleet u) = tornDown E (s_fleet s)" for u deleting
  proof (cases deleting)
    case True
    let ?u = "u\<lparr>s_fleet := s_fleet u\<lparr>fl_status := fl_status (s_fleet u)\<lparr>FleetPhaseOf := FleetTerminating\<rparr>\<rparr>\<rparr>"
    have "wp (reconcileFleetDelete E) (\<lambda>r t. FleetFinalizer \<notin> set (m_finalizers (fl_meta (s_fleet t))) \<longrightarrow>
        r = Ok noRequeue \<and> fleetPhase t = FleetTerminateSucceeded \<and> tornDown E (s_fleet ?u)) ?u"
      by (rule reconcileFleetDelete_released [OF L]) (use fin in \<open>simp_all add: fleetPhase_def\<close>)
    then show ?thesis
      using True same by (simp add: wp_seqP setFleetPhase_def setFleetStatus_def wp_modifyP)
  next
    case False
    then show ?thesis
      using presD [OF reconcileFleet_keepsMeta [OF F]] fin by (auto intro!: wpI simp: keepsFleetMeta_def)
  qed
  have "set (addFinalizer (fe_lib E) fs f) = insert f (set fs)" for fs f
    using L by (simp add: capilib_laws_def)
  then have first: "wp (ifP (\<not> fe_containsFinalizer E (m_finalizers (fl_meta (s_fleet s))) FleetFinalizer)
      (seqP (setFleetPhase FleetRunning) (setFleetFinalizers (\<lambda>fs. addFinalizer (fe_lib E) fs FleetFinalizer))))
      (\<lambda>r u. r = Ok () \<and> FleetFinalizer \<in> set (m_finalizers (fl_meta (s_fleet u))) \<and> tornDown E (s_fleet u) = tornDown E (s_fleet s)) s"
    by (simp add: setFleetPhase_def setFleetStatus_def setFleetFinalizers_def wp_steps C)
  show ?thesis
    unfolding reconcileFleetBody_def wp_bindP wp_getP outcome.case
    by (rule wp_seqP [THEN iffD2], rule wp_mono [OF first]) (use rest in simp)
qed

text \<open>C18.
  The controller takes its finalizer off a fleet only when the fleet is being deleted and its control
  plane is gone: it had none, or the pod that removes it has succeeded. Until then every run, also
  one that fails, leaves the finalizer in place.
\<close>

theorem fleet_released_after_teardown:
  assumes "capilib_laws (fe_lib E)" and "\<And>fs f. fe_containsFinalizer E fs f \<longleftrightarrow> f \<in> set fs" and "fairSchedule E"
    and "reconcileFleetBody E s = (r, t)" and "FleetFinalizer \<notin> set (m_finalizers (fl_meta (s_fleet t)))"
  shows "m_deletionTimestamp (fl_meta (s_fleet s)) \<noteq> None \<and> r = Ok noRequeue \<and>
    fleetPhase t = FleetTerminateSucceeded \<and> tornDown E (s_fleet s)"
  using wpD [OF reconcileFleetBody_released [OF assms(1-3)] assms(4)] assms(5) by simp

definition demoDeleted :: "memberWorld flstate" where
  "demoDeleted = \<lparr>world = ([], []), reqs = [], s_fleet = demoFleet\<lparr>fl_meta := fl_meta demoFleet\<lparr>
     m_finalizers := [FleetFinalizer], m_deletionTimestamp := Some 1\<rparr>\<rparr>\<rparr>"

lemma demo_fair: "fairSchedule demoMembers"
proof -
  have "length (pluginFuncs demoMembers) = 8"
    by (simp add: pluginFuncs_def)
  then show ?thesis
    by (simp add: fairSchedule_def demoMembers_def quietEnv_def)
qed

lemma demo_released: "FleetFinalizer \<notin> set (m_finalizers (fl_meta (s_fleet (snd (reconcileFleetBody demoMembers demoDeleted)))))"
proof -
  have "wp (reconcileFleetBody demoMembers) (\<lambda>r t. FleetFinalizer \<notin> set (m_finalizers (fl_meta (s_fleet t)))) demoDeleted"
    by (simp add: reconcileFleetBody_def reconcileFleetDelete_def reconcileClustersOnDelete_def deleteControlPlane_def demoDeleted_def demoFleet_def
       demoMembers_def quietEnv_def wp_steps setFleetPhase_def setFleetStatus_def setFleetFinalizers_def getFleetClusterInterface_def apiK_defs wp_callP
       storeApi_def memApi_def lookupKey_def stdLib_def ClusterKind_def AttachedClusterKind_def newMeta_def mapAt_def controlplaneOf_def)
  from wpD [OF this surjective_pairing] show ?thesis .
qed

theorem fleet_released_after_teardown_witness:
  "FleetFinalizer \<notin> set (m_finalizers (fl_meta (s_fleet (snd (reconcileFleetBody demoMembers demoDeleted))))) \<and>
   fleetPhase (snd (reconcileFleetBody demoMembers demoDeleted)) = FleetTerminateSucceeded \<and> tornDown demoMembers (s_fleet demoDeleted)"
proof -
  have "capilib_laws (fe_lib demoMembers)" "\<And>fs f. fe_containsFinalizer demoMembers fs f \<longleftrightarrow> f \<in> set fs"
    by (simp_all add: demoMembers_def quietEnv_def stdLib_laws)
  from fleet_released_after_teardown [OF this demo_fair surjective_pairing demo_released] demo_released show ?thesis
    by blast
qed

section \<open>Collecting the results of the plugins\<close>

lemma concat_map_mset: "mset xs = mset ys \<Longrightarrow> mset (concat (map f xs)) = mset (concat (map f ys))"
  by (simp add: mset_concat) (metis mset_map sum_mset_sum_list)

lemma pluginResults_mset:
  assumes "mset rs = mset rs'"
  shows "mset (pluginErrors rs) = mset (pluginErrors rs')" "mset (pluginRequeues rs) = mset (pluginRequeues rs')"
    "mset (pluginResources rs) = mset (pluginResources rs')"
  unfolding pluginErrors_def pluginRequeues_def pluginResources_def by (rule concat_map_mset [OF assms])+

lemma reconcilePluginResources_set:
  "set resources = set resources' \<Longrightarrow> reconcilePluginResources E fleet resources = reconcilePluginResources E fleet resources'"
  unfolding reconcilePluginResources_def by simp

text \<open>Every plugin asks for the same requeue, or for none.\<close>

definition plainAnswer :: "pluginResult \<Rightarrow> bool" where
  "plainAnswer x \<longleftrightarrow> snd x = noRequeue \<or> snd x = requeueAfter 30"

lemma plugin_answers:
  "yields plainAnswer (reconcileMetricPlugin E fleet plugin clusters)" "yields plainAnswer (reconcileGrafanaPlugin E fleet plugin clusters)"
  "yields plainAnswer (reconcileKyvernoPlugin E fleet plugin clusters)" "yields plainAnswer (reconcileBackupPlugin E fleet plugin clusters)"
  "yields plainAnswer (reconcileDistributedStoragePlugin E fleet plugin clusters)" "yields plainAnswer (reconcileFlaggerPlugin E fleet plugin clusters)"
  "yields plainAnswer (reconcileSubmarinerPlugin E fleet plugin clusters)" "yields plainAnswer (reconcileProviderPlugin E fleet plugin clusters)"
  unfolding reconcileMetricPlugin_def reconcileGrafanaPlugin_def reconcileKyvernoPlugin_def reconcileBackupPlugin_def
    reconcileDistributedStoragePlugin_def reconcileFlaggerPlugin_def reconcileSubmarinerPlugin_def reconcileProviderPlugin_def whenReady_def
  by (intro yields_rules; simp add: plainAnswer_def)+

lemma plugins_answer: "f \<in> set (pluginFuncs E) \<Longrightarrow> yields plainAnswer (f fleet plugin clusters)"
  by (auto simp: pluginFuncs_def plugin_answers)

text \<open>What one of the plugins of a fleet sends over the channel in some run.\<close>

definition answers :: "'w flenv \<Rightarrow> Fleet \<Rightarrow> PluginConfig \<Rightarrow> fleetClusters \<Rightarrow> goerr + pluginResult \<Rightarrow> bool" where
  "answers E fleet plugin clusters r \<longleftrightarrow>
     (\<exists>f \<in> set (pluginFuncs E). \<exists>s t. tryP (f fleet plugin clusters) retP s = (Ok r, t))"

lemma requeues_plain:
  assumes "list_all (answers E fleet plugin clusters) rs" and "c \<in> set (pluginRequeues rs)"
  shows "c = requeueAfter 30"
proof -
  have "plainAnswer x" if x: "Inr x \<in> set rs" for x
  proof -
    obtain f s t where f: "f \<in> set (pluginFuncs E)" and run: "tryP (f fleet plugin clusters) retP s = (Ok (Inr x), t)"
      using assms(1) x unfolding list_all_iff answers_def by blast
    then show ?thesis
      using yieldsD [OF plugins_answer [OF f, of fleet plugin clusters]]
      by (auto simp: tryP_def retP_def split: prod.splits outcome.splits)
  qed
  then show ?thesis
    using assms(2) by (fastforce simp: pluginRequeues_def plainAnswer_def requeues_def noRequeue_def split: sum.splits prod.splits if_splits)
qed

text \<open>C23.
  The plugins run concurrently, and what a fleet does with their answers does not depend on the
  order in which they arrive: for two orders of the same answers of the plugins it fails with the same
  errors, or asks for the same requeue, or deletes the same releases and repositories. The requeue
  is that of the answer that arrives first, but every plugin that waits asks for 30 seconds.
\<close>

theorem plugin_order_irrelevant:
  assumes "mset rs = mset rs'" and "list_all (answers E fleet plugin clusters) rs"
  shows "if pluginErrors rs \<noteq> []
    then \<exists>es es'. mset es = mset es' \<and> collectPlugins E fleet rs = failP (EOpaque ''encountered multiple errors: '' (EAggregate es)) \<and>
      collectPlugins E fleet rs' = failP (EOpaque ''encountered multiple errors: '' (EAggregate es'))
    else collectPlugins E fleet rs = collectPlugins E fleet rs' \<and>
      (pluginRequeues rs \<noteq> [] \<longrightarrow> collectPlugins E fleet rs = retP (requeueAfter 30))"
proof -
  note ms = pluginResults_mset [OF assms(1)]
  have empty: "pluginErrors rs = [] \<longleftrightarrow> pluginErrors rs' = []" "pluginRequeues rs = [] \<longleftrightarrow> pluginRequeues rs' = []"
    using ms(1,2) by (metis mset_zero_iff)+
  have "\<forall>c \<in> set (pluginRequeues rs). c = requeueAfter 30" "set (pluginRequeues rs') = set (pluginRequeues rs)"
    using requeues_plain [OF assms(2)] mset_eq_setD [OF ms(2)] by auto
  then have req: "pluginRequeues rs \<noteq> [] \<Longrightarrow> \<exists>cs cs'. pluginRequeues rs = requeueAfter 30 # cs \<and> pluginRequeues rs' = requeueAfter 30 # cs'"
    using empty(2) by (cases "pluginRequeues rs"; cases "pluginRequeues rs'") auto
  show ?thesis
    using ms(1) empty req reconcilePluginResources_set [OF mset_eq_setD [OF ms(3)], of E fleet]
    by (cases "pluginRequeues rs = []") (auto simp: collectPlugins_def)
qed

text \<open>A host cluster where the releases of a plugin are never ready, and a fleet that asks for Kyverno.\<close>

definition waitingMembers :: "memberWorld flenv" where
  "waitingMembers = demoMembers\<lparr>fe_render := (fe_render demoMembers)\<lparr>re_unmarshalChart := (\<lambda>x. Inr \<lparr>cc_type = [], cc_repo = [], cc_name = x,
       cc_version = [], cc_targetNamespace = [], cc_values = None\<rparr>)\<rparr>,
     fe_patchResources := (\<lambda>m w. (Inr [\<lparr>rs_kind = HelmReleaseKind, rs_key = \<lparr>k_namespace = ''default'', k_name = ''kyverno''\<rparr>\<rparr>], w))\<rparr>"

definition kyvernoOnly :: PluginConfig where
  "kyvernoOnly = \<lparr>pg_metric = None, pg_grafana = None, pg_policy = Some \<lparr>Kyverno = Some \<lparr>ky_chart = None, ky_podSecurity = None, ky_extraArgs = None\<rparr>\<rparr>,
     pg_backup = None, pg_distributedStorage = None, pg_flagger = None, pg_submariner = None\<rparr>"

definition oneCluster :: fleetClusters where
  "oneCluster = [((''AttachedCluster'', ''edge1''), \<lparr>fc_secret = ''edge1'', fc_secretKey = ''config'', fc_client = ''edge1''\<rparr>)]"

lemma demo_answers:
  "answers waitingMembers demoFleet kyvernoOnly oneCluster (Inr ([], requeueAfter 30))"
  "answers waitingMembers demoFleet kyvernoOnly oneCluster (Inr ([], noRequeue))"
proof -
  let ?s = "\<lparr>world = ([], []), reqs = [], s_fleet = demoFleet\<rparr> :: memberWorld flstate"
  have "wp (tryP (reconcileKyvernoPlugin waitingMembers demoFleet kyvernoOnly oneCluster) retP) (\<lambda>r t. r = Ok (Inr ([], requeueAfter 30))) ?s"
    by (simp add: reconcileKyvernoPlugin_def kyvernoOnly_def applyToClusters_def oneCluster_def applyChart_def RenderKyverno_def getFleetPluginChart_def
        toMap_def renderFleetPlugin_def whenReady_def waitingMembers_def demoMembers_def quietEnv_def sumO_def goneApi_def getK_def
        wp_steps wp_extP wp_extE wp_liftO wp_callP wp_mapP_Cons)
  moreover have "wp (tryP (reconcileGrafanaPlugin waitingMembers demoFleet kyvernoOnly oneCluster) retP) (\<lambda>r t. r = Ok (Inr ([], noRequeue))) ?s"
    by (simp add: reconcileGrafanaPlugin_def kyvernoOnly_def wp_steps)
  moreover have "reconcileKyvernoPlugin waitingMembers \<in> set (pluginFuncs waitingMembers)"
    "reconcileGrafanaPlugin waitingMembers \<in> set (pluginFuncs waitingMembers)"
    by (simp_all add: pluginFuncs_def)
  ultimately show "answers waitingMembers demoFleet kyvernoOnly oneCluster (Inr ([], requeueAfter 30))"
    "answers waitingMembers demoFleet kyvernoOnly oneCluster (Inr ([], noRequeue))"
    unfolding answers_def wp_def by (metis (mono_tags, lifting) case_prod_beta prod.collapse)+
qed

theorem plugin_order_irrelevant_witness:
  "collectPlugins waitingMembers demoFleet [Inr ([], noRequeue), Inr ([], requeueAfter 30)] = retP (requeueAfter 30) \<and>
   collectPlugins waitingMembers demoFleet [Inr ([], requeueAfter 30), Inr ([], noRequeue)] = retP (requeueAfter 30)"
  using plugin_order_irrelevant [of "[Inr ([], noRequeue), Inr ([], requeueAfter 30)]" "[Inr ([], requeueAfter 30), Inr ([], noRequeue)]"
    waitingMembers demoFleet kyvernoOnly oneCluster] demo_answers
  by (auto simp: pluginErrors_def pluginRequeues_def requeues_def requeueAfter_def noRequeue_def)

section \<open>Releases no plugin asks for\<close>

lemma deleteWhere_sends:
  "wp (forEach xs (\<lambda>x. ifP (P x) (deleteK kind meta api x)))
    (\<lambda>r t. r = Ok () \<longrightarrow> reqs t = reqs s @ map (\<lambda>x. RDelete kind (meta x)) (filter P xs)) s"
proof (induction xs arbitrary: s)
  case (Cons x xs)
  show ?case
    unfolding forEach.simps wp_seqP wp_ifP deleteK_def
    by (auto intro!: wp_callP_any wp_mono [OF Cons.IH [unfolded deleteK_def]])
qed (simp add: wp_retP)

text \<open>C22.
  When the plugins are done, the fleet deletes exactly the Helm repositories and releases with its
  labels that no plugin has applied in this run; a run that succeeds has sent a delete request for
  each of them and for nothing else.
\<close>

theorem unused_releases_deleted:
  assumes "api_list (fe_helmRepository E) (m_namespace (fl_meta fleet)) (fleetResourceLabels (m_name (fl_meta fleet))) (world s) = (Inr repos, w)"
    and "api_list (fe_helmRelease E) (m_namespace (fl_meta fleet)) (fleetResourceLabels (m_name (fl_meta fleet))) w = (Inr releases, w')"
  shows "wp (reconcilePluginResources E fleet resources) (\<lambda>r t. r = Ok noRequeue \<longrightarrow> reqs t = reqs s @
    [RList ''HelmRepository'' (m_namespace (fl_meta fleet)) (fleetResourceLabels (m_name (fl_meta fleet))),
     RList ''HelmRelease'' (m_namespace (fl_meta fleet)) (fleetResourceLabels (m_name (fl_meta fleet)))] @
    map (RDelete ''HelmRepository'') (filter (\<lambda>m. \<lparr>rs_kind = HelmRepositoryKind, rs_key = keyOf m\<rparr> \<notin> set resources) repos) @
    map (\<lambda>hr. RDelete ''HelmRelease'' (hr_meta hr))
      (filter (\<lambda>hr. \<lparr>rs_kind = HelmReleaseKind, rs_key = keyOf (hr_meta hr)\<rparr> \<notin> set resources) releases)) s"
proof -
  have dict: "k \<in> set (map rs_key (filter (\<lambda>r. rs_kind r = kind) resources)) \<longleftrightarrow> \<lparr>rs_kind = kind, rs_key = k\<rparr> \<in> set resources" for k kind
  proof -
    have "r = \<lparr>rs_kind = kind, rs_key = k\<rparr> \<longleftrightarrow> rs_kind r = kind \<and> rs_key r = k" for r :: resource
      by (cases r) simp
    then show ?thesis
      by (auto simp: image_iff) metis
  qed
  have releases: "wp (seqP (forEach xs (\<lambda>x. ifP (P x) (deleteK kind meta api x))) (retP noRequeue))
      (\<lambda>r t. r = Ok noRequeue \<longrightarrow> reqs t = reqs s @ map (\<lambda>x. RDelete kind (meta x)) (filter P xs)) s" for xs P kind meta api and s :: "'a flstate"
    unfolding wp_seqP by (rule wp_mono [OF deleteWhere_sends]) (auto simp: wp_retP split: outcome.splits)
  have at: "world (s\<lparr>world := w, reqs := qs\<rparr>) = w" for s :: "'a flstate" and w qs
    by simp
  show ?thesis
    unfolding reconcilePluginResources_def Let_def listK_def dict wp_bindP wp_callP assms(1) prod.case sum.case outcome.case
    unfolding at assms(2) prod.case sum.case outcome.case
    by (rule wp_seqP [THEN iffD2], rule wp_mono [OF deleteWhere_sends]) (auto split: outcome.splits intro!: wp_mono [OF releases])
qed

definition demoReleases :: "memberWorld flenv" where
  "demoReleases = demoMembers\<lparr>fe_helmRepository := goneApi\<lparr>api_list := (\<lambda>ns labels w. (Inr [newMeta ''grafana'' ns, newMeta ''velero'' ns], w)),
     api_delete := (\<lambda>x w. (Inr (), w))\<rparr>\<rparr>"

theorem unused_releases_deleted_witness:
  "wp (reconcilePluginResources demoReleases demoFleet
       [\<lparr>rs_kind = HelmRepositoryKind, rs_key = \<lparr>k_namespace = ''default'', k_name = ''grafana''\<rparr>\<rparr>])
     (\<lambda>r t. r = Ok noRequeue \<longrightarrow> reqs t = [RList ''HelmRepository'' ''default'' (fleetResourceLabels ''quickstart''),
        RList ''HelmRelease'' ''default'' (fleetResourceLabels ''quickstart''),
        RDelete ''HelmRepository'' (newMeta ''velero'' ''default'')]) demoFleetState"
  using unused_releases_deleted [of demoReleases demoFleet demoFleetState "[newMeta ''grafana'' ''default'', newMeta ''velero'' ''default'']"
    "world demoFleetState" "[]" "world demoFleetState" "[\<lparr>rs_kind = HelmRepositoryKind, rs_key = \<lparr>k_namespace = ''default'', k_name = ''grafana''\<rparr>\<rparr>]"]
  by (simp add: demoReleases_def demoMembers_def quietEnv_def goneApi_def demoFleet_def demoFleetState_def newMeta_def keyOf_def)

section \<open>Backup providers without a secret\<close>

lemma mapP_panics:
  assumes "a \<in> set xs" and a: "\<And>s. wp (f a) (\<lambda>r t. r = Panic) s" and err: "\<And>y s. wp (f y) (\<lambda>r t. \<forall>e. r \<noteq> Err e) s"
  shows "wp (mapP xs f) (\<lambda>r t. r = Panic) s"
  using assms(1)
proof (induction xs arbitrary: s)
  case (Cons z zs)
  show ?case
  proof (cases "z = a")
    case True
    then show ?thesis
      unfolding wp_mapP_Cons by (simp, intro wp_mono [OF a]) simp
  next
    case False
    then have rest: "wp (mapP zs f) (\<lambda>r t. r = Panic) t" for t
      using Cons by simp
    show ?thesis
      unfolding wp_mapP_Cons by (rule wp_mono [OF err]) (auto split: outcome.splits intro!: wp_mono [OF rest])
  qed
qed simp

lemma backup_panics:
  assumes "fairSchedule E" and "pg_backup plugin = Some cfg" and "bsl_provider (bs_location (bk_storage cfg)) \<in> {''gcp'', ''azure''}"
    and "clusters \<noteq> []"
  shows "wp (reconcileBackupPlugin E fleet plugin clusters) (\<lambda>r t. r = Panic) s"
proof -
  have secret: "buildNewSecret E name (bsl_provider (bs_location (bk_storage cfg))) nn = retP None" for name nn
    using assms(3) by (auto simp: buildNewSecret_def buildGCPSecret_def buildAzureSecret_def)
  obtain cs w where range: "fe_range E clusters (world s) = (cs, w)"
    by fastforce
  have "mset cs = mset clusters"
    using assms(1) range unfolding fairSchedule_def by (metis fst_conv)
  then obtain c cs' where "cs = c # cs'"
    using assms(4) by (cases cs) auto
  then show ?thesis
    using range by (cases c) (simp add: reconcileBackupPlugin_def assms(2) secret wp_steps wp_extP wp_derefP)
qed

text \<open>A fleet whose backup plugin names the object store provider gcp or azure, which the API admits,
  makes the controller panic as soon as the fleet has a ready cluster: the secret for these providers
  is a nil pointer and the first cluster dereferences it, whatever the order of the plugins.
\<close>

theorem unsupported_backup_provider_panics:
  assumes "fairSchedule E" and "FleetPlugin (fl_spec (s_fleet s)) = Some plugin" and "pg_backup plugin = Some cfg"
    and "bsl_provider (bs_location (bk_storage cfg)) \<in> {''gcp'', ''azure''}" and "clusters \<noteq> []"
  shows "wp (reconcilePlugins E clusters) (\<lambda>r t. r = Panic) s"
proof -
  have "wp (mapP order (\<lambda>i. tryP ((pluginFuncs E ! i) fleet plugin clusters) retP)) (\<lambda>r t. r = Panic) t"
    if "3 \<in> set order" for order fleet t
  proof (rule mapP_panics [OF that])
    show "wp (tryP ((pluginFuncs E ! 3) fleet plugin clusters) retP) (\<lambda>r t. r = Panic) s" for s
      by (simp add: pluginFuncs_def wp_tryP) (rule wp_mono [OF backup_panics [OF assms(1,3-5)]], simp)
    show "wp (tryP m retP) (\<lambda>r t. \<forall>e. r \<noteq> Err e) s" for m :: "('a, pluginResult) flproc" and s
      by (auto simp: wp_tryP wp_retP intro!: wpI split: outcome.splits)
  qed
  moreover have "3 \<in> set (fst (fe_schedule E w))" for w
  proof -
    have "set (fst (fe_schedule E w)) = set [0..<length (pluginFuncs E)]"
      using assms(1) unfolding fairSchedule_def by (metis set_mset_mset)
    then show ?thesis
      by (simp add: pluginFuncs_def)
  qed
  ultimately have "wp (mapP (fst (fe_schedule E (world s))) (\<lambda>i. tryP ((pluginFuncs E ! i) (s_fleet s) plugin clusters) retP))
      (\<lambda>r t. r = Panic) (s\<lparr>world := snd (fe_schedule E (world s))\<rparr>)"
    by blast
  then show ?thesis
    by (simp add: reconcilePlugins_def wp_bindP wp_getP wp_extP split_beta assms(2)) (erule wp_mono, simp)
qed

definition demoBackup :: BackupConfig where
  "demoBackup = \<lparr>bk_chart = None, bk_storage = \<lparr>bs_location = \<lparr>Bucket = ''backups'', bsl_provider = ''gcp'', bsl_endpoint = [],
     bsl_region = [], bsl_config = []\<rparr>, bs_secretName = ''gcs''\<rparr>, bk_extraArgs = None\<rparr>"

definition demoPlugin :: PluginConfig where
  "demoPlugin = \<lparr>pg_metric = None, pg_grafana = None, pg_policy = None, pg_backup = Some demoBackup, pg_distributedStorage = None,
     pg_flagger = None, pg_submariner = None\<rparr>"

section \<open>Names of Helm resources\<close>

lemma kyverno_names_collide:
  "fp_cluster p = Some a \<Longrightarrow> fp_cluster q = Some b \<Longrightarrow> fp_component p = KyvernoComponentName \<Longrightarrow>
   fp_component q = KyvernoPolicyComponentName \<Longrightarrow> kc_name a = ''policies-'' @ kc_name b \<Longrightarrow> ResourceName p = ResourceName q"
  by (simp add: ResourceName_def KyvernoComponentName_def KyvernoPolicyComponentName_def)

end
