(* ===== verification/ApplicationHelpers.thy ===== *)
theory ApplicationHelpers
  imports FleetPlugins
begin

text \<open>
  The environment of the application controller and the part of
  \<open>pkg/fleet-manager/application/helper.go\<close> that does not write: the kinds and names of the objects
  an Application is made of, its fleet, the destination of a policy, and the clusters it selects.
\<close>

section \<open>Objects of flux, flagger and the member clusters\<close>

record SourceRepo =
  so_meta :: ObjectMeta
  so_spec :: foreign
  so_status :: foreign

record SourceReference =
  sref_kind :: string
  sref_name :: string

record KubeConfigReference =
  kcr_name :: string
  kcr_key :: string

record KustomizationSpec =
  kss_dependsOn :: "foreign list"
  kss_interval :: int
  kss_retryInterval :: "int option"
  kss_kubeConfig :: "KubeConfigReference option"
  kss_path :: string
  kss_prune :: bool
  kss_patches :: "foreign list"
  kss_images :: "foreign list"
  kss_sourceRef :: SourceReference
  kss_suspend :: bool
  kss_targetNamespace :: string
  kss_timeout :: "int option"
  kss_force :: bool
  kss_components :: "string list"
  kss_commonMetadata :: "CommonMetadata option"

record FluxKustomization =
  fk_meta :: ObjectMeta
  fk_spec :: "KustomizationSpec option"
  fk_status :: foreign

record FluxChartSpec =
  fcs_chart :: string
  fcs_version :: string
  fcs_sourceRef :: SourceReference
  fcs_interval :: "int option"
  fcs_reconcileStrategy :: string
  fcs_valuesFiles :: "string list"

record HelmReleaseSpec =
  hss_interval :: int
  hss_kubeConfig :: "KubeConfigReference option"
  hss_suspend :: bool
  hss_releaseName :: string
  hss_targetNamespace :: string
  hss_dependsOn :: "foreign list"
  hss_timeout :: "int option"
  hss_maxHistory :: "int option"
  hss_serviceAccountName :: string
  hss_persistentClient :: "bool option"
  hss_install :: "foreign option"
  hss_upgrade :: "foreign option"
  hss_rollback :: "foreign option"
  hss_uninstall :: "foreign option"
  hss_valuesFrom :: "foreign list"
  hss_values :: "foreign option"
  hss_chartMeta :: "HelmChartTemplateObjectMeta option"
  hss_chartSpec :: FluxChartSpec

record FluxHelmRelease =
  fh_meta :: ObjectMeta
  fh_spec :: "HelmReleaseSpec option"
  fh_status :: foreign

record IngressRule =
  ir_host :: string
  ir_service :: string
  ir_port :: int

record Ingress =
  ing_meta :: ObjectMeta
  ing_rules :: "IngressRule list"

record WorkloadPort =
  wp_port :: int
  wp_targetPort :: foreign

record WorkloadService =
  ws_meta :: ObjectMeta
  ws_ports :: "WorkloadPort list"

record Unstructured =
  un_meta :: ObjectMeta
  un_body :: foreign

record CanaryService =
  cs_name :: string
  cs_port :: int
  cs_gateways :: "string list"
  cs_hosts :: "string list"
  cs_retries :: "foreign option"
  cs_headers :: "foreign option"
  cs_corsPolicy :: "foreign option"
  cs_apex :: "CustomMetadata option"
  cs_canary :: "CustomMetadata option"
  cs_primary :: "CustomMetadata option"
  cs_timeout :: string
  cs_targetPort :: "foreign option"

record CanaryMetric =
  cmt_name :: string
  cmt_interval :: string
  cmt_thresholdRange :: "CanaryThresholdRange option"
  cmt_templateRef :: "objkey option"

record CanaryWebhook =
  cw_name :: string
  cw_url :: string
  cw_timeout :: string
  cw_metadata :: "(string \<times> string) list"

record CanaryAnalysis =
  can_iterations :: int
  can_threshold :: int
  can_match :: "foreign list"
  can_sessionAffinity :: "SessionAffinity option"
  can_maxWeight :: int
  can_stepWeight :: int
  can_stepWeights :: "int list"
  can_stepWeightPromotion :: int
  can_interval :: string
  can_metrics :: "CanaryMetric list"
  can_webhooks :: "CanaryWebhook list"

record LocalObjectReference =
  lr_apiVersion :: string
  lr_kind :: string
  lr_name :: string

record CanarySpec =
  csp_provider :: string
  csp_targetRef :: LocalObjectReference
  csp_progressDeadlineSeconds :: "int option"
  csp_skipAnalysis :: bool
  csp_revertOnDeletion :: bool
  csp_suspend :: bool
  csp_ingressRef :: "LocalObjectReference option"
  csp_service :: "CanaryService option"
  csp_analysis :: "CanaryAnalysis option"

record Canary =
  cry_meta :: ObjectMeta
  cry_spec :: "CanarySpec option"
  cry_status :: foreign

section \<open>Environment\<close>

record 'w rolloutMember =
  rm_namespace :: "('w, ObjectMeta) api"
  rm_ingress :: "('w, Ingress) api"
  rm_syncIngress :: "('w, Ingress) upsert"
  rm_deployment :: "('w, Unstructured) api"
  rm_testService :: "('w, Unstructured) api"
  rm_service :: "('w, WorkloadService) api"
  rm_canary :: "('w, Canary) api"
  rm_metricTemplate :: "('w, Unstructured) api"
  rm_syncMetricTemplate :: "('w, Unstructured) upsert"

text \<open>\<open>ap_order\<close> is the order \<open>UnsortedList\<close> gives the elements of a set.\<close>

record 'w apenv =
  ap_host :: "'w flenv"
  ap_app :: "('w, Application) api"
  ap_gitRepository :: "('w, SourceRepo) api"
  ap_helmRepository :: "('w, SourceRepo) api"
  ap_kustomization :: "('w, FluxKustomization) api"
  ap_helmRelease :: "('w, FluxHelmRelease) api"
  ap_syncSource :: "string \<Rightarrow> ('w, SourceRepo) upsert"
  ap_syncKustomization :: "('w, FluxKustomization) upsert"
  ap_syncHelmRelease :: "('w, FluxHelmRelease) upsert"
  ap_wrapClient :: "goerr + string"
  ap_rollout :: "string \<Rightarrow> 'w rolloutMember"
  ap_order :: "'w \<Rightarrow> (string list \<Rightarrow> string list) \<times> 'w"
  ap_unmarshal :: "string \<Rightarrow> goerr + Unstructured"

record 'w apstate = "'w kst" +
  s_app :: Application

type_synonym ('w, 'a) approc = "('w apstate, 'a) proc"

section \<open>Names and kinds\<close>

definition GitRepoKind :: string where "GitRepoKind = ''GitRepository''"
definition HelmRepoKind :: string where "HelmRepoKind = ''HelmRepository''"
definition OCIRepoKind :: string where "OCIRepoKind = ''OCIRepository''"
definition KustomizationKind :: string where "KustomizationKind = ''Kustomization''"
definition ApplicationLabel :: string where "ApplicationLabel = ''apps.kurator.dev/app-name''"
definition ApplicationKind :: string where "ApplicationKind = ''Application''"
definition ApplicationFinalizer :: string where "ApplicationFinalizer = ''apps.kurator.dev''"
definition appsAPIVersion :: string where "appsAPIVersion = ''apps.kurator.dev/v1alpha1''"
definition currentClusterKind :: string where "currentClusterKind = ''currentCluster''"
definition currentClusterName :: string where "currentClusterName = ''host''"
definition StatusSyncInterval :: int where "StatusSyncInterval = 30"

definition findSourceKind :: "Application \<Rightarrow> string" where
  "findSourceKind app =
     (if GitRepository (AppSource (app_spec app)) \<noteq> None then GitRepoKind
      else if HelmRepository (AppSource (app_spec app)) \<noteq> None then HelmRepoKind
      else if OCIRepository (AppSource (app_spec app)) \<noteq> None then OCIRepoKind
      else [])"

definition getSyncPolicyKind :: "ApplicationSyncPolicy \<Rightarrow> string" where
  "getSyncPolicyKind syncPolicy =
     (if Kustomization syncPolicy \<noteq> None then KustomizationKind
      else if Helm syncPolicy \<noteq> None then HelmReleaseKind
      else [])"

definition generatePolicyResourceName :: "string \<Rightarrow> string \<Rightarrow> string \<Rightarrow> string" where
  "generatePolicyResourceName policyName clusterKind clusterName =
     (let name = ToLower (policyName @ ''-'' @ clusterKind @ ''-'' @ clusterName)
      in if length name > 63 then take 63 name else name)"

definition generateSourceName :: "Application \<Rightarrow> string" where
  "generateSourceName app = m_name (app_meta app)"

definition generateApplicationOwnerRef :: "Application \<Rightarrow> OwnerReference" where
  "generateApplicationOwnerRef app = \<lparr>or_apiVersion = appsAPIVersion, or_kind = ApplicationKind,
     or_name = m_name (app_meta app), or_uid = m_uid (app_meta app)\<rparr>"

text \<open>\<open>None\<close> is the panic of an index out of range.\<close>

definition generatePolicyName :: "Application \<Rightarrow> nat \<Rightarrow> string option" where
  "generatePolicyName app index = map_option (\<lambda>policy.
     if length (PolicyName policy) = 0 then m_name (app_meta app) @ ''-'' @ showNat index else PolicyName policy)
     (indexO (SyncPolicies (app_spec app)) index)"

definition generateFleetKey :: "Application \<Rightarrow> objkey option" where
  "generateFleetKey app = map_option (\<lambda>policy.
     \<lparr>k_namespace = m_namespace (app_meta app),
      k_name = (case PolicyDestination policy of
          Some d \<Rightarrow> if length (DestFleet d) = 0
            then (case AppDestination (app_spec app) of None \<Rightarrow> [] | Some d' \<Rightarrow> DestFleet d') else DestFleet d
        | None \<Rightarrow> (case AppDestination (app_spec app) of None \<Rightarrow> [] | Some d' \<Rightarrow> DestFleet d'))\<rparr>)
     (indexO (SyncPolicies (app_spec app)) 0)"

text \<open>\<open>None\<close> is the panic of a nil destination.\<close>

definition getPolicyDestination :: "Application \<Rightarrow> ApplicationSyncPolicy \<Rightarrow> ApplicationDestination option" where
  "getPolicyDestination app policy = (case PolicyDestination policy of
     None \<Rightarrow> AppDestination (app_spec app)
   | Some d \<Rightarrow> Some d)"

definition doLabelsMatchSelector :: "gomap \<Rightarrow> (string \<times> string) list option \<Rightarrow> bool" where
  "doLabelsMatchSelector labels selector = (case selector of
     None \<Rightarrow> True
   | Some matchLabels \<Rightarrow> list_all (\<lambda>(k, v). mapHas labels k \<and> mapAt labels k = v) matchLabels)"

definition buildObjectMetaWithApplication :: "string \<Rightarrow> Application \<Rightarrow> ObjectMeta" where
  "buildObjectMetaWithApplication name app = (newMeta name (m_namespace (app_meta app)))\<lparr>
     m_labels := Some [ApplicationLabel \<mapsto> m_name (app_meta app)], m_ownerRefs := [generateApplicationOwnerRef app]\<rparr>"

section \<open>Clusters of a policy\<close>

definition fetchMember :: "'w apenv \<Rightarrow> string \<Rightarrow> objkey \<Rightarrow> (('w, 'm) kst_scheme, fleetCluster) proc" where
  "fetchMember E kind key =
     (if kind = FleetManager.ClusterKind then bindP (getK ''Cluster'' (fe_cluster (ap_host E)) key) (\<lambda>c. retP (FCluster c))
      else bindP (getK ''AttachedCluster'' (fe_attached (ap_host E)) key) (\<lambda>a. retP (FAttached a)))"

text \<open>The loop over the clusters of the fleet; a cluster that is not found ends it with a requeue.\<close>

fun fetchFleetClusters ::
  "'w apenv \<Rightarrow> Fleet \<Rightarrow> (string \<times> string) list option \<Rightarrow> ObjectReference list \<Rightarrow> fleetCluster list \<Rightarrow>
   (('w, 'm) kst_scheme, fleetCluster list \<times> Result) proc" where
  "fetchFleetClusters E fleet selector [] clusters = retP (clusters, noRequeue)"
| "fetchFleetClusters E fleet selector (ref # refs) clusters =
     (if r_kind ref = FleetManager.ClusterKind \<or> r_kind ref = AttachedClusterKind
      then tryP (fetchMember E (r_kind ref) (fleetKey fleet (r_name ref))) (\<lambda>r. case r of
          Inl e \<Rightarrow> if isNotFound e then retP ([], requeueAfter FleetRequeueAfter) else failP e
        | Inr c \<Rightarrow> fetchFleetClusters E fleet selector refs
            (if doLabelsMatchSelector (m_labels (metaOf c)) selector then clusters @ [c] else clusters))
      else fetchFleetClusters E fleet selector refs clusters)"

definition fetchFleetClusterList ::
  "'w apenv \<Rightarrow> Fleet \<Rightarrow> (string \<times> string) list option \<Rightarrow> (('w, 'm) kst_scheme, fleetCluster list \<times> Result) proc" where
  "fetchFleetClusterList E fleet selector = fetchFleetClusters E fleet selector (Clusters (fl_spec fleet)) []"

definition generateKubeConfig :: "fleetCluster \<Rightarrow> KubeConfigReference option" where
  "generateKubeConfig fleetCluster = map_option (\<lambda>name.
     \<lparr>kcr_name = name, kcr_key = GetSecretKey fleetCluster\<rparr>) (GetSecretName fleetCluster)"

end
