(* ===== verification/Testloader.thy ===== *)
theory Testloader
  imports Kube
begin

text \<open>
  The manifests of the private test loader
  (\<open>pkg/fleet-manager/application/manifests/rollout_testloader.go\<close>): two Go templates and their
  rendering. Of \<open>text/template\<close> they use the action that writes a field of the data.
\<close>

section \<open>Templates\<close>

text \<open>
  The pieces after an opening of an action each start with the name of a field and the closing; a
  name that is not a field of the data is an error.
\<close>

fun expandActions :: "(string \<rightharpoonup> string) \<Rightarrow> string list \<Rightarrow> goerr + string" where
  "expandActions flds [] = Inr []"
| "expandActions flds (piece # pieces) = (case splitLits [''}}''] piece of
     [] \<Rightarrow> Inl (EMsg ''unclosed action'')
   | name # rest \<Rightarrow> (case flds name of
       None \<Rightarrow> Inl (EMsg (''no such field '' @ name))
     | Some v \<Rightarrow> map_sum id (\<lambda>text. v @ joinS ''}}'' rest @ text) (expandActions flds pieces)))"

definition executeTemplate :: "string \<Rightarrow> (string \<rightharpoonup> string) \<Rightarrow> goerr + string" where
  "executeTemplate text flds = (case splitLits [''{{.''] text of
     [] \<Rightarrow> Inr []
   | t # pieces \<Rightarrow> map_sum id (\<lambda>rest. t @ rest) (expandActions flds pieces))"

section \<open>Test loader\<close>

record TestloaderConfig =
  tl_name :: string
  tl_namespace :: string
  tl_labelKey :: string
  tl_labelValue :: string
  tl_annotationKey :: string
  tl_annotationValue :: string

definition testloaderFields :: "TestloaderConfig \<Rightarrow> string \<rightharpoonup> string" where
  "testloaderFields cfg = [''Name'' \<mapsto> tl_name cfg, ''Namespace'' \<mapsto> tl_namespace cfg, ''LabelKey'' \<mapsto> tl_labelKey cfg,
     ''LabelValue'' \<mapsto> tl_labelValue cfg, ''AnnotationKey'' \<mapsto> tl_annotationKey cfg, ''AnnotationValue'' \<mapsto> tl_annotationValue cfg]"

definition renderTestloaderTemplateConfig :: "string \<Rightarrow> TestloaderConfig \<Rightarrow> goerr + string" where
  "renderTestloaderTemplateConfig constTemplateName cfg = executeTemplate constTemplateName (testloaderFields cfg)"

definition RenderTestloaderConfig :: "string \<Rightarrow> objkey \<Rightarrow> string \<Rightarrow> string \<Rightarrow> goerr + string" where
  "RenderTestloaderConfig constTemplateName namespacedName annotationKey annotationsValue =
     renderTestloaderTemplateConfig constTemplateName \<lparr>tl_name = k_name namespacedName, tl_namespace = k_namespace namespacedName,
       tl_labelKey = ''app'', tl_labelValue = k_name namespacedName, tl_annotationKey = annotationKey,
       tl_annotationValue = annotationsValue\<rparr>"

definition TestlaoderDeployment :: string where
  "TestlaoderDeployment = linesOf [
     ''apiVersion: apps/v1'',
     ''kind: Deployment'',
     ''metadata:'',
     ''  name: {{.Name}}'',
     ''  namespace: {{.Namespace}}'',
     ''  labels:'',
     ''    {{.LabelKey}}: {{.LabelValue}}'',
     ''  annotations:'',
     ''    {{.AnnotationKey}}: {{.AnnotationValue}}'',
     ''spec:'',
     ''  selector:'',
     ''    matchLabels:'',
     ''      {{.LabelKey}}: {{.LabelValue}}'',
     ''  template:'',
     ''    metadata:'',
     ''      labels:'',
     ''        {{.LabelKey}}: {{.LabelValue}}'',
     ''      annotations:'',
     ''        prometheus.io/scrape: \"true\"'',
     ''        prometheus.io/port: \"8080\"'',
     ''        openservicemesh.io/inbound-port-exclusion-list: \"80, 8080\"'',
     ''    spec:'',
     ''      containers:'',
     ''        - name: loadtester'',
     ''          image: ghcr.io/fluxcd/flagger-loadtester:0.29.0'',
     ''          imagePullPolicy: IfNotPresent'',
     ''          ports:'',
     ''            - name: http'',
     ''              containerPort: 8080'',
     ''          command:'',
     ''            - ./loadtester'',
     ''            - -port=8080'',
     ''            - -log-level=info'',
     ''            - -timeout=1h'',
     ''          livenessProbe:'',
     ''            exec:'',
     ''              command:'',
     ''                - wget'',
     ''                - --quiet'',
     ''                - --tries=1'',
     ''                - --timeout=4'',
     ''                - --spider'',
     ''                - http://localhost:8080/healthz'',
     ''            timeoutSeconds: 5'',
     ''          readinessProbe:'',
     ''            exec:'',
     ''              command:'',
     ''                - wget'',
     ''                - --quiet'',
     ''                - --tries=1'',
     ''                - --timeout=4'',
     ''                - --spider'',
     ''                - http://localhost:8080/healthz'',
     ''            timeoutSeconds: 5'',
     ''          resources:'',
     ''            limits:'',
     ''              memory: \"512Mi\"'',
     ''              cpu: \"1000m\"'',
     ''            requests:'',
     ''              memory: \"32Mi\"'',
     ''              cpu: \"10m\"'',
     ''          securityContext:'',
     ''            readOnlyRootFilesystem: true'',
     ''            runAsUser: 10001'']"

definition TestlaoderService :: string where
  "TestlaoderService = linesOf [
     ''apiVersion: v1'',
     ''kind: Service'',
     ''metadata:'',
     ''  name: {{.Name}}'',
     ''  namespace: {{.Namespace}}'',
     ''  labels:'',
     ''    {{.LabelKey}}: {{.LabelValue}}'',
     ''  annotations:'',
     ''    {{.AnnotationKey}}: {{.AnnotationValue}}'',
     ''spec:'',
     ''  type: ClusterIP'',
     ''  selector:'',
     ''    {{.LabelKey}}: {{.LabelValue}}'',
     ''  ports:'',
     ''    - name: http'',
     ''      port: 80'',
     ''      protocol: TCP'',
     ''      targetPort: http'']"

text \<open>A test loader can always be rendered; its manifest names it and holds the annotation by which it is found again.\<close>

lemma renderService:
  "RenderTestloaderConfig TestlaoderService key k v = Inr (linesOf [''apiVersion: v1'', ''kind: Service'', ''metadata:'',
     ''  name: '' @ k_name key, ''  namespace: '' @ k_namespace key, ''  labels:'', ''    app: '' @ k_name key,
     ''  annotations:'', ''    '' @ k @ '': '' @ v, ''spec:'', ''  type: ClusterIP'', ''  selector:'', ''    app: '' @ k_name key,
     ''  ports:'', ''    - name: http'', ''      port: 80'', ''      protocol: TCP'', ''      targetPort: http''])"
proof -
  have "splitLits [''{{.''] TestlaoderService =
    [linesOf [''apiVersion: v1'', ''kind: Service'', ''metadata:''] @ ''  name: '',
     ''Name}}'' @ nl # ''  namespace: '', ''Namespace}}'' @ nl # linesOf [''  labels:''] @ ''    '',
     ''LabelKey}}: '', ''LabelValue}}'' @ nl # linesOf [''  annotations:''] @ ''    '',
     ''AnnotationKey}}: '', ''AnnotationValue}}'' @ nl # linesOf [''spec:'', ''  type: ClusterIP'', ''  selector:''] @ ''    '',
     ''LabelKey}}: '', ''LabelValue}}'' @ nl # linesOf [''  ports:'', ''    - name: http'', ''      port: 80'', ''      protocol: TCP'', ''      targetPort: http'']]"
    by code_simp
  then show ?thesis
    unfolding RenderTestloaderConfig_def renderTestloaderTemplateConfig_def executeTemplate_def
    by (simp add: testloaderFields_def splitLits.simps linesOf_def)
qed

end
