(* ===== verification/Rollout.thy ===== *)
theory Rollout
  imports ApplicationHelpers Testloader
begin

text \<open>
  Rollouts (\<open>pkg/fleet-manager/application/rollout_helper.go\<close>): for every member cluster a policy
  selects, the controller prepares the traffic provider and the test loader and writes a flagger
  Canary; deleting an Application removes them again. The map of annotations is shared: the objects
  it is set on hold the map itself, so what is added to it, or decoded into it from an answer of the
  server, stays for the next object. It is passed along as \<open>ann\<close>.
\<close>

section \<open>Constants\<close>

definition RolloutIdentifier :: string where "RolloutIdentifier = ''kurator.dev/rollout''"
definition istioInject :: string where "istioInject = ''istio-injection''"
definition kumaInject :: string where "kumaInject = ''kuma.io/sidecar-injection''"
definition ingressAPIVersion :: string where "ingressAPIVersion = ''networking.k8s.io/v1''"
definition ingressKind :: string where "ingressKind = ''Ingress''"
definition ingressName :: string where "ingressName = ''nginx''"
definition ingressLabelKey :: string where "ingressLabelKey = ''app''"
definition ingressAnnotationKey :: string where "ingressAnnotationKey = ''kubernetes.io/ingress.class''"
definition ingressAnnotationValue :: string where "ingressAnnotationValue = ''nginx''"
definition kumaAnnotation :: string where "kumaAnnotation = ''9898.service.kuma.io/protocol''"
definition RequestSuccessRate :: string where "RequestSuccessRate = ''request-success-rate''"
definition RequestDuration :: string where "RequestDuration = ''request-duration''"

definition showInt :: "int \<Rightarrow> string" where
  "showInt n = (if n < 0 then ''-'' @ showNat (nat (- n)) else showNat (nat n))"

type_synonym annotations = "string \<rightharpoonup> string"

definition sharedWith :: "annotations \<Rightarrow> ObjectMeta \<Rightarrow> annotations" where
  "sharedWith ann m = ann ++ (case m_annotations m of None \<Rightarrow> Map.empty | Some a \<Rightarrow> a)"

section \<open>Labels and annotations\<close>

fun addPairs :: "string \<Rightarrow> (string \<times> string) list \<Rightarrow> annotations \<Rightarrow> goerr + annotations" where
  "addPairs what [] m = Inr m"
| "addPairs what ((k, v) # ps) m = (case m k of
     Some value \<Rightarrow> if value \<noteq> v then Inl (EMsg (what @ '' key conflict'')) else addPairs what ps m
   | None \<Rightarrow> addPairs what ps (m(k \<mapsto> v)))"

definition addLabels :: "(string \<times> string) list \<Rightarrow> ObjectMeta \<Rightarrow> goerr + ObjectMeta" where
  "addLabels labels obj = (case m_labels obj of
     None \<Rightarrow> Inr (obj\<lparr>m_labels := Some (map_of labels)\<rparr>)
   | Some existing \<Rightarrow> map_sum id (\<lambda>m. obj\<lparr>m_labels := Some m\<rparr>) (addPairs ''label'' labels existing))"

definition addAnnotations :: "(string \<times> string) list \<Rightarrow> ObjectMeta \<Rightarrow> goerr + ObjectMeta" where
  "addAnnotations ann obj = (case m_annotations obj of
     None \<Rightarrow> Inr (obj\<lparr>m_annotations := Some (map_of ann)\<rparr>)
   | Some existing \<Rightarrow> map_sum id (\<lambda>m. obj\<lparr>m_annotations := Some m\<rparr>) (addPairs ''annotation'' ann existing))"

definition mergeMap :: "(string \<rightharpoonup> RolloutStatus) \<Rightarrow> (string \<rightharpoonup> RolloutStatus) \<Rightarrow> (string \<rightharpoonup> RolloutStatus)" where
  "mergeMap m1 m2 = m1 ++ m2"

section \<open>Destination clusters\<close>

fun rolloutClusters ::
  "'w apenv \<Rightarrow> Fleet \<Rightarrow> fleetCluster list \<Rightarrow> fleetClusters \<Rightarrow> (('w, 'm) kst_scheme, fleetClusters) proc" where
  "rolloutClusters E fleet [] res = retP res"
| "rolloutClusters E fleet (cluster # rest) res =
     bindP (ClientForCluster (ap_host E) (m_namespace (fl_meta fleet)) cluster) (\<lambda>kclient.
     bindP (derefP (GetSecretName cluster)) (\<lambda>secretName.
     rolloutClusters E fleet rest (AList.update (fe_kind (ap_host E) cluster, m_name (metaOf cluster))
       \<lparr>fc_secret = secretName, fc_secretKey = GetSecretKey cluster, fc_client = kclient\<rparr> res)))"

text \<open>A fleet with a cluster that is not found gives no clusters and no error.\<close>

definition fetchRolloutClusters ::
  "'w apenv \<Rightarrow> Application \<Rightarrow> Fleet option \<Rightarrow> ApplicationSyncPolicy \<Rightarrow> (('w, 'm) kst_scheme, fleetClusters) proc" where
  "fetchRolloutClusters E app fleet syncPolicy = (case fleet of
     None \<Rightarrow> bindP (onErr (liftE (ap_wrapClient E)) (\<lambda>e. failP (EWrap ''failed to wrap client'' e))) (\<lambda>c.
       retP [((currentClusterKind, currentClusterName), \<lparr>fc_secret = [], fc_secretKey = [], fc_client = c\<rparr>)])
   | Some fl \<Rightarrow>
       bindP (derefP (getPolicyDestination app syncPolicy)) (\<lambda>destination.
       bindP (fetchFleetClusterList E fl (DestSelector destination)) (\<lambda>(clusters, result).
       if RequeueAfter result > 0 then retP [] else rolloutClusters E fl clusters [])))"

section \<open>Traffic provider\<close>

definition enableSidecarInjection ::
  "'w rolloutMember \<Rightarrow> string \<Rightarrow> Provider \<Rightarrow> annotations \<Rightarrow> (('w, 'm) kst_scheme, annotations) proc" where
  "enableSidecarInjection M namespace provider ann =
     tryP (getK ''Namespace'' (rm_namespace M) \<lparr>k_namespace = namespace, k_name = namespace\<rparr>) (\<lambda>r. case r of
       Inl e \<Rightarrow>
         if isNotFound e
         then let ann' = (if provider = Kuma then ann(kumaInject \<mapsto> ''enabled'') else ann);
                  ns = (newMeta namespace [])\<lparr>m_labels := (if provider = Istio then Some [istioInject \<mapsto> ''enabled''] else None),
                    m_annotations := Some ann'\<rparr>
              in bindP (onErr (createK ''Namespace'' (\<lambda>m. m) (rm_namespace M) ns)
                   (\<lambda>e. failP (EWrap ''failed to create namespace'' e))) (\<lambda>ns'. retP (sharedWith ann' ns'))
         else failP e
     | Inr ns \<Rightarrow>
         bindP (liftE (if provider = Kuma then addAnnotations [(kumaInject, ''enabled'')] ns
             else addLabels [(istioInject, ''enabled'')] ns)) (\<lambda>newNs.
         seqP (onErr (updateK ''Namespace'' (\<lambda>m. m) (rm_namespace M) newNs)
           (\<lambda>e. failP (EWrap ''failed to update namespace'' e)))
         (retP ann)))"

definition labelText :: "ObjectMeta \<Rightarrow> string" where
  "labelText m = mapAt (m_labels m) ingressLabelKey"

definition insertName :: "string \<Rightarrow> string list \<Rightarrow> string list" where
  "insertName x xs = (if x \<in> set xs then xs else xs @ [x])"

definition setLabelText :: "string \<Rightarrow> ObjectMeta \<Rightarrow> ObjectMeta" where
  "setLabelText v m = m\<lparr>m_labels := Some ((case m_labels m of None \<Rightarrow> Map.empty | Some ls \<Rightarrow> ls)(ingressLabelKey \<mapsto> v))\<rparr>"

definition ingressRule :: "RolloutConfig \<Rightarrow> TrafficRoutingConfig \<Rightarrow> IngressRule" where
  "ingressRule rollout routing = \<lparr>ir_host = Host routing, ir_service = ServiceName rollout, ir_port = RolloutPort rollout\<rparr>"

text \<open>The services of the ingress are a set of names in its label; \<open>order\<close> is the order they are written in.\<close>

definition routingOf :: "RolloutConfig \<Rightarrow> TrafficRoutingConfig option" where
  "routingOf rollout = Option.bind (RolloutPolicyConf rollout) TrafficRouting"

definition analysisOf :: "RolloutConfig \<Rightarrow> TrafficAnalysis option" where
  "analysisOf rollout = Option.bind (RolloutPolicyConf rollout) TrafficAnalysisConf"

definition renderNginxIngress ::
  "(string list \<Rightarrow> string list) \<Rightarrow> RolloutConfig \<Rightarrow> Ingress \<Rightarrow> Ingress outcome" where
  "renderNginxIngress order rollout ingress =
     (let m = (if labelText (ing_meta ingress) = []
            then (ing_meta ingress)\<lparr>m_labels := Some [ingressLabelKey \<mapsto> ServiceName rollout]\<rparr>
            else setLabelText (joinS '','' (order (insertName (ServiceName rollout)
              (remdups (splitLits ['',''] (labelText (ing_meta ingress))))))) (ing_meta ingress))
      in bindO (sumO (addAnnotations [(ingressAnnotationKey, ingressAnnotationValue)] m)) (\<lambda>m'.
         bindO (derefO (routingOf rollout)) (\<lambda>routing.
         Ok (ingress\<lparr>ing_meta := m', ing_rules := ing_rules ingress @ [ingressRule rollout routing]\<rparr>))))"

definition syncTraffic ::
  "'w apenv \<Rightarrow> 'w rolloutMember \<Rightarrow> RolloutConfig \<Rightarrow> CrossNamespaceObjectReference \<Rightarrow> annotations \<Rightarrow>
   (('w, 'm) kst_scheme, annotations) proc" where
  "syncTraffic E M rollout workload ann =
     (if TrafficRoutingProvider rollout = Istio \<or> TrafficRoutingProvider rollout = Kuma
      then onErr (enableSidecarInjection M (ref_namespace workload) (TrafficRoutingProvider rollout) ann)
        (\<lambda>e. failP (EWrap ''failed to set namespace sidecar inject enable'' e))
      else if TrafficRoutingProvider rollout = Nginx
      then bindP (extP (ap_order E)) (\<lambda>order.
        bindP (onErr (upsertK ''Ingress'' ing_meta (rm_syncIngress M)
            \<lparr>ing_meta = newMeta ingressName (ref_namespace workload), ing_rules = []\<rparr>
            (\<lambda>ingress. renderNginxIngress order rollout
               (ingress\<lparr>ing_meta := (ing_meta ingress)\<lparr>m_annotations := Some ann\<rparr>\<rparr>)))
          (\<lambda>e. failP (EWrap ''failed to operate ingress'' e))) (\<lambda>ingress.
        retP (sharedWith ann (ing_meta ingress))))
      else failP (EMsg (''unknown provider type '' @ providerName (TrafficRoutingProvider rollout))))"

section \<open>Test loader\<close>

definition createOrReplace ::
  "string \<Rightarrow> ('w, Unstructured) api \<Rightarrow> Unstructured \<Rightarrow> string \<Rightarrow> string \<Rightarrow> (('w, 'm) kst_scheme, unit) proc" where
  "createOrReplace kind api obj updateMsg createMsg =
     tryP (createK kind un_meta api obj) (\<lambda>r. case r of
       Inr _ \<Rightarrow> retP ()
     | Inl e \<Rightarrow>
         if isAlreadyExists e
         then bindP (onErr (updateK kind un_meta api obj) (\<lambda>e. failP (EWrap updateMsg e))) (\<lambda>_. retP ())
         else failP (EWrap createMsg e))"

definition installPrivateTestloader ::
  "'w apenv \<Rightarrow> 'w rolloutMember \<Rightarrow> objkey \<Rightarrow> string \<Rightarrow> string \<Rightarrow> (('w, 'm) kst_scheme, unit) proc" where
  "installPrivateTestloader E M namespacedName annotationKey annotationValue =
     bindP (liftE (RenderTestloaderConfig TestlaoderDeployment namespacedName annotationKey annotationValue)) (\<lambda>d.
     bindP (liftE (ap_unmarshal E d)) (\<lambda>deploy.
     seqP (createOrReplace ''Deployment'' (rm_deployment M) deploy ''failed to update testloader deployment''
       ''failed to create testloader deployment'')
     (bindP (liftE (RenderTestloaderConfig TestlaoderService namespacedName annotationKey annotationValue)) (\<lambda>v.
      bindP (liftE (ap_unmarshal E v)) (\<lambda>svc.
      createOrReplace ''Service'' (rm_testService M) svc ''failed to update testloader service''
        ''failed to create testloader service'')))))"

definition deleteResourceCreatedByKurator ::
  "string \<Rightarrow> ('o \<Rightarrow> ObjectMeta) \<Rightarrow> ('w, 'o) api \<Rightarrow> objkey \<Rightarrow> (('w, 'm) kst_scheme, unit) proc" where
  "deleteResourceCreatedByKurator kind meta api namespaceName =
     tryP (getK kind api namespaceName) (\<lambda>r. case r of
       Inl e \<Rightarrow> if \<not> isNotFound e then failP (EWrap ''failed to get resource'' e) else retP ()
     | Inr obj \<Rightarrow>
         ifP (mapHas (m_annotations (meta obj)) RolloutIdentifier)
           (tryP (deleteK kind meta api obj) (\<lambda>r. case r of
              Inl e \<Rightarrow> if \<not> isNotFound e then failP (EWrap ''failed to delete kubernetes resource'' e) else retP ()
            | Inr _ \<Rightarrow> retP ())))"

definition deleteTestloader :: "'w rolloutMember \<Rightarrow> objkey \<Rightarrow> (('w, 'm) kst_scheme, unit) proc" where
  "deleteTestloader M nn =
     seqP (deleteResourceCreatedByKurator ''Deployment'' un_meta (rm_deployment M) nn)
       (deleteResourceCreatedByKurator ''Service'' un_meta (rm_testService M) nn)"

definition testloaderKey :: "CrossNamespaceObjectReference \<Rightarrow> objkey" where
  "testloaderKey workload = \<lparr>k_namespace = ref_namespace workload, k_name = ref_name workload @ ''-testloader''\<rparr>"

definition syncTestloader ::
  "'w apenv \<Rightarrow> 'w rolloutMember \<Rightarrow> RolloutConfig \<Rightarrow> CrossNamespaceObjectReference \<Rightarrow> string \<Rightarrow> (('w, 'm) kst_scheme, unit) proc" where
  "syncTestloader E M rollout workload policyName =
     (if TestLoader rollout \<noteq> Some True then deleteTestloader M (testloaderKey workload)
      else onErr (installPrivateTestloader E M (testloaderKey workload) RolloutIdentifier policyName)
        (\<lambda>e. failP (EWrap ''failed to install private testloader for workload'' e)))"

section \<open>Canary\<close>

text \<open>The object a Get that fails leaves behind.\<close>

definition emptyCanary :: Canary where
  "emptyCanary = \<lparr>cry_meta = newMeta [] [], cry_spec = None, cry_status = []\<rparr>"

definition renderCanary :: "RolloutConfig \<Rightarrow> Canary \<Rightarrow> Canary outcome" where
  "renderCanary rollout canary =
     bindO (derefO (Workload rollout)) (\<lambda>workload.
     bindO (derefO (RolloutPolicyConf rollout)) (\<lambda>policy.
     let m = (cry_meta canary)\<lparr>m_namespace := ref_namespace workload, m_name := ref_name workload\<rparr> in
     Ok (canary\<lparr>
       cry_meta := (if TrafficRoutingProvider rollout = Kuma then m\<lparr>m_annotations := Some [''kuma.io/mesh'' \<mapsto> ''default'']\<rparr> else m),
       cry_spec := Some \<lparr>csp_provider = providerName (TrafficRoutingProvider rollout),
         csp_targetRef = \<lparr>lr_apiVersion = ref_apiVersion workload, lr_kind = ref_kind workload, lr_name = ref_name workload\<rparr>,
         csp_progressDeadlineSeconds = RolloutTimeoutSeconds policy, csp_skipAnalysis = SkipTrafficAnalysis policy,
         csp_revertOnDeletion = RevertOnDeletion policy, csp_suspend = Suspend policy,
         csp_ingressRef = (if TrafficRoutingProvider rollout = Nginx
           then Some \<lparr>lr_apiVersion = ingressAPIVersion, lr_kind = ingressKind, lr_name = ingressName\<rparr> else None),
         csp_service = None, csp_analysis = None\<rparr>\<rparr>)))"

definition renderCanaryService :: "RolloutConfig \<Rightarrow> WorkloadService \<Rightarrow> CanaryService outcome" where
  "renderCanaryService rollout service =
     bindO (derefO (routingOf rollout)) (\<lambda>routing.
     let istio = (TrafficRoutingProvider rollout = Istio);
         annotations = (if TrafficRoutingProvider rollout = Kuma
           then Some \<lparr>MetaLabels = None, MetaAnnotations = Some [kumaAnnotation \<mapsto> Protocol routing]\<rparr> else None)
     in Ok \<lparr>cs_name = ServiceName rollout, cs_port = RolloutPort rollout,
          cs_gateways = (if istio then Gateways routing else []), cs_hosts = (if istio then Hosts routing else []),
          cs_retries = (if istio then Retries routing else None), cs_headers = (if istio then Headers routing else None),
          cs_corsPolicy = (if istio then CorsPolicy routing else None),
          cs_apex = annotations, cs_canary = annotations, cs_primary = annotations,
          cs_timeout = showInt (RoutingTimeoutSeconds routing) @ ''s'',
          cs_targetPort = map_option wp_targetPort (find (\<lambda>port. wp_port port = RolloutPort rollout) (ws_ports service))\<rparr>)"

definition generateWebhookUrl :: "string \<Rightarrow> string \<Rightarrow> string" where
  "generateWebhookUrl name namespace = ''http://'' @ name @ ''.'' @ namespace @ ''/''"

fun renderMetrics :: "string \<Rightarrow> Metric list \<Rightarrow> CanaryMetric list outcome" where
  "renderMetrics namespace [] = Ok []"
| "renderMetrics namespace (metric # metrics) =
     bindO (derefO (IntervalSeconds metric)) (\<lambda>interval.
     bindO (renderMetrics namespace metrics) (\<lambda>rest.
     Ok (\<lparr>cmt_name = MetricName metric, cmt_interval = showInt interval @ ''s'', cmt_thresholdRange = ThresholdRange metric,
       cmt_templateRef = (if MetricName metric \<noteq> RequestSuccessRate \<and> MetricName metric \<noteq> RequestDuration
         then Some \<lparr>k_namespace = namespace, k_name = MetricName metric\<rparr> else None)\<rparr> # rest)))"

definition webhookURL :: "RolloutConfig \<Rightarrow> string \<Rightarrow> string \<Rightarrow> string" where
  "webhookURL rollout namespace clusterName =
     (if TestLoader rollout = Some True then generateWebhookUrl (ServiceName rollout @ ''-testloader'') namespace
      else case TrafficRoutingProvider rollout of
        OtherProvider _ \<Rightarrow> []
      | p \<Rightarrow> generateWebhookUrl (ProviderNamespace p @ ''-testloader-'' @ clusterName @ ''-loadtester'') (ProviderNamespace p))"

definition renderWebhooks :: "RolloutConfig \<Rightarrow> string \<Rightarrow> Webhook \<Rightarrow> string \<Rightarrow> CanaryWebhook list outcome" where
  "renderWebhooks rollout namespace webhooks clusterName =
     (if length (Commands webhooks) = 0 then Ok []
      else bindO (derefO (WebhookTimeoutSeconds webhooks)) (\<lambda>timeout.
        Ok (map (\<lambda>(index, command). \<lparr>cw_name = ''generated-testload'' @ ''-'' @ showNat index,
            cw_url = webhookURL rollout namespace clusterName, cw_timeout = showInt timeout @ ''s'',
            cw_metadata = [(''type'', ''cmd''), (''cmd'', command)]\<rparr>) (enumerate 0 (Commands webhooks)))))"

definition renderCanaryAnalysis :: "RolloutConfig \<Rightarrow> string \<Rightarrow> CanaryAnalysis outcome" where
  "renderCanaryAnalysis rollout clusterName =
     bindO (derefO (Workload rollout)) (\<lambda>workload.
     bindO (derefO (routingOf rollout)) (\<lambda>routing.
     bindO (derefO (analysisOf rollout)) (\<lambda>analysis.
     bindO (derefO (CheckFailedTimes analysis)) (\<lambda>threshold.
     bindO (derefO (CheckIntervalSeconds analysis)) (\<lambda>interval.
     bindO (renderMetrics (ref_namespace workload) (Metrics analysis)) (\<lambda>metrics.
     bindO (renderWebhooks rollout (ref_namespace workload) (Webhooks analysis) clusterName) (\<lambda>webhooks.
     let strategy = CanaryStrategy routing in
     Ok \<lparr>can_iterations = AnalysisTimes routing, can_threshold = threshold, can_match = MatchRequests routing,
       can_sessionAffinity = SessionAffinityConf analysis,
       can_maxWeight = (case strategy of None \<Rightarrow> 0 | Some c \<Rightarrow> MaxWeight c),
       can_stepWeight = (case strategy of None \<Rightarrow> 0 | Some c \<Rightarrow> StepWeight c),
       can_stepWeights = (case strategy of None \<Rightarrow> [] | Some c \<Rightarrow> StepWeights c),
       can_stepWeightPromotion = (case strategy of None \<Rightarrow> 0 | Some c \<Rightarrow> StepWeightPromotion c),
       can_interval = showInt interval @ ''s'', can_metrics = metrics, can_webhooks = webhooks\<rparr>)))))))"

definition applyMetricTemplate :: "'w rolloutMember \<Rightarrow> Metric list \<Rightarrow> string \<Rightarrow> string \<Rightarrow> (('w, 'm) kst_scheme, unit) proc" where
  "applyMetricTemplate M metrics namespace policyName =
     forEach metrics (\<lambda>metric. case CustomMetric metric of
       None \<Rightarrow> retP ()
     | Some spec \<Rightarrow>
         bindP (onErr (upsertK ''MetricTemplate'' un_meta (rm_syncMetricTemplate M)
             \<lparr>un_meta = (newMeta (MetricName metric) namespace)\<lparr>m_annotations := Some [RolloutIdentifier \<mapsto> policyName]\<rparr>, un_body = []\<rparr>
             (\<lambda>template. Ok (template\<lparr>un_body := spec\<rparr>)))
           (\<lambda>e. failP (EWrap ''error apply MetricTemplate for canary'' e))) (\<lambda>_. retP ()))"

section \<open>Synchronizing a rollout\<close>

definition serviceKey :: "RolloutConfig \<Rightarrow> CrossNamespaceObjectReference \<Rightarrow> objkey" where
  "serviceKey rollout workload = \<lparr>k_namespace = ref_namespace workload, k_name = ServiceName rollout\<rparr>"

definition syncCanary ::
  "'w rolloutMember \<Rightarrow> RolloutConfig \<Rightarrow> CrossNamespaceObjectReference \<Rightarrow> string \<Rightarrow> string \<Rightarrow> annotations \<Rightarrow>
   (('w, 'm) kst_scheme, annotations) proc" where
  "syncCanary M rollout workload policyName clusterName ann =
     bindP (onErr (getK ''Service'' (rm_service M) (serviceKey rollout workload))
       (\<lambda>e. failP (EWrap (if isNotFound e then ''not found service'' else ''failed to get service'') e))) (\<lambda>service.
     tryP (getK ''Canary'' (rm_canary M) (serviceKey rollout workload)) (\<lambda>found.
     if (case found of Inl e \<Rightarrow> \<not> isNotFound e | Inr _ \<Rightarrow> False)
     then failP (EWrap ''failed to get canary'' (case found of Inl e \<Rightarrow> e | Inr _ \<Rightarrow> EMsg []))
     else bindP (liftO (renderCanary rollout (case found of Inl _ \<Rightarrow> emptyCanary | Inr c \<Rightarrow> c))) (\<lambda>canary.
       bindP (onErr (liftO (renderCanaryService rollout service))
         (\<lambda>e. failP (EWrap ''failed rander canary configuration'' e))) (\<lambda>canaryService.
       bindP (derefP (analysisOf rollout)) (\<lambda>trafficAnalysis.
       seqP (applyMetricTemplate M (Metrics trafficAnalysis) (ref_namespace workload) policyName)
       (bindP (liftO (renderCanaryAnalysis rollout clusterName)) (\<lambda>analysis.
        let c = canary\<lparr>cry_meta := (cry_meta canary)\<lparr>m_annotations := Some ann\<rparr>,
              cry_spec := map_option (\<lambda>sp. sp\<lparr>csp_service := Some canaryService, csp_analysis := Some analysis\<rparr>) (cry_spec canary)\<rparr>
        in bindP (case found of
             Inl _ \<Rightarrow> onErr (createK ''Canary'' cry_meta (rm_canary M) c)
               (\<lambda>e. failP (EOpaque ''failed to create rolloutPolicy: '' e))
           | Inr _ \<Rightarrow> onErr (updateK ''Canary'' cry_meta (rm_canary M) c)
               (\<lambda>e. failP (EOpaque ''failed to update rolloutPolicy: '' e))) (\<lambda>c'.
        retP (sharedWith ann (cry_meta c'))))))))))"

fun syncRolloutClusters ::
  "'w apenv \<Rightarrow> RolloutConfig \<Rightarrow> CrossNamespaceObjectReference \<Rightarrow> string \<Rightarrow> fleetClusters \<Rightarrow> annotations \<Rightarrow>
   (('w, 'm) kst_scheme, unit) proc" where
  "syncRolloutClusters E rollout workload policyName [] ann = retP ()"
| "syncRolloutClusters E rollout workload policyName ((key, cluster) # rest) ann =
     (let M = ap_rollout E (fc_client cluster) in
      bindP (syncTraffic E M rollout workload ann) (\<lambda>ann1.
      seqP (syncTestloader E M rollout workload policyName)
      (bindP (syncCanary M rollout workload policyName (snd key) ann1) (\<lambda>ann2.
       syncRolloutClusters E rollout workload policyName rest ann2))))"

definition syncRolloutPolicyForCluster ::
  "'w apenv \<Rightarrow> RolloutConfig \<Rightarrow> fleetClusters \<Rightarrow> string \<Rightarrow> (('w, 'm) kst_scheme, unit) proc" where
  "syncRolloutPolicyForCluster E rollout destinationClusters policyName =
     bindP (derefP (Workload rollout)) (\<lambda>workload.
     bindP (extP (fe_range (ap_host E) destinationClusters)) (\<lambda>clusters.
     syncRolloutClusters E rollout workload policyName clusters [RolloutIdentifier \<mapsto> policyName]))"

section \<open>Status\<close>

fun rolloutStatuses ::
  "'w apenv \<Rightarrow> RolloutConfig \<Rightarrow> string \<Rightarrow> fleetClusters \<Rightarrow> (string \<rightharpoonup> RolloutStatus) \<Rightarrow>
   (('w, 'm) kst_scheme, string \<rightharpoonup> RolloutStatus) proc" where
  "rolloutStatuses E rollout policyName [] st = retP st"
| "rolloutStatuses E rollout policyName ((key, cluster) # rest) st =
     (let name = generatePolicyResourceName policyName (fst key) (snd key) in
      bindP (derefP (Workload rollout)) (\<lambda>workload.
      bindP (onErr (getK ''Canary'' (rm_canary (ap_rollout E (fc_client cluster)))
          \<lparr>k_namespace = ref_namespace workload, k_name = ref_name workload\<rparr>)
        (\<lambda>e. failP (EWrap ''failed to get canary'' e))) (\<lambda>canary.
      rolloutStatuses E rollout policyName rest (st(name \<mapsto> (case st name of
         Some status \<Rightarrow> status\<lparr>RolloutStatusInCluster := Some (cry_status canary)\<rparr>
       | None \<Rightarrow> \<lparr>RolloutClusterName = snd key, RolloutNameInCluster = ref_name workload,
           RolloutStatusInCluster = Some (cry_status canary)\<rparr>))))))"

definition reconcileRolloutSyncStatus ::
  "'w apenv \<Rightarrow> Application \<Rightarrow> Fleet option \<Rightarrow> ApplicationSyncPolicy \<Rightarrow> RolloutConfig \<Rightarrow> string \<Rightarrow>
   (('w, 'm) kst_scheme, string \<rightharpoonup> RolloutStatus) proc" where
  "reconcileRolloutSyncStatus E app fleet syncPolicy rollout policyName =
     bindP (fetchRolloutClusters E app fleet syncPolicy) (\<lambda>destinationClusters.
     bindP (extP (fe_range (ap_host E) destinationClusters)) (\<lambda>clusters.
     rolloutStatuses E rollout policyName clusters Map.empty))"

section \<open>Deletion\<close>

definition updateIngressRulesAndLabels ::
  "'w apenv \<Rightarrow> 'w rolloutMember \<Rightarrow> Ingress \<Rightarrow> RolloutConfig \<Rightarrow> string list \<Rightarrow> (('w, 'm) kst_scheme, unit) proc" where
  "updateIngressRulesAndLabels E M ingress rollout names =
     bindP (if ing_rules ingress = [] then retP []
        else bindP (derefP (routingOf rollout)) (\<lambda>routing.
          retP (filter (\<lambda>rule. ir_host rule \<noteq> Host routing) (ing_rules ingress)))) (\<lambda>newRules.
     bindP (extP (ap_order E)) (\<lambda>order.
     bindP (onErr (updateK ''Ingress'' ing_meta (rm_ingress M) (ingress\<lparr>ing_rules := newRules,
         ing_meta := setLabelText (joinS '','' (order (removeAll (ServiceName rollout) names))) (ing_meta ingress)\<rparr>))
       (\<lambda>e. failP (EWrap ''failed to Update ingress'' e))) (\<lambda>_. retP ())))"

definition deleteIngressCreatedByKurator ::
  "'w apenv \<Rightarrow> 'w rolloutMember \<Rightarrow> RolloutConfig \<Rightarrow> CrossNamespaceObjectReference \<Rightarrow> (('w, 'm) kst_scheme, unit) proc" where
  "deleteIngressCreatedByKurator E M rollout workload =
     tryP (getK ''Ingress'' (rm_ingress M) \<lparr>k_namespace = ref_namespace workload, k_name = ingressName\<rparr>) (\<lambda>r. case r of
       Inl e \<Rightarrow> if \<not> isNotFound e then failP (EWrap ''failed to get ingress'' e) else retP ()
     | Inr ingress \<Rightarrow>
         ifP (mapHas (m_annotations (ing_meta ingress)) RolloutIdentifier)
           (let names = remdups (splitLits ['',''] (labelText (ing_meta ingress))) in
            ifP (ServiceName rollout \<in> set names)
              (if length names = 1
               then onErr (deleteK ''Ingress'' ing_meta (rm_ingress M) ingress)
                 (\<lambda>e. failP (EWrap ''failed to Delete ingress'' e))
               else updateIngressRulesAndLabels E M ingress rollout names)))"

definition deleteMetricTemplateName :: "'w rolloutMember \<Rightarrow> objkey list \<Rightarrow> (('w, 'm) kst_scheme, unit) proc" where
  "deleteMetricTemplateName M keys = forEach keys (\<lambda>k.
     onErr (deleteResourceCreatedByKurator ''MetricTemplate'' un_meta (rm_metricTemplate M) k)
       (\<lambda>e. failP (EWrap ''failed to delete MetricTemplate'' e)))"

definition metricTemplateKeys :: "TrafficAnalysis \<Rightarrow> CrossNamespaceObjectReference \<Rightarrow> objkey list" where
  "metricTemplateKeys analysis workload =
     map (\<lambda>metric. \<lparr>k_namespace = ref_namespace workload, k_name = MetricName metric\<rparr>)
       (filter (\<lambda>metric. CustomMetric metric \<noteq> None) (Metrics analysis))"

definition deleteInCluster ::
  "'w apenv \<Rightarrow> RolloutConfig \<Rightarrow> CrossNamespaceObjectReference \<Rightarrow> objkey list \<Rightarrow> FleetCluster \<Rightarrow> (('w, 'm) kst_scheme, unit) proc" where
  "deleteInCluster E rollout workload templates cluster =
     (let M = ap_rollout E (fc_client cluster) in
      seqP (deleteIngressCreatedByKurator E M rollout workload)
      (seqP (onErr (deleteResourceCreatedByKurator ''Deployment'' un_meta (rm_deployment M) (testloaderKey workload))
        (\<lambda>e. failP (EWrap ''failed to delete testloader deployment'' e)))
      (seqP (onErr (deleteResourceCreatedByKurator ''Service'' un_meta (rm_testService M) (testloaderKey workload))
        (\<lambda>e. failP (EWrap ''failed to delete testloader service'' e)))
      (seqP (deleteMetricTemplateName M templates)
       (onErr (deleteResourceCreatedByKurator ''Canary'' cry_meta (rm_canary M) (serviceKey rollout workload))
         (\<lambda>e. failP (EWrap ''failed to delete canary'' e)))))))"

definition deletePolicyResources ::
  "'w apenv \<Rightarrow> Application \<Rightarrow> Fleet option \<Rightarrow> ApplicationSyncPolicy \<Rightarrow> (('w, 'm) kst_scheme, unit) proc" where
  "deletePolicyResources E app fleet syncPolicy = (case Rollout syncPolicy of
     None \<Rightarrow> retP ()
   | Some rollout \<Rightarrow>
       bindP (onErr (fetchRolloutClusters E app fleet syncPolicy)
         (\<lambda>e. failP (EWrap ''failed to fetch destination clusters when delete rollout resource'' e))) (\<lambda>destinationClusters.
       bindP (derefP (Workload rollout)) (\<lambda>workload.
       bindP (derefP (analysisOf rollout)) (\<lambda>analysis.
       bindP (extP (fe_range (ap_host E) destinationClusters)) (\<lambda>clusters.
       forEach clusters (\<lambda>(_, cluster). deleteInCluster E rollout workload (metricTemplateKeys analysis workload) cluster))))))"

definition deleteResourcesInMemberClusters ::
  "'w apenv \<Rightarrow> Application \<Rightarrow> Fleet option \<Rightarrow> (('w, 'm) kst_scheme, unit) proc" where
  "deleteResourcesInMemberClusters E app fleet =
     forEach (SyncPolicies (app_spec app)) (deletePolicyResources E app fleet)"

end
