(* ===== verification/ApplicationManager.thy ===== *)
theory ApplicationManager
  imports Rollout
begin

text \<open>
  The application controller (\<open>pkg/fleet-manager/application/controller.go\<close> and the writing part of
  \<open>helper.go\<close>). An Application becomes one flux source and, for every policy and every cluster the
  policy selects, one Kustomization or HelmRelease; rollouts are handed to flagger. The status of
  the Application collects theirs.
\<close>

section \<open>Source\<close>

definition syncRepo :: "'w apenv \<Rightarrow> string \<Rightarrow> Application \<Rightarrow> foreign \<Rightarrow> (('w, 'm) kst_scheme, unit) proc" where
  "syncRepo E kind app spec =
     bindP (onErr (upsertK kind so_meta (ap_syncSource E kind)
         \<lparr>so_meta = buildObjectMetaWithApplication (generateSourceName app) app, so_spec = [], so_status = []\<rparr>
         (\<lambda>target. Ok (target\<lparr>so_spec := spec\<rparr>)))
       (\<lambda>e. failP (EOpaque (''error sync: '' @ kind) e))) (\<lambda>_. retP ())"

definition syncSourceResource :: "'w apenv \<Rightarrow> Application \<Rightarrow> (('w, 'm) kst_scheme, Result) proc" where
  "syncSourceResource E app =
     (let source = AppSource (app_spec app); kind = findSourceKind app in
      seqP (if kind = GitRepoKind then bindP (derefP (GitRepository source)) (syncRepo E kind app)
        else if kind = HelmRepoKind then bindP (derefP (HelmRepository source)) (syncRepo E kind app)
        else if kind = OCIRepoKind then bindP (derefP (OCIRepository source)) (syncRepo E kind app)
        else retP ())
      (retP noRequeue))"

section \<open>Policies\<close>

definition sourceRef :: "Application \<Rightarrow> SourceReference" where
  "sourceRef app = \<lparr>sref_kind = findSourceKind app, sref_name = generateSourceName app\<rparr>"

definition kustomizationSpec :: "Application \<Rightarrow> AppKustomization \<Rightarrow> KubeConfigReference option \<Rightarrow> KustomizationSpec" where
  "kustomizationSpec app k kubeConfig = \<lparr>kss_dependsOn = ks_dependsOn k, kss_interval = ks_interval k,
     kss_retryInterval = ks_retryInterval k, kss_kubeConfig = kubeConfig, kss_path = ks_path k, kss_prune = ks_prune k,
     kss_patches = ks_patches k, kss_images = ks_images k, kss_sourceRef = sourceRef app, kss_suspend = ks_suspend k,
     kss_targetNamespace = ks_targetNamespace k, kss_timeout = ks_timeout k, kss_force = ks_force k,
     kss_components = ks_components k, kss_commonMetadata = ks_commonMetadata k\<rparr>"

definition syncKustomizationForCluster ::
  "'w apenv \<Rightarrow> Application \<Rightarrow> AppKustomization \<Rightarrow> KubeConfigReference option \<Rightarrow> string \<Rightarrow> (('w, 'm) kst_scheme, Result) proc" where
  "syncKustomizationForCluster E app kustomization kubeConfig kustomizationName =
     bindP (onErr (upsertK KustomizationKind fk_meta (ap_syncKustomization E)
         \<lparr>fk_meta = buildObjectMetaWithApplication kustomizationName app, fk_spec = None, fk_status = []\<rparr>
         (\<lambda>target. Ok (target\<lparr>fk_spec := Some (kustomizationSpec app kustomization kubeConfig)\<rparr>)))
       (\<lambda>e. failP (EOpaque ''error sync Kustomization for cluster'' e))) (\<lambda>_. retP noRequeue)"

definition helmReleaseSpec :: "Application \<Rightarrow> AppHelmRelease \<Rightarrow> KubeConfigReference option \<Rightarrow> HelmReleaseSpec" where
  "helmReleaseSpec app h kubeConfig = \<lparr>hss_interval = he_interval h, hss_kubeConfig = kubeConfig, hss_suspend = he_suspend h,
     hss_releaseName = he_releaseName h, hss_targetNamespace = he_targetNamespace h, hss_dependsOn = he_dependsOn h,
     hss_timeout = he_timeout h, hss_maxHistory = he_maxHistory h, hss_serviceAccountName = he_serviceAccountName h,
     hss_persistentClient = he_persistentClient h, hss_install = he_install h, hss_upgrade = he_upgrade h,
     hss_rollback = he_rollback h, hss_uninstall = he_uninstall h, hss_valuesFrom = he_valuesFrom h, hss_values = he_values h,
     hss_chartMeta = hct_objectMeta (he_chart h),
     hss_chartSpec = \<lparr>fcs_chart = hct_chart (hct_spec (he_chart h)), fcs_version = hct_version (hct_spec (he_chart h)),
       fcs_sourceRef = sourceRef app, fcs_interval = hct_interval (hct_spec (he_chart h)),
       fcs_reconcileStrategy = hct_reconcileStrategy (hct_spec (he_chart h)), fcs_valuesFiles = hct_valuesFiles (hct_spec (he_chart h))\<rparr>\<rparr>"

definition syncHelmReleaseForCluster ::
  "'w apenv \<Rightarrow> Application \<Rightarrow> AppHelmRelease \<Rightarrow> KubeConfigReference option \<Rightarrow> string \<Rightarrow> (('w, 'm) kst_scheme, Result) proc" where
  "syncHelmReleaseForCluster E app helmRelease kubeConfig helmReleaseName =
     bindP (onErr (upsertK HelmReleaseKind fh_meta (ap_syncHelmRelease E)
         \<lparr>fh_meta = buildObjectMetaWithApplication helmReleaseName app, fh_spec = None, fh_status = []\<rparr>
         (\<lambda>target. Ok (target\<lparr>fh_spec := Some (helmReleaseSpec app helmRelease kubeConfig)\<rparr>)))
       (\<lambda>e. failP (EOpaque ''error sync HelmRelease for cluster'' e))) (\<lambda>_. retP noRequeue)"

text \<open>\<open>cluster\<close> is the cluster of the fleet with its kubeconfig, \<open>None\<close> for the cluster of the controller.\<close>

definition policyResourceName :: "'w apenv \<Rightarrow> string \<Rightarrow> (fleetCluster \<times> KubeConfigReference) option \<Rightarrow> string" where
  "policyResourceName E policyName cluster = (case cluster of
     Some (c, _) \<Rightarrow> generatePolicyResourceName policyName (fe_kind (ap_host E) c) (m_name (metaOf c))
   | None \<Rightarrow> generatePolicyResourceName policyName currentClusterKind currentClusterName)"

definition handleSyncPolicyByKind ::
  "'w apenv \<Rightarrow> Application \<Rightarrow> ApplicationSyncPolicy \<Rightarrow> string \<Rightarrow> (fleetCluster \<times> KubeConfigReference) option \<Rightarrow>
   (('w, 'm) kst_scheme, Result) proc" where
  "handleSyncPolicyByKind E app syncPolicy policyName cluster =
     (let name = policyResourceName E policyName cluster; kubeConfig = map_option snd cluster;
          policyKind = getSyncPolicyKind syncPolicy in
      if policyKind = KustomizationKind
      then bindP (derefP (Kustomization syncPolicy)) (\<lambda>kustomization.
        syncKustomizationForCluster E app kustomization kubeConfig name)
      else if policyKind = HelmReleaseKind
      then bindP (derefP (Helm syncPolicy)) (\<lambda>helmRelease. syncHelmReleaseForCluster E app helmRelease kubeConfig name)
      else retP noRequeue)"

text \<open>The loop over the clusters; a result that asks for a requeue ends it.\<close>

fun syncClusters ::
  "'w apenv \<Rightarrow> Application \<Rightarrow> ApplicationSyncPolicy \<Rightarrow> string \<Rightarrow> fleetCluster list \<Rightarrow> (('w, 'm) kst_scheme, Result) proc" where
  "syncClusters E app syncPolicy policyName [] = retP noRequeue"
| "syncClusters E app syncPolicy policyName (c # cs) =
     bindP (derefP (generateKubeConfig c)) (\<lambda>kubeconfig.
     bindP (onErr (handleSyncPolicyByKind E app syncPolicy policyName (Some (c, kubeconfig)))
       (\<lambda>e. failP (EWrap ''failed to handleSyncPolicyByKind currentFleetCluster'' e))) (\<lambda>result.
     if RequeueAfter result > 0 then retP result else syncClusters E app syncPolicy policyName cs))"

definition syncDestination ::
  "'w apenv \<Rightarrow> Application \<Rightarrow> Fleet option \<Rightarrow> ApplicationSyncPolicy \<Rightarrow> string \<Rightarrow> (('w, 'm) kst_scheme, Result) proc" where
  "syncDestination E app fleet syncPolicy policyName = (case fleet of
     Some fl \<Rightarrow>
       bindP (derefP (getPolicyDestination app syncPolicy)) (\<lambda>destination.
       bindP (fetchFleetClusterList E fl (DestSelector destination)) (\<lambda>(clusters, result).
       if RequeueAfter result > 0 then retP result else syncClusters E app syncPolicy policyName clusters))
   | None \<Rightarrow> onErr (handleSyncPolicyByKind E app syncPolicy policyName None)
       (\<lambda>e. failP (EWrap ''failed to handleSyncPolicyByKind in currentCluster'' e)))"

definition syncPolicyResource ::
  "'w apenv \<Rightarrow> Application \<Rightarrow> Fleet option \<Rightarrow> ApplicationSyncPolicy \<Rightarrow> string \<Rightarrow> (('w, 'm) kst_scheme, Result) proc" where
  "syncPolicyResource E app fleet syncPolicy policyName =
     bindP (syncDestination E app fleet syncPolicy policyName) (\<lambda>result.
     if RequeueAfter result > 0 then retP result
     else seqP (case Rollout syncPolicy of
         None \<Rightarrow> retP ()
       | Some rollout \<Rightarrow>
           bindP (fetchRolloutClusters E app fleet syncPolicy) (\<lambda>rolloutClusters.
           onErr (syncRolloutPolicyForCluster E rollout rolloutClusters policyName)
             (\<lambda>e. failP (EWrap ''failed to syncRolloutPolicy'' e))))
       (retP noRequeue))"

fun syncPolicies ::
  "'w apenv \<Rightarrow> Application \<Rightarrow> Fleet option \<Rightarrow> (nat \<times> ApplicationSyncPolicy) list \<Rightarrow> (('w, 'm) kst_scheme, Result) proc" where
  "syncPolicies E app fleet [] = retP noRequeue"
| "syncPolicies E app fleet ((index, policy) # ps) =
     bindP (derefP (generatePolicyName app index)) (\<lambda>policyName.
     bindP (syncPolicyResource E app fleet policy policyName) (\<lambda>result.
     if RequeueAfter result > 0 then retP result else syncPolicies E app fleet ps))"

definition reconcileApplicationResources :: "'w apenv \<Rightarrow> Fleet option \<Rightarrow> ('w, Result) approc" where
  "reconcileApplicationResources E fleet = bindP (getP s_app) (\<lambda>app.
     bindP (syncSourceResource E app) (\<lambda>result.
     if RequeueAfter result > 0 then retP result
     else syncPolicies E app fleet (enumerate 0 (SyncPolicies (app_spec app)))))"

section \<open>Status\<close>

definition setAppStatus :: "(ApplicationStatus \<Rightarrow> ApplicationStatus) \<Rightarrow> ('w, unit) approc" where
  "setAppStatus f = modifyP (\<lambda>s. s\<lparr>s_app := s_app s\<lparr>app_status := f (app_status (s_app s))\<rparr>\<rparr>)"

definition setSourceStatus :: "(ApplicationSourceStatus \<Rightarrow> ApplicationSourceStatus) \<Rightarrow> ('w, unit) approc" where
  "setSourceStatus f = setAppStatus (\<lambda>st. st\<lparr>SourceStatus := map_option f (SourceStatus st)\<rparr>)"

definition noSourceStatus :: ApplicationSourceStatus where
  "noSourceStatus = \<lparr>GitRepoStatus = None, HelmRepoStatus = None, OCIRepoStatus = None\<rparr>"

definition sourceStatusOf ::
  "string \<Rightarrow> ('w, SourceRepo) api \<Rightarrow> objkey \<Rightarrow> (foreign \<Rightarrow> ApplicationSourceStatus \<Rightarrow> ApplicationSourceStatus) \<Rightarrow> ('w, unit) approc" where
  "sourceStatusOf kind api key put =
     tryP (getK kind api key) (\<lambda>r. case r of
       Inl e \<Rightarrow> if \<not> isNotFound e then failP e else retP ()
     | Inr current \<Rightarrow> setSourceStatus (put (so_status current)))"

definition reconcileSourceStatus :: "'w apenv \<Rightarrow> ('w, unit) approc" where
  "reconcileSourceStatus E = bindP (getP s_app) (\<lambda>app.
     let sourceKey = \<lparr>k_namespace = m_namespace (app_meta app), k_name = generateSourceName app\<rparr>; kind = findSourceKind app in
     seqP (ifP (SourceStatus (app_status app) = None) (setAppStatus (\<lambda>st. st\<lparr>SourceStatus := Some noSourceStatus\<rparr>)))
     (if kind = GitRepoKind
      then sourceStatusOf kind (ap_gitRepository E) sourceKey (\<lambda>v st. st\<lparr>GitRepoStatus := Some v\<rparr>)
      else if kind = HelmRepoKind
      then sourceStatusOf kind (ap_helmRepository E) sourceKey (\<lambda>v st. st\<lparr>HelmRepoStatus := Some v\<rparr>)
      else retP ()))"

definition appLabels :: "Application \<Rightarrow> (string \<times> string) list" where
  "appLabels app = [(ApplicationLabel, m_name (app_meta app))]"

definition listOrNone :: "(('w, 'm) kst_scheme, 'a list) proc \<Rightarrow> (('w, 'm) kst_scheme, 'a list) proc" where
  "listOrNone m = onErr m (\<lambda>e.
     if \<not> isNotFound e then failP (EWrap ''failed to fetch kustomizationList for application'' e) else retP [])"

definition getKustomizationList :: "'w apenv \<Rightarrow> Application \<Rightarrow> ('w, FluxKustomization list) approc" where
  "getKustomizationList E app = listOrNone (listK KustomizationKind (ap_kustomization E) (m_namespace (app_meta app)) (appLabels app))"

definition getHelmReleaseList :: "'w apenv \<Rightarrow> Application \<Rightarrow> ('w, FluxHelmRelease list) approc" where
  "getHelmReleaseList E app = listOrNone (listK HelmReleaseKind (ap_helmRelease E) (m_namespace (app_meta app)) (appLabels app))"

text \<open>
  The entries hold a pointer into the loop variable. The module is built with Go 1.20, where a loop
  has one variable for all its rounds: \<open>var\<close> is its address, every round stores its item there and
  appends an entry with that address. The entries are read when the Application is patched, after
  the loop.
\<close>

fun rangeEntries :: "('a \<Rightarrow> string) \<Rightarrow> nat \<Rightarrow> 'a list \<Rightarrow> (nat \<rightharpoonup> 'a) \<Rightarrow> (string \<times> nat) list \<Rightarrow> (string \<times> nat) list \<times> (nat \<rightharpoonup> 'a)" where
  "rangeEntries name var [] store entries = (entries, store)"
| "rangeEntries name var (item # items) store entries =
     rangeEntries name var items (store(var \<mapsto> item)) (entries @ [(name item, var)])"

definition kustomizationStatuses :: "FluxKustomization list \<Rightarrow> ApplicationSyncStatus list" where
  "kustomizationStatuses items = (case rangeEntries (\<lambda>k. m_name (fk_meta k)) 0 items Map.empty [] of (entries, store) \<Rightarrow>
     map (\<lambda>(name, p). \<lparr>SyncName = name, KustomizationStatus = map_option fk_status (store p),
       HelmReleaseStatus = None, SyncRolloutStatus = None\<rparr>) entries)"

definition helmReleaseStatuses :: "FluxHelmRelease list \<Rightarrow> ApplicationSyncStatus list" where
  "helmReleaseStatuses items = (case rangeEntries (\<lambda>h. m_name (fh_meta h)) 0 items Map.empty [] of (entries, store) \<Rightarrow>
     map (\<lambda>(name, p). \<lparr>SyncName = name, KustomizationStatus = None,
       HelmReleaseStatus = map_option fh_status (store p), SyncRolloutStatus = None\<rparr>) entries)"

fun policyRolloutStatus ::
  "'w apenv \<Rightarrow> Application \<Rightarrow> Fleet option \<Rightarrow> (nat \<times> ApplicationSyncPolicy) list \<Rightarrow> (string \<rightharpoonup> RolloutStatus) \<Rightarrow>
   ('w, string \<rightharpoonup> RolloutStatus) approc" where
  "policyRolloutStatus E app fleet [] st = retP st"
| "policyRolloutStatus E app fleet ((index, syncPolicy) # ps) st = (case Rollout syncPolicy of
     None \<Rightarrow> policyRolloutStatus E app fleet ps st
   | Some rollout \<Rightarrow>
       bindP (derefP (generatePolicyName app index)) (\<lambda>policyName.
       bindP (onErr (reconcileRolloutSyncStatus E app fleet syncPolicy rollout policyName)
         (\<lambda>e. failP (EWrap ''failed to reconcil rollout status'' e))) (\<lambda>status.
       policyRolloutStatus E app fleet ps (mergeMap status st))))"

definition withRolloutStatus :: "(string \<rightharpoonup> RolloutStatus) \<Rightarrow> ApplicationSyncStatus \<Rightarrow> ApplicationSyncStatus" where
  "withRolloutStatus rolloutStatus p = (case rolloutStatus (SyncName p) of
     Some st \<Rightarrow> p\<lparr>SyncRolloutStatus := Some st\<rparr> | None \<Rightarrow> p)"

definition reconcileSyncStatus :: "'w apenv \<Rightarrow> Fleet option \<Rightarrow> ('w, Result) approc" where
  "reconcileSyncStatus E fleet = bindP (getP s_app) (\<lambda>app.
     bindP (getKustomizationList E app) (\<lambda>kustomizations.
     bindP (getHelmReleaseList E app) (\<lambda>helmReleases.
     bindP (policyRolloutStatus E app fleet (enumerate 0 (SyncPolicies (app_spec app))) Map.empty) (\<lambda>rolloutStatus.
     seqP (setAppStatus (\<lambda>st. st\<lparr>SyncStatus := map (withRolloutStatus rolloutStatus)
       (kustomizationStatuses kustomizations @ helmReleaseStatuses helmReleases)\<rparr>))
     (retP (requeueAfter StatusSyncInterval))))))"

definition reconcileStatus :: "'w apenv \<Rightarrow> Fleet option \<Rightarrow> ('w, Result) approc" where
  "reconcileStatus E fleet = seqP (reconcileSourceStatus E) (reconcileSyncStatus E fleet)"

section \<open>Reconciling\<close>

definition reconcileApp :: "'w apenv \<Rightarrow> Fleet option \<Rightarrow> ('w, Result) approc" where
  "reconcileApp E fleet =
     bindP (reconcileApplicationResources E fleet) (\<lambda>result.
     if RequeueAfter result > 0 then retP result else reconcileStatus E fleet)"

definition setAppFinalizers :: "(string list \<Rightarrow> string list) \<Rightarrow> ('w, unit) approc" where
  "setAppFinalizers f = modifyP (\<lambda>s. s\<lparr>s_app := s_app s\<lparr>app_meta :=
     app_meta (s_app s)\<lparr>m_finalizers := f (m_finalizers (app_meta (s_app s)))\<rparr>\<rparr>\<rparr>)"

definition reconcileAppDelete :: "'w apenv \<Rightarrow> Fleet option \<Rightarrow> ('w, Result) approc" where
  "reconcileAppDelete E fleet = bindP (getP s_app) (\<lambda>app.
     seqP (onErr (deleteResourcesInMemberClusters E app fleet) (\<lambda>e. failP (EWrap ''failed to delete rollout resource in cluster'' e)))
     (seqP (setAppFinalizers (\<lambda>fs. removeFinalizer (fe_lib (ap_host E)) fs ApplicationFinalizer))
     (retP noRequeue)))"

definition reconcileWithFleet :: "'w apenv \<Rightarrow> Fleet option \<Rightarrow> ('w, Result) approc" where
  "reconcileWithFleet E fleet = bindP (getP s_app) (\<lambda>app.
     if m_deletionTimestamp (app_meta app) \<noteq> None then reconcileAppDelete E fleet else reconcileApp E fleet)"

definition reconcileAppBody :: "'w apenv \<Rightarrow> ('w, Result) approc" where
  "reconcileAppBody E =
     bindP (getP s_app) (\<lambda>app0.
     seqP (ifP (\<not> fe_containsFinalizer (ap_host E) (m_finalizers (app_meta app0)) ApplicationFinalizer)
       (setAppFinalizers (\<lambda>fs. addFinalizer (fe_lib (ap_host E)) fs ApplicationFinalizer)))
     (bindP (derefP (generateFleetKey app0)) (\<lambda>fleetKey.
      if k_name fleetKey \<noteq> []
      then tryP (getK ''Fleet'' (fe_fleet (ap_host E)) fleetKey) (\<lambda>r. case r of
          Inl e \<Rightarrow> if isNotFound e then retP (requeueAfter FleetRequeueAfter) else failP e
        | Inr fleet \<Rightarrow> reconcileWithFleet E (Some fleet))
      else reconcileWithFleet E None)))"

definition ReconcileApp :: "'w apenv \<Rightarrow> objkey \<Rightarrow> ('w, Result) approc" where
  "ReconcileApp E req =
     tryP (getK ApplicationKind (ap_app E) req) (\<lambda>r. case r of
       Inl e \<Rightarrow> if isNotFound e then retP noRequeue else failP (EWrap ''failed to get application'' e)
     | Inr app \<Rightarrow>
         seqP (modifyP (\<lambda>s. s\<lparr>s_app := app\<rparr>))
         (seqP (onErr (callP (RExternal ''NewHelper'' []) (api_newHelper (ap_app E) app))
           (\<lambda>e. failP (EWrap ''failed to init patch helper for application'' e)))
         (deferErr (reconcileAppBody E)
           (bindP (getP s_app) (\<lambda>after.
            onErr (patchK ApplicationKind app_meta (ap_app E) app after)
              (\<lambda>e. failP (EWrap ''failed to patch application'' e)))))))"

definition objectToApplicationFunc :: "ObjectMeta \<Rightarrow> objkey list" where
  "objectToApplicationFunc o' = (let name = mapAt (m_labels o') ApplicationLabel in
     if name \<noteq> [] then [\<lparr>k_namespace = m_namespace o', k_name = name\<rparr>] else [])"

end
