(* ===== verification/ApplicationProperties.thy ===== *)
theory ApplicationProperties
  imports ApplicationManager FleetMembership WebhookProperties
begin

text \<open>
  Properties of the application controller: which clusters a policy is deployed to, how the
  admission of an Application fits what the controller assumes about its destinations, what the
  status shows, and what deletion leaves behind.
\<close>

section \<open>What the servers keep\<close>

definition appServer ::
  "'w apenv \<Rightarrow> ('w \<Rightarrow> objkey \<rightharpoonup> Cluster) \<Rightarrow> ('w \<Rightarrow> objkey \<rightharpoonup> AttachedCluster) \<Rightarrow> ('w \<Rightarrow> objkey \<rightharpoonup> FluxKustomization) \<Rightarrow> bool" where
  "appServer E cls ats kss \<longleftrightarrow>
     (\<forall>k w. api_get (fe_cluster (ap_host E)) k w = (case cls w k of None \<Rightarrow> Inl NotFound | Some x \<Rightarrow> Inr x, w)) \<and>
     (\<forall>k w. api_get (fe_attached (ap_host E)) k w = (case ats w k of None \<Rightarrow> Inl NotFound | Some x \<Rightarrow> Inr x, w)) \<and>
     upserts fk_meta (ap_syncKustomization E) kss (\<lambda>w w'. cls w' = cls w \<and> ats w' = ats w)"

section \<open>Selecting clusters\<close>

definition memberOf :: "(memberKey \<rightharpoonup> fleetCluster) \<Rightarrow> Fleet \<Rightarrow> ObjectReference \<Rightarrow> fleetCluster option" where
  "memberOf V fleet ref =
     (if r_kind ref = FleetManager.ClusterKind \<or> r_kind ref = AttachedClusterKind then V (r_kind ref, fleetKey fleet (r_name ref)) else None)"

definition allPresent :: "(memberKey \<rightharpoonup> fleetCluster) \<Rightarrow> Fleet \<Rightarrow> bool" where
  "allPresent V fleet \<longleftrightarrow> list_all (\<lambda>ref. r_kind ref = FleetManager.ClusterKind \<or> r_kind ref = AttachedClusterKind \<longrightarrow> memberOf V fleet ref \<noteq> None)
     (Clusters (fl_spec fleet))"

definition selectedClusters :: "(memberKey \<rightharpoonup> fleetCluster) \<Rightarrow> Fleet \<Rightarrow> (string \<times> string) list option \<Rightarrow> fleetCluster list" where
  "selectedClusters V fleet selector = filter (\<lambda>c. doLabelsMatchSelector (m_labels (metaOf c)) selector)
     (List.map_filter (memberOf V fleet) (Clusters (fl_spec fleet)))"

lemma wp_fetchMember:
  assumes "appServer E cls ats kss" and "kind = FleetManager.ClusterKind \<or> kind = AttachedClusterKind"
    and "memberView cls ats (world s) (kind, key) = Some c" and "\<And>qs. Q (Ok c) (s\<lparr>reqs := qs\<rparr>)"
  shows "wp (fetchMember E kind key) Q s"
  using assms kindOf_neq
  by (auto simp: appServer_def fetchMember_def memberView_def apiK_defs wp_bindP wp_callP wp_retP split: if_splits)

lemma fetchFleetClusters_run:
  assumes S: "appServer E cls ats kss" and "memberView cls ats (world s) = V"
    and "list_all (\<lambda>ref. r_kind ref = FleetManager.ClusterKind \<or> r_kind ref = AttachedClusterKind \<longrightarrow> memberOf V fleet ref \<noteq> None) refs"
    and "\<And>qs. Q (Ok (clusters @ filter (\<lambda>c. doLabelsMatchSelector (m_labels (metaOf c)) selector)
      (List.map_filter (memberOf V fleet) refs), noRequeue)) (s\<lparr>reqs := qs\<rparr>)"
  shows "wp (fetchFleetClusters E fleet selector refs clusters) Q s"
  using assms(2-)
proof (induction refs arbitrary: clusters s)
  case Nil
  then show ?case
    using Nil(3) [of "reqs s"] by (simp add: wp_retP map_filter_simps)
next
  case (Cons ref refs)
  have present: "list_all (\<lambda>ref. r_kind ref = FleetManager.ClusterKind \<or> r_kind ref = AttachedClusterKind \<longrightarrow> memberOf V fleet ref \<noteq> None) refs"
    using Cons.prems(2) by simp
  show ?case
  proof (cases "r_kind ref = FleetManager.ClusterKind \<or> r_kind ref = AttachedClusterKind")
    case True
    then obtain c where c: "memberOf V fleet ref = Some c"
      using Cons.prems(2) by auto
    then have V: "memberView cls ats (world s) (r_kind ref, fleetKey fleet (r_name ref)) = Some c"
      using True Cons.prems(1) by (simp add: memberOf_def)
    have "wp (fetchFleetClusters E fleet selector refs
        (if doLabelsMatchSelector (m_labels (metaOf c)) selector then clusters @ [c] else clusters)) Q (s\<lparr>reqs := qs\<rparr>)" for qs
      using Cons.prems(3)
      by (cases "doLabelsMatchSelector (m_labels (metaOf c)) selector"; intro Cons.IH [OF _ present])
        (simp_all add: Cons.prems(1) map_filter_simps c)
    then show ?thesis
      unfolding fetchFleetClusters.simps if_P [OF True] wp_tryP
      by (intro wp_fetchMember [OF S True V]) simp
  next
    case False
    then have "memberOf V fleet ref = None"
      by (simp add: memberOf_def)
    then show ?thesis
      unfolding fetchFleetClusters.simps if_not_P [OF False]
      using Cons.prems(3) by (intro Cons.IH [OF Cons.prems(1) present]) (simp add: map_filter_simps)
  qed
qed

section \<open>Writing the policies\<close>

definition policyKey :: "'w apenv \<Rightarrow> Application \<Rightarrow> string \<Rightarrow> fleetCluster \<Rightarrow> objkey" where
  "policyKey E app policyName c = \<lparr>k_namespace = m_namespace (app_meta app),
     k_name = generatePolicyResourceName policyName (fe_kind (ap_host E) c) (m_name (metaOf c))\<rparr>"

text \<open>
  The Kustomizations of the policy for a list of clusters, and nothing else. The clusters are written
  one after the other: where several have the same name for their Kustomization, the last one stays.
\<close>

definition hasKubeConfig :: "fleetCluster \<Rightarrow> bool" where
  "hasKubeConfig c \<longleftrightarrow> generateKubeConfig c \<noteq> None"

definition lastOfName :: "'w apenv \<Rightarrow> Application \<Rightarrow> string \<Rightarrow> fleetCluster list \<Rightarrow> objkey \<Rightarrow> fleetCluster" where
  "lastOfName E app policyName cs key = last (filter (\<lambda>c. policyKey E app policyName c = key) cs)"

definition deployed ::
  "'w apenv \<Rightarrow> Application \<Rightarrow> AppKustomization \<Rightarrow> string \<Rightarrow> fleetCluster list \<Rightarrow> (objkey \<rightharpoonup> FluxKustomization) \<Rightarrow>
   (objkey \<rightharpoonup> FluxKustomization) \<Rightarrow> bool" where
  "deployed E app k policyName cs K K' \<longleftrightarrow> (\<forall>key.
     if key \<in> policyKey E app policyName ` set cs
     then \<exists>o'. K' key = Some o' \<and> fk_spec o' = Some (kustomizationSpec app k (generateKubeConfig (lastOfName E app policyName cs key)))
     else K' key = K key)"

lemma deployed_Cons:
  assumes "deployed E app k policyName cs (K(policyKey E app policyName c \<mapsto> o')) K'"
    and "fk_spec o' = Some (kustomizationSpec app k (generateKubeConfig c))"
  shows "deployed E app k policyName (c # cs) K K'"
proof -
  let ?key = "policyKey E app policyName"
  have "if x \<in> ?key ` set (c # cs)
      then \<exists>y. K' x = Some y \<and> fk_spec y = Some (kustomizationSpec app k (generateKubeConfig (lastOfName E app policyName (c # cs) x)))
      else K' x = K x" for x
  proof (cases "x \<in> ?key ` set cs")
    case True
    then have "filter (\<lambda>d. ?key d = x) cs \<noteq> []"
      by (auto simp: filter_empty_conv)
    then have "lastOfName E app policyName (c # cs) x = lastOfName E app policyName cs x"
      by (simp add: lastOfName_def)
    then show ?thesis
      using True assms(1) [unfolded deployed_def, rule_format, of x] by simp
  next
    case False
    then have "filter (\<lambda>d. ?key d = x) cs = []"
      by (auto simp: filter_empty_conv)
    then have "x = ?key c \<Longrightarrow> lastOfName E app policyName (c # cs) x = c"
      by (simp add: lastOfName_def)
    then show ?thesis
      using False assms(2) assms(1) [unfolded deployed_def, rule_format, of x] by auto
  qed
  then show ?thesis
    unfolding deployed_def by blast
qed

text \<open>The names are cut at 63 characters: behind a long prefix the clusters are not told apart.\<close>

lemma policy_names_collide:
  assumes "63 \<le> length (policyName @ ''-'' @ kind @ ''-'')"
  shows "generatePolicyResourceName policyName kind name = generatePolicyResourceName policyName kind name'"
proof -
  define pre where "pre = policyName @ ''-'' @ kind @ ''-''"
  have "generatePolicyResourceName policyName kind n = take 63 (map toLowerChar pre)" for n
  proof -
    have name: "policyName @ ''-'' @ kind @ ''-'' @ n = pre @ n"
      by (simp add: pre_def)
    show ?thesis
      unfolding generatePolicyResourceName_def Let_def name ToLower_def using assms [folded pre_def] by (cases n) auto
  qed
  then show ?thesis
    by metis
qed

lemma wp_syncKustomization:
  assumes S: "appServer E cls ats kss"
    and post: "\<And>w' qs o'. \<lbrakk>kss w' = (kss (world s))(\<lparr>k_namespace = m_namespace (app_meta app), k_name = name\<rparr> \<mapsto> o');
      fk_spec o' = Some (kustomizationSpec app k kc); cls w' = cls (world s); ats w' = ats (world s)\<rbrakk> \<Longrightarrow>
      Q (Ok noRequeue) (s\<lparr>world := w', reqs := qs\<rparr>)"
  shows "wp (syncKustomizationForCluster E app k kc name) Q s"
proof -
  let ?x = "\<lparr>fk_meta = buildObjectMetaWithApplication name app, fk_spec = None, fk_status = []\<rparr>"
  let ?f = "\<lambda>target. Ok (target\<lparr>fk_spec := Some (kustomizationSpec app k kc)\<rparr>)"
  have key: "keyOf (buildObjectMetaWithApplication name app) = \<lparr>k_namespace = m_namespace (app_meta app), k_name = name\<rparr>"
    by (simp add: buildObjectMetaWithApplication_def newMeta_def keyOf_def)
  have U: "upserts fk_meta (ap_syncKustomization E) kss (\<lambda>w w'. cls w' = cls w \<and> ats w' = ats w)"
    using S by (simp add: appServer_def)
  define y where "y = (case kss (world s) (keyOf (fk_meta ?x)) of None \<Rightarrow> ?x | Some old \<Rightarrow> old)\<lparr>fk_spec := Some (kustomizationSpec app k kc)\<rparr>"
  obtain w' where w': "ap_syncKustomization E ?x ?f (world s) = (Ok y, w')" "kss w' = (kss (world s))(keyOf (fk_meta ?x) \<mapsto> y)"
    "cls w' = cls (world s)" "ats w' = ats (world s)"
    using upsertsD [OF U, where f = ?f and x = ?x and w = "world s" and y = y] unfolding y_def by blast
  have "fk_spec y = Some (kustomizationSpec app k kc)"
    by (simp add: y_def)
  then have "Q (Ok noRequeue) (s\<lparr>world := w', reqs := qs\<rparr>)" for qs
    using w'(2-4) by (intro post) (simp_all add: key)
  then show ?thesis
    unfolding syncKustomizationForCluster_def upsertK_def
    using w'(1) by (simp add: wp_bindP wp_onErr wp_callO wp_retP)
qed

lemma noRequeue_after: "RequeueAfter noRequeue = 0"
  by (simp add: noRequeue_def)

lemma syncClusters_run:
  assumes S: "appServer E cls ats kss" and K: "Kustomization policy = Some k"
  shows "wp (syncClusters E app policy policyName cs) (\<lambda>r t.
    r = (if list_all hasKubeConfig cs then Ok noRequeue else Panic) \<and>
    deployed E app k policyName (takeWhile hasKubeConfig cs) (kss (world s)) (kss (world t))) s"
proof (induction cs arbitrary: s)
  case Nil
  show ?case
    by (simp add: wp_retP deployed_def)
next
  case (Cons c cs)
  have kind: "getSyncPolicyKind policy = KustomizationKind"
    using K by (simp add: getSyncPolicyKind_def)
  show ?case
  proof (cases "generateKubeConfig c")
    case None
    then show ?thesis
      by (simp add: wp_bindP wp_derefP deployed_def hasKubeConfig_def)
  next
    case (Some kc)
    let ?Q = "\<lambda>r t. r = (if list_all hasKubeConfig (c # cs) then Ok noRequeue else Panic) \<and>
      deployed E app k policyName (takeWhile hasKubeConfig (c # cs)) (kss (world s)) (kss (world t))"
    have step: "wp (syncClusters E app policy policyName cs) ?Q (s\<lparr>world := w', reqs := qs\<rparr>)"
      if "kss w' = (kss (world s))(policyKey E app policyName c \<mapsto> o')" "fk_spec o' = Some (kustomizationSpec app k (Some kc))" for w' qs o'
    proof -
      have "deployed E app k policyName (c # xs) (kss (world s)) K'" if "deployed E app k policyName xs (kss w') K'" for xs K'
        using that \<open>kss w' = _\<close> \<open>fk_spec o' = _\<close> Some by (auto intro: deployed_Cons)
      moreover have "hasKubeConfig c"
        using Some by (simp add: hasKubeConfig_def)
      ultimately show ?thesis
        using Cons.IH [of "s\<lparr>world := w', reqs := qs\<rparr>"] by (auto elim!: wp_mono)
    qed
    show ?thesis
      unfolding syncClusters.simps wp_bindP wp_derefP Some option.case outcome.case wp_onErr handleSyncPolicyByKind_def Let_def kind K if_P [OF refl]
    proof (rule wp_syncKustomization [OF S], unfold outcome.case noRequeue_after if_not_P [OF less_irrefl])
      fix w' qs o'
      assume "kss w' = (kss (world s))(\<lparr>k_namespace = m_namespace (app_meta app), k_name = policyResourceName E policyName (Some (c, kc))\<rparr> \<mapsto> o')"
        and "fk_spec o' = Some (kustomizationSpec app k (map_option snd (Some (c, kc))))"
      then show "wp (syncClusters E app policy policyName cs) ?Q (s\<lparr>world := w', reqs := qs\<rparr>)"
        by (intro step [of w' o']) (simp_all add: policyKey_def policyResourceName_def)
    qed
  qed
qed

section \<open>A server in memory\<close>

type_synonym appWorld = "memberWorld \<times> (objkey \<rightharpoonup> FluxKustomization)"

definition storeUpsert :: "FluxKustomization \<Rightarrow> (FluxKustomization \<Rightarrow> FluxKustomization outcome) \<Rightarrow> appWorld \<Rightarrow> FluxKustomization outcome \<times> appWorld" where
  "storeUpsert x f w = (let r = f (case snd w (keyOf (fk_meta x)) of None \<Rightarrow> x | Some old \<Rightarrow> old) in
     (r, case r of Ok y \<Rightarrow> (fst w, (snd w)(keyOf (fk_meta x) \<mapsto> y)) | _ \<Rightarrow> w))"

definition demoApps :: "FluxKustomization list \<Rightarrow> appWorld apenv" where
  "demoApps ks = \<lparr>ap_host = quietEnv (memApi ku_meta (fst \<circ> fst) (apfst \<circ> apfst)) (memApi at_meta (snd \<circ> fst) (apfst \<circ> apsnd)),
     ap_app = goneApi, ap_gitRepository = goneApi, ap_helmRepository = goneApi,
     ap_kustomization = goneApi\<lparr>api_list := (\<lambda>ns labels w. (Inr ks, w))\<rparr>, ap_helmRelease = goneApi,
     ap_syncSource = (\<lambda>kind x f w. (f x, w)), ap_syncKustomization = storeUpsert, ap_syncHelmRelease = (\<lambda>x f w. (f x, w)),
     ap_wrapClient = Inr [], ap_rollout = (\<lambda>c. \<lparr>rm_namespace = goneApi, rm_ingress = goneApi, rm_syncIngress = (\<lambda>x f w. (f x, w)),
       rm_deployment = goneApi, rm_testService = goneApi, rm_service = goneApi, rm_canary = goneApi, rm_metricTemplate = goneApi,
       rm_syncMetricTemplate = (\<lambda>x f w. (f x, w))\<rparr>),
     ap_order = Pair id, ap_unmarshal = (\<lambda>t. Inl (EMsg ''no template''))\<rparr>"

definition appClusters :: "appWorld \<Rightarrow> objkey \<rightharpoonup> Cluster" where
  "appClusters w = lookupKey ku_meta (fst (fst w))"

definition appAttached :: "appWorld \<Rightarrow> objkey \<rightharpoonup> AttachedCluster" where
  "appAttached w = lookupKey at_meta (snd (fst w))"

lemma demoApps_serves: "appServer (demoApps ks) appClusters appAttached snd"
proof -
  have "upserts fk_meta storeUpsert snd (\<lambda>w w'. appClusters w' = appClusters w \<and> appAttached w' = appAttached w)"
    by (simp add: upserts_def storeUpsert_def Let_def appClusters_def appAttached_def split: outcome.splits)
  then show ?thesis
    by (simp add: appServer_def demoApps_def quietEnv_def memApi_def appClusters_def appAttached_def)
qed

definition demoKustomization :: AppKustomization where
  "demoKustomization = \<lparr>ks_commonMetadata = None, ks_dependsOn = [], ks_interval = 300, ks_retryInterval = None, ks_path = ''./deploy'',
     ks_prune = True, ks_patches = [], ks_images = [], ks_suspend = False, ks_targetNamespace = ''web'', ks_timeout = Some 120,
     ks_force = False, ks_components = []\<rparr>"

definition demoDestination :: ApplicationDestination where
  "demoDestination = \<lparr>DestFleet = ''quickstart'', DestSelector = Some [(''env'', ''prod'')]\<rparr>"

definition demoDeploy :: ApplicationSyncPolicy where
  "demoDeploy = \<lparr>PolicyName = ''web'', Kustomization = Some demoKustomization, Helm = None,
     PolicyDestination = Some demoDestination, Rollout = None\<rparr>"

definition demoApp :: "ApplicationSyncPolicy list \<Rightarrow> appWorld apstate" where
  "demoApp ps = \<lparr>world = (([], [demoEdge ''edge1'' (Some [''env'' \<mapsto> ''prod'']) True, demoEdge ''edge2'' None True]), Map.empty),
     reqs = [], s_app = demoApplication ps\<rparr>"

definition twoEdges :: Fleet where
  "twoEdges = demoFleet\<lparr>fl_spec := fl_spec demoFleet\<lparr>Clusters := map (\<lambda>n. \<lparr>r_kind = AttachedClusterKind, r_apiVersion = [],
     r_namespace = [], r_name = n\<rparr>) [''edge1'', ''edge2'']\<rparr>\<rparr>"

lemma demo_selected:
  "allPresent (memberView appClusters appAttached (world (demoApp ps))) twoEdges"
  "selectedClusters (memberView appClusters appAttached (world (demoApp ps))) twoEdges (DestSelector demoDestination) =
     [FAttached (demoEdge ''edge1'' (Some [''env'' \<mapsto> ''prod'']) True)]"
proof -
  let ?V = "memberView appClusters appAttached (world (demoApp ps))"
  have edge: "?V (AttachedClusterKind, fleetKey twoEdges ''edge1'') = Some (FAttached (demoEdge ''edge1'' (Some [''env'' \<mapsto> ''prod'']) True))"
    "?V (AttachedClusterKind, fleetKey twoEdges ''edge2'') = Some (FAttached (demoEdge ''edge2'' None True))"
    using kindOf_neq by (simp_all add: memberView_def demoApp_def appAttached_def demoEdge_def lookupKey_def keyOf_def newMeta_def fleetKey_def
        twoEdges_def demoFleet_def)
  have refs: "Clusters (fl_spec twoEdges) = map (\<lambda>n. \<lparr>r_kind = AttachedClusterKind, r_apiVersion = [], r_namespace = [], r_name = n\<rparr>) [''edge1'', ''edge2'']"
    by (simp add: twoEdges_def)
  show "allPresent ?V twoEdges"
    using kindOf_neq by (simp add: allPresent_def refs memberOf_def edge)
  show "selectedClusters ?V twoEdges (DestSelector demoDestination) = [FAttached (demoEdge ''edge1'' (Some [''env'' \<mapsto> ''prod'']) True)]"
    by (simp add: selectedClusters_def refs memberOf_def edge map_filter_simps demoDestination_def doLabelsMatchSelector_def demoEdge_def mapHas_def mapAt_def)
qed

text \<open>C8. A policy of a fleet reaches exactly the clusters it selects. Take a Kustomization policy without
  rollout that has a destination, and a fleet whose Clusters and AttachedClusters exist, on a server
  that stores what it is given. The policy writes, in the order of the fleet, a Kustomization with the
  desired spec and the cluster's kubeconfig for each cluster whose labels match the selector of the
  destination, up to the first Cluster without a credential, at which the controller panics. Every
  other Kustomization of the server is as it was. Clusters whose names agree in the first 63
  characters of policy, kind and name share one Kustomization, which has the kubeconfig of the last of them.\<close>

theorem policy_reaches_clusters:
  assumes "appServer E cls ats kss" and "Kustomization policy = Some k" and "Rollout policy = None"
    and "getPolicyDestination app policy = Some d" and "allPresent (memberView cls ats (world s)) fleet"
    and "selectedClusters (memberView cls ats (world s)) fleet (DestSelector d) = cs"
  shows "wp (syncPolicyResource E app (Some fleet) policy policyName) (\<lambda>r t.
    r = (if list_all hasKubeConfig cs then Ok noRequeue else Panic) \<and>
    deployed E app k policyName (takeWhile hasKubeConfig cs) (kss (world s)) (kss (world t))) s"
proof -
  let ?Q = "\<lambda>r t. r = (if list_all hasKubeConfig cs then Ok noRequeue else Panic) \<and>
    deployed E app k policyName (takeWhile hasKubeConfig cs) (kss (world s)) (kss (world t))"
  have "wp (syncClusters E app policy policyName cs) ?Q (s\<lparr>reqs := qs\<rparr>)" for qs
    using syncClusters_run [OF assms(1,2), of app policyName cs "s\<lparr>reqs := qs\<rparr>"] by simp
  then have "wp (syncDestination E app (Some fleet) policy policyName) ?Q s"
    unfolding syncDestination_def option.case wp_bindP wp_derefP assms(4) outcome.case fetchFleetClusterList_def
    using assms(5,6) by (intro fetchFleetClusters_run [OF assms(1) refl])
      (simp_all add: allPresent_def selectedClusters_def noRequeue_after)
  then show ?thesis
    unfolding syncPolicyResource_def wp_bindP assms(3) option.case
    by (rule wp_mono) (auto simp: noRequeue_after wp_seqP wp_retP split: outcome.split if_splits)
qed

theorem policy_reaches_clusters_witness:
  "wp (syncPolicyResource (demoApps []) (demoApplication [demoDeploy]) (Some twoEdges) demoDeploy ''web'') (\<lambda>r t. r = Ok noRequeue \<and>
     deployed (demoApps []) (demoApplication [demoDeploy]) demoKustomization ''web'' [FAttached (demoEdge ''edge1'' (Some [''env'' \<mapsto> ''prod'']) True)]
       Map.empty (snd (world t))) (demoApp [demoDeploy])"
proof -
  let ?c = "FAttached (demoEdge ''edge1'' (Some [''env'' \<mapsto> ''prod'']) True)"
  have "getPolicyDestination (demoApplication [demoDeploy]) demoDeploy = Some demoDestination" "Kustomization demoDeploy = Some demoKustomization"
    "Rollout demoDeploy = None" "snd (world (demoApp [demoDeploy])) = Map.empty" "hasKubeConfig ?c"
    by (simp_all add: getPolicyDestination_def demoDeploy_def demoApp_def generateKubeConfig_def hasKubeConfig_def)
  with policy_reaches_clusters [OF demoApps_serves _ _ _ demo_selected(1) demo_selected(2), of demoDeploy demoKustomization
      "demoApplication [demoDeploy]" "[]" "''web''" "[demoDeploy]"] show ?thesis
    by simp
qed

section \<open>Destinations\<close>

text \<open>C32. The controller works on the fleet of the first policy. For an Application that went through
  its webhook this is the fleet of every policy: when the controller finds a fleet, every policy has
  a destination, whose fleet is that one or left to the default; when it finds none, no policy names
  a fleet.\<close>

theorem admitted_destinations:
  assumes "admitted ApplicationValidateCreate ApplicationValidateUpdate obj news"
    and "RtApplication app \<in> set (obj # news)"
    and "generateFleetKey app = Some key" and "policy \<in> set (SyncPolicies (app_spec app))"
  shows "if k_name key \<noteq> [] then \<exists>d. getPolicyDestination app policy = Some d \<and> DestFleet d \<in> {[], k_name key}
    else policyFleet policy = []"
proof -
  have "sameFleet (defaultFleetOf app) (map policyFleet (SyncPolicies (app_spec app)))"
    using application.stored_valid(1) [OF assms(1,2)] by (simp add: validateApplication_def newInvalid_def validateFleet_Nil split: if_splits)
  moreover obtain p ps where "SyncPolicies (app_spec app) = p # ps"
    using assms(4) by (cases "SyncPolicies (app_spec app)") simp_all
  moreover from this have "k_name key = (if policyFleet p = [] then defaultFleetOf app else policyFleet p)"
    using assms(3) by (auto simp: generateFleetKey_def indexO_def policyFleet_def defaultFleetOf_def split: option.splits)
  ultimately show ?thesis
    using assms(4)
    by (auto simp: sameFleet_def getPolicyDestination_def policyFleet_def defaultFleetOf_def list_all_iff split: option.splits if_splits)
qed

theorem admitted_destinations_witness:
  "\<exists>d. getPolicyDestination (demoApplication [demoDeploy, demoDeploy]) demoDeploy = Some d \<and> DestFleet d = ''quickstart''"
proof -
  let ?app = "demoApplication [demoDeploy, demoDeploy]"
  have "admitted ApplicationValidateCreate ApplicationValidateUpdate (RtApplication ?app) []"
    by (simp add: admitted_def ApplicationValidateCreate_def validateApplication_def newInvalid_def validateFleet_Nil sameFleet_def
        defaultFleetOf_def policyFleet_def demoApplication_def demoDeploy_def demoDestination_def)
  moreover have "generateFleetKey ?app = Some \<lparr>k_namespace = ''default'', k_name = ''quickstart''\<rparr>" "demoDeploy \<in> set (SyncPolicies (app_spec ?app))"
    by (simp_all add: generateFleetKey_def indexO_def demoApplication_def demoDeploy_def demoDestination_def newMeta_def)
  ultimately have "\<exists>d. getPolicyDestination ?app demoDeploy = Some d \<and> DestFleet d \<in> {[], ''quickstart''}"
    using admitted_destinations [of "RtApplication ?app" "[]" ?app "\<lparr>k_namespace = ''default'', k_name = ''quickstart''\<rparr>" demoDeploy] by simp
  then show ?thesis
    by (simp add: getPolicyDestination_def demoDeploy_def demoDestination_def)
qed

section \<open>Status\<close>

text \<open>After the loop the one variable holds the last item, and every entry points to it.\<close>

lemma rangeEntries_run:
  "rangeEntries name var items store entries =
     (entries @ map (\<lambda>x. (name x, var)) items, if items = [] then store else store(var \<mapsto> last items))"
  by (induction items arbitrary: store entries) auto

lemma statuses_run:
  "kustomizationStatuses ks = map (\<lambda>k. \<lparr>SyncName = m_name (fk_meta k), KustomizationStatus = Some (fk_status (last ks)),
     HelmReleaseStatus = None, SyncRolloutStatus = None\<rparr>) ks"
  "helmReleaseStatuses hs = map (\<lambda>h. \<lparr>SyncName = m_name (fh_meta h), KustomizationStatus = None,
     HelmReleaseStatus = Some (fh_status (last hs)), SyncRolloutStatus = None\<rparr>) hs"
  by (simp_all add: kustomizationStatuses_def helmReleaseStatuses_def rangeEntries_run)

lemma withRolloutStatus_keeps:
  "SyncName (withRolloutStatus m p) = SyncName p" "KustomizationStatus (withRolloutStatus m p) = KustomizationStatus p"
  "HelmReleaseStatus (withRolloutStatus m p) = HelmReleaseStatus p"
  by (simp_all add: withRolloutStatus_def split: option.split)

text \<open>What an entry shows besides a rollout: its name and the two statuses.\<close>

definition shown :: "ApplicationSyncStatus \<Rightarrow> string \<times> foreign option \<times> foreign option" where
  "shown p = (SyncName p, KustomizationStatus p, HelmReleaseStatus p)"

lemma no_rollouts:
  assumes "list_all (\<lambda>(i, p). Rollout p = None) ps" and "Q (Ok st) s"
  shows "wp (policyRolloutStatus E app fleet ps st) Q s"
  using assms by (induction E app fleet ps st rule: policyRolloutStatus.induct) (simp_all add: wp_retP)

text \<open>C33. The status of an Application shows the status of the wrong objects. When the Kustomizations and the
  HelmReleases of the Application can be listed, a run that collects the status leaves one entry for each
  of them, in order and under its name, but every entry of a Kustomization shows the status of the last
  Kustomization listed and every entry of a HelmRelease that of the last HelmRelease, with and
  without rollouts; collecting the status can only fail for an Application with a rollout.\<close>

theorem sync_status_shared:
  assumes "api_list (ap_kustomization E) (m_namespace (app_meta (s_app s))) (appLabels (s_app s)) (world s) = (Inr ks, w1)"
    and "api_list (ap_helmRelease E) (m_namespace (app_meta (s_app s))) (appLabels (s_app s)) w1 = (Inr hs, w2)"
  shows "wp (reconcileSyncStatus E fleet) (\<lambda>r t. case r of
      Ok res \<Rightarrow> res = requeueAfter StatusSyncInterval \<and> map shown (SyncStatus (app_status (s_app t))) =
        map (\<lambda>k. (m_name (fk_meta k), Some (fk_status (last ks)), None)) ks @
        map (\<lambda>h. (m_name (fh_meta h), None, Some (fh_status (last hs)))) hs
    | _ \<Rightarrow> list_ex (\<lambda>p. Rollout p \<noteq> None) (SyncPolicies (app_spec (s_app s)))) s"
proof -
  define Q where "Q = (\<lambda>r (t :: 'a apstate). case r of
      Ok res \<Rightarrow> res = requeueAfter StatusSyncInterval \<and> map shown (SyncStatus (app_status (s_app t))) =
        map (\<lambda>k. (m_name (fk_meta k), Some (fk_status (last ks)), None)) ks @
        map (\<lambda>h. (m_name (fh_meta h), None, Some (fh_status (last hs)))) hs
    | _ \<Rightarrow> list_ex (\<lambda>p. Rollout p \<noteq> None) (SyncPolicies (app_spec (s_app s))))"
  have Q_fail: "Q (Err e) t" "Q Panic t" if "list_ex (\<lambda>p. Rollout p \<noteq> None) (SyncPolicies (app_spec (s_app s)))" for e t
    using that by (simp_all add: Q_def)
  let ?ps = "enumerate 0 (SyncPolicies (app_spec (s_app s)))"
  have set: "wp (seqP (setAppStatus (\<lambda>st. st\<lparr>SyncStatus := map (withRolloutStatus m) (kustomizationStatuses ks @ helmReleaseStatuses hs)\<rparr>))
      (retP (requeueAfter StatusSyncInterval))) Q u" for m u
    by (simp add: Q_def wp_seqP setAppStatus_def wp_modifyP wp_retP statuses_run shown_def withRolloutStatus_keeps comp_def)
  have "wp (policyRolloutStatus E (s_app s) fleet ?ps Map.empty) (\<lambda>r t. case r of Ok m \<Rightarrow>
        wp (seqP (setAppStatus (\<lambda>st. st\<lparr>SyncStatus := map (withRolloutStatus m) (kustomizationStatuses ks @ helmReleaseStatuses hs)\<rparr>))
          (retP (requeueAfter StatusSyncInterval))) Q t
      | Err e \<Rightarrow> Q (Err e) t | Panic \<Rightarrow> Q Panic t) u" for u
  proof (cases "list_ex (\<lambda>p. Rollout p \<noteq> None) (SyncPolicies (app_spec (s_app s)))")
    case True
    show ?thesis
    proof (rule wpI, goal_cases)
      case (1 r t)
      show ?case
        by (cases r) (simp_all only: outcome.case set Q_fail [OF True])
    qed
  next
    case False
    then have "list_all (\<lambda>(i, p). Rollout p = None) ?ps"
      by (auto simp: list_all_iff list_ex_iff in_set_enumerate_eq)
    then show ?thesis
      by (rule no_rollouts) (unfold outcome.case, rule set)
  qed
  then show ?thesis
    unfolding reconcileSyncStatus_def getKustomizationList_def getHelmReleaseList_def listOrNone_def listK_def wp_bindP wp_getP outcome.case
      wp_onErr wp_callP Q_def [symmetric] by (simp add: assms)
qed

definition demoStatuses :: "FluxKustomization list" where
  "demoStatuses = [\<lparr>fk_meta = newMeta ''web-edge1'' ''default'', fk_spec = None, fk_status = ''failed''\<rparr>,
     \<lparr>fk_meta = newMeta ''web-edge2'' ''default'', fk_spec = None, fk_status = ''ready''\<rparr>]"

theorem sync_status_shared_witness:
  "wp (reconcileSyncStatus (demoApps demoStatuses) (Some twoEdges)) (\<lambda>r t. r = Ok (requeueAfter StatusSyncInterval) \<and>
     map shown (SyncStatus (app_status (s_app t))) = [(''web-edge1'', Some ''ready'', None), (''web-edge2'', Some ''ready'', None)]) (demoApp [demoDeploy])"
proof -
  let ?s = "demoApp [demoDeploy]"
  have "api_list (ap_kustomization (demoApps demoStatuses)) ns ls w = (Inr demoStatuses, w)"
    "api_list (ap_helmRelease (demoApps demoStatuses)) ns ls w = (Inr [], w)" for ns ls w
    by (simp_all add: demoApps_def goneApi_def)
  moreover have "\<not> list_ex (\<lambda>p. Rollout p \<noteq> None) (SyncPolicies (app_spec (s_app ?s)))"
    by (simp add: demoApp_def demoApplication_def demoDeploy_def)
  ultimately show ?thesis
    by (intro wp_mono [OF sync_status_shared]) (auto simp: demoStatuses_def newMeta_def split: outcome.splits)
qed

section \<open>Deletion\<close>

fun isGet :: "request \<Rightarrow> bool" where
  "isGet (RGet kind key) = True"
| "isGet q = False"

definition onlyReads :: "('w, 'm) kst_scheme \<Rightarrow> ('w, 'm) kst_scheme \<Rightarrow> bool" where
  "onlyReads s t \<longleftrightarrow> (\<exists>qs. t = s\<lparr>reqs := reqs s @ qs\<rparr> \<and> list_all isGet qs)"

lemma onlyReads_refl: "onlyReads s s"
  unfolding onlyReads_def by (rule exI [of _ "[]"]) simp

lemma onlyReads_snoc: "onlyReads s t \<Longrightarrow> isGet q \<Longrightarrow> onlyReads s (t\<lparr>reqs := reqs t @ [q]\<rparr>)"
  unfolding onlyReads_def by (elim exE, rule_tac x = "qs @ [q]" in exI) simp

lemma onlyReads_world: "onlyReads s t \<Longrightarrow> world t = world s"
  by (auto simp: onlyReads_def)

lemma wp_fetchMember_reads:
  assumes "appServer E cls ats kss" and "kind = FleetManager.ClusterKind \<or> kind = AttachedClusterKind"
    and "onlyReads s0 s"
    and "\<And>c t. memberView cls ats (world s0) (kind, key) = Some c \<Longrightarrow> onlyReads s0 t \<Longrightarrow> Q (Ok c) t"
    and "\<And>t. memberView cls ats (world s0) (kind, key) = None \<Longrightarrow> onlyReads s0 t \<Longrightarrow> Q (Err (EApi NotFound)) t"
  shows "wp (fetchMember E kind key) Q s"
proof -
  have get: "api_get (fe_cluster (ap_host E)) key (world s) = (case cls (world s) key of None \<Rightarrow> Inl NotFound | Some x \<Rightarrow> Inr x, world s)"
    "api_get (fe_attached (ap_host E)) key (world s) = (case ats (world s) key of None \<Rightarrow> Inl NotFound | Some x \<Rightarrow> Inr x, world s)"
    using assms(1) by (simp_all add: appServer_def)
  have V: "memberView cls ats (world s0) = memberView cls ats (world s)"
    by (simp add: onlyReads_world [OF assms(3)])
  have reads: "onlyReads s0 (s\<lparr>reqs := reqs s @ [RGet k key]\<rparr>)" for k
    by (rule onlyReads_snoc [OF assms(3)]) simp
  note Q = assms(4,5) [unfolded V, OF _ reads]
  from assms(2) show ?thesis
    using kindOf_neq Q unfolding fetchMember_def memberView_def apiK_defs
    by (cases "cls (world s) key"; cases "ats (world s) key"; auto simp: wp_bindP wp_callP wp_retP get)
qed

lemma fetchFleetClusters_missing:
  assumes S: "appServer E cls ats kss"
    and "\<exists>ref \<in> set refs. (r_kind ref = FleetManager.ClusterKind \<or> r_kind ref = AttachedClusterKind) \<and>
      memberView cls ats (world s0) (r_kind ref, fleetKey fleet (r_name ref)) = None"
    and "onlyReads s0 s" and post: "\<And>t. onlyReads s0 t \<Longrightarrow> Q (Ok ([], requeueAfter FleetRequeueAfter)) t"
  shows "wp (fetchFleetClusters E fleet selector refs clusters) Q s"
  using assms(2,3)
proof (induction refs arbitrary: clusters s)
  case (Cons ref refs)
  show ?case
  proof (cases "r_kind ref = FleetManager.ClusterKind \<or> r_kind ref = AttachedClusterKind")
    case True
    show ?thesis
      unfolding fetchFleetClusters.simps if_P [OF True] wp_tryP
    proof (rule wp_fetchMember_reads [OF S True Cons.prems(2)]; unfold outcome.case sum.case)
      fix c t
      assume "memberView cls ats (world s0) (r_kind ref, fleetKey fleet (r_name ref)) = Some c" and t: "onlyReads s0 t"
      then show "wp (fetchFleetClusters E fleet selector refs
          (if doLabelsMatchSelector (m_labels (metaOf c)) selector then clusters @ [c] else clusters)) Q t"
        using Cons.prems(1) by (intro Cons.IH [OF _ t]) auto
    next
      fix t
      assume t: "onlyReads s0 t"
      show "wp (if isNotFound (EApi NotFound) then retP ([], requeueAfter FleetRequeueAfter) else failP (EApi NotFound)) Q t"
        using post [OF t] by (simp add: wp_retP)
    qed
  next
    case False
    then show ?thesis
      using Cons by auto
  qed
qed simp


text \<open>The controller can delete the rollout of a policy: nothing it dereferences for that is missing.\<close>

definition deletable :: "Application \<Rightarrow> ApplicationSyncPolicy \<Rightarrow> bool" where
  "deletable app p \<longleftrightarrow> (case Rollout p of None \<Rightarrow> True
     | Some rollout \<Rightarrow> getPolicyDestination app p \<noteq> None \<and> Workload rollout \<noteq> None \<and> analysisOf rollout \<noteq> None)"

lemma deletePolicy_missing:
  assumes S: "appServer E cls ats kss" and range: "\<And>w. fe_range (ap_host E) [] w = ([], w)"
    and missing: "\<exists>ref \<in> set (Clusters (fl_spec fleet)). (r_kind ref = FleetManager.ClusterKind \<or> r_kind ref = AttachedClusterKind) \<and>
      memberView cls ats (world s) (r_kind ref, fleetKey fleet (r_name ref)) = None"
    and u: "onlyReads s u"
  shows "wp (deletePolicyResources E app (Some fleet) p) (\<lambda>r t. r = (if deletable app p then Ok () else Panic) \<and> onlyReads s t) u"
proof (cases "Rollout p")
  case None
  then show ?thesis
    using u by (simp add: deletePolicyResources_def wp_retP deletable_def)
next
  case (Some rollout)
  have after: "0 < RequeueAfter (requeueAfter FleetRequeueAfter)"
    by (simp add: requeueAfter_def FleetRequeueAfter_def)
  show ?thesis
  proof (cases "getPolicyDestination app p")
    case None
    then show ?thesis
      using u Some by (simp add: deletePolicyResources_def fetchRolloutClusters_def wp_bindP wp_onErr wp_derefP deletable_def)
  next
    case dest: (Some d)
    show ?thesis
      unfolding deletePolicyResources_def Some option.case fetchRolloutClusters_def fetchFleetClusterList_def wp_bindP wp_onErr wp_derefP
        outcome.case dest
      by (rule fetchFleetClusters_missing [OF S missing u])
        (auto simp: after wp_retP wp_extP range wp_bindP wp_derefP deletable_def Some dest split: option.split)
  qed
qed

lemma deletePolicies_missing:
  assumes "\<And>p u. onlyReads s u \<Longrightarrow> wp (f p) (\<lambda>r t. r = (if ok p then Ok () else Panic) \<and> onlyReads s t) u" and "onlyReads s u"
  shows "wp (forEach ps f) (\<lambda>r t. r = (if list_all ok ps then Ok () else Panic) \<and> onlyReads s t) u"
  using assms(2)
proof (induction ps arbitrary: u)
  case (Cons p ps)
  show ?case
    unfolding forEach.simps wp_seqP
    by (rule wp_mono [OF assms(1) [OF Cons.prems]]) (auto split: outcome.split if_splits intro!: wp_mono [OF Cons.IH])
qed (simp add: wp_retP)

text \<open>C34. Deleting an Application can leave its rollouts behind. When the fleet refers to a Cluster or an
  AttachedCluster, by its kind, that is not found, no cluster of the fleet is cleaned up: the controller only
  reads, and the canaries and test loaders in the clusters that do exist stay. It then reports success
  and drops its finalizer, unless a policy has a rollout without a destination, a workload or a traffic
  analysis, for which it panics and leaves the Application as it was. The servers are assumed to answer a Get with what they
  store, \<open>RemoveFinalizer\<close> to remove the finalizer, and ranging over an empty map to visit nothing.\<close>

theorem deletion_skips_clusters:
  assumes "appServer E cls ats kss" and "capilib_laws (fe_lib (ap_host E))"
    and "\<And>w. fe_range (ap_host E) [] w = ([], w)"
    and "ref \<in> set (Clusters (fl_spec fleet))" and "r_kind ref = FleetManager.ClusterKind \<or> r_kind ref = AttachedClusterKind"
    and "memberView cls ats (world s) (r_kind ref, fleetKey fleet (r_name ref)) = None"
  shows "wp (reconcileAppDelete E (Some fleet)) (\<lambda>r t. world t = world s \<and> (\<exists>qs. reqs t = reqs s @ qs \<and> list_all isGet qs) \<and>
    (if list_all (deletable (s_app s)) (SyncPolicies (app_spec (s_app s)))
     then r = Ok noRequeue \<and> ApplicationFinalizer \<notin> set (m_finalizers (app_meta (s_app t)))
     else r = Panic \<and> s_app t = s_app s)) s"
proof -
  have missing: "\<exists>ref \<in> set (Clusters (fl_spec fleet)). (r_kind ref = FleetManager.ClusterKind \<or> r_kind ref = AttachedClusterKind) \<and>
      memberView cls ats (world s) (r_kind ref, fleetKey fleet (r_name ref)) = None"
    using assms(4-6) by blast
  have "wp (deleteResourcesInMemberClusters E (s_app s) (Some fleet)) (\<lambda>r t.
      r = (if list_all (deletable (s_app s)) (SyncPolicies (app_spec (s_app s))) then Ok () else Panic) \<and> onlyReads s t) s"
    unfolding deleteResourcesInMemberClusters_def
    by (rule deletePolicies_missing [OF deletePolicy_missing [OF assms(1,3) missing] onlyReads_refl])
  moreover have "ApplicationFinalizer \<notin> set (removeFinalizer (fe_lib (ap_host E)) fs ApplicationFinalizer)" for fs
    using assms(2) by (simp add: capilib_laws_def)
  ultimately show ?thesis
    unfolding reconcileAppDelete_def wp_bindP wp_seqP wp_onErr onlyReads_def
    by (simp only: wp_getP outcome.case) (elim wp_mono, elim conjE exE, simp add: wp_modifyP wp_retP setAppFinalizers_def)
qed

definition demoCanary :: ApplicationSyncPolicy where
  "demoCanary = demoDeploy\<lparr>Rollout := Some ((demoRollout Istio [])\<lparr>
     Workload := Some \<lparr>ref_apiVersion = ''apps/v1'', ref_kind = ''Deployment'', ref_name = ''podinfo'', ref_namespace = ''web''\<rparr>,
     RolloutPolicyConf := map_option (\<lambda>c. c\<lparr>TrafficAnalysisConf := Some \<lparr>CheckIntervalSeconds = None, CheckFailedTimes = None,
       Metrics = [], Webhooks = \<lparr>WebhookTimeoutSeconds = None, Commands = []\<rparr>, SessionAffinityConf = None\<rparr>\<rparr>)
       (RolloutPolicyConf (demoRollout Istio []))\<rparr>)\<rparr>"

definition goneEdge :: ObjectReference where
  "goneEdge = \<lparr>r_kind = AttachedClusterKind, r_apiVersion = [], r_namespace = [], r_name = ''edge3''\<rparr>"

theorem deletion_skips_clusters_witness:
  "wp (reconcileAppDelete (demoApps []) (Some (twoEdges\<lparr>fl_spec := fl_spec twoEdges\<lparr>Clusters := Clusters (fl_spec twoEdges) @ [goneEdge]\<rparr>\<rparr>)))
     (\<lambda>r t. r = Ok noRequeue \<and> ApplicationFinalizer \<notin> set (m_finalizers (app_meta (s_app t))) \<and> list_all isGet (reqs t)) (demoApp [demoCanary])"
proof -
  let ?fleet = "twoEdges\<lparr>fl_spec := fl_spec twoEdges\<lparr>Clusters := Clusters (fl_spec twoEdges) @ [goneEdge]\<rparr>\<rparr>"
  have policies: "SyncPolicies (app_spec (s_app (demoApp [demoCanary]))) = [demoCanary]"
    by (simp add: demoApp_def demoApplication_def)
  have dest: "getPolicyDestination app demoCanary = Some demoDestination" for app
    by (simp add: getPolicyDestination_def demoCanary_def demoDeploy_def)
  have "capilib_laws (fe_lib (ap_host (demoApps [])))" "fe_range (ap_host (demoApps [])) [] w = ([], w)" for w
    by (simp_all add: demoApps_def quietEnv_def stdLib_laws)
  moreover have "memberView appClusters appAttached (world (demoApp [demoCanary])) (r_kind goneEdge, fleetKey ?fleet (r_name goneEdge)) = None"
    using kindOf_neq by (simp add: memberView_def demoApp_def appAttached_def demoEdge_def lookupKey_def keyOf_def newMeta_def fleetKey_def
        twoEdges_def demoFleet_def goneEdge_def)
  moreover have "goneEdge \<in> set (Clusters (fl_spec ?fleet))" "r_kind goneEdge = AttachedClusterKind" "reqs (demoApp [demoCanary]) = []"
    by (simp_all add: goneEdge_def demoApp_def)
  moreover have "deletable app demoCanary" for app
    by (simp add: deletable_def demoCanary_def analysisOf_def demoRollout_def getPolicyDestination_def demoDeploy_def)
  ultimately show ?thesis
    using deletion_skips_clusters [OF demoApps_serves, of "[]" goneEdge ?fleet "demoApp [demoCanary]"]
    by (auto simp: policies elim!: wp_mono)
qed

end
