(* ===== verification/BackupTypes.thy ===== *)
theory BackupTypes
  imports FleetPlugins
begin

text \<open>
  The Backup, Restore and Migrate types (\<open>pkg/apis/backups/v1alpha1\<close>) and the objects of velero the
  controllers write into the member clusters, with the fields they use. Selectors of labels and the
  parts of a status that are only copied are opaque text.
\<close>

section \<open>Velero\<close>

record VeleroBackupSpec =
  vbp_ttl :: int
  vbp_orderedResources :: gomap
  vbp_includedNamespaces :: "string list"
  vbp_excludedNamespaces :: "string list"
  vbp_includedResources :: "string list"
  vbp_excludedResources :: "string list"
  vbp_includeClusterResources :: "bool option"
  vbp_includedClusterScopedResources :: "string list"
  vbp_excludedClusterScopedResources :: "string list"
  vbp_includedNamespaceScopedResources :: "string list"
  vbp_excludedNamespaceScopedResources :: "string list"
  vbp_labelSelector :: "foreign option"
  vbp_orLabelSelectors :: "foreign list"

record VeleroBackupStatus =
  vbs_phase :: string
  vbs_start :: "int option"
  vbs_rest :: foreign

record VeleroBackup =
  vb_meta :: ObjectMeta
  vb_spec :: VeleroBackupSpec
  vb_status :: VeleroBackupStatus

record VeleroSchedule =
  vsc_meta :: ObjectMeta
  vsc_template :: VeleroBackupSpec
  vsc_schedule :: string

record VeleroRestoreSpec =
  vrp_backupName :: string
  vrp_namespaceMapping :: gomap
  vrp_preserveNodePorts :: "bool option"
  vrp_includedNamespaces :: "string list"
  vrp_excludedNamespaces :: "string list"
  vrp_includedResources :: "string list"
  vrp_excludedResources :: "string list"
  vrp_includeClusterResources :: "bool option"
  vrp_labelSelector :: "foreign option"
  vrp_orLabelSelectors :: "foreign list"
  vrp_restoreStatus :: "(string list \<times> string list) option"

record VeleroRestoreStatus =
  vrs_phase :: string
  vrs_rest :: foreign

record VeleroRestore =
  vr_meta :: ObjectMeta
  vr_spec :: VeleroRestoreSpec
  vr_status :: VeleroRestoreStatus

definition noBackupSpec :: VeleroBackupSpec where
  "noBackupSpec = \<lparr>vbp_ttl = 0, vbp_orderedResources = None, vbp_includedNamespaces = [], vbp_excludedNamespaces = [],
     vbp_includedResources = [], vbp_excludedResources = [], vbp_includeClusterResources = None,
     vbp_includedClusterScopedResources = [], vbp_excludedClusterScopedResources = [],
     vbp_includedNamespaceScopedResources = [], vbp_excludedNamespaceScopedResources = [],
     vbp_labelSelector = None, vbp_orLabelSelectors = []\<rparr>"

definition noBackupStatus :: VeleroBackupStatus where
  "noBackupStatus = \<lparr>vbs_phase = [], vbs_start = None, vbs_rest = []\<rparr>"

definition noVeleroBackup :: VeleroBackup where
  "noVeleroBackup = \<lparr>vb_meta = newMeta [] [], vb_spec = noBackupSpec, vb_status = noBackupStatus\<rparr>"

definition noRestoreStatus :: VeleroRestoreStatus where
  "noRestoreStatus = \<lparr>vrs_phase = [], vrs_rest = []\<rparr>"

section \<open>Common types\<close>

record Destination =
  dst_fleet :: string
  dst_clusters :: "ObjectReference list"

record ResourceFilter =
  IncludedNamespaces :: "string list"
  ExcludedNamespaces :: "string list"
  IncludedResources :: "string list"
  ExcludedResources :: "string list"
  IncludeClusterResources :: "bool option"
  IncludedClusterScopedResources :: "string list"
  ExcludedClusterScopedResources :: "string list"
  IncludedNamespaceScopedResources :: "string list"
  ExcludedNamespaceScopedResources :: "string list"
  FilterLabelSelector :: "foreign option"
  OrLabelSelectors :: "foreign list"

text \<open>An entry of a status: a cluster, the velero object in it and the status of that object.\<close>

record 'st clusterDetails =
  cd_clusterName :: string
  cd_clusterKind :: string
  cd_nameInCluster :: string
  cd_statusInCluster :: "'st option"

section \<open>Backup\<close>

record BackupPolicy =
  bpo_resourceFilter :: "ResourceFilter option"
  bpo_ttl :: int
  bpo_orderedResources :: gomap

record BackupSpec =
  BackupSchedule :: string
  BackupDestination :: Destination
  BackupPolicyOf :: "BackupPolicy option"

type_synonym BackupDetails = "VeleroBackupStatus clusterDetails"

record BackupStatus =
  bst_conditions :: "Condition list"
  bst_phase :: string
  bst_details :: "BackupDetails list"

record Backup =
  bak_meta :: ObjectMeta
  bak_spec :: BackupSpec
  bak_status :: BackupStatus

section \<open>Restore\<close>

record PreserveStatus =
  pst_includedResources :: "string list"
  pst_excludedResources :: "string list"

record RestorePolicy =
  rpo_resourceFilter :: "ResourceFilter option"
  rpo_namespaceMapping :: gomap
  rpo_preserveStatus :: "PreserveStatus option"
  rpo_preserveNodePorts :: "bool option"

record RestoreSpec =
  RestoreBackupName :: string
  RestoreDestination :: "Destination option"
  RestorePolicyOf :: "RestorePolicy option"

type_synonym RestoreDetails = "VeleroRestoreStatus clusterDetails"

record RestoreStatus =
  rst_conditions :: "Condition list"
  rst_phase :: string
  rst_details :: "RestoreDetails list"

record Restore =
  res_meta :: ObjectMeta
  res_spec :: RestoreSpec
  res_status :: RestoreStatus

section \<open>Migrate\<close>

record MigratePolicy =
  mpo_resourceFilter :: "ResourceFilter option"
  mpo_orderedResources :: gomap
  mpo_namespaceMapping :: gomap
  mpo_migrateStatus :: "PreserveStatus option"
  mpo_preserveNodePorts :: "bool option"

record MigrateSpec =
  SourceCluster :: Destination
  TargetClusters :: Destination
  MigratePolicyOf :: "MigratePolicy option"

datatype MigratePhase =
    MigrateNoPhase
  | MigratePhasePending
  | MigratePhaseFailedValidation
  | MigratePhaseBackupInProgress
  | MigratePhaseRestoreInProgress
  | MigratePhaseCompleted
  | MigratePhaseFailed

definition SourceReadyCondition :: string where "SourceReadyCondition = ''sourceReady''"

record MigrateStatus =
  mst_conditions :: "Condition list"
  mst_phase :: MigratePhase
  SourceClusterStatus :: "BackupDetails option"
  TargetClustersStatus :: "RestoreDetails list"

record Migrate =
  mig_meta :: ObjectMeta
  mig_spec :: MigrateSpec
  mig_status :: MigrateStatus

end
