(* ===== verification/BackupShared.thy ===== *)
theory BackupShared
  imports BackupTypes
begin

text \<open>
  What the backup, restore and migrate controllers share (\<open>pkg/fleet-manager/backup/shared.go\<close>):
  finding the clusters of a destination, building the objects of velero, writing and deleting them in
  the member clusters, and collecting their status. The tasks of a \<open>multierror.Group\<close> are goroutines:
  each is one step, and \<open>be_goroutines\<close> is the order in which they finish. \<open>be_sort\<close> stands for
  \<open>sort.Slice\<close>, which takes the function to compare with and may order equal elements in any way, and \<open>be_cron\<close> for the cron parser. Times
  and durations are in seconds.
\<close>

section \<open>Environment\<close>

record 'w velero =
  ve_backup :: "('w, VeleroBackup) api"
  ve_schedule :: "('w, VeleroSchedule) api"
  ve_restore :: "('w, VeleroRestore) api"
  ve_syncBackup :: "('w, VeleroBackup) upsert"
  ve_syncSchedule :: "('w, VeleroSchedule) upsert"
  ve_syncRestore :: "('w, VeleroRestore) upsert"

record 'w bkenv =
  be_host :: "'w flenv"
  be_backup :: "('w, Backup) api"
  be_restore :: "('w, Restore) api"
  be_migrate :: "('w, Migrate) api"
  be_velero :: "string \<Rightarrow> 'w velero"
  be_goroutines :: "nat \<Rightarrow> 'w \<Rightarrow> nat list \<times> 'w"
  be_sort :: "(VeleroBackup \<Rightarrow> VeleroBackup \<Rightarrow> bool) \<Rightarrow> VeleroBackup list \<Rightarrow> VeleroBackup list"
  be_cron :: "string \<Rightarrow> goerr + (int \<Rightarrow> int)"
  be_now :: "'w \<Rightarrow> int \<times> 'w"

abbreviation "veleroOf E c \<equiv> be_velero E (fc_client c)"

section \<open>Constants\<close>

definition BackupNameLabel :: string where "BackupNameLabel = ''kurator.dev/backup-name''"
definition RestoreNameLabel :: string where "RestoreNameLabel = ''kurator.dev/restore-name''"
definition MigrateNameLabel :: string where "MigrateNameLabel = ''kurator.dev/migrate-name''"
definition BackupKind :: string where "BackupKind = ''backup''"
definition RestoreKind :: string where "RestoreKind = ''restore''"
definition MigrateKind :: string where "MigrateKind = ''migrate''"
definition VeleroNamespace :: string where "VeleroNamespace = ''velero''"
definition BackupFinalizer :: string where "BackupFinalizer = ''backup.kurator.dev''"
definition RestoreFinalizer :: string where "RestoreFinalizer = ''restore.kurator.dev''"
definition MigrateFinalizer :: string where "MigrateFinalizer = ''migrate.kurator.dev''"
definition BackupStatusInterval :: int where "BackupStatusInterval = 30"
definition BackupPhaseCompleted :: string where "BackupPhaseCompleted = ''Completed''"
definition RestorePhaseCompleted :: string where "RestorePhaseCompleted = ''Completed''"
definition ScheduleNameLabel :: string where "ScheduleNameLabel = ''velero.io/schedule-name''"

section \<open>Clusters\<close>

fun selectClusters :: "fleetClusters \<Rightarrow> ObjectReference list \<Rightarrow> fleetClusters \<Rightarrow> goerr + fleetClusters" where
  "selectClusters fleetClusters [] selected = Inr selected"
| "selectClusters fleetClusters (cluster # clusters) selected =
     (case map_of fleetClusters (r_kind cluster, r_name cluster) of
        None \<Rightarrow> Inl (EMsg (''current clusters: clustername: '' @ r_name cluster @ '', clusterKind: '' @ r_kind cluster @
          '' in destination is not recorede in the fleet''))
      | Some f \<Rightarrow> selectClusters fleetClusters clusters (AList.update (r_kind cluster, r_name cluster) f selected))"

definition fetchDestinationClusters :: "'w bkenv \<Rightarrow> string \<Rightarrow> Destination \<Rightarrow> (('w, 'm) kst_scheme, fleetClusters) proc" where
  "fetchDestinationClusters E namespace destination =
     bindP (onErr (getK ''Fleet'' (fe_fleet (be_host E)) \<lparr>k_namespace = namespace, k_name = dst_fleet destination\<rparr>)
       (\<lambda>e. failP (EWrap ''failed to retrieve fleet instance'' e))) (\<lambda>fleet.
     bindP (onErr (BuildFleetClusters (be_host E) fleet)
       (\<lambda>e. failP (EWrap ''failed to build fleet clusters from fleet instance'' e))) (\<lambda>fleetClusters.
     if length (dst_clusters destination) = 0 then retP fleetClusters
     else liftE (selectClusters fleetClusters (dst_clusters destination) [])))"

definition isFleetClusterSubset :: "fleetClusters \<Rightarrow> fleetClusters \<Rightarrow> bool" where
  "isFleetClusterSubset baseClusters subsetClusters \<longleftrightarrow>
     list_all (\<lambda>(key, _). map_of baseClusters key \<noteq> None) subsetClusters"

section \<open>Objects of velero\<close>

definition generateVeleroInstanceLabel :: "string \<Rightarrow> string \<Rightarrow> string \<Rightarrow> (string \<rightharpoonup> string)" where
  "generateVeleroInstanceLabel createdByLabel creatorName fleetName =
     [createdByLabel \<mapsto> creatorName, FleetLabel \<mapsto> fleetName, FleetPluginName \<mapsto> BackupPluginName]"

definition generateVeleroResourceObjectMeta :: "string \<Rightarrow> (string \<rightharpoonup> string) \<Rightarrow> ObjectMeta" where
  "generateVeleroResourceObjectMeta veleroResourceName labels =
     (newMeta veleroResourceName VeleroNamespace)\<lparr>m_labels := Some labels\<rparr>"

definition generateVeleroResourceName :: "string \<Rightarrow> string \<Rightarrow> string \<Rightarrow> string \<Rightarrow> string" where
  "generateVeleroResourceName clusterName creatorKind creatorNamespace creatorName =
     clusterName @ ''-'' @ creatorKind @ ''-'' @ creatorNamespace @ ''-'' @ creatorName"

text \<open>A policy without a resource filter is a nil pointer that is read: a panic.\<close>

definition buildVeleroBackupSpec :: "BackupPolicy option \<Rightarrow> VeleroBackupSpec outcome" where
  "buildVeleroBackupSpec backupPolicy = (case backupPolicy of
     None \<Rightarrow> Ok noBackupSpec
   | Some policy \<Rightarrow> bindO (derefO (bpo_resourceFilter policy)) (\<lambda>f. Ok
      \<lparr>vbp_ttl = bpo_ttl policy, vbp_orderedResources = bpo_orderedResources policy,
       vbp_includedNamespaces = IncludedNamespaces f, vbp_excludedNamespaces = ExcludedNamespaces f,
       vbp_includedResources = IncludedResources f, vbp_excludedResources = ExcludedResources f,
       vbp_includeClusterResources = IncludeClusterResources f,
       vbp_includedClusterScopedResources = IncludedClusterScopedResources f,
       vbp_excludedClusterScopedResources = ExcludedClusterScopedResources f,
       vbp_includedNamespaceScopedResources = IncludedNamespaceScopedResources f,
       vbp_excludedNamespaceScopedResources = ExcludedNamespaceScopedResources f,
       vbp_labelSelector = FilterLabelSelector f, vbp_orLabelSelectors = OrLabelSelectors f\<rparr>))"

definition buildVeleroBackupInstance :: "BackupSpec \<Rightarrow> (string \<rightharpoonup> string) \<Rightarrow> string \<Rightarrow> VeleroBackup outcome" where
  "buildVeleroBackupInstance backupSpec labels veleroBackupName =
     bindO (buildVeleroBackupSpec (BackupPolicyOf backupSpec)) (\<lambda>spec.
     Ok \<lparr>vb_meta = generateVeleroResourceObjectMeta veleroBackupName labels, vb_spec = spec, vb_status = noBackupStatus\<rparr>)"

definition buildVeleroScheduleInstance :: "BackupSpec \<Rightarrow> (string \<rightharpoonup> string) \<Rightarrow> string \<Rightarrow> VeleroSchedule outcome" where
  "buildVeleroScheduleInstance backupSpec labels veleroBackupName =
     bindO (buildVeleroBackupSpec (BackupPolicyOf backupSpec)) (\<lambda>spec.
     Ok \<lparr>vsc_meta = generateVeleroResourceObjectMeta veleroBackupName labels, vsc_template = spec,
       vsc_schedule = BackupSchedule backupSpec\<rparr>)"

definition buildVeleroRestoreInstance :: "RestoreSpec \<Rightarrow> (string \<rightharpoonup> string) \<Rightarrow> string \<Rightarrow> string \<Rightarrow> VeleroRestore" where
  "buildVeleroRestoreInstance restoreSpec labels veleroBackupName veleroRestoreName =
     (let policy = RestorePolicyOf restoreSpec; filter = Option.bind policy rpo_resourceFilter in
      \<lparr>vr_meta = generateVeleroResourceObjectMeta veleroRestoreName labels,
       vr_spec = \<lparr>vrp_backupName = veleroBackupName,
         vrp_namespaceMapping = (case policy of None \<Rightarrow> None | Some p \<Rightarrow> rpo_namespaceMapping p),
         vrp_preserveNodePorts = (case policy of None \<Rightarrow> None | Some p \<Rightarrow> rpo_preserveNodePorts p),
         vrp_includedNamespaces = (case filter of None \<Rightarrow> [] | Some f \<Rightarrow> IncludedNamespaces f),
         vrp_excludedNamespaces = (case filter of None \<Rightarrow> [] | Some f \<Rightarrow> ExcludedNamespaces f),
         vrp_includedResources = (case filter of None \<Rightarrow> [] | Some f \<Rightarrow> IncludedResources f),
         vrp_excludedResources = (case filter of None \<Rightarrow> [] | Some f \<Rightarrow> ExcludedResources f),
         vrp_includeClusterResources = Option.bind filter IncludeClusterResources,
         vrp_labelSelector = Option.bind filter FilterLabelSelector,
         vrp_orLabelSelectors = (case filter of None \<Rightarrow> [] | Some f \<Rightarrow> OrLabelSelectors f),
         vrp_restoreStatus = map_option (\<lambda>st. (pst_includedResources st, pst_excludedResources st))
           (Option.bind policy rpo_preserveStatus)\<rparr>,
       vr_status = noRestoreStatus\<rparr>)"

definition buildVeleroBackupFromMigrate :: "MigrateSpec \<Rightarrow> (string \<rightharpoonup> string) \<Rightarrow> string \<Rightarrow> VeleroBackup outcome" where
  "buildVeleroBackupFromMigrate migrateSpec labels veleroBackupName =
     buildVeleroBackupInstance \<lparr>BackupSchedule = [], BackupDestination = \<lparr>dst_fleet = [], dst_clusters = []\<rparr>,
       BackupPolicyOf = map_option (\<lambda>p. \<lparr>bpo_resourceFilter = mpo_resourceFilter p, bpo_ttl = 0,
         bpo_orderedResources = mpo_orderedResources p\<rparr>) (MigratePolicyOf migrateSpec)\<rparr> labels veleroBackupName"

definition buildVeleroRestoreFromMigrate ::
  "MigrateSpec \<Rightarrow> (string \<rightharpoonup> string) \<Rightarrow> string \<Rightarrow> string \<Rightarrow> VeleroRestore" where
  "buildVeleroRestoreFromMigrate migrateSpec labels veleroBackupName veleroRestoreName =
     buildVeleroRestoreInstance \<lparr>RestoreBackupName = [], RestoreDestination = None,
       RestorePolicyOf = map_option (\<lambda>p. \<lparr>rpo_resourceFilter = None, rpo_namespaceMapping = mpo_namespaceMapping p,
         rpo_preserveStatus = mpo_migrateStatus p, rpo_preserveNodePorts = mpo_preserveNodePorts p\<rparr>)
         (MigratePolicyOf migrateSpec)\<rparr> labels veleroBackupName veleroRestoreName"

section \<open>Tasks\<close>

definition syncVeleroObj ::
  "string \<Rightarrow> ('o \<Rightarrow> ObjectMeta) \<Rightarrow> ('w, 'o) upsert \<Rightarrow> 'o \<Rightarrow> (('w, 'm) kst_scheme, unit) proc" where
  "syncVeleroObj kind meta sync veleroObj = bindP (upsertK kind meta sync veleroObj Ok) (\<lambda>_. retP ())"

fun taskErrors :: "(goerr + unit) list \<Rightarrow> goerr list" where
  "taskErrors [] = []"
| "taskErrors (Inl e # rs) = e # taskErrors rs"
| "taskErrors (Inr _ # rs) = taskErrors rs"

definition runTasks :: "'w bkenv \<Rightarrow> (('w, 'm) kst_scheme, unit) proc list \<Rightarrow> (('w, 'm) kst_scheme, unit) proc" where
  "runTasks E tasks =
     bindP (extP (be_goroutines E (length tasks))) (\<lambda>order.
     bindP (mapP order (\<lambda>i. tryP (tasks ! i) retP)) (\<lambda>results.
     if taskErrors results = [] then retP ()
     else failP (EOpaque ''encountered errors during processing: '' (EAggregate (taskErrors results)))))"

section \<open>Status\<close>

definition isScheduleBackup :: "Backup \<Rightarrow> bool" where
  "isScheduleBackup backup \<longleftrightarrow> length (BackupSchedule (bak_spec backup)) \<noteq> 0"

definition allBackupsCompleted :: "BackupStatus \<Rightarrow> bool" where
  "allBackupsCompleted status \<longleftrightarrow> list_all (\<lambda>detail. case cd_statusInCluster detail of
     None \<Rightarrow> False | Some st \<Rightarrow> vbs_phase st = BackupPhaseCompleted) (bst_details status)"

definition allRestoreCompleted :: "RestoreDetails list \<Rightarrow> bool" where
  "allRestoreCompleted clusterDetails \<longleftrightarrow> list_all (\<lambda>detail. case cd_statusInCluster detail of
     None \<Rightarrow> False | Some st \<Rightarrow> vrs_phase st = RestorePhaseCompleted) clusterDetails"

definition detailKey :: "string \<Rightarrow> string \<Rightarrow> string \<Rightarrow> string" where
  "detailKey clusterName clusterKind name = clusterName @ ''-'' @ clusterKind @ ''-'' @ name"

definition keyOfDetail :: "'st clusterDetails \<Rightarrow> string" where
  "keyOfDetail d = detailKey (cd_clusterName d) (cd_clusterKind d) (cd_nameInCluster d)"

text \<open>
  The map from keys to entries holds pointers to the entries there are at the start; it is kept as the
  map to their positions. A key that occurs twice belongs to the last entry that has it.
\<close>

definition statusMap :: "'st clusterDetails list \<Rightarrow> (string \<rightharpoonup> nat)" where
  "statusMap details = foldl (\<lambda>m (i, d). m(keyOfDetail d \<mapsto> i)) Map.empty (enumerate 0 details)"

definition recordDetail ::
  "(string \<rightharpoonup> nat) \<Rightarrow> ClusterKey \<Rightarrow> string \<Rightarrow> 'st \<Rightarrow> 'st clusterDetails list \<Rightarrow> 'st clusterDetails list" where
  "recordDetail m clusterKey name status details = (case m (detailKey (snd clusterKey) (fst clusterKey) name) of
     Some i \<Rightarrow> details[i := (details ! i)\<lparr>cd_statusInCluster := Some status\<rparr>]
   | None \<Rightarrow> details @ [\<lparr>cd_clusterName = snd clusterKey, cd_clusterKind = fst clusterKey, cd_nameInCluster = name,
       cd_statusInCluster = Some status\<rparr>])"

definition zeroTime :: int where "zeroTime = - 62135596800"

definition startTime :: "VeleroBackup \<Rightarrow> int" where
  "startTime b = (case vbs_start (vb_status b) of None \<Rightarrow> zeroTime | Some t \<Rightarrow> t)"

text \<open>The function \<open>sort.Slice\<close> compares with: the backup that started later comes first.\<close>

definition startedAfter :: "VeleroBackup \<Rightarrow> VeleroBackup \<Rightarrow> bool" where
  "startedAfter i j \<longleftrightarrow> startTime i > startTime j"

definition MostRecentCompletedBackup :: "'w bkenv \<Rightarrow> VeleroBackup list \<Rightarrow> VeleroBackup" where
  "MostRecentCompletedBackup E backups =
     (case find (\<lambda>b. vbs_phase (vb_status b) = BackupPhaseCompleted) (be_sort E startedAfter backups) of
        Some backup \<Rightarrow> backup
      | None \<Rightarrow> noVeleroBackup)"

definition GetCronInterval :: "'w bkenv \<Rightarrow> string \<Rightarrow> (('w, 'm) kst_scheme, int) proc" where
  "GetCronInterval E cronExpr =
     bindP (liftE (be_cron E cronExpr)) (\<lambda>next.
     bindP (extP (be_now E)) (\<lambda>now.
     let nextRun = next now; nextNextRun = next nextRun in
     retP (nextNextRun - nextRun + 30)))"

definition getResourceFromClusterClient ::
  "string \<Rightarrow> ('w, 'o) api \<Rightarrow> string \<Rightarrow> string \<Rightarrow> (('w, 'm) kst_scheme, 'o) proc" where
  "getResourceFromClusterClient kind api name namespace = getK kind api \<lparr>k_namespace = namespace, k_name = name\<rparr>"

definition listResourcesFromClusterClient ::
  "string \<Rightarrow> ('w, 'o) api \<Rightarrow> string \<Rightarrow> string \<Rightarrow> string \<Rightarrow> (('w, 'm) kst_scheme, 'o list) proc" where
  "listResourcesFromClusterClient kind api namespace labelKey labelValue = listK kind api namespace [(labelKey, labelValue)]"

fun restoreStatuses ::
  "'w bkenv \<Rightarrow> string \<Rightarrow> string \<Rightarrow> string \<Rightarrow> (string \<rightharpoonup> nat) \<Rightarrow> fleetClusters \<Rightarrow> RestoreDetails list \<Rightarrow>
   (('w, 'm) kst_scheme, RestoreDetails list) proc" where
  "restoreStatuses E creatorKind creatorNamespace creatorName m [] details = retP details"
| "restoreStatuses E creatorKind creatorNamespace creatorName m ((clusterKey, clusterAccess) # rest) details =
     bindP (getResourceFromClusterClient ''Restore'' (ve_restore (veleroOf E clusterAccess))
       (generateVeleroResourceName (snd clusterKey) creatorKind creatorNamespace creatorName) VeleroNamespace) (\<lambda>veleroRestore.
     restoreStatuses E creatorKind creatorNamespace creatorName m rest
       (recordDetail m clusterKey (m_name (vr_meta veleroRestore)) (vr_status veleroRestore) details))"

definition syncVeleroRestoreStatus ::
  "'w bkenv \<Rightarrow> fleetClusters \<Rightarrow> RestoreDetails list \<Rightarrow> string \<Rightarrow> string \<Rightarrow> string \<Rightarrow>
   (('w, 'm) kst_scheme, RestoreDetails list) proc" where
  "syncVeleroRestoreStatus E destinationClusters clusterDetails creatorKind creatorNamespace creatorName =
     bindP (extP (fe_range (be_host E) destinationClusters)) (\<lambda>clusters.
     restoreStatuses E creatorKind creatorNamespace creatorName (statusMap clusterDetails) clusters clusterDetails)"

definition isMigrateSourceReady :: "Migrate \<Rightarrow> bool" where
  "isMigrateSourceReady migrate \<longleftrightarrow> list_ex (\<lambda>condition.
     cond_type condition = SourceReadyCondition \<and> cond_status condition = CondTrue) (mst_conditions (mig_status migrate))"

section \<open>Deletion\<close>

definition deleteResourcesInClusters ::
  "'w bkenv \<Rightarrow> string \<Rightarrow> ('o \<Rightarrow> ObjectMeta) \<Rightarrow> ('w velero \<Rightarrow> ('w, 'o) api) \<Rightarrow> string \<Rightarrow> string \<Rightarrow> string \<Rightarrow> fleetClusters \<Rightarrow>
   (('w, 'm) kst_scheme, unit) proc" where
  "deleteResourcesInClusters E kind meta apiOf namespace labelKey labelValue destinationClusters =
     bindP (extP (fe_range (be_host E) destinationClusters)) (\<lambda>clusters.
     forEach clusters (\<lambda>(clusterKey, clusterAccess).
     let api = apiOf (veleroOf E clusterAccess) in
     bindP (listResourcesFromClusterClient kind api namespace labelKey labelValue) (\<lambda>items.
     forEach items (\<lambda>item.
       tryP (deleteK kind meta api item) (\<lambda>r. case r of
         Inl e \<Rightarrow> if \<not> isNotFound e then failP e else retP ()
       | Inr _ \<Rightarrow> retP ())))))"

end
