(* ===== verification/BackupControllers.thy ===== *)
theory BackupControllers
  imports BackupShared
begin

text \<open>
  The backup, restore and migrate controllers (\<open>backup_controller.go\<close>, \<open>restore_controller.go\<close> and
  \<open>migrate_controller.go\<close> of \<open>pkg/fleet-manager/backup\<close>). The object a controller reconciles is part of
  its state and is patched when the handler returns.
\<close>

section \<open>Backup\<close>

record 'w bkstate = "'w kst" +
  s_backup :: Backup

type_synonym ('w, 'a) bkproc = "('w bkstate, 'a) proc"

definition setBackupDetails :: "(BackupDetails list \<Rightarrow> BackupDetails list) \<Rightarrow> ('w, unit) bkproc" where
  "setBackupDetails f = modifyP (\<lambda>s. s\<lparr>s_backup := s_backup s\<lparr>bak_status :=
     bak_status (s_backup s)\<lparr>bst_details := f (bst_details (bak_status (s_backup s)))\<rparr>\<rparr>\<rparr>)"

definition setBackupFinalizers :: "(string list \<Rightarrow> string list) \<Rightarrow> ('w, unit) bkproc" where
  "setBackupFinalizers f = modifyP (\<lambda>s. s\<lparr>s_backup := s_backup s\<lparr>bak_meta :=
     bak_meta (s_backup s)\<lparr>m_finalizers := f (m_finalizers (bak_meta (s_backup s)))\<rparr>\<rparr>\<rparr>)"

definition backupTask :: "'w bkenv \<Rightarrow> Backup \<Rightarrow> (string \<rightharpoonup> string) \<Rightarrow> ClusterKey \<times> FleetCluster \<Rightarrow> ('w, unit) bkproc outcome" where
  "backupTask E backup backupLabel = (\<lambda>(clusterKey, clusterAccess).
     let name = generateVeleroResourceName (snd clusterKey) BackupKind (m_namespace (bak_meta backup)) (m_name (bak_meta backup)) in
     if isScheduleBackup backup
     then bindO (buildVeleroScheduleInstance (bak_spec backup) backupLabel name) (\<lambda>veleroSchedule.
       Ok (syncVeleroObj ''Schedule'' vsc_meta (ve_syncSchedule (veleroOf E clusterAccess)) veleroSchedule))
     else bindO (buildVeleroBackupInstance (bak_spec backup) backupLabel name) (\<lambda>veleroBackup.
       Ok (syncVeleroObj ''Backup'' vb_meta (ve_syncBackup (veleroOf E clusterAccess)) veleroBackup)))"

definition reconcileBackupResources :: "'w bkenv \<Rightarrow> fleetClusters \<Rightarrow> ('w, Result) bkproc" where
  "reconcileBackupResources E destinationClusters = bindP (getP s_backup) (\<lambda>backup.
     let backupLabel = generateVeleroInstanceLabel BackupNameLabel (m_name (bak_meta backup)) (dst_fleet (BackupDestination (bak_spec backup))) in
     bindP (extP (fe_range (be_host E) destinationClusters)) (\<lambda>clusters.
     bindP (mapP clusters (\<lambda>c. liftO (backupTask E backup backupLabel c))) (\<lambda>tasks.
     seqP (runTasks E tasks) (retP noRequeue))))"

definition oneTimeStatusOf :: "'w bkenv \<Rightarrow> Backup \<Rightarrow> (string \<rightharpoonup> nat) \<Rightarrow> ClusterKey \<times> FleetCluster \<Rightarrow> ('w, unit) bkproc" where
  "oneTimeStatusOf E backup m = (\<lambda>(clusterKey, clusterAccess).
     bindP (getResourceFromClusterClient ''Backup'' (ve_backup (veleroOf E clusterAccess))
       (generateVeleroResourceName (snd clusterKey) BackupKind (m_namespace (bak_meta backup)) (m_name (bak_meta backup)))
       VeleroNamespace) (\<lambda>veleroBackup.
     setBackupDetails (recordDetail m clusterKey (m_name (vb_meta veleroBackup)) (vb_status veleroBackup))))"

definition reconcileOneTimeBackupStatus :: "'w bkenv \<Rightarrow> fleetClusters \<Rightarrow> (string \<rightharpoonup> nat) \<Rightarrow> ('w, Result) bkproc" where
  "reconcileOneTimeBackupStatus E destinationClusters m = bindP (getP s_backup) (\<lambda>backup.
     bindP (extP (fe_range (be_host E) destinationClusters)) (\<lambda>clusters.
     seqP (forEach clusters (oneTimeStatusOf E backup m))
     (bindP (getP (\<lambda>s. bak_status (s_backup s))) (\<lambda>status.
      if allBackupsCompleted status then retP noRequeue else retP (requeueAfter BackupStatusInterval)))))"

definition scheduleStatusOf :: "'w bkenv \<Rightarrow> Backup \<Rightarrow> (string \<rightharpoonup> nat) \<Rightarrow> ClusterKey \<times> FleetCluster \<Rightarrow> ('w, unit) bkproc" where
  "scheduleStatusOf E schedule m = (\<lambda>(clusterKey, clusterAccess).
     bindP (getResourceFromClusterClient ''Schedule'' (ve_schedule (veleroOf E clusterAccess))
       (generateVeleroResourceName (snd clusterKey) BackupKind (m_namespace (bak_meta schedule)) (m_name (bak_meta schedule)))
       VeleroNamespace) (\<lambda>veleroSchedule.
     bindP (listResourcesFromClusterClient ''Backup'' (ve_backup (veleroOf E clusterAccess)) VeleroNamespace ScheduleNameLabel
       (m_name (vsc_meta veleroSchedule))) (\<lambda>backupList.
     let veleroBackup = MostRecentCompletedBackup E backupList in
     setBackupDetails (recordDetail m clusterKey (m_name (vb_meta veleroBackup)) (vb_status veleroBackup)))))"

definition reconcileScheduleBackupStatus :: "'w bkenv \<Rightarrow> fleetClusters \<Rightarrow> (string \<rightharpoonup> nat) \<Rightarrow> ('w, Result) bkproc" where
  "reconcileScheduleBackupStatus E destinationClusters m = bindP (getP s_backup) (\<lambda>schedule.
     bindP (extP (fe_range (be_host E) destinationClusters)) (\<lambda>clusters.
     seqP (forEach clusters (scheduleStatusOf E schedule m))
     (bindP (getP s_backup) (\<lambda>schedule'.
      if allBackupsCompleted (bak_status schedule')
      then bindP (GetCronInterval E (BackupSchedule (bak_spec schedule'))) (\<lambda>cronInterval. retP (requeueAfter cronInterval))
      else retP (requeueAfter BackupStatusInterval)))))"

definition reconcileBackupStatus :: "'w bkenv \<Rightarrow> fleetClusters \<Rightarrow> ('w, Result) bkproc" where
  "reconcileBackupStatus E destinationClusters = bindP (getP s_backup) (\<lambda>backup.
     let m = statusMap (bst_details (bak_status backup)) in
     if isScheduleBackup backup then reconcileScheduleBackupStatus E destinationClusters m
     else reconcileOneTimeBackupStatus E destinationClusters m)"

definition reconcileBackup :: "'w bkenv \<Rightarrow> ('w, Result) bkproc" where
  "reconcileBackup E = bindP (getP s_backup) (\<lambda>backup.
     bindP (fetchDestinationClusters E (m_namespace (bak_meta backup)) (BackupDestination (bak_spec backup))) (\<lambda>destinationClusters.
     bindP (reconcileBackupResources E destinationClusters) (\<lambda>_.
     reconcileBackupStatus E destinationClusters)))"

definition reconcileDeleteBackup :: "'w bkenv \<Rightarrow> ('w, Result) bkproc" where
  "reconcileDeleteBackup E = bindP (getP s_backup) (\<lambda>backup.
     let release = setBackupFinalizers (\<lambda>fs. removeFinalizer (fe_lib (be_host E)) fs BackupFinalizer); name = m_name (bak_meta backup) in
     tryP (fetchDestinationClusters E (m_namespace (bak_meta backup)) (BackupDestination (bak_spec backup))) (\<lambda>r. case r of
       Inl e \<Rightarrow> seqP release (failP e)
     | Inr destinationClusters \<Rightarrow>
         seqP (if isScheduleBackup backup
           then deleteResourcesInClusters E ''Schedule'' vsc_meta ve_schedule VeleroNamespace BackupNameLabel name destinationClusters
           else deleteResourcesInClusters E ''Backup'' vb_meta ve_backup VeleroNamespace BackupNameLabel name destinationClusters)
         (seqP release (retP noRequeue))))"

definition reconcileBackupBody :: "'w bkenv \<Rightarrow> ('w, Result) bkproc" where
  "reconcileBackupBody E =
     bindP (getP s_backup) (\<lambda>backup.
     seqP (ifP (\<not> fe_containsFinalizer (be_host E) (m_finalizers (bak_meta backup)) BackupFinalizer)
       (setBackupFinalizers (\<lambda>fs. addFinalizer (fe_lib (be_host E)) fs BackupFinalizer)))
     (if m_deletionTimestamp (bak_meta backup) \<noteq> None then reconcileDeleteBackup E else reconcileBackup E))"

definition ReconcileBackup :: "'w bkenv \<Rightarrow> objkey \<Rightarrow> ('w, Result) bkproc" where
  "ReconcileBackup E req =
     tryP (getK ''Backup'' (be_backup E) req) (\<lambda>r. case r of
       Inl e \<Rightarrow> if isNotFound e then retP noRequeue else failP e
     | Inr backup \<Rightarrow>
         seqP (modifyP (\<lambda>s. s\<lparr>s_backup := backup\<rparr>))
         (seqP (onErr (callP (RExternal ''NewHelper'' []) (api_newHelper (be_backup E) backup))
           (\<lambda>e. failP (EWrap ''failed to init patch helper for backup'' e)))
         (deferErr (reconcileBackupBody E)
           (bindP (getP s_backup) (\<lambda>after.
            onErr (patchK ''Backup'' bak_meta (be_backup E) backup after) (\<lambda>e. failP (EWrap ''failed to patch'' e)))))))"

section \<open>Restore\<close>

record 'w rsstate = "'w kst" +
  s_restore :: Restore

type_synonym ('w, 'a) rsproc = "('w rsstate, 'a) proc"

definition ErrNoCompletedBackups :: goerr where
  "ErrNoCompletedBackups = EMsg ''No completed Velero backups available for restore.''"

definition fetchRestoreDestinationClusters :: "'w bkenv \<Rightarrow> ('w, string \<times> fleetClusters) rsproc" where
  "fetchRestoreDestinationClusters E = bindP (getP s_restore) (\<lambda>restore.
     let namespace = m_namespace (res_meta restore) in
     bindP (onErr (getK ''Backup'' (be_backup E) \<lparr>k_namespace = namespace, k_name = RestoreBackupName (res_spec restore)\<rparr>)
       (\<lambda>e. failP (EWrap ''failed to retrieve the referred backup'' e))) (\<lambda>referredBackup.
     let backupDestination = BackupDestination (bak_spec referredBackup) in
     bindP (onErr (fetchDestinationClusters E namespace backupDestination)
       (\<lambda>e. failP (EWrap ''failed to fetch fleet clusters for the backup'' e))) (\<lambda>baseClusters.
     case RestoreDestination (res_spec restore) of
       None \<Rightarrow> retP (dst_fleet backupDestination, baseClusters)
     | Some destination \<Rightarrow>
         bindP (onErr (fetchDestinationClusters E namespace destination)
           (\<lambda>e. failP (EWrap ''failed to fetch restore clusters for the restore'' e))) (\<lambda>restoreClusters.
         if dst_fleet backupDestination \<noteq> dst_fleet destination
         then failP (EMsg ''the restore destination fleet must be the same as the backup's'')
         else if \<not> isFleetClusterSubset baseClusters restoreClusters
         then failP (EMsg ''the restore clusters must be a subset of the base clusters'')
         else retP (dst_fleet destination, restoreClusters)))))"

definition getBackupForRestore ::
  "'w bkenv \<Rightarrow> Restore \<Rightarrow> Backup \<Rightarrow> FleetCluster \<Rightarrow> string \<Rightarrow> ('w, string) rsproc" where
  "getBackupForRestore E restore referredBackup clusterAccess clusterName =
     (let veleroScheduleName = generateVeleroResourceName clusterName BackupKind (m_namespace (bak_meta referredBackup))
            (m_name (bak_meta referredBackup)) in
      if \<not> isScheduleBackup referredBackup then retP veleroScheduleName
      else bindP (listResourcesFromClusterClient ''Backup'' (ve_backup (veleroOf E clusterAccess)) VeleroNamespace ScheduleNameLabel
          veleroScheduleName) (\<lambda>backupList.
        let veleroBackup = MostRecentCompletedBackup E backupList in
        if m_name (vb_meta veleroBackup) = []
        then failP (EMsg ''No completed backups found for referred schedule backup'')
        else retP (m_name (vb_meta veleroBackup))))"

definition reconcileRestoreResources ::
  "'w bkenv \<Rightarrow> Backup \<Rightarrow> fleetClusters \<Rightarrow> string \<Rightarrow> ('w, Result) rsproc" where
  "reconcileRestoreResources E referredBackup destinationClusters fleetName = bindP (getP s_restore) (\<lambda>restore.
     let restoreLabels = generateVeleroInstanceLabel RestoreNameLabel (m_name (res_meta restore)) fleetName in
     bindP (extP (fe_range (be_host E) destinationClusters)) (\<lambda>clusters.
     bindP (mapP clusters (\<lambda>(clusterKey, clusterAccess).
       bindP (onErr (getBackupForRestore E restore referredBackup clusterAccess (snd clusterKey))
         (\<lambda>_. failP ErrNoCompletedBackups)) (\<lambda>veleroBackupName.
       retP (syncVeleroObj ''Restore'' vr_meta (ve_syncRestore (veleroOf E clusterAccess))
         (buildVeleroRestoreInstance (res_spec restore) restoreLabels veleroBackupName
           (generateVeleroResourceName (snd clusterKey) RestoreKind (m_namespace (res_meta restore)) (m_name (res_meta restore)))))))) (\<lambda>tasks.
     seqP (runTasks E tasks) (retP noRequeue))))"

definition setRestoreDetails :: "RestoreDetails list \<Rightarrow> ('w, unit) rsproc" where
  "setRestoreDetails details = modifyP (\<lambda>s. s\<lparr>s_restore := s_restore s\<lparr>res_status :=
     res_status (s_restore s)\<lparr>rst_details := details\<rparr>\<rparr>\<rparr>)"

definition setRestoreFinalizers :: "(string list \<Rightarrow> string list) \<Rightarrow> ('w, unit) rsproc" where
  "setRestoreFinalizers f = modifyP (\<lambda>s. s\<lparr>s_restore := s_restore s\<lparr>res_meta :=
     res_meta (s_restore s)\<lparr>m_finalizers := f (m_finalizers (res_meta (s_restore s)))\<rparr>\<rparr>\<rparr>)"

text \<open>When collecting the status fails, the details are assigned the nil slice that comes with the error.\<close>

definition reconcileRestore :: "'w bkenv \<Rightarrow> ('w, Result) rsproc" where
  "reconcileRestore E = bindP (getP s_restore) (\<lambda>restore.
     bindP (fetchRestoreDestinationClusters E) (\<lambda>(fleetName, destinationClusters).
     tryP (getK ''Backup'' (be_backup E) \<lparr>k_namespace = m_namespace (res_meta restore), k_name = RestoreBackupName (res_spec restore)\<rparr>) (\<lambda>r. case r of
       Inl _ \<Rightarrow> retP noRequeue
     | Inr referredBackup \<Rightarrow>
         tryP (reconcileRestoreResources E referredBackup destinationClusters fleetName) (\<lambda>r. case r of
           Inl e \<Rightarrow> if e = ErrNoCompletedBackups then retP noRequeue else failP e
         | Inr _ \<Rightarrow>
             tryP (syncVeleroRestoreStatus E destinationClusters (rst_details (res_status restore)) RestoreKind
               (m_namespace (res_meta restore)) (m_name (res_meta restore))) (\<lambda>r. case r of
               Inl e \<Rightarrow> seqP (setRestoreDetails []) (failP e)
             | Inr details \<Rightarrow> seqP (setRestoreDetails details)
                 (if allRestoreCompleted details then retP noRequeue else retP (requeueAfter BackupStatusInterval)))))))"

definition reconcileDeleteRestore :: "'w bkenv \<Rightarrow> ('w, Result) rsproc" where
  "reconcileDeleteRestore E = bindP (getP s_restore) (\<lambda>restore.
     let release = setRestoreFinalizers (\<lambda>fs. removeFinalizer (fe_lib (be_host E)) fs RestoreFinalizer) in
     tryP (fetchRestoreDestinationClusters E) (\<lambda>r. case r of
       Inl e \<Rightarrow> seqP release (failP e)
     | Inr (_, destinationClusters) \<Rightarrow>
         seqP (deleteResourcesInClusters E ''Restore'' vr_meta ve_restore VeleroNamespace RestoreNameLabel (m_name (res_meta restore))
           destinationClusters)
         (seqP release (retP noRequeue))))"

definition reconcileRestoreBody :: "'w bkenv \<Rightarrow> ('w, Result) rsproc" where
  "reconcileRestoreBody E =
     bindP (getP s_restore) (\<lambda>restore.
     seqP (ifP (\<not> fe_containsFinalizer (be_host E) (m_finalizers (res_meta restore)) RestoreFinalizer)
       (setRestoreFinalizers (\<lambda>fs. addFinalizer (fe_lib (be_host E)) fs RestoreFinalizer)))
     (if m_deletionTimestamp (res_meta restore) \<noteq> None then reconcileDeleteRestore E else reconcileRestore E))"

definition ReconcileRestore :: "'w bkenv \<Rightarrow> objkey \<Rightarrow> ('w, Result) rsproc" where
  "ReconcileRestore E req =
     tryP (getK ''Restore'' (be_restore E) req) (\<lambda>r. case r of
       Inl e \<Rightarrow> if isNotFound e then retP noRequeue else failP e
     | Inr restore \<Rightarrow>
         seqP (modifyP (\<lambda>s. s\<lparr>s_restore := restore\<rparr>))
         (seqP (onErr (callP (RExternal ''NewHelper'' []) (api_newHelper (be_restore E) restore))
           (\<lambda>e. failP (EWrap ''failed to init patch helper for restore'' e)))
         (deferErr (reconcileRestoreBody E)
           (bindP (getP s_restore) (\<lambda>after.
            onErr (patchK ''Restore'' res_meta (be_restore E) restore after) (\<lambda>e. failP (EWrap ''failed to patch'' e)))))))"

section \<open>Migrate\<close>

record 'w mgstate = "'w kst" +
  s_migrate :: Migrate

type_synonym ('w, 'a) mgproc = "('w mgstate, 'a) proc"

definition setMigrateStatus :: "(MigrateStatus \<Rightarrow> MigrateStatus) \<Rightarrow> ('w, unit) mgproc" where
  "setMigrateStatus f = modifyP (\<lambda>s. s\<lparr>s_migrate := s_migrate s\<lparr>mig_status := f (mig_status (s_migrate s))\<rparr>\<rparr>)"

definition setMigrateFinalizers :: "(string list \<Rightarrow> string list) \<Rightarrow> ('w, unit) mgproc" where
  "setMigrateFinalizers f = modifyP (\<lambda>s. s\<lparr>s_migrate := s_migrate s\<lparr>mig_meta :=
     mig_meta (s_migrate s)\<lparr>m_finalizers := f (m_finalizers (mig_meta (s_migrate s)))\<rparr>\<rparr>\<rparr>)"

text \<open>The loop over the source clusters keeps the last one; without one its access stays nil.\<close>

definition reconcileMigrateBackup :: "'w bkenv \<Rightarrow> ('w, Result) mgproc" where
  "reconcileMigrateBackup E = bindP (getP s_migrate) (\<lambda>migrate.
     let namespace = m_namespace (mig_meta migrate); name = m_name (mig_meta migrate); source = SourceCluster (mig_spec migrate) in
     bindP (onErr (fetchDestinationClusters E namespace source)
       (\<lambda>e. failP (EWrap ''fetching source cluster'' e))) (\<lambda>fleetClusters.
     bindP (extP (fe_range (be_host E) fleetClusters)) (\<lambda>clusters.
     let sourceClusterKey = (if clusters = [] then ([], []) else fst (last clusters));
         sourceBackupName = generateVeleroResourceName (snd sourceClusterKey) MigrateKind namespace name in
     bindP (liftO (buildVeleroBackupFromMigrate (mig_spec migrate)
       (generateVeleroInstanceLabel MigrateNameLabel name (dst_fleet source)) sourceBackupName)) (\<lambda>sourceBackup.
     if clusters = [] then panicP
     else let velero = veleroOf E (snd (last clusters)) in
       seqP (onErr (syncVeleroObj ''Backup'' vb_meta (ve_syncBackup velero) sourceBackup)
         (\<lambda>e. failP (EWrap ''creating backup resource'' e)))
       (bindP (onErr (getResourceFromClusterClient ''Backup'' (ve_backup velero) sourceBackupName VeleroNamespace)
         (\<lambda>e. failP (EWrap ''retrieving backup status'' e))) (\<lambda>veleroBackup.
       seqP (setMigrateStatus (\<lambda>st. st\<lparr>SourceClusterStatus := Some \<lparr>cd_clusterName = snd sourceClusterKey,
         cd_clusterKind = fst sourceClusterKey, cd_nameInCluster = m_name (vb_meta veleroBackup),
         cd_statusInCluster = Some (vb_status veleroBackup)\<rparr>\<rparr>))
       (if vbs_phase (vb_status veleroBackup) = BackupPhaseCompleted
        then seqP (setMigrateStatus (\<lambda>st. st\<lparr>mst_conditions := markTrue (fe_lib (be_host E)) (mst_conditions st) SourceReadyCondition\<rparr>))
          (retP noRequeue)
        else retP (requeueAfter FleetRequeueAfter))))))))"

text \<open>The tasks of the restore stage; a cluster the backup has not been synced to yet ends the stage with a requeue.\<close>

fun migrateTasks ::
  "'w bkenv \<Rightarrow> Migrate \<Rightarrow> string \<Rightarrow> (string \<rightharpoonup> string) \<Rightarrow> fleetClusters \<Rightarrow> ('w, unit) mgproc list \<Rightarrow>
   ('w, Result + ('w, unit) mgproc list) mgproc" where
  "migrateTasks E migrate referredBackupName restoreLabel [] tasks = retP (Inr tasks)"
| "migrateTasks E migrate referredBackupName restoreLabel ((clusterKey, clusterAccess) # rest) tasks =
     tryP (getResourceFromClusterClient ''Backup'' (ve_backup (veleroOf E clusterAccess)) referredBackupName VeleroNamespace) (\<lambda>r. case r of
       Inl e \<Rightarrow> if isNotFound e then retP (Inl (requeueAfter FleetRequeueAfter)) else failP e
     | Inr _ \<Rightarrow> migrateTasks E migrate referredBackupName restoreLabel rest
         (tasks @ [syncVeleroObj ''Restore'' vr_meta (ve_syncRestore (veleroOf E clusterAccess))
           (buildVeleroRestoreFromMigrate (mig_spec migrate) restoreLabel referredBackupName
             (generateVeleroResourceName (snd clusterKey) MigrateKind (m_namespace (mig_meta migrate)) (m_name (mig_meta migrate))))]))"

definition migrateRestoreStatus :: "'w bkenv \<Rightarrow> Migrate \<Rightarrow> fleetClusters \<Rightarrow> ('w, Result) mgproc" where
  "migrateRestoreStatus E migrate targetClusters =
     tryP (syncVeleroRestoreStatus E targetClusters (TargetClustersStatus (mig_status migrate)) MigrateKind
       (m_namespace (mig_meta migrate)) (m_name (mig_meta migrate))) (\<lambda>r. case r of
       Inl e \<Rightarrow> seqP (setMigrateStatus (\<lambda>st. st\<lparr>TargetClustersStatus := []\<rparr>)) (failP e)
     | Inr details \<Rightarrow>
         seqP (setMigrateStatus (\<lambda>st. st\<lparr>TargetClustersStatus := details\<rparr>))
         (if allRestoreCompleted details
          then seqP (setMigrateStatus (\<lambda>st. st\<lparr>mst_phase := MigratePhaseCompleted\<rparr>)) (retP noRequeue)
          else retP (requeueAfter BackupStatusInterval)))"

definition migrateRestoreStage :: "'w bkenv \<Rightarrow> Migrate \<Rightarrow> fleetClusters \<Rightarrow> ('w, Result) mgproc" where
  "migrateRestoreStage E migrate targetClusters =
     bindP (derefP (indexO (dst_clusters (SourceCluster (mig_spec migrate))) 0)) (\<lambda>sourceRef.
     bindP (extP (fe_range (be_host E) targetClusters)) (\<lambda>clusters.
     bindP (migrateTasks E migrate
       (generateVeleroResourceName (r_name sourceRef) MigrateKind (m_namespace (mig_meta migrate)) (m_name (mig_meta migrate)))
       (generateVeleroInstanceLabel MigrateNameLabel (m_name (mig_meta migrate)) (dst_fleet (TargetClusters (mig_spec migrate)))) clusters [])
       (\<lambda>r. case r of
          Inl result \<Rightarrow> retP result
        | Inr tasks \<Rightarrow> seqP (runTasks E tasks) (migrateRestoreStatus E migrate targetClusters))))"

definition reconcileMigrateRestore :: "'w bkenv \<Rightarrow> ('w, Result) mgproc" where
  "reconcileMigrateRestore E = bindP (getP s_migrate) (\<lambda>migrate.
     bindP (onErr (fetchDestinationClusters E (m_namespace (mig_meta migrate)) (TargetClusters (mig_spec migrate)))
       (\<lambda>e. failP (EWrap ''fetching target clusters'' e))) (\<lambda>targetClusters.
     seqP (ifP (mst_phase (mig_status migrate) \<noteq> MigratePhaseBackupInProgress)
       (setMigrateStatus (\<lambda>st. st\<lparr>mst_phase := MigratePhaseRestoreInProgress\<rparr>)))
     (migrateRestoreStage E migrate targetClusters)))"

definition reconcileMigrate :: "'w bkenv \<Rightarrow> ('w, Result) mgproc" where
  "reconcileMigrate E = bindP (getP (\<lambda>s. mst_phase (mig_status (s_migrate s)))) (\<lambda>phase.
     seqP (ifP (phase = MigrateNoPhase \<or> phase = MigratePhasePending)
       (setMigrateStatus (\<lambda>st. st\<lparr>mst_phase := MigratePhaseBackupInProgress\<rparr>)))
     (seqP (reconcileMigrateBackup E) (reconcileMigrateRestore E)))"

definition reconcileDeleteMigrate :: "'w bkenv \<Rightarrow> ('w, Result) mgproc" where
  "reconcileDeleteMigrate E = bindP (getP s_migrate) (\<lambda>migrate.
     let namespace = m_namespace (mig_meta migrate); name = m_name (mig_meta migrate);
         release = setMigrateFinalizers (\<lambda>fs. removeFinalizer (fe_lib (be_host E)) fs MigrateFinalizer) in
     tryP (fetchDestinationClusters E namespace (SourceCluster (mig_spec migrate))) (\<lambda>r. case r of
       Inl e \<Rightarrow> seqP release (failP e)
     | Inr sourceCluster \<Rightarrow>
         seqP (deleteResourcesInClusters E ''Backup'' vb_meta ve_backup VeleroNamespace MigrateNameLabel name sourceCluster)
         (tryP (fetchDestinationClusters E namespace (TargetClusters (mig_spec migrate))) (\<lambda>r. case r of
            Inl e \<Rightarrow> seqP release (failP e)
          | Inr targetClusters \<Rightarrow>
              seqP (deleteResourcesInClusters E ''Restore'' vr_meta ve_restore VeleroNamespace MigrateNameLabel name targetClusters)
              (seqP release (retP noRequeue))))))"

definition reconcileMigrateBody :: "'w bkenv \<Rightarrow> ('w, Result) mgproc" where
  "reconcileMigrateBody E =
     bindP (getP s_migrate) (\<lambda>migrate.
     seqP (ifP (\<not> fe_containsFinalizer (be_host E) (m_finalizers (mig_meta migrate)) MigrateFinalizer)
       (setMigrateFinalizers (\<lambda>fs. addFinalizer (fe_lib (be_host E)) fs MigrateFinalizer)))
     (if m_deletionTimestamp (mig_meta migrate) \<noteq> None then reconcileDeleteMigrate E else reconcileMigrate E))"

definition ReconcileMigrate :: "'w bkenv \<Rightarrow> objkey \<Rightarrow> ('w, Result) mgproc" where
  "ReconcileMigrate E req =
     tryP (getK ''Migrate'' (be_migrate E) req) (\<lambda>r. case r of
       Inl e \<Rightarrow> if isNotFound e then retP noRequeue else failP e
     | Inr migrate \<Rightarrow>
         seqP (modifyP (\<lambda>s. s\<lparr>s_migrate := migrate\<rparr>))
         (seqP (onErr (callP (RExternal ''NewHelper'' []) (api_newHelper (be_migrate E) migrate))
           (\<lambda>e. failP (EWrap ''failed to init patch helper for migrate'' e)))
         (deferErr (reconcileMigrateBody E)
           (bindP (getP s_migrate) (\<lambda>after.
            onErr (patchK ''Migrate'' mig_meta (be_migrate E) migrate after) (\<lambda>e. failP (EWrap ''failed to patch'' e)))))))"

end
