(* ===== verification/BackupProperties.thy ===== *)
theory BackupProperties
  imports BackupControllers FleetMembership "HOL-Library.Multiset"
begin

text \<open>
  Properties of the backup, restore and migrate controllers: the phases of a migration, what writing
  the backups of a Backup does to the velero objects of the member clusters, which backup is the most
  recent one, when a schedule settles, and two failures.
\<close>

section \<open>Frames\<close>

text \<open>What every relation that the calls of a controller keep gives for the shared procedures.\<close>

context client_frame
begin

lemma pres_buildFleetClusters:
  assumes "\<And>q. allowed q"
  shows "pres R (buildFleetClusters E fleet refs res)"
proof (induction E fleet refs res rule: buildFleetClusters.induct)
  case (2 E fleet cluster rest res)
  then show ?case
    unfolding buildFleetClusters.simps getFleetClusterInterface_def ClientForCluster_def apiK_defs
    by (intro pres_rules assms)
qed (simp add: pres_retP)

lemma pres_fetchDestinationClusters:
  assumes "\<And>q. allowed q"
  shows "pres R (fetchDestinationClusters E ns d)"
  unfolding fetchDestinationClusters_def BuildFleetClusters_def apiK_defs
  by (intro pres_rules assms pres_buildFleetClusters)

lemma pres_syncVeleroObj:
  assumes "\<And>q. allowed q"
  shows "pres R (syncVeleroObj kind meta sync obj)"
  unfolding syncVeleroObj_def upsertK_def by (intro pres_rules assms)

lemma pres_restoreStatuses:
  assumes "\<And>q. allowed q"
  shows "pres R (restoreStatuses E kind ns name m cs ds)"
proof (induction E kind ns name m cs ds rule: restoreStatuses.induct)
  case (2 E kind ns name m key access rest ds)
  then show ?case
    unfolding restoreStatuses.simps getResourceFromClusterClient_def apiK_defs by (intro pres_rules assms)
qed (simp add: pres_retP)

lemma pres_syncVeleroRestoreStatus:
  assumes "\<And>q. allowed q"
  shows "pres R (syncVeleroRestoreStatus E cs ds kind ns name)"
  unfolding syncVeleroRestoreStatus_def by (intro pres_rules pres_restoreStatuses assms)

lemma pres_bind_extP:
  assumes "\<And>w. pres R (g (fst (f w)))"
  shows "pres R (bindP (extP f) g)"
proof -
  have "wp (g (fst (f (world s)))) (\<lambda>_. R s) (s\<lparr>world := snd (f (world s))\<rparr>)" for s
    using presD [OF assms] R_trans [OF R_ext] by (blast intro!: wpI)
  then show ?thesis
    by (simp add: pres_def wp_bindP wp_extP split_beta)
qed

end

text \<open>The goroutines of a group all run: the order in which they finish is one of the indices.\<close>

definition fairTasks :: "'w bkenv \<Rightarrow> bool" where
  "fairTasks E \<longleftrightarrow> (\<forall>n w. mset (fst (be_goroutines E n w)) = mset [0..<n])"

lemma fairTasks_set: "fairTasks E \<Longrightarrow> set (fst (be_goroutines E n w)) = {..<n}"
  unfolding fairTasks_def by (metis set_mset_mset set_upt atLeast0LessThan)

section \<open>Phases of a migration\<close>

abbreviation "migratePhase s \<equiv> mst_phase (mig_status (s_migrate s))"

definition keepsMigrate :: "'w mgstate \<Rightarrow> 'w mgstate \<Rightarrow> bool" where
  "keepsMigrate s t \<longleftrightarrow> migratePhase t = migratePhase s"

interpretation keepsMigrate: client_frame keepsMigrate "\<lambda>_. True"
  by unfold_locales (auto simp: keepsMigrate_def)

lemma keepsMigrate_status:
  "(\<And>st. mst_phase (f st) = mst_phase st) \<Longrightarrow> pres keepsMigrate (setMigrateStatus f)"
  unfolding setMigrateStatus_def by (rule keepsMigrate.pres_modifyP) (simp add: keepsMigrate_def)

lemma keepsMigrate_backup: "pres keepsMigrate (reconcileMigrateBackup E)"
  unfolding reconcileMigrateBackup_def getResourceFromClusterClient_def apiK_defs Let_def
  by (intro pres_rules TrueI keepsMigrate.pres_fetchDestinationClusters keepsMigrate.pres_syncVeleroObj keepsMigrate_status) simp_all

text \<open>The tasks a stage collects keep the phase.\<close>

definition quietTasks :: "(Result + ('w, unit) mgproc list) outcome \<Rightarrow> bool" where
  "quietTasks r \<longleftrightarrow> (case r of Ok (Inr tasks) \<Rightarrow> list_all (pres keepsMigrate) tasks | _ \<Rightarrow> True)"

lemma migrateTasks_quiet:
  "list_all (pres keepsMigrate) tasks \<Longrightarrow>
   wp (migrateTasks E migrate name label cs tasks) (\<lambda>r t. keepsMigrate s t \<and> quietTasks r) s"
proof (induction cs arbitrary: tasks s)
  case Nil
  then show ?case
    by (simp add: wp_retP quietTasks_def) (simp add: keepsMigrate_def)
next
  case (Cons c cs)
  have *: "wp (migrateTasks E migrate name label cs (tasks @ [syncVeleroObj k m u x])) (\<lambda>r t. keepsMigrate s t \<and> quietTasks r)
      (s\<lparr>world := w, reqs := qs\<rparr>)" for k m u x w qs
    using Cons.IH [of "tasks @ [syncVeleroObj k m u x]" "s\<lparr>world := w, reqs := qs\<rparr>"] Cons.prems
    by (simp add: keepsMigrate.pres_syncVeleroObj) (simp add: keepsMigrate_def)
  have **: "keepsMigrate s (s\<lparr>world := w, reqs := qs\<rparr>)" "quietTasks (Err e)" "quietTasks (Ok (Inl res))" for w qs e res
    by (simp_all add: keepsMigrate_def quietTasks_def)
  show ?case
    by (cases c) (auto simp: getResourceFromClusterClient_def apiK_defs wp_tryP wp_callP wp_retP wp_failP ** split: prod.splits sum.splits intro!: *)
qed

lemma runTasks_quiet:
  assumes "fairTasks E" and "list_all (pres keepsMigrate) tasks"
  shows "pres keepsMigrate (runTasks E tasks)"
proof -
  have "pres keepsMigrate (mapP (fst (be_goroutines E (length tasks) w)) (\<lambda>i. tryP (tasks ! i) retP))" for w
    using assms(2) fairTasks_set [OF assms(1), of "length tasks" w]
    by (intro pres_rules) (auto simp: list_all_length)
  then show ?thesis
    unfolding runTasks_def
    by (intro keepsMigrate.pres_bind_extP) (intro keepsMigrate.pres_bindP, assumption, intro pres_rules)
qed

lemma wp_pres: "pres R m \<Longrightarrow> (\<And>r t. R s t \<Longrightarrow> Q r t) \<Longrightarrow> wp m Q s"
  unfolding pres_def by (blast intro: wp_mono)

text \<open>What the restore stage does to the phase \<open>p\<close>.\<close>

definition restored :: "MigratePhase \<Rightarrow> Result outcome \<Rightarrow> 'w mgstate \<Rightarrow> bool" where
  "restored p r t \<longleftrightarrow> migratePhase t = p \<or>
     migratePhase t = MigratePhaseCompleted \<and> r = Ok noRequeue \<and> allRestoreCompleted (TargetClustersStatus (mig_status (s_migrate t)))"

lemma restored_keeps: "keepsMigrate s t \<Longrightarrow> restored (migratePhase s) r t"
  by (simp add: keepsMigrate_def restored_def)

lemma restoreStatus_restored: "wp (migrateRestoreStatus E migrate cs) (restored (migratePhase s)) s"
  unfolding migrateRestoreStatus_def wp_tryP
  by (rule wp_pres [OF keepsMigrate.pres_syncVeleroRestoreStatus [OF TrueI]])
    (auto simp: keepsMigrate_def restored_def setMigrateStatus_def wp_seqP wp_modifyP wp_failP wp_retP split: outcome.split)

lemma restoreTasks_restored:
  assumes "fairTasks E" and "quietTasks r" and "keepsMigrate s t"
  shows "case r of Ok x \<Rightarrow> wp (case x of Inl result \<Rightarrow> retP result
        | Inr tasks \<Rightarrow> seqP (runTasks E tasks) (migrateRestoreStatus E migrate cs)) (restored (migratePhase s)) t
    | Err e \<Rightarrow> restored (migratePhase s) (Err e) t | Panic \<Rightarrow> restored (migratePhase s) Panic t"
proof -
  have *: "wp (migrateRestoreStatus E migrate cs) (restored (migratePhase s)) v" if "keepsMigrate t v" for v
    using restoreStatus_restored [of E migrate cs v] that assms(3) by (simp add: keepsMigrate_def)
  have "wp (seqP (runTasks E tasks) (migrateRestoreStatus E migrate cs)) (restored (migratePhase s)) t"
    if "list_all (pres keepsMigrate) tasks" for tasks
    unfolding wp_seqP using * assms(3)
    by (intro wp_pres [OF runTasks_quiet [OF assms(1) that]]) (auto simp: keepsMigrate_def restored_def split: outcome.split)
  then show ?thesis
    using assms(2) restored_keeps [OF assms(3)] by (auto simp: quietTasks_def wp_retP split: outcome.split sum.split)
qed

lemma restoreStage_restored:
  assumes "fairTasks E"
  shows "wp (migrateRestoreStage E migrate cs) (restored (migratePhase s)) s"
proof -
  have "wp (bindP (migrateTasks E migrate name label clusters []) (\<lambda>r. case r of Inl result \<Rightarrow> retP result
      | Inr tasks \<Rightarrow> seqP (runTasks E tasks) (migrateRestoreStatus E migrate cs))) (restored (migratePhase s)) (s\<lparr>world := w\<rparr>)"
    for name label clusters w
    unfolding wp_bindP
    by (rule wp_mono [OF migrateTasks_quiet]) (simp, elim conjE, rule restoreTasks_restored [OF assms], simp_all add: keepsMigrate_def)
  then show ?thesis
    unfolding migrateRestoreStage_def wp_bindP [of "derefP _"] wp_bindP [of "extP _"] wp_derefP wp_extP
    by (auto simp: restored_def split: option.split prod.split)
qed

lemma migrateRestore_phase:
  assumes "fairTasks E"
  shows "wp (reconcileMigrateRestore E) (\<lambda>r t.
    restored (migratePhase s) r t \<or> migratePhase s \<noteq> MigratePhaseBackupInProgress \<and> restored MigratePhaseRestoreInProgress r t) s"
proof -
  have fetch: "pres keepsMigrate (onErr (fetchDestinationClusters E ns d) (\<lambda>e. failP (EWrap msg e)))" for ns d msg
    by (intro pres_rules keepsMigrate.pres_fetchDestinationClusters TrueI)
  show ?thesis
    unfolding reconcileMigrateRestore_def wp_bindP wp_getP outcome.case
    by (rule wp_pres [OF fetch])
      (auto simp: keepsMigrate_def restored_def wp_seqP wp_ifP setMigrateStatus_def wp_modifyP split: outcome.split
        intro: wp_mono [OF restoreStage_restored [OF assms]])
qed

text \<open>C10. A migration that has not completed before never shows that it is restoring: from a fresh, pending or
  backing-up Migrate a reconciliation leads to the phase BackupInProgress or straight to Completed.
  The phase becomes Completed only in a run that ends without a requeue and in which the restores of
  all target clusters have completed.\<close>

theorem migrate_phases:
  assumes "fairTasks E"
  shows "wp (reconcileMigrate E) (\<lambda>r t.
    (migratePhase s \<in> {MigrateNoPhase, MigratePhasePending, MigratePhaseBackupInProgress} \<longrightarrow>
       migratePhase t \<in> {MigratePhaseBackupInProgress, MigratePhaseCompleted}) \<and>
    (migratePhase t = MigratePhaseCompleted \<and> migratePhase s \<noteq> MigratePhaseCompleted \<longrightarrow>
       r = Ok noRequeue \<and> allRestoreCompleted (TargetClustersStatus (mig_status (s_migrate t))))) s"
proof -
  have stages: "wp (seqP (reconcileMigrateBackup E) (reconcileMigrateRestore E)) (\<lambda>r t. restored (migratePhase u) r t \<or>
      migratePhase u \<noteq> MigratePhaseBackupInProgress \<and> restored MigratePhaseRestoreInProgress r t) u" for u
    unfolding wp_seqP
  proof (rule wp_pres [OF keepsMigrate_backup])
    fix r :: "Result outcome" and v
    assume "keepsMigrate u v"
    then show "case r of Ok _ \<Rightarrow> wp (reconcileMigrateRestore E) (\<lambda>r t. restored (migratePhase u) r t \<or>
        migratePhase u \<noteq> MigratePhaseBackupInProgress \<and> restored MigratePhaseRestoreInProgress r t) v
      | Err e \<Rightarrow> restored (migratePhase u) (Err e) v \<or> migratePhase u \<noteq> MigratePhaseBackupInProgress \<and> restored MigratePhaseRestoreInProgress (Err e) v
      | Panic \<Rightarrow> restored (migratePhase u) Panic v \<or> migratePhase u \<noteq> MigratePhaseBackupInProgress \<and> restored MigratePhaseRestoreInProgress Panic v"
      using migrateRestore_phase [OF assms, of v] by (cases r) (simp_all add: keepsMigrate_def restored_def)
  qed
  show ?thesis
    unfolding reconcileMigrate_def wp_bindP wp_getP outcome.case wp_seqP [of "ifP _ _"] wp_ifP setMigrateStatus_def wp_modifyP
    by (auto simp: restored_def intro!: wp_mono [OF stages])
qed

section \<open>Writing the backups\<close>

text \<open>The velero backups of every member cluster, by the client of the cluster.\<close>

definition veleroStore :: "'w bkenv \<Rightarrow> ('w \<Rightarrow> string \<Rightarrow> objkey \<rightharpoonup> VeleroBackup) \<Rightarrow> bool" where
  "veleroStore E view \<longleftrightarrow>
     (\<forall>c. upserts vb_meta (ve_syncBackup (be_velero E c)) (\<lambda>w. view w c) (\<lambda>w w'. \<forall>c'. c' \<noteq> c \<longrightarrow> view w' c' = view w c')) \<and>
     (\<forall>cs w. mset (fst (fe_range (be_host E) cs w)) = mset cs \<and> view (snd (fe_range (be_host E) cs w)) = view w) \<and>
     (\<forall>n w. view (snd (be_goroutines E n w)) = view w)"

definition veleroName :: "Backup \<Rightarrow> ClusterKey \<Rightarrow> string" where
  "veleroName b key = generateVeleroResourceName (snd key) BackupKind (m_namespace (bak_meta b)) (m_name (bak_meta b))"

definition backupLabels :: "Backup \<Rightarrow> (string \<rightharpoonup> string)" where
  "backupLabels b = generateVeleroInstanceLabel BackupNameLabel (m_name (bak_meta b)) (dst_fleet (BackupDestination (bak_spec b)))"

definition veleroObj :: "Backup \<Rightarrow> VeleroBackupSpec \<Rightarrow> string \<Rightarrow> VeleroBackup" where
  "veleroObj b spec name = \<lparr>vb_meta = generateVeleroResourceObjectMeta name (backupLabels b), vb_spec = spec, vb_status = noBackupStatus\<rparr>"

definition veleroKey :: "string \<Rightarrow> objkey" where
  "veleroKey name = \<lparr>k_namespace = VeleroNamespace, k_name = name\<rparr>"

text \<open>The stored backups with the ones that are missing in the given clusters.\<close>

definition withMissing ::
  "Backup \<Rightarrow> VeleroBackupSpec \<Rightarrow> fleetClusters \<Rightarrow> (string \<Rightarrow> objkey \<rightharpoonup> VeleroBackup) \<Rightarrow> string \<Rightarrow> objkey \<rightharpoonup> VeleroBackup" where
  "withMissing b spec cs V c key = (case V c key of
     Some x \<Rightarrow> Some x
   | None \<Rightarrow> if list_ex (\<lambda>(k, a). fc_client a = c \<and> veleroKey (veleroName b k) = key) cs
       then Some (veleroObj b spec (k_name key)) else None)"

lemma withMissing_Nil: "withMissing b spec [] V = V"
  by (auto simp: withMissing_def fun_eq_iff split: option.split)

lemma withMissing_append: "withMissing b spec (xs @ ys) V = withMissing b spec ys (withMissing b spec xs V)"
  by (auto simp: withMissing_def fun_eq_iff split: option.split)

lemma withMissing_cong: "set xs = set ys \<Longrightarrow> withMissing b spec xs V = withMissing b spec ys V"
  by (simp add: withMissing_def fun_eq_iff list_ex_iff split: option.split)

definition writeBackup :: "'w bkenv \<Rightarrow> Backup \<Rightarrow> VeleroBackupSpec \<Rightarrow> ClusterKey \<times> FleetCluster \<Rightarrow> ('w, unit) bkproc" where
  "writeBackup E b spec = (\<lambda>(key, a).
     syncVeleroObj ''Backup'' vb_meta (ve_syncBackup (be_velero E (fc_client a))) (veleroObj b spec (veleroName b key)))"

lemma writeBackup_run:
  assumes "veleroStore E view" and "\<And>w qs. view w = withMissing b spec [(key, a)] (view (world s)) \<Longrightarrow> Q (Ok ()) (s\<lparr>world := w, reqs := qs\<rparr>)"
  shows "wp (writeBackup E b spec (key, a)) Q s"
proof -
  let ?x = "veleroObj b spec (veleroName b key)" and ?c = "fc_client a"
  have k: "keyOf (vb_meta ?x) = veleroKey (veleroName b key)"
    by (simp add: veleroObj_def generateVeleroResourceObjectMeta_def newMeta_def keyOf_def veleroKey_def)
  define y where "y = (case view (world s) ?c (keyOf (vb_meta ?x)) of None \<Rightarrow> ?x | Some old \<Rightarrow> old)"
  have U: "upserts vb_meta (ve_syncBackup (be_velero E ?c)) (\<lambda>w. view w ?c) (\<lambda>w w'. \<forall>c'. c' \<noteq> ?c \<longrightarrow> view w' c' = view w c')"
    using assms(1) by (simp add: veleroStore_def)
  obtain w' where w': "ve_syncBackup (be_velero E ?c) ?x Ok (world s) = (Ok y, w')"
      "view w' ?c = (view (world s) ?c)(keyOf (vb_meta ?x) \<mapsto> y)" "\<And>c'. c' \<noteq> ?c \<Longrightarrow> view w' c' = view (world s) c'"
    using upsertsD [OF U, where f = Ok and x = ?x and w = "world s" and y = y] unfolding y_def by blast
  have "view w' = withMissing b spec [(key, a)] (view (world s))"
  proof (intro ext)
    fix c k'
    show "view w' c k' = withMissing b spec [(key, a)] (view (world s)) c k'"
      using w'(2,3) by (cases "c = ?c") (auto simp: withMissing_def k y_def veleroKey_def split: option.split)
  qed
  then show ?thesis
    unfolding writeBackup_def prod.case syncVeleroObj_def upsertK_def using w'(1) assms(2) by (simp add: wp_bindP wp_callO wp_retP)
qed

lemma wp_mapP_liftO:
  "(\<And>x. x \<in> set xs \<Longrightarrow> f x = Ok (g x)) \<Longrightarrow> wp (mapP xs (\<lambda>x. liftO (f x))) Q s = Q (Ok (map g xs)) s"
  by (induction xs arbitrary: Q) (simp_all add: wp_retP wp_bindP wp_liftO)

lemma backupTask_writes:
  assumes "\<not> isScheduleBackup b" and "buildVeleroBackupSpec (BackupPolicyOf (bak_spec b)) = Ok spec"
  shows "backupTask E b (backupLabels b) c = Ok (writeBackup E b spec c)"
  using assms by (simp add: backupTask_def writeBackup_def buildVeleroBackupInstance_def veleroObj_def veleroName_def split: prod.split)

lemma writes_run:
  assumes "veleroStore E view" and "\<And>i. i \<in> set is \<Longrightarrow> i < length cs"
    and "\<And>w qs. view w = withMissing b spec (map ((!) cs) is) (view (world s)) \<Longrightarrow> Q (Ok (map (\<lambda>_. Inr ()) is)) (s\<lparr>world := w, reqs := qs\<rparr>)"
  shows "wp (mapP is (\<lambda>i. tryP (map (writeBackup E b spec) cs ! i) retP)) Q s"
  using assms(2,3)
proof (induction "is" arbitrary: s Q)
  case Nil
  then show ?case
    using Nil(2) [of "world s" "reqs s"] by (simp add: wp_retP withMissing_Nil)
next
  case (Cons i "is")
  obtain key a where c: "cs ! i = (key, a)"
    by (cases "cs ! i")
  have i: "map (writeBackup E b spec) cs ! i = writeBackup E b spec (key, a)"
    using Cons.prems(1) c by simp
  have "wp (mapP is (\<lambda>i. tryP (map (writeBackup E b spec) cs ! i) retP))
      (\<lambda>r t. Q (case r of Ok ys \<Rightarrow> Ok (Inr () # ys) | Err e \<Rightarrow> Err e | Panic \<Rightarrow> Panic) t) (s\<lparr>world := w, reqs := qs\<rparr>)"
    if "view w = withMissing b spec [(key, a)] (view (world s))" for w qs
  proof (rule Cons.IH)
    fix w2 qs2
    assume "view w2 = withMissing b spec (map ((!) cs) is) (view (world (s\<lparr>world := w, reqs := qs\<rparr>)))"
    then have "view w2 = withMissing b spec (map ((!) cs) (i # is)) (view (world s))"
      using withMissing_append [of b spec "[(key, a)]" "map ((!) cs) is" "view (world s)"] that c by simp
    from Cons.prems(2) [OF this, of qs2]
    show "Q (case Ok (map (\<lambda>_. Inr ()) is) of Ok ys \<Rightarrow> Ok (Inr () # ys) | Err e \<Rightarrow> Err e | Panic \<Rightarrow> Panic)
        (s\<lparr>world := w, reqs := qs, world := w2, reqs := qs2\<rparr>)"
      by simp
  qed (use Cons.prems(1) in simp)
  then show ?case
    unfolding wp_mapP_Cons i wp_tryP
    by (intro writeBackup_run [OF assms(1)]) (simp add: wp_retP)
qed

lemma taskErrors_none: "taskErrors (map (\<lambda>_. Inr ()) xs) = []"
  by (induction xs) simp_all

text \<open>C9. Writing the backups of a one-time Backup implements adding what is missing: in every cluster of the
  destination a velero backup with the specification of the policy is created when there is none of
  that name, and a stored one is left as it is, so that a change of the policy does not reach it.\<close>

theorem backup_adds_missing:
  assumes "veleroStore E view" and "fairTasks E" and "\<not> isScheduleBackup (s_backup s)"
    and "buildVeleroBackupSpec (BackupPolicyOf (bak_spec (s_backup s))) = Ok spec"
  shows "wp (reconcileBackupResources E cs) (\<lambda>r t. r = Ok noRequeue \<and>
    view (world t) = withMissing (s_backup s) spec cs (view (world s))) s"
proof -
  let ?b = "s_backup s"
  obtain cs' w' where range: "fe_range (be_host E) cs (world s) = (cs', w')"
    by (cases "fe_range (be_host E) cs (world s)")
  obtain "is" w'' where order: "be_goroutines E (length cs') w' = (is, w'')"
    by (cases "be_goroutines E (length cs') w'")
  have "mset cs' = mset cs" and w': "view w' = view (world s)" "view w'' = view w'"
    using assms(1) range order unfolding veleroStore_def by (metis fst_conv snd_conv)+
  then have "set cs' = set cs"
    by (metis set_mset_mset)
  moreover have is_: "set is = {..<length cs'}"
    using fairTasks_set [OF assms(2), of "length cs'" w'] order by simp
  then have "(!) cs' ` set is = set cs'"
    by (auto simp: set_conv_nth)
  ultimately have "set (map ((!) cs') is) = set cs"
    by simp
  then have view: "withMissing ?b spec (map ((!) cs') is) V = withMissing ?b spec cs V" for V
    by (rule withMissing_cong)
  have tasks: "backupTask E ?b (generateVeleroInstanceLabel BackupNameLabel (m_name (bak_meta ?b)) (dst_fleet (BackupDestination (bak_spec ?b)))) c =
      Ok (writeBackup E ?b spec c)" for c
    using backupTask_writes [OF assms(3,4)] by (simp add: backupLabels_def)
  have "wp (mapP is (\<lambda>i. tryP (map (writeBackup E ?b spec) cs' ! i) retP)) (\<lambda>r t.
      r = Ok (map (\<lambda>_. Inr ()) is) \<and> view (world t) = withMissing ?b spec cs (view (world s))) (s\<lparr>world := w''\<rparr>)"
    by (rule writes_run [OF assms(1)]) (use is_ in \<open>simp_all add: view w'\<close>)
  then show ?thesis
    unfolding reconcileBackupResources_def Let_def runTasks_def
    by (simp add: wp_bindP wp_getP wp_extP range wp_mapP_liftO tasks wp_seqP order)
      (erule wp_mono, simp add: taskErrors_none wp_retP)
qed

section \<open>The most recent backup\<close>

definition completedBackup :: "VeleroBackup \<Rightarrow> bool" where
  "completedBackup b \<longleftrightarrow> vbs_phase (vb_status b) = BackupPhaseCompleted"

text \<open>
  What \<open>sort.Slice\<close> documents: for a comparison that is a strict weak order the result has the elements
  of the slice, and none comes before one that is less.
\<close>

definition strictWeakOrder :: "('a \<Rightarrow> 'a \<Rightarrow> bool) \<Rightarrow> bool" where
  "strictWeakOrder lt \<longleftrightarrow> (\<forall>x. \<not> lt x x) \<and> (\<forall>x y z. lt x y \<longrightarrow> lt y z \<longrightarrow> lt x z) \<and>
     (\<forall>x y z. lt x z \<longrightarrow> lt x y \<or> lt y z)"

definition sortsSlice :: "'w bkenv \<Rightarrow> bool" where
  "sortsSlice E \<longleftrightarrow> (\<forall>lt bs. strictWeakOrder lt \<longrightarrow>
     mset (be_sort E lt bs) = mset bs \<and> sorted_wrt (\<lambda>a b. \<not> lt b a) (be_sort E lt bs))"

lemma startedAfter_order: "strictWeakOrder startedAfter"
  by (auto simp: strictWeakOrder_def startedAfter_def)

lemma sortsSliceD:
  assumes "sortsSlice E"
  shows "set (be_sort E startedAfter bs) = set bs" "sorted_wrt (\<lambda>a b. startTime b \<le> startTime a) (be_sort E startedAfter bs)"
proof -
  have "mset (be_sort E startedAfter bs) = mset bs \<and> sorted_wrt (\<lambda>a b. \<not> startedAfter b a) (be_sort E startedAfter bs)"
    using assms startedAfter_order unfolding sortsSlice_def by blast
  then show "set (be_sort E startedAfter bs) = set bs" "sorted_wrt (\<lambda>a b. startTime b \<le> startTime a) (be_sort E startedAfter bs)"
    by (auto simp: startedAfter_def not_less dest: mset_eq_setD)
qed

lemma find_sorted:
  "sorted_wrt (\<lambda>a b. startTime b \<le> startTime a) bs \<Longrightarrow> find P bs = Some b \<Longrightarrow> c \<in> set bs \<Longrightarrow> P c \<Longrightarrow> startTime c \<le> startTime b"
  by (induction bs) (auto split: if_splits)

text \<open>C35. The most recent completed backup is what its name says, for every sort that keeps the contract of
  \<open>sort.Slice\<close> for the comparison it is given, in whatever way it orders backups that started at the same time: a completed backup of the list that none of the completed ones started after;
  the empty backup when none has completed.\<close>

theorem most_recent_completed:
  assumes "sortsSlice E"
  shows "if list_ex completedBackup bs
    then MostRecentCompletedBackup E bs \<in> set bs \<and> completedBackup (MostRecentCompletedBackup E bs) \<and>
      list_all (\<lambda>b. completedBackup b \<longrightarrow> startTime b \<le> startTime (MostRecentCompletedBackup E bs)) bs
    else MostRecentCompletedBackup E bs = noVeleroBackup"
proof -
  note S = sortsSliceD(1) [OF assms, of bs] and sorted = sortsSliceD(2) [OF assms, of bs]
  have M: "MostRecentCompletedBackup E bs = (case find completedBackup (be_sort E startedAfter bs) of Some b \<Rightarrow> b | None \<Rightarrow> noVeleroBackup)"
    by (simp add: MostRecentCompletedBackup_def completedBackup_def [abs_def])
  show ?thesis
  proof (cases "find completedBackup (be_sort E startedAfter bs)")
    case None
    then have "\<not> list_ex completedBackup bs"
      using S by (auto simp: find_None_iff list_ex_iff)
    then show ?thesis
      by (simp add: M None)
  next
    case (Some b)
    then have "b \<in> set bs" "completedBackup b"
      using S by (auto simp: find_Some_iff)
    then show ?thesis
      using find_sorted [OF sorted Some] S Some by (auto simp: M list_ex_iff list_all_iff)
  qed
qed

section \<open>Status of a schedule\<close>

text \<open>An entry for no backup, recorded while none has completed.\<close>

definition emptyEntry :: "BackupDetails \<Rightarrow> bool" where
  "emptyEntry d \<longleftrightarrow> cd_nameInCluster d = [] \<and> (case cd_statusInCluster d of None \<Rightarrow> True | Some st \<Rightarrow> vbs_phase st \<noteq> BackupPhaseCompleted)"

definition goodBackupName :: "string \<Rightarrow> bool" where
  "goodBackupName n \<longleftrightarrow> n \<noteq> [] \<and> last n \<noteq> CHR ''-''"

definition sameKeys :: "'st clusterDetails list \<Rightarrow> 'st clusterDetails list \<Rightarrow> bool" where
  "sameKeys ds ds' \<longleftrightarrow> length ds \<le> length ds' \<and> (\<forall>i < length ds. cd_nameInCluster (ds' ! i) = cd_nameInCluster (ds ! i))"

lemma statusMap_Some: "statusMap ds key = Some i \<Longrightarrow> i < length ds \<and> keyOfDetail (ds ! i) = key"
proof (induction ds arbitrary: key i rule: rev_induct)
  case (snoc d ds)
  then show ?case
    by (auto simp: statusMap_def enumerate_append_eq nth_append split: if_splits)
qed (simp add: statusMap_def)

lemma emptyEntry_kept:
  assumes "i < length ds" and "cd_nameInCluster (ds ! i) = []" and "sameKeys ds ds'" and "emptyEntry (ds' ! i)"
    and "goodBackupName name \<or> name = [] \<and> vbs_phase st \<noteq> BackupPhaseCompleted"
  shows "emptyEntry (recordDetail (statusMap ds) key name st ds' ! i)"
proof (cases "statusMap ds (detailKey (snd key) (fst key) name)")
  case None
  then show ?thesis
    using assms by (simp add: recordDetail_def nth_append sameKeys_def)
next
  case (Some j)
  then have j: "j < length ds" "keyOfDetail (ds ! j) = detailKey (snd key) (fst key) name"
    using statusMap_Some by blast+
  show ?thesis
  proof (cases "i = j")
    case True
    then have "last (detailKey (snd key) (fst key) name) = CHR ''-''"
      using assms(2) unfolding j(2) [symmetric] by (simp add: keyOfDetail_def detailKey_def)
    then have "\<not> goodBackupName name"
      by (auto simp: detailKey_def goodBackupName_def split: if_splits)
    then show ?thesis
      using assms Some True by (simp add: recordDetail_def sameKeys_def emptyEntry_def)
  next
    case False
    then show ?thesis
      using assms(4) Some by (simp add: recordDetail_def)
  qed
qed

lemma sameKeys_record:
  "sameKeys ds ds' \<Longrightarrow> sameKeys ds (recordDetail (statusMap ds) key name st ds')"
  by (auto simp: sameKeys_def recordDetail_def nth_append nth_list_update dest!: statusMap_Some split: option.split)

definition scheduleUnsettled :: "BackupDetails list \<Rightarrow> nat \<Rightarrow> BackupDetails list \<Rightarrow> bool" where
  "scheduleUnsettled ds i ds' \<longleftrightarrow> i < length ds \<and> cd_nameInCluster (ds ! i) = [] \<and> sameKeys ds ds' \<and> emptyEntry (ds' ! i)"

lemma unsettled_record:
  assumes "scheduleUnsettled ds i ds'" and "goodBackupName name \<or> name = [] \<and> vbs_phase st \<noteq> BackupPhaseCompleted"
  shows "scheduleUnsettled ds i (recordDetail (statusMap ds) key name st ds')"
  using assms emptyEntry_kept [of i ds ds' name st key] sameKeys_record [of ds ds' key name st] by (simp add: scheduleUnsettled_def)

lemma unsettled_ex: "scheduleUnsettled ds i ds' \<Longrightarrow> list_ex emptyEntry ds'"
  unfolding scheduleUnsettled_def sameKeys_def list_ex_length by (metis less_le_trans)

lemma empty_not_completed: "list_ex emptyEntry (bst_details st) \<Longrightarrow> \<not> allBackupsCompleted st"
  by (auto simp: emptyEntry_def allBackupsCompleted_def list_all_iff list_ex_iff split: option.splits)

definition listsGoodNames :: "'w bkenv \<Rightarrow> bool" where
  "listsGoodNames E \<longleftrightarrow> (\<forall>c ns ls w items w'. api_list (ve_backup (be_velero E c)) ns ls w = (Inr items, w') \<longrightarrow>
     list_all (\<lambda>b. goodBackupName (m_name (vb_meta b))) items)"

lemma recent_name:
  assumes "sortsSlice E" and "list_all (\<lambda>b. goodBackupName (m_name (vb_meta b))) items"
  shows "goodBackupName (m_name (vb_meta (MostRecentCompletedBackup E items))) \<or>
    m_name (vb_meta (MostRecentCompletedBackup E items)) = [] \<and> vbs_phase (vb_status (MostRecentCompletedBackup E items)) \<noteq> BackupPhaseCompleted"
proof -
  have "set (be_sort E startedAfter items) = set items"
    using sortsSliceD(1) [OF assms(1)] .
  then show ?thesis
    using assms(2)
    by (auto simp: MostRecentCompletedBackup_def list_all_iff noVeleroBackup_def noBackupStatus_def newMeta_def BackupPhaseCompleted_def
        find_Some_iff split: option.split)
qed

text \<open>C36. A scheduled Backup that was reconciled before its first backup had completed never settles: the
  entry recorded for no backup stays in the status and is not completed, so that every later run
  requeues after the short interval instead of the interval of the schedule.\<close>

theorem schedule_never_settles:
  assumes "sortsSlice E" and "listsGoodNames E" and "isScheduleBackup (s_backup s)"
    and "list_ex emptyEntry (bst_details (bak_status (s_backup s)))"
  shows "wp (reconcileBackupStatus E cs) (\<lambda>r t. list_ex emptyEntry (bst_details (bak_status (s_backup t))) \<and>
    (\<forall>res. r = Ok res \<longrightarrow> res = requeueAfter BackupStatusInterval)) s"
proof -
  let ?ds = "bst_details (bak_status (s_backup s))"
  obtain i where i: "i < length ?ds" "emptyEntry (?ds ! i)"
    using assms(4) by (auto simp: list_ex_length)
  define I where "I = (\<lambda>u :: 'a bkstate. scheduleUnsettled ?ds i (bst_details (bak_status (s_backup u))))"
  have I0: "I (s\<lparr>world := w\<rparr>)" for w
    using i by (simp add: I_def scheduleUnsettled_def sameKeys_def emptyEntry_def)
  have good: "list_all (\<lambda>b. goodBackupName (m_name (vb_meta b))) items"
    if "api_list (ve_backup (be_velero E c)) ns ls w = (Inr items, w')" for c ns ls w items w'
    using assms(2) that unfolding listsGoodNames_def by blast
  have step: "wp (scheduleStatusOf E schedule (statusMap ?ds) c) (\<lambda>r u. I u) u" if "I u" for schedule c u
    using that
    by (auto simp: scheduleStatusOf_def getResourceFromClusterClient_def listResourcesFromClusterClient_def apiK_defs wp_bindP wp_callP
        setBackupDetails_def wp_modifyP I_def Let_def split: prod.split sum.split intro!: unsettled_record recent_name [OF assms(1)] dest!: good)
  have loop: "wp (forEach clusters (scheduleStatusOf E schedule (statusMap ?ds))) (\<lambda>r u. I u) u" if "I u" for schedule clusters u
    using that by (rule wp_forEach [where I = I]) (auto split: outcome.split intro: wp_mono [OF step])
  have rest: "list_ex emptyEntry (bst_details (bak_status (s_backup u)))" "\<not> allBackupsCompleted (bak_status (s_backup u))" if "I u" for u
    using that empty_not_completed unsettled_ex unfolding I_def by blast+
  show ?thesis
    unfolding reconcileBackupStatus_def reconcileScheduleBackupStatus_def Let_def
    using assms(3)
    by (auto simp: wp_bindP wp_getP wp_extP wp_seqP wp_retP rest split: prod.split outcome.split intro!: wp_mono [OF loop [OF I0]])
qed

section \<open>Failures\<close>

text \<open>C37. A Backup whose policy has no resource filter crashes the controller as soon as its destination has a
  cluster, before anything is written: the filter is optional, but it is read without a check.\<close>

theorem policy_without_filter_panics:
  assumes "BackupPolicyOf (bak_spec (s_backup s)) = Some policy" and "bpo_resourceFilter policy = None"
    and "fst (fe_range (be_host E) cs (world s)) \<noteq> []"
  shows "wp (reconcileBackupResources E cs) (\<lambda>r t. r = Panic \<and> reqs t = reqs s) s"
proof -
  have "backupTask E (s_backup s) labels c = Panic" for labels c
    using assms(1,2)
    by (simp add: backupTask_def buildVeleroScheduleInstance_def buildVeleroBackupInstance_def buildVeleroBackupSpec_def derefO_def Let_def split: prod.split)
  moreover obtain c cs' w where "fe_range (be_host E) cs (world s) = (c # cs', w)"
    using assms(3) by (metis list.exhaust prod.collapse)
  ultimately show ?thesis
    unfolding reconcileBackupResources_def by (simp add: wp_bindP wp_getP wp_extP wp_liftO Let_def)
qed

text \<open>Deleting a Backup while its fleet cannot be read gives up: whatever the error is, also one that would pass,
  the finalizer is released and nothing is deleted in the member clusters.\<close>

theorem delete_gives_up:
  assumes "api_get (fe_fleet (be_host E)) \<lparr>k_namespace = m_namespace (bak_meta (s_backup s)),
      k_name = dst_fleet (BackupDestination (bak_spec (s_backup s)))\<rparr> (world s) = (Inl e, w)"
  shows "wp (reconcileDeleteBackup E) (\<lambda>r t. r = Err (EWrap ''failed to retrieve fleet instance'' (EApi e)) \<and>
    m_finalizers (bak_meta (s_backup t)) = removeFinalizer (fe_lib (be_host E)) (m_finalizers (bak_meta (s_backup s))) BackupFinalizer \<and>
    list_all (\<lambda>q. \<forall>kind m. q \<noteq> RDelete kind m) (drop (length (reqs s)) (reqs t))) s"
  unfolding reconcileDeleteBackup_def fetchDestinationClusters_def setBackupFinalizers_def Let_def
  by (simp add: wp_bindP wp_getP wp_tryP wp_onErr getK_def wp_callP assms wp_failP wp_seqP wp_modifyP)

section \<open>Examples\<close>

type_synonym bkWorld = "string \<Rightarrow> objkey \<rightharpoonup> VeleroBackup"

definition demoUpsert :: "string \<Rightarrow> (bkWorld, VeleroBackup) upsert" where
  "demoUpsert c x f w = (case f (case w c (keyOf (vb_meta x)) of None \<Rightarrow> x | Some old \<Rightarrow> old) of
     Ok y \<Rightarrow> (Ok y, w(c := (w c)(keyOf (vb_meta x) \<mapsto> y)))
   | Err e \<Rightarrow> (Err e, w)
   | Panic \<Rightarrow> (Panic, w))"

definition demoRun :: "string \<Rightarrow> int \<Rightarrow> string \<Rightarrow> VeleroBackup" where
  "demoRun name start phase = noVeleroBackup\<lparr>vb_meta := newMeta name VeleroNamespace,
     vb_status := \<lparr>vbs_phase = phase, vbs_start = Some start, vbs_rest = []\<rparr>\<rparr>"

definition demoVelero :: "string \<Rightarrow> bkWorld velero" where
  "demoVelero c = \<lparr>
     ve_backup = goneApi\<lparr>api_get := (\<lambda>k w. (case w c k of None \<Rightarrow> Inl NotFound | Some x \<Rightarrow> Inr x, w)),
       api_list := (\<lambda>ns ls w. (Inr [demoRun ''daily-1'' 10 ''Completed''], w))\<rparr>,
     ve_schedule = goneApi\<lparr>api_get := (\<lambda>k w. (Inr \<lparr>vsc_meta = newMeta (k_name k) (k_namespace k), vsc_template = noBackupSpec,
       vsc_schedule = ''0 1 * * *''\<rparr>, w))\<rparr>,
     ve_restore = goneApi, ve_syncBackup = demoUpsert c, ve_syncSchedule = (\<lambda>x f w. (f x, w)), ve_syncRestore = (\<lambda>x f w. (f x, w))\<rparr>"

text \<open>Insertion keeps the contract of \<open>sort.Slice\<close>.\<close>

fun insertBy :: "('a \<Rightarrow> 'a \<Rightarrow> bool) \<Rightarrow> 'a \<Rightarrow> 'a list \<Rightarrow> 'a list" where
  "insertBy lt x [] = [x]"
| "insertBy lt x (y # ys) = (if lt x y then x # y # ys else y # insertBy lt x ys)"

definition insertionSort :: "('a \<Rightarrow> 'a \<Rightarrow> bool) \<Rightarrow> 'a list \<Rightarrow> 'a list" where
  "insertionSort lt xs = foldr (insertBy lt) xs []"

lemma mset_insertBy: "mset (insertBy lt x ys) = add_mset x (mset ys)"
  by (induction ys) auto

lemma sorted_insertBy:
  assumes "strictWeakOrder lt" and "sorted_wrt (\<lambda>a b. \<not> lt b a) ys"
  shows "sorted_wrt (\<lambda>a b. \<not> lt b a) (insertBy lt x ys)"
  using assms(2)
proof (induction ys)
  case (Cons y ys)
  have "set (insertBy lt x ys) = insert x (set ys)"
    using mset_insertBy [of lt x ys] by (metis set_mset_add_mset_insert set_mset_mset)
  moreover have "\<not> lt z x" if "lt x y" "z = y \<or> \<not> lt z y" for z
    using assms(1) that unfolding strictWeakOrder_def by metis
  ultimately show ?case
    using Cons by (simp add: Ball_def)
qed simp

lemma insertionSort_run:
  "mset (insertionSort lt xs) = mset xs"
  "strictWeakOrder lt \<Longrightarrow> sorted_wrt (\<lambda>a b. \<not> lt b a) (insertionSort lt xs)"
  unfolding insertionSort_def by (induction xs) (simp_all add: mset_insertBy sorted_insertBy)

definition demoBackupEnv :: "bkWorld bkenv" where
  "demoBackupEnv = \<lparr>be_host = quietEnv goneApi goneApi, be_backup = goneApi, be_restore = goneApi, be_migrate = goneApi,
     be_velero = demoVelero, be_goroutines = (\<lambda>n w. ([0..<n], w)), be_sort = insertionSort,
     be_cron = (\<lambda>e. Inr (\<lambda>t. t + 3600)), be_now = (\<lambda>w. (0, w))\<rparr>"

definition demoBackup :: "string \<Rightarrow> BackupPolicy option \<Rightarrow> BackupDetails list \<Rightarrow> bkWorld bkstate" where
  "demoBackup schedule policy details = \<lparr>world = (\<lambda>c. Map.empty), reqs = [], s_backup = \<lparr>bak_meta =
       (newMeta ''db'' ''default'')\<lparr>m_finalizers := [BackupFinalizer]\<rparr>,
     bak_spec = \<lparr>BackupSchedule = schedule, BackupDestination = \<lparr>dst_fleet = ''quickstart'', dst_clusters = []\<rparr>, BackupPolicyOf = policy\<rparr>,
     bak_status = \<lparr>bst_conditions = [], bst_phase = [], bst_details = details\<rparr>\<rparr>\<rparr>"

definition demoCluster :: "ClusterKey \<times> FleetCluster" where
  "demoCluster = ((''AttachedCluster'', ''edge1''), \<lparr>fc_secret = ''edge1'', fc_secretKey = ''config'', fc_client = ''edge1''\<rparr>)"

definition demoMigrate :: "bkWorld mgstate" where
  "demoMigrate = \<lparr>world = (\<lambda>c. Map.empty), reqs = [], s_migrate = \<lparr>mig_meta = newMeta ''move'' ''default'',
     mig_spec = \<lparr>SourceCluster = \<lparr>dst_fleet = ''quickstart'', dst_clusters = []\<rparr>,
       TargetClusters = \<lparr>dst_fleet = ''quickstart'', dst_clusters = []\<rparr>, MigratePolicyOf = None\<rparr>,
     mig_status = \<lparr>mst_conditions = [], mst_phase = MigrateNoPhase, SourceClusterStatus = None, TargetClustersStatus = []\<rparr>\<rparr>\<rparr>"

lemma demoBackup_range: "fe_range (be_host demoBackupEnv) cs w = (cs, w)"
  by (simp add: demoBackupEnv_def quietEnv_def)

lemma demoTasks_fair: "fairTasks demoBackupEnv"
  by (simp add: fairTasks_def demoBackupEnv_def)

lemma demoBackup_sorts: "sortsSlice demoBackupEnv"
  by (simp add: sortsSlice_def demoBackupEnv_def insertionSort_run)

lemma demoBackup_names: "listsGoodNames demoBackupEnv"
  by (simp add: listsGoodNames_def demoBackupEnv_def demoVelero_def demoRun_def newMeta_def goodBackupName_def)

lemma demoBackup_store: "veleroStore demoBackupEnv (\<lambda>w. w)"
  unfolding veleroStore_def demoBackup_range
  by (auto simp: demoBackupEnv_def demoVelero_def upserts_def demoUpsert_def split: outcome.split)

theorem migrate_phases_witness:
  "wp (reconcileMigrate demoBackupEnv) (\<lambda>r t. migratePhase t \<in> {MigratePhaseBackupInProgress, MigratePhaseCompleted}) demoMigrate"
  using migrate_phases [OF demoTasks_fair, of demoMigrate] by (rule wp_mono) (simp add: demoMigrate_def)

theorem backup_adds_missing_witness:
  "wp (reconcileBackupResources demoBackupEnv [demoCluster]) (\<lambda>r t. r = Ok noRequeue \<and>
    map_option vb_spec (world t ''edge1'' (veleroKey ''edge1-backup-default-db'')) = Some noBackupSpec) (demoBackup [] None [])"
proof -
  let ?s = "demoBackup [] None []"
  have "\<not> isScheduleBackup (s_backup ?s)" "buildVeleroBackupSpec (BackupPolicyOf (bak_spec (s_backup ?s))) = Ok noBackupSpec"
    by (simp_all add: demoBackup_def isScheduleBackup_def buildVeleroBackupSpec_def)
  then show ?thesis
    by (rule wp_mono [OF backup_adds_missing [OF demoBackup_store demoTasks_fair]])
      (simp add: withMissing_def demoCluster_def veleroName_def generateVeleroResourceName_def BackupKind_def demoBackup_def newMeta_def
        veleroKey_def veleroObj_def)
qed

theorem most_recent_completed_witness:
  "MostRecentCompletedBackup demoBackupEnv [demoRun ''daily-1'' 10 ''Completed'', demoRun ''daily-3'' 30 ''Failed'', demoRun ''daily-2'' 20 ''Completed''] =
   demoRun ''daily-2'' 20 ''Completed''"
  using most_recent_completed [OF demoBackup_sorts,
    of "[demoRun ''daily-1'' 10 ''Completed'', demoRun ''daily-3'' 30 ''Failed'', demoRun ''daily-2'' 20 ''Completed'']"]
  by (auto simp: completedBackup_def demoRun_def BackupPhaseCompleted_def startTime_def)

theorem schedule_never_settles_witness:
  "wp (reconcileBackupStatus demoBackupEnv [demoCluster]) (\<lambda>r t. \<forall>res. r = Ok res \<longrightarrow> res = requeueAfter BackupStatusInterval)
    (demoBackup ''0 1 * * *'' None [\<lparr>cd_clusterName = ''edge1'', cd_clusterKind = ''AttachedCluster'', cd_nameInCluster = [],
      cd_statusInCluster = Some noBackupStatus\<rparr>])"
  by (rule wp_mono [OF schedule_never_settles [OF demoBackup_sorts demoBackup_names]])
    (simp_all add: demoBackup_def isScheduleBackup_def emptyEntry_def noBackupStatus_def BackupPhaseCompleted_def)

theorem policy_without_filter_panics_witness:
  "wp (reconcileBackupResources demoBackupEnv [demoCluster]) (\<lambda>r t. r = Panic \<and> reqs t = [])
    (demoBackup [] (Some \<lparr>bpo_resourceFilter = None, bpo_ttl = 3600, bpo_orderedResources = None\<rparr>) [])"
  by (rule wp_mono [OF policy_without_filter_panics [where policy = "\<lparr>bpo_resourceFilter = None, bpo_ttl = 3600, bpo_orderedResources = None\<rparr>"]])
    (simp_all add: demoBackup_def demoBackup_range)

end
