(* ===== verification/GoTemplate.thy ===== *)
theory GoTemplate
  imports Kube
begin

text \<open>
  Go's \<open>text/template\<close>, as far as the templates of the pipeline manager use it: fields, strings,
  numbers and functions as arguments of a command, \<open>if\<close>, \<open>range\<close> and \<open>end\<close>, and the markers that
  trim the white space around an action. \<open>gt\<close> is built in; the other functions come from the function
  map the template is parsed with. The data of a template is a value: a struct with its fields and
  methods, a map from strings to strings, a list, a string, a number or nil.
\<close>

section \<open>Lexing\<close>

datatype ttoken = TText string | TAction string

fun stripText :: "string \<Rightarrow> string \<Rightarrow> string option" where
  "stripText [] s = Some s"
| "stripText (d # ds) [] = None"
| "stripText (d # ds) (c # cs) = (if c = d then stripText ds cs else None)"

fun breakOn :: "string \<Rightarrow> string \<Rightarrow> (string \<times> string) option" where
  "breakOn d [] = None"
| "breakOn d (c # cs) = (case stripText d (c # cs) of
     Some r \<Rightarrow> Some ([], r)
   | None \<Rightarrow> map_option (\<lambda>(a, b). (c # a, b)) (breakOn d cs))"

lemma stripText_Some: "stripText d s = Some r \<Longrightarrow> s = d @ r"
  by (induction d s rule: stripText.induct) (auto split: if_splits)

lemma breakOn_Some: "breakOn d s = Some (a, b) \<Longrightarrow> s = a @ d @ b"
  by (induction s arbitrary: a b) (auto split: option.splits dest: stripText_Some simp del: stripText.simps)

text \<open>An action that starts with a dash and a space trims the text before it, one that ends with a space and a dash the text after it.\<close>

definition trimsLeft :: "string \<Rightarrow> bool" where
  "trimsLeft a \<longleftrightarrow> take 1 a = ''-'' \<and> list_all isSpace (take 1 (drop 1 a)) \<and> length a > 1"

definition trimsRight :: "string \<Rightarrow> bool" where
  "trimsRight a \<longleftrightarrow> trimsLeft (rev a)"

definition actionText :: "string \<Rightarrow> string" where
  "actionText a = (let b = (if trimsLeft a then drop 1 a else a) in if trimsRight a then butlast b else b)"

function lexTemplate :: "string \<Rightarrow> goerr + ttoken list" where
  "lexTemplate s = (case breakOn ''{{'' s of
     None \<Rightarrow> Inr [TText s]
   | Some (t, r) \<Rightarrow> (case breakOn ''}}'' r of
       None \<Rightarrow> Inl (EMsg ''unclosed action'')
     | Some (a, r') \<Rightarrow> map_sum id (\<lambda>ts. TText (if trimsLeft a then trimRight t else t) # TAction (actionText a) # ts)
         (lexTemplate (if trimsRight a then dropWhile isSpace r' else r'))))"
  by pat_completeness auto
termination
proof (relation "measure length", simp, clarsimp)
  fix s t r a r'
  assume "breakOn ''{{'' s = Some (t, r)" "breakOn ''}}'' r = Some (a, r')"
  then have "length r' < length s"
    by (auto dest!: breakOn_Some)
  then show "(trimsRight a \<longrightarrow> length (dropWhile isSpace r') < length s) \<and> (\<not> trimsRight a \<longrightarrow> length r' < length s)"
    by (meson le_less_trans length_dropWhile_le)
qed

declare lexTemplate.simps [simp del]

text \<open>The words of an action: separated by spaces, with quoted strings.\<close>

datatype tword = WBare string | WQuoted string

fun lexWords :: "string \<Rightarrow> string \<Rightarrow> bool \<Rightarrow> goerr + tword list" where
  "lexWords [] w quoted = (if quoted then Inl (EMsg ''unterminated quoted string'') else Inr (if w = [] then [] else [WBare w]))"
| "lexWords (c # cs) w quoted =
     (if quoted then (if c = CHR 0x22 then map_sum id (\<lambda>ws. WQuoted w # ws) (lexWords cs [] False) else lexWords cs (w @ [c]) True)
      else if isSpace c then map_sum id (\<lambda>ws. (if w = [] then [] else [WBare w]) @ ws) (lexWords cs [] False)
      else if c = CHR 0x22 then map_sum id (\<lambda>ws. (if w = [] then [] else [WBare w]) @ ws) (lexWords cs [] True)
      else lexWords cs (w @ [c]) False)"

section \<open>Parsing\<close>

datatype targ = AField "string list" | AString string | ANumber int | AFun string

datatype tnode = NText string | NCommand "targ list" | NIf "targ list" "tnode list" | NRange "targ list" "tnode list"

definition fieldPath :: "string \<Rightarrow> string list" where
  "fieldPath s = filter (\<lambda>w. w \<noteq> []) (splitLits [''.''] s)"

definition argOf :: "(string \<Rightarrow> bool) \<Rightarrow> tword \<Rightarrow> goerr + targ" where
  "argOf known w = (case w of
     WQuoted s \<Rightarrow> Inr (AString s)
   | WBare s \<Rightarrow>
       if take 1 s = ''.'' then Inr (AField (fieldPath s))
       else case readNat s of
         Some n \<Rightarrow> Inr (ANumber (int n))
       | None \<Rightarrow> if s = ''gt'' \<or> known s then Inr (AFun s) else Inl (EMsg (''function '' @ s @ '' not defined'')))"

fun argsOf :: "(string \<Rightarrow> bool) \<Rightarrow> tword list \<Rightarrow> goerr + targ list" where
  "argsOf known [] = Inr []"
| "argsOf known (w # ws) = (case argOf known w of Inl e \<Rightarrow> Inl e | Inr a \<Rightarrow> map_sum id (\<lambda>as. a # as) (argsOf known ws))"

text \<open>The open \<open>if\<close> and \<open>range\<close> actions are kept on a stack, each with the nodes before it.\<close>

fun parseNodes ::
  "(string \<Rightarrow> bool) \<Rightarrow> ttoken list \<Rightarrow> tnode list \<Rightarrow> (bool \<times> targ list \<times> tnode list) list \<Rightarrow> goerr + tnode list" where
  "parseNodes known [] acc stack = (if stack = [] then Inr acc else Inl (EMsg ''unexpected EOF''))"
| "parseNodes known (TText t # ts) acc stack = parseNodes known ts (acc @ [NText t]) stack"
| "parseNodes known (TAction a # ts) acc stack = (case lexWords a [] False of
     Inl e \<Rightarrow> Inl e
   | Inr [] \<Rightarrow> Inl (EMsg ''missing value for command'')
   | Inr (w # ws) \<Rightarrow>
       if w = WBare ''end'' then (case stack of
           [] \<Rightarrow> Inl (EMsg ''unexpected end'')
         | (isIf, args, outer) # stack' \<Rightarrow>
             parseNodes known ts (outer @ [if isIf then NIf args acc else NRange args acc]) stack')
       else if w = WBare ''if'' \<or> w = WBare ''range'' then (case argsOf known ws of
           Inl e \<Rightarrow> Inl e
         | Inr args \<Rightarrow> parseNodes known ts [] ((w = WBare ''if'', args, acc) # stack))
       else (case argsOf known (w # ws) of
           Inl e \<Rightarrow> Inl e
         | Inr args \<Rightarrow> parseNodes known ts (acc @ [NCommand args]) stack))"

definition parseTemplate :: "(string \<Rightarrow> bool) \<Rightarrow> string \<Rightarrow> goerr + tnode list" where
  "parseTemplate known s = (case lexTemplate s of Inl e \<Rightarrow> Inl e | Inr ts \<Rightarrow> parseNodes known ts [] [])"

section \<open>Execution\<close>

datatype gval = VString string | VInt int | VBool bool | VNil | VList "gval list" | VMap "(string \<times> string) list" | VStruct "(string \<times> gval) list"

fun truth :: "gval \<Rightarrow> bool" where
  "truth (VString s) = (s \<noteq> [])"
| "truth (VInt n) = (n \<noteq> 0)"
| "truth (VBool b) = b"
| "truth VNil = False"
| "truth (VList vs) = (vs \<noteq> [])"
| "truth (VMap m) = (m \<noteq> [])"
| "truth (VStruct fs) = True"

text \<open>A field a struct does not have is an error; a key a map does not have gives no value.\<close>

fun fieldOf :: "gval \<Rightarrow> string list \<Rightarrow> goerr + gval" where
  "fieldOf v [] = Inr v"
| "fieldOf (VStruct fs) (f # path) = (case map_of fs f of None \<Rightarrow> Inl (EMsg (''can't evaluate field '' @ f)) | Some v \<Rightarrow> fieldOf v path)"
| "fieldOf (VMap m) (f # path) = fieldOf (case map_of m f of None \<Rightarrow> VNil | Some s \<Rightarrow> VString s) path"
| "fieldOf _ (f # path) = Inl (EMsg (''can't evaluate field '' @ f))"

definition showInt :: "int \<Rightarrow> string" where
  "showInt n = (if n < 0 then CHR ''-'' # showNat (nat (- n)) else showNat (nat n))"

fun printValue :: "gval \<Rightarrow> goerr + string" where
  "printValue (VString s) = Inr s"
| "printValue (VInt n) = Inr (showInt n)"
| "printValue (VBool b) = Inr (if b then ''true'' else ''false'')"
| "printValue VNil = Inr ''<no value>''"
| "printValue _ = Inl (EMsg ''can't print the value'')"

type_synonym funcMap = "string \<Rightarrow> (gval list \<Rightarrow> goerr + gval) option"

fun evalArg :: "gval \<Rightarrow> targ \<Rightarrow> goerr + gval" where
  "evalArg dot (AField path) = fieldOf dot path"
| "evalArg dot (AString s) = Inr (VString s)"
| "evalArg dot (ANumber n) = Inr (VInt n)"
| "evalArg dot (AFun f) = Inl (EMsg ''wrong number of args'')"

fun evalArgs :: "gval \<Rightarrow> targ list \<Rightarrow> goerr + gval list" where
  "evalArgs dot [] = Inr []"
| "evalArgs dot (a # as) = (case evalArg dot a of Inl e \<Rightarrow> Inl e | Inr v \<Rightarrow> map_sum id (\<lambda>vs. v # vs) (evalArgs dot as))"

definition callBuiltin :: "funcMap \<Rightarrow> string \<Rightarrow> gval list \<Rightarrow> goerr + gval" where
  "callBuiltin F f vs = (case F f of
     Some g \<Rightarrow> g vs
   | None \<Rightarrow> (case vs of
       [VInt m, VInt n] \<Rightarrow> Inr (VBool (m > n))
     | _ \<Rightarrow> Inl (EMsg ''incompatible types for comparison'')))"

fun evalCommand :: "funcMap \<Rightarrow> gval \<Rightarrow> targ list \<Rightarrow> goerr + gval" where
  "evalCommand F dot [] = Inl (EMsg ''missing value for command'')"
| "evalCommand F dot (AFun f # as) = (case evalArgs dot as of Inl e \<Rightarrow> Inl e | Inr vs \<Rightarrow> callBuiltin F f vs)"
| "evalCommand F dot [a] = evalArg dot a"
| "evalCommand F dot (a # as) = Inl (EMsg ''can't give argument to non-function'')"

fun catE :: "(goerr + string) list \<Rightarrow> goerr + string" where
  "catE [] = Inr []"
| "catE (r # rs) = (case r of Inl e \<Rightarrow> Inl e | Inr s \<Rightarrow> map_sum id ((@) s) (catE rs))"

fun execNode :: "funcMap \<Rightarrow> gval \<Rightarrow> tnode \<Rightarrow> goerr + string"
  and execNodes :: "funcMap \<Rightarrow> gval \<Rightarrow> tnode list \<Rightarrow> goerr + string" where
  "execNode F dot (NText t) = Inr t"
| "execNode F dot (NCommand args) = (case evalCommand F dot args of Inl e \<Rightarrow> Inl e | Inr v \<Rightarrow> printValue v)"
| "execNode F dot (NIf args ns) = (case evalCommand F dot args of Inl e \<Rightarrow> Inl e
     | Inr v \<Rightarrow> if truth v then execNodes F dot ns else Inr [])"
| "execNode F dot (NRange args ns) = (case evalCommand F dot args of
     Inl e \<Rightarrow> Inl e
   | Inr (VList vs) \<Rightarrow> catE (map (\<lambda>v. execNodes F v ns) vs)
   | Inr VNil \<Rightarrow> Inr []
   | Inr _ \<Rightarrow> Inl (EMsg ''range can't iterate over the value''))"
| "execNodes F dot [] = Inr []"
| "execNodes F dot (n # ns) = (case execNode F dot n of Inl e \<Rightarrow> Inl e | Inr s \<Rightarrow> map_sum id ((@) s) (execNodes F dot ns))"

end
