(* ===== verification/PipelineRender.thy ===== *)
theory PipelineRender
  imports GoTemplate
begin

text \<open>
  The Pipeline type (\<open>pkg/apis/pipeline/v1alpha1\<close>) and the rendering of its Tekton resources
  (\<open>pkg/fleet-manager/pipeline/render\<close>): the templates as the sources have them and the data each is
  executed with. The functions of sprig are a parameter; the templates use \<open>default\<close> of them.
\<close>

section \<open>Pipeline\<close>

record VolumeClaimTemplate =
  vct_accessMode :: string
  vct_storageRequest :: string
  vct_storageClassName :: string
  vct_volumeMode :: string

record PredefinedTask =
  pt_name :: string
  pt_params :: "(string \<times> string) list"

text \<open>Quantities of resources are kept as the text they print as.\<close>

record ResourceAmounts =
  ra_cpu :: "string option"
  ra_memory :: "string option"

record CustomTask =
  cst_image :: string
  cst_command :: "string list"
  cst_args :: "string list"
  cst_env :: "(string \<times> string) list"
  cst_requests :: "ResourceAmounts option"
  cst_limits :: "ResourceAmounts option"
  cst_script :: string

record PipelineTask =
  ptk_name :: string
  ptk_predefined :: "PredefinedTask option"
  ptk_custom :: "CustomTask option"
  ptk_retries :: int

record PipelineSpec =
  pls_description :: string
  pls_tasks :: "PipelineTask list"
  pls_sharedWorkspace :: "VolumeClaimTemplate option"

record PipelineStatus =
  plt_phase :: string
  plt_eventListenerServiceName :: "string option"

record Pipeline =
  pl_apiVersion :: string
  pl_kind :: string
  pl_meta :: ObjectMeta
  pl_spec :: PipelineSpec
  pl_status :: PipelineStatus

definition GitClone :: string where "GitClone = ''git-clone''"
definition GoTest :: string where "GoTest = ''go-test''"
definition GoLint :: string where "GoLint = ''go-lint''"
definition BuildPushImage :: string where "BuildPushImage = ''build-and-push-image''"

section \<open>Data of the templates\<close>

definition GeneratePipelineOwnerRef :: "Pipeline \<Rightarrow> OwnerReference" where
  "GeneratePipelineOwnerRef pipeline = \<lparr>or_apiVersion = pl_apiVersion pipeline, or_kind = pl_kind pipeline,
     or_name = m_name (pl_meta pipeline), or_uid = m_uid (pl_meta pipeline)\<rparr>"

definition ownerValue :: "OwnerReference \<Rightarrow> gval" where
  "ownerValue r = VStruct [(''APIVersion'', VString (or_apiVersion r)), (''Kind'', VString (or_kind r)),
     (''Name'', VString (or_name r)), (''UID'', VString (or_uid r))]"

text \<open>\<open>funMap\<close>: the functions of sprig and \<open>toYaml\<close>, which no template calls.\<close>

definition funMap :: "funcMap \<Rightarrow> (gval \<Rightarrow> string) \<Rightarrow> funcMap" where
  "funMap sprig toYaml = sprig(''toYaml'' \<mapsto> (\<lambda>vs. case vs of [v] \<Rightarrow> Inr (VString (toYaml v)) | _ \<Rightarrow> Inl (EMsg ''wrong number of args'')))"

definition renderTemplate :: "funcMap \<Rightarrow> string \<Rightarrow> gval \<Rightarrow> goerr + string" where
  "renderTemplate funcs tplFileString cfg = (case parseTemplate (\<lambda>f. funcs f \<noteq> None) tplFileString of
     Inl e \<Rightarrow> Inl e
   | Inr tpl \<Rightarrow> execNodes funcs cfg tpl)"

section \<open>Access rights\<close>

definition RBACTemplateContent :: string where
  "RBACTemplateContent = linesOf [
     ''apiVersion: v1'',
     ''kind: ServiceAccount'',
     ''metadata:'',
     ''  name: \"{{ .ServiceAccountName }}\"'',
     ''  namespace: \"{{ .PipelineNamespace }}\"'',
     ''{{- if .OwnerReference }}'',
     ''  ownerReferences:'',
     ''  - apiVersion: \"{{ .OwnerReference.APIVersion }}\"'',
     ''    kind: \"{{ .OwnerReference.Kind }}\"'',
     ''    name: \"{{ .OwnerReference.Name }}\"'',
     ''    uid: \"{{ .OwnerReference.UID }}\"'',
     ''{{- end }}'',
     ''{{- if .ChainCredentialsName }}'',
     ''secrets:'',
     ''  - name: \"chain-credentials\"'',
     ''    namespace: \"{{ .PipelineNamespace }}\"'',
     ''{{- end }}'',
     ''---'',
     ''apiVersion: rbac.authorization.k8s.io/v1'',
     ''kind: RoleBinding'',
     ''metadata:'',
     ''  name: \"{{ .PipelineName }}\"'',
     ''  namespace: \"{{ .PipelineNamespace }}\"'',
     ''{{- if .OwnerReference }}'',
     ''  ownerReferences:'',
     ''  - apiVersion: \"{{ .OwnerReference.APIVersion }}\"'',
     ''    kind: \"{{ .OwnerReference.Kind }}\"'',
     ''    name: \"{{ .OwnerReference.Name }}\"'',
     ''    uid: \"{{ .OwnerReference.UID }}\"'',
     ''{{- end }}'',
     ''subjects:'',
     ''- kind: ServiceAccount'',
     ''  name: \"{{ .ServiceAccountName }}\"'',
     ''  namespace: \"{{ .PipelineNamespace }}\"'',
     ''roleRef:'',
     ''  apiGroup: rbac.authorization.k8s.io'',
     ''  kind: ClusterRole'',
     ''  name: tekton-triggers-eventlistener-roles # add role for handle broad-resource, such as eventListener, triggers, configmaps and so on. tekton-triggers-eventlistener-roles is provided by Tekton'',
     ''---'',
     ''apiVersion: rbac.authorization.k8s.io/v1'',
     ''kind: ClusterRoleBinding'',
     ''metadata:'',
     ''  name: \"{{ .PipelineName }}\"'',
     ''  namespace: \"{{ .PipelineNamespace }}\"'',
     ''{{- if .OwnerReference }}'',
     ''  ownerReferences:'',
     ''  - apiVersion: \"{{ .OwnerReference.APIVersion }}\"'',
     ''    kind: \"{{ .OwnerReference.Kind }}\"'',
     ''    name: \"{{ .OwnerReference.Name }}\"'',
     ''    uid: \"{{ .OwnerReference.UID }}\"'',
     ''{{- end }}'',
     ''subjects:'',
     ''- kind: ServiceAccount'',
     ''  name: \"{{ .ServiceAccountName }}\"'',
     ''  namespace: \"{{ .PipelineNamespace }}\"'',
     ''roleRef:'',
     ''  apiGroup: rbac.authorization.k8s.io'',
     ''  kind: ClusterRole'',
     ''  name: tekton-triggers-eventlistener-clusterroles # add role for handle secret, clustertriggerbinding and clusterinterceptors. tekton-triggers-eventlistener-clusterroles is provided by Tekton'']"

record RBACConfig =
  rb_pipelineName :: string
  rb_pipelineNamespace :: string
  rb_ownerReference :: OwnerReference
  rb_chainCredentialsName :: string

definition RenderRBAC :: "funcMap \<Rightarrow> RBACConfig \<Rightarrow> goerr + string" where
  "RenderRBAC F cfg =
     (if rb_pipelineName cfg = [] \<or> rb_pipelineNamespace cfg = []
      then Inl (EMsg ''invalid RBACConfig: PipelineName and PipelineNamespace must not be empty'')
      else renderTemplate F RBACTemplateContent (VStruct [(''PipelineName'', VString (rb_pipelineName cfg)),
        (''PipelineNamespace'', VString (rb_pipelineNamespace cfg)), (''OwnerReference'', ownerValue (rb_ownerReference cfg)),
        (''ChainCredentialsName'', VString (rb_chainCredentialsName cfg)), (''ServiceAccountName'', VString (rb_pipelineName cfg))]))"

section \<open>Predefined tasks\<close>

definition GitCloneTaskContent :: string where
  "GitCloneTaskContent = linesOf [
     ''apiVersion: tekton.dev/v1beta1'',
     ''kind: Task'',
     ''metadata:'',
     ''  name: {{ .PredefinedTaskName }}'',
     ''  namespace: {{ .Namespace }}'',
     ''  labels:'',
     ''    app.kubernetes.io/version: \"0.9\"'',
     ''  annotations:'',
     ''    tekton.dev/pipelines.minVersion: \"0.38.0\"'',
     ''    tekton.dev/categories: Git'',
     ''    tekton.dev/tags: git'',
     ''    tekton.dev/displayName: \"git clone\"'',
     ''    tekton.dev/platforms: \"linux/amd64,linux/s390x,linux/ppc64le,linux/arm64\"'',
     ''{{- if .OwnerReference }}'',
     ''  ownerReferences:'',
     ''  - apiVersion: \"{{ .OwnerReference.APIVersion }}\"'',
     ''    kind: \"{{ .OwnerReference.Kind }}\"'',
     ''    name: \"{{ .OwnerReference.Name }}\"'',
     ''    uid: \"{{ .OwnerReference.UID }}\"'',
     ''{{- end }}'',
     ''spec:'',
     ''  description: >-'',
     ''    These Tasks are Git tasks to work with repositories used by other tasks'',
     ''    in your Pipeline.'',
     ''    The git-clone Task will clone a repo from the provided url into the'',
     ''    source Workspace. By default the repo will be cloned into the root of'',
     ''    your Workspace. You can clone into a subdirectory by setting this Task's'',
     ''    subdirectory param. This Task also supports sparse checkouts. To perform'',
     ''    a sparse checkout, pass a list of comma separated directory patterns to'',
     ''    this Task's sparseCheckoutDirectories param.'',
     ''  workspaces:'',
     ''  - name: source'',
     ''    description: The git repo will be cloned onto the volume backing this Workspace.'',
     ''  - name: ssh-directory'',
     ''    optional: true'',
     ''    description: |'',
     ''      A .ssh directory with private key, known_hosts, config, etc. Copied to'',
     ''      the user's home before git commands are executed. Used to authenticate'',
     ''      with the git remote when performing the clone. Binding a Secret to this'',
     ''      Workspace is strongly recommended over other volume types.'',
     ''  - name: basic-auth'',
     ''    optional: true'',
     ''    description: |'',
     ''      A Workspace containing a .gitconfig and .git-credentials file. These'',
     ''      will be copied to the user's home before any git commands are run. Any'',
     ''      other files in this Workspace are ignored. It is strongly recommended'',
     ''      to use ssh-directory over basic-auth whenever possible and to bind a'',
     ''      Secret to this Workspace over other volume types.'',
     ''  - name: ssl-ca-directory'',
     ''    optional: true'',
     ''    description: |'',
     ''      A workspace containing CA certificates, this will be used by Git to'',
     ''      verify the peer with when fetching or pushing over HTTPS.'',
     ''  params:'',
     ''  - name: url'',
     ''    description: Repository URL to clone from.'',
     ''    type: string'',
     ''  - name: revision'',
     ''    description: Revision to checkout. (branch, tag, sha, ref, etc...)'',
     ''    type: string'',
     ''    default: \"\"'',
     ''  - name: refspec'',
     ''    description: Refspec to fetch before checking out revision.'',
     ''    default: \"\"'',
     ''  - name: submodules'',
     ''    description: Initialize and fetch git submodules.'',
     ''    type: string'',
     ''    default: \"true\"'',
     ''  - name: depth'',
     ''    description: Perform a shallow clone, fetching only the most recent N commits.'',
     ''    type: string'',
     ''    default: \"1\"'',
     ''  - name: sslVerify'',
     ''    description: Set the \"http.sslVerify\" global git config. Setting this to \"false\" is not advised unless you are sure that you trust your git remote.'',
     ''    type: string'',
     ''    default: \"true\"'',
     ''  - name: crtFileName'',
     ''    description: file name of mounted crt using ssl-ca-directory workspace. default value is ca-bundle.crt.'',
     ''    type: string'',
     ''    default: \"ca-bundle.crt\"'',
     ''  - name: subdirectory'',
     ''    description: Subdirectory inside the \"source\" Workspace to clone the repo into.'',
     ''    type: string'',
     ''    default: \"\"'',
     ''  - name: sparseCheckoutDirectories'',
     ''    description: Define the directory patterns to match or exclude when performing a sparse checkout.'',
     ''    type: string'',
     ''    default: \"\"'',
     ''  - name: deleteExisting'',
     ''    description: Clean out the contents of the destination directory if it already exists before cloning.'',
     ''    type: string'',
     ''    default: \"true\"'',
     ''  - name: httpProxy'',
     ''    description: HTTP proxy server for non-SSL requests.'',
     ''    type: string'',
     ''    default: \"\"'',
     ''  - name: httpsProxy'',
     ''    description: HTTPS proxy server for SSL requests.'',
     ''    type: string'',
     ''    default: \"\"'',
     ''  - name: noProxy'',
     ''    description: Opt out of proxying HTTP/HTTPS requests.'',
     ''    type: string'',
     ''    default: \"\"'',
     ''  - name: verbose'',
     ''    description: Log the commands that are executed during \"git-clone\"'s operation.'',
     ''    type: string'',
     ''    default: \"true\"'',
     ''  - name: gitInitImage'',
     ''    description: The image providing the git-init binary that this Task runs.'',
     ''    type: string'',
     ''    default: \"gcr.io/tekton-releases/github.com/tektoncd/pipeline/cmd/git-init:v0.40.2\"'',
     ''  - name: userHome'',
     ''    description: |'',
     ''      Absolute path to the user's home directory.'',
     ''    type: string'',
     ''    default: \"/home/git\"'',
     ''  results:'',
     ''  - name: commit'',
     ''    description: The precise commit SHA that was fetched by this Task.'',
     ''  - name: url'',
     ''    description: The precise URL that was fetched by this Task.'',
     ''  - name: committer-date'',
     ''    description: The epoch timestamp of the commit that was fetched by this Task.'',
     ''  steps:'',
     ''  - name: clone'',
     ''    image: \"$(params.gitInitImage)\"'',
     ''    env:'',
     ''    - name: HOME'',
     ''      value: \"$(params.userHome)\"'',
     ''    - name: PARAM_URL'',
     ''      value: $(params.url)'',
     ''    - name: PARAM_REVISION'',
     ''      value: $(params.revision)'',
     ''    - name: PARAM_REFSPEC'',
     ''      value: $(params.refspec)'',
     ''    - name: PARAM_SUBMODULES'',
     ''      value: $(params.submodules)'',
     ''    - name: PARAM_DEPTH'',
     ''      value: $(params.depth)'',
     ''    - name: PARAM_SSL_VERIFY'',
     ''      value: $(params.sslVerify)'',
     ''    - name: PARAM_CRT_FILENAME'',
     ''      value: $(params.crtFileName)'',
     ''    - name: PARAM_SUBDIRECTORY'',
     ''      value: $(params.subdirectory)'',
     ''    - name: PARAM_DELETE_EXISTING'',
     ''      value: $(params.deleteExisting)'',
     ''    - name: PARAM_HTTP_PROXY'',
     ''      value: $(params.httpProxy)'',
     ''    - name: PARAM_HTTPS_PROXY'',
     ''      value: $(params.httpsProxy)'',
     ''    - name: PARAM_NO_PROXY'',
     ''      value: $(params.noProxy)'',
     ''    - name: PARAM_VERBOSE'',
     ''      value: $(params.verbose)'',
     ''    - name: PARAM_SPARSE_CHECKOUT_DIRECTORIES'',
     ''      value: $(params.sparseCheckoutDirectories)'',
     ''    - name: PARAM_USER_HOME'',
     ''      value: $(params.userHome)'',
     ''    - name: WORKSPACE_SOURCE_PATH'',
     ''      value: $(workspaces.source.path)'',
     ''    - name: WORKSPACE_SSH_DIRECTORY_BOUND'',
     ''      value: $(workspaces.ssh-directory.bound)'',
     ''    - name: WORKSPACE_SSH_DIRECTORY_PATH'',
     ''      value: $(workspaces.ssh-directory.path)'',
     ''    - name: WORKSPACE_BASIC_AUTH_DIRECTORY_BOUND'',
     ''      value: $(workspaces.basic-auth.bound)'',
     ''    - name: WORKSPACE_BASIC_AUTH_DIRECTORY_PATH'',
     ''      value: $(workspaces.basic-auth.path)'',
     ''    - name: WORKSPACE_SSL_CA_DIRECTORY_BOUND'',
     ''      value: $(workspaces.ssl-ca-directory.bound)'',
     ''    - name: WORKSPACE_SSL_CA_DIRECTORY_PATH'',
     ''      value: $(workspaces.ssl-ca-directory.path)'',
     ''    securityContext:'',
     ''      runAsNonRoot: true'',
     ''      runAsUser: 65532'',
     ''    script: |'',
     ''      #!/usr/bin/env sh'',
     ''      set -eu'',
     ''      if [ \"${PARAM_VERBOSE}\" = \"true\" ] ; then'',
     ''        set -x'',
     ''      fi'',
     ''      if [ \"${WORKSPACE_BASIC_AUTH_DIRECTORY_BOUND}\" = \"true\" ] ; then'',
     ''        cp \"${WORKSPACE_BASIC_AUTH_DIRECTORY_PATH}/.git-credentials\" \"${PARAM_USER_HOME}/.git-credentials\"'',
     ''        cp \"${WORKSPACE_BASIC_AUTH_DIRECTORY_PATH}/.gitconfig\" \"${PARAM_USER_HOME}/.gitconfig\"'',
     ''        chmod 400 \"${PARAM_USER_HOME}/.git-credentials\"'',
     ''        chmod 400 \"${PARAM_USER_HOME}/.gitconfig\"'',
     ''      fi'',
     ''      if [ \"${WORKSPACE_SSH_DIRECTORY_BOUND}\" = \"true\" ] ; then'',
     ''        cp -R \"${WORKSPACE_SSH_DIRECTORY_PATH}\" \"${PARAM_USER_HOME}\"/.ssh'',
     ''        chmod 700 \"${PARAM_USER_HOME}\"/.ssh'',
     ''        chmod -R 400 \"${PARAM_USER_HOME}\"/.ssh/*'',
     ''      fi'',
     ''      if [ \"${WORKSPACE_SSL_CA_DIRECTORY_BOUND}\" = \"true\" ] ; then'',
     ''         export GIT_SSL_CAPATH=\"${WORKSPACE_SSL_CA_DIRECTORY_PATH}\"'',
     ''         if [ \"${PARAM_CRT_FILENAME}\" != \"\" ] ; then'',
     ''            export GIT_SSL_CAINFO=\"${WORKSPACE_SSL_CA_DIRECTORY_PATH}/${PARAM_CRT_FILENAME}\"'',
     ''         fi'',
     ''      fi'',
     ''      CHECKOUT_DIR=\"${WORKSPACE_SOURCE_PATH}/${PARAM_SUBDIRECTORY}\"'',
     ''      cleandir() {'',
     ''        # Delete any existing contents of the repo directory if it exists.'',
     ''        #'',
     ''        # We don't just \"rm -rf ${CHECKOUT_DIR}\" because ${CHECKOUT_DIR} might be \"/\"'',
     ''        # or the root of a mounted volume.'',
     ''        if [ -d \"${CHECKOUT_DIR}\" ] ; then'',
     ''          # Delete non-hidden files and directories'',
     ''          rm -rf \"${CHECKOUT_DIR:?}\"/*'',
     ''          # Delete files and directories starting with . but excluding ..'',
     ''          rm -rf \"${CHECKOUT_DIR}\"/.[!.]*'',
     ''          # Delete files and directories starting with .. plus any other character'',
     ''          rm -rf \"${CHECKOUT_DIR}\"/..?*'',
     ''        fi'',
     ''      }'',
     ''      if [ \"${PARAM_DELETE_EXISTING}\" = \"true\" ] ; then'',
     ''        cleandir || true'',
     ''      fi'',
     ''      test -z \"${PARAM_HTTP_PROXY}\" || export HTTP_PROXY=\"${PARAM_HTTP_PROXY}\"'',
     ''      test -z \"${PARAM_HTTPS_PROXY}\" || export HTTPS_PROXY=\"${PARAM_HTTPS_PROXY}\"'',
     ''      test -z \"${PARAM_NO_PROXY}\" || export NO_PROXY=\"${PARAM_NO_PROXY}\"'',
     ''      git config --global --add safe.directory \"${WORKSPACE_SOURCE_PATH}\"'',
     ''      /ko-app/git-init '' @ [CHR 0x5C],
     ''        -url=\"${PARAM_URL}\" '' @ [CHR 0x5C],
     ''        -revision=\"${PARAM_REVISION}\" '' @ [CHR 0x5C],
     ''        -refspec=\"${PARAM_REFSPEC}\" '' @ [CHR 0x5C],
     ''        -path=\"${CHECKOUT_DIR}\" '' @ [CHR 0x5C],
     ''        -sslVerify=\"${PARAM_SSL_VERIFY}\" '' @ [CHR 0x5C],
     ''        -submodules=\"${PARAM_SUBMODULES}\" '' @ [CHR 0x5C],
     ''        -depth=\"${PARAM_DEPTH}\" '' @ [CHR 0x5C],
     ''        -sparseCheckoutDirectories=\"${PARAM_SPARSE_CHECKOUT_DIRECTORIES}\"'',
     ''      cd \"${CHECKOUT_DIR}\"'',
     ''      RESULT_SHA=\"$(git rev-parse HEAD)\"'',
     ''      EXIT_CODE=\"$?\"'',
     ''      if [ \"${EXIT_CODE}\" != 0 ] ; then'',
     ''        exit \"${EXIT_CODE}\"'',
     ''      fi'',
     ''      RESULT_COMMITTER_DATE=\"$(git log -1 --pretty=%ct)\"'',
     ''      printf \"%s\" \"${RESULT_COMMITTER_DATE}\" > \"$(results.committer-date.path)\"'',
     ''      printf \"%s\" \"${RESULT_SHA}\" > \"$(results.commit.path)\"'',
     ''      printf \"%s\" \"${PARAM_URL}\" > \"$(results.url.path)\"'']"

definition GoTestTaskContent :: string where
  "GoTestTaskContent = linesOf [
     ''apiVersion: tekton.dev/v1beta1'',
     ''kind: Task'',
     ''metadata:'',
     ''  name: {{ .PredefinedTaskName }}'',
     ''  namespace: {{ .Namespace }}'',
     ''  labels:'',
     ''    app.kubernetes.io/version: \"0.2\"'',
     ''  annotations:'',
     ''    tekton.dev/pipelines.minVersion: \"0.12.1\"'',
     ''    tekton.dev/categories: Testing'',
     ''    tekton.dev/tags: test'',
     ''    tekton.dev/displayName: \"golang test\"'',
     ''    tekton.dev/platforms: \"linux/amd64,linux/s390x,linux/ppc64le\"'',
     ''{{- if .OwnerReference }}'',
     ''  ownerReferences:'',
     ''  - apiVersion: \"{{ .OwnerReference.APIVersion }}\"'',
     ''    kind: \"{{ .OwnerReference.Kind }}\"'',
     ''    name: \"{{ .OwnerReference.Name }}\"'',
     ''    uid: \"{{ .OwnerReference.UID }}\"'',
     ''{{- end }}'',
     ''spec:'',
     ''  description: >-'',
     ''    This Task is Golang task to test Go projects.'',
     [],
     ''  params:'',
     ''  - name: package'',
     ''    description: package (and its children) under test'',
     ''    default: \"{{ default \".\" .Params.package }}\"'',
     ''  - name: packages'',
     ''    description: \"packages to test (default: ./...)\"'',
     ''    default: \"{{ default \"./...\" .Params.packages }}\"'',
     ''  - name: context'',
     ''    description: path to the directory to use as context.'',
     ''    default: \"{{ default \".\" .Params.context }}\"'',
     ''  - name: version'',
     ''    description: golang version to use for tests'',
     ''    default: \"{{ default \"latest\" .Params.version }}\"'',
     ''  - name: flags'',
     ''    description: flags to use for the test command'',
     ''    default: \"{{ default \"-race -cover -v\" .Params.flags }}\"'',
     ''  - name: GOOS'',
     ''    description: \"running program's operating system target\"'',
     ''    default: \"{{ default \"linux\" .Params.GOOS }}\"'',
     ''  - name: GOARCH'',
     ''    description: \"running program's architecture target\"'',
     ''    default: \"{{ default \"amd64\" .Params.GOARCH }}\"'',
     ''  - name: GO111MODULE'',
     ''    description: \"value of module support\"'',
     ''    default: \"{{ default \"auto\" .Params.GO111MODULE }}\"'',
     ''  - name: GOCACHE'',
     ''    description: \"Go caching directory path\"'',
     ''    default: \"{{ default \"\" .Params.GOCACHE }}\"'',
     ''  - name: GOMODCACHE'',
     ''    description: \"Go mod caching directory path\"'',
     ''    default: \"{{ default \"\" .Params.GOMODCACHE }}\"'',
     ''  workspaces:'',
     ''  - name: source'',
     ''  steps:'',
     ''  - name: unit-test'',
     ''    image: docker.io/library/golang:$(params.version)'',
     ''    workingDir: $(workspaces.source.path)'',
     ''    script: |'',
     ''      if [ ! -e $GOPATH/src/$(params.package)/go.mod ];then'',
     ''         SRC_PATH=\"$GOPATH/src/$(params.package)\"'',
     ''         mkdir -p $SRC_PATH'',
     ''         cp -R \"$(workspaces.source.path)/$(params.context)\"/* $SRC_PATH'',
     ''         cd $SRC_PATH'',
     ''      fi'',
     ''      go test $(params.flags) $(params.packages)'',
     ''    env:'',
     ''    - name: GOOS'',
     ''      value: \"$(params.GOOS)\"'',
     ''    - name: GOARCH'',
     ''      value: \"$(params.GOARCH)\"'',
     ''    - name: GO111MODULE'',
     ''      value: \"$(params.GO111MODULE)\"'',
     ''    - name: GOCACHE'',
     ''      value: \"$(params.GOCACHE)\"'',
     ''    - name: GOMODCACHE'',
     ''      value: \"$(params.GOMODCACHE)\"'']"

definition GoLintTaskContent :: string where
  "GoLintTaskContent = linesOf [
     ''apiVersion: tekton.dev/v1beta1'',
     ''kind: Task'',
     ''metadata:'',
     ''  name: {{ .PredefinedTaskName }}'',
     ''  namespace: {{ .Namespace }}'',
     ''  labels:'',
     ''    app.kubernetes.io/version: \"0.2\"'',
     ''  annotations:'',
     ''    tekton.dev/pipelines.minVersion: \"0.12.1\"'',
     ''    tekton.dev/categories: Code Quality'',
     ''    tekton.dev/tags: lint'',
     ''    tekton.dev/displayName: \"golangci lint\"'',
     ''    tekton.dev/platforms: \"linux/amd64\"'',
     ''{{- if .OwnerReference }}'',
     ''  ownerReferences:'',
     ''  - apiVersion: \"{{ .OwnerReference.APIVersion }}\"'',
     ''    kind: \"{{ .OwnerReference.Kind }}\"'',
     ''    name: \"{{ .OwnerReference.Name }}\"'',
     ''    uid: \"{{ .OwnerReference.UID }}\"'',
     ''{{- end }}'',
     ''spec:'',
     ''  description: >-'',
     ''    This Task is Golang task to validate Go projects.'',
     [],
     ''  params:'',
     ''  - name: package'',
     ''    description: base package (and its children) under validation'',
     ''    default: \"{{ default \".\" .Params.package }}\"'',
     ''  - name: context'',
     ''    description: path to the directory to use as context.'',
     ''    default: \"{{ default \".\" .Params.context }}\"'',
     ''  - name: flags'',
     ''    description: flags to use for the lint command'',
     ''    default: \"{{ default \"--verbose\" .Params.flags }}\"'',
     ''  - name: version'',
     ''    description: golangci-lint version to use'',
     ''    default: \"{{ default \"latest\" .Params.version }}\"'',
     ''  - name: GOOS'',
     ''    description: \"running program's operating system target\"'',
     ''    default: \"{{ default \"linux\" .Params.GOOS }}\"'',
     ''  - name: GOARCH'',
     ''    description: \"running program's architecture target\"'',
     ''    default: \"{{ default \"amd64\" .Params.GOARCH }}\"'',
     ''  - name: GO111MODULE'',
     ''    description: \"value of module support\"'',
     ''    default: \"{{ default \"auto\" .Params.GO111MODULE }}\"'',
     ''  - name: GOCACHE'',
     ''    description: \"Go caching directory path\"'',
     ''    default: \"{{ default \"\" .Params.GOCACHE }}\"'',
     ''  - name: GOMODCACHE'',
     ''    description: \"Go mod caching directory path\"'',
     ''    default: \"{{ default \"\" .Params.GOMODCACHE }}\"'',
     ''  - name: GOLANGCI_LINT_CACHE'',
     ''    description: \"golangci-lint cache path\"'',
     ''    default: \"{{ default \"\" .Params.GOLANGCI_LINT_CACHE }}\"'',
     ''  workspaces:'',
     ''  - name: source'',
     ''    mountPath: /workspace/src/$(params.package)'',
     ''  steps:'',
     ''  - name: lint'',
     ''    image: docker.io/golangci/golangci-lint:$(params.version)'',
     ''    workingDir: $(workspaces.source.path)/$(params.context)'',
     ''    script: |'',
     ''      golangci-lint run $(params.flags)'',
     ''    env:'',
     ''    - name: GOPATH'',
     ''      value: /workspace'',
     ''    - name: GOOS'',
     ''      value: \"$(params.GOOS)\"'',
     ''    - name: GOARCH'',
     ''      value: \"$(params.GOARCH)\"'',
     ''    - name: GO111MODULE'',
     ''      value: \"$(params.GO111MODULE)\"'',
     ''    - name: GOCACHE'',
     ''      value: \"$(params.GOCACHE)\"'',
     ''    - name: GOMODCACHE'',
     ''      value: \"$(params.GOMODCACHE)\"'',
     ''    - name: GOLANGCI_LINT_CACHE'',
     ''      value: \"$(params.GOLANGCI_LINT_CACHE)\"'']"

definition BuildPushImageContent :: string where
  "BuildPushImageContent = linesOf [
     ''apiVersion: tekton.dev/v1beta1'',
     ''kind: Task'',
     ''metadata:'',
     ''  name: {{ .PredefinedTaskName }}'',
     ''  namespace: {{ .Namespace }}'',
     ''  labels:'',
     ''    app.kubernetes.io/version: \"0.6\"'',
     ''  annotations:'',
     ''    tekton.dev/pipelines.minVersion: \"0.17.0\"'',
     ''    tekton.dev/categories: Image Build'',
     ''    tekton.dev/tags: image-build'',
     ''    tekton.dev/displayName: \"Build and upload container image using Kaniko\"'',
     ''    tekton.dev/platforms: \"linux/amd64,linux/arm64,linux/ppc64le\"'',
     ''{{- if .OwnerReference }}'',
     ''  ownerReferences:'',
     ''  - apiVersion: \"{{ .OwnerReference.APIVersion }}\"'',
     ''    kind: \"{{ .OwnerReference.Kind }}\"'',
     ''    name: \"{{ .OwnerReference.Name }}\"'',
     ''    uid: \"{{ .OwnerReference.UID }}\"'',
     ''{{- end }}'',
     ''spec:'',
     ''  description: >-'',
     ''    This Task builds a simple Dockerfile with kaniko and pushes to a registry.'',
     ''    This Task stores the image name and digest as results, allowing Tekton Chains to pick up'',
     ''    that an image was built & sign it.'',
     ''  params:'',
     ''  - name: IMAGE # This is a parameter that must be set.'',
     ''    description: Name (reference) of the image to build.'',
     ''    default: {{ default \"Unknown\" .Params.image }}'',
     ''  - name: DOCKERFILE'',
     ''    description: Path to the Dockerfile to build.'',
     ''    default: {{ default \"./Dockerfile\" .Params.dockerfile }}'',
     ''  - name: CONTEXT'',
     ''    description: The build context used by Kaniko.'',
     ''    default: {{ default \"./\" .Params.context }}'',
     ''  - name: EXTRA_ARGS # more details see https://github.com/GoogleContainerTools/kaniko?tab=readme-ov-file#additional-flags'',
     ''    type: array'',
     ''    default: {{ default \"[]\" .Params.extra_args }}'',
     ''  - name: BUILDER_IMAGE'',
     ''    description: The image on which builds will run (default is v1.19.2 debug)'',
     ''    default: {{ default \"gcr.io/kaniko-project/executor@sha256:899886a2db1c127ff1565d5c7b1e574af1810bbdad048e9850e4f40b5848d79c\" .Params.builder_image }}'',
     ''  workspaces:'',
     ''  - name: source'',
     ''    description: Holds the context and Dockerfile'',
     ''  - name: dockerconfig'',
     ''    description: Includes a docker \"config.json\"'',
     ''    optional: true'',
     ''    mountPath: /kaniko/.docker'',
     ''  results:'',
     ''  - name: IMAGE_DIGEST'',
     ''    description: Digest of the image just built.'',
     ''  - name: IMAGE_URL'',
     ''    description: URL of the image just built.'',
     ''  steps:'',
     ''  - name: build-and-push'',
     ''    workingDir: $(workspaces.source.path)'',
     ''    image: $(params.BUILDER_IMAGE)'',
     ''    args:'',
     ''    - $(params.EXTRA_ARGS)'',
     ''    - --dockerfile=$(params.DOCKERFILE)'',
     ''    - --context=$(workspaces.source.path)/$(params.CONTEXT) # The user does not need to care the workspace and the source.'',
     ''    - --destination=$(params.IMAGE)'',
     ''    - --digest-file=$(results.IMAGE_DIGEST.path)'',
     ''    - --ignore-path=/product_uuid # in case kind cluster run failed, see https://github.com/GoogleContainerTools/kaniko/issues/2164'',
     ''    # kaniko assumes it is running as root, which means this example fails on platforms'',
     ''    # that default to run containers as random uid (like OpenShift). Adding this securityContext'',
     ''    # makes it explicit that it needs to run as root.'',
     ''    securityContext:'',
     ''      runAsUser: 0'',
     ''  - name: write-url'',
     ''    image: docker.io/library/bash:5.1.4@sha256:c523c636b722339f41b6a431b44588ab2f762c5de5ec3bd7964420ff982fb1d9'',
     ''    script: |'',
     ''      set -e'',
     ''      image=\"$(params.IMAGE)\"'',
     ''      echo -n \"${image}\" | tee \"$(results.IMAGE_URL.path)\"'']"

definition predefinedTaskTemplates :: "string \<rightharpoonup> string" where
  "predefinedTaskTemplates = map_of [(GitClone, GitCloneTaskContent), (GoTest, GoTestTaskContent), (GoLint, GoLintTaskContent),
     (BuildPushImage, BuildPushImageContent)]"

definition PredefinedTaskName :: "string \<Rightarrow> string \<Rightarrow> string" where
  "PredefinedTaskName templateName pipelineName = templateName @ ''-'' @ pipelineName"

definition RenderPredefinedTask :: "funcMap \<Rightarrow> Pipeline \<Rightarrow> PredefinedTask \<Rightarrow> goerr + string" where
  "RenderPredefinedTask F pipeline task = (case predefinedTaskTemplates (pt_name task) of
     None \<Rightarrow> Inl (EMsg (''predefinedTask template content named '' @ [CHR 0x27] @ pt_name task @ [CHR 0x27] @ '' not found''))
   | Some templateContent \<Rightarrow> renderTemplate F templateContent (VStruct [(''PipelineName'', VString (m_name (pl_meta pipeline))),
       (''Namespace'', VString (m_namespace (pl_meta pipeline))), (''TemplateName'', VString (pt_name task)),
       (''Params'', VMap (pt_params task)), (''OwnerReference'', ownerValue (GeneratePipelineOwnerRef pipeline)),
       (''PredefinedTaskName'', VString (PredefinedTaskName (pt_name task) (m_name (pl_meta pipeline))))]))"

section \<open>Custom tasks\<close>

definition CustomTaskTemplateContent :: string where
  "CustomTaskTemplateContent = linesOf [
     ''apiVersion: tekton.dev/v1beta1'',
     ''kind: Task'',
     ''metadata:'',
     ''  name: {{ .CustomTaskName }}'',
     ''  namespace: {{ .PipelineNamespace }}'',
     ''{{- if .OwnerReference }}'',
     ''  ownerReferences:'',
     ''  - apiVersion: \"{{ .OwnerReference.APIVersion }}\"'',
     ''    kind: \"{{ .OwnerReference.Kind }}\"'',
     ''    name: \"{{ .OwnerReference.Name }}\"'',
     ''    uid: \"{{ .OwnerReference.UID }}\"'',
     ''{{- end }}'',
     ''spec:'',
     ''  description: >-'',
     ''    This task is a user-custom, single-step task.'',
     ''    The workspace is automatically and exclusively created named \"source\",'',
     ''    and assigned to the workspace of the pipeline in which this task is located.'',
     ''  workspaces:'',
     ''  - name: source'',
     ''    description: The workspace where user to run user-custom task.'',
     ''  steps:'',
     ''  - name: {{ .CustomTaskName }}'',
     ''    image: {{ .Image }}'',
     ''    {{- if .Env }}'',
     ''    env:'',
     ''    {{- range .Env }}'',
     ''    - name: {{ .Name }}'',
     ''      value: {{ .Value }}'',
     ''    {{- end }}'',
     ''    {{- end }}'',
     ''    {{- if .Command }}'',
     ''    command:'',
     ''    {{- range .Command }}'',
     ''    - {{ . }}'',
     ''    {{- end }}'',
     ''    {{- end }}'',
     ''    {{- if .Args }}'',
     ''    args:'',
     ''    {{- range .Args }}'',
     ''    - {{ . }}'',
     ''    {{- end }}'',
     ''    {{- end }}'',
     ''    {{- if .Script }}'',
     ''    script: |'',
     ''      {{ .Script }}'',
     ''    {{- end }}'',
     ''    {{- if .ResourceRequirements }}'',
     ''    resources:'',
     ''      {{- if .ResourceRequirements.Requests }}'',
     ''      requests:'',
     ''        {{- if .ResourceRequirements.Requests.Cpu }}'',
     ''        cpu: {{ .ResourceRequirements.Requests.Cpu }}'',
     ''        {{- end }}'',
     ''        {{- if .ResourceRequirements.Requests.Memory }}'',
     ''        memory: {{ .ResourceRequirements.Requests.Memory }}'',
     ''        {{- end }}'',
     ''      {{- end }}'',
     ''      {{- if .ResourceRequirements.Limits }}'',
     ''      limits:'',
     ''        {{- if .ResourceRequirements.Limits.Cpu }}'',
     ''        cpu: {{ .ResourceRequirements.Limits.Cpu }}'',
     ''        {{- end }}'',
     ''        {{- if .ResourceRequirements.Limits.Memory }}'',
     ''        memory: {{ .ResourceRequirements.Limits.Memory }}'',
     ''        {{- end }}'',
     ''      {{- end }}'',
     ''    {{- end }}'']"

text \<open>A quantity that is not in a list of resources reads as zero.\<close>

definition amountsValue :: "ResourceAmounts option \<Rightarrow> gval" where
  "amountsValue r = (case r of None \<Rightarrow> VNil | Some a \<Rightarrow> VStruct [
     (''Cpu'', VString (case ra_cpu a of None \<Rightarrow> ''0'' | Some q \<Rightarrow> q)),
     (''Memory'', VString (case ra_memory a of None \<Rightarrow> ''0'' | Some q \<Rightarrow> q))])"

definition CustomTaskName :: "string \<Rightarrow> string \<Rightarrow> string" where
  "CustomTaskName taskName pipelineName = taskName @ ''-'' @ pipelineName"

definition RenderCustomTask :: "funcMap \<Rightarrow> Pipeline \<Rightarrow> string \<Rightarrow> CustomTask \<Rightarrow> goerr + string" where
  "RenderCustomTask F pipeline taskName task =
     (let name = CustomTaskName taskName (m_name (pl_meta pipeline)) in
      if cst_image task = [] \<or> name = []
      then Inl (EMsg ''invalid RBACConfig: PipelineName and PipelineNamespace must not be empty'')
      else renderTemplate F CustomTaskTemplateContent (VStruct [(''TaskName'', VString taskName),
        (''PipelineName'', VString (m_name (pl_meta pipeline))), (''PipelineNamespace'', VString (m_namespace (pl_meta pipeline))),
        (''Image'', VString (cst_image task)), (''Command'', VList (map VString (cst_command task))),
        (''Args'', VList (map VString (cst_args task))),
        (''Env'', VList (map (\<lambda>(k, v). VStruct [(''Name'', VString k), (''Value'', VString v)]) (cst_env task))),
        (''ResourceRequirements'', VStruct [(''Requests'', amountsValue (cst_requests task)), (''Limits'', amountsValue (cst_limits task))]),
        (''Script'', VString (cst_script task)), (''OwnerReference'', ownerValue (GeneratePipelineOwnerRef pipeline)),
        (''CustomTaskName'', VString name)]))"

section \<open>The pipeline\<close>

definition taskTemplate :: string where
  "taskTemplate = linesOf [
     ''  - name: {{.Name}}'',
     ''    taskRef:'',
     ''      name: {{.TaskRef}}'',
     ''    runAfter: [\"{{.RunAfter}}\"]'',
     ''    workspaces:'',
     ''    {{- range .Workspaces}}'',
     ''    - name: {{.Name}}'',
     ''      workspace: {{.Workspace}}'',
     ''    {{- end}}'',
     ''    {{- if gt .Retries 0}}'',
     ''    retries: {{.Retries}}'',
     ''    {{- end}}'']"

record TaskInfo =
  ti_name :: string
  ti_taskRef :: string
  ti_runAfter :: string
  ti_workspaces :: "(string \<times> string) list"
  ti_retries :: int

definition taskInfoValue :: "TaskInfo \<Rightarrow> gval" where
  "taskInfoValue t = VStruct [(''Name'', VString (ti_name t)), (''TaskRef'', VString (ti_taskRef t)), (''RunAfter'', VString (ti_runAfter t)),
     (''Workspaces'', VList (map (\<lambda>(n, w). VStruct [(''Name'', VString n), (''Workspace'', VString w)]) (ti_workspaces t))),
     (''Retries'', VInt (ti_retries t))]"

definition DockerCredentialsName :: string where "DockerCredentialsName = ''dockerconfig''"
definition DockerCredentialsWorkspace :: string where "DockerCredentialsWorkspace = ''docker-credentials''"

definition generatePipelineTaskName :: "string \<Rightarrow> string \<Rightarrow> string" where
  "generatePipelineTaskName taskName pipelineName = taskName @ ''-'' @ pipelineName"

definition taskInfo :: "string \<Rightarrow> string \<Rightarrow> PipelineTask \<Rightarrow> TaskInfo" where
  "taskInfo pipelineName lastTask task = \<lparr>ti_name = ptk_name task, ti_taskRef = generatePipelineTaskName (ptk_name task) pipelineName,
     ti_runAfter = lastTask,
     ti_workspaces = (''source'', ''kurator-pipeline-shared-data'') #
       (if ptk_name task = BuildPushImage then [(DockerCredentialsName, DockerCredentialsWorkspace)] else []),
     ti_retries = ptk_retries task\<rparr>"

text \<open>The loop over the tasks, with the text written so far and the task to run after.\<close>

fun tasksInfoLoop :: "tnode list \<Rightarrow> string \<Rightarrow> PipelineTask list \<Rightarrow> string \<Rightarrow> string \<Rightarrow> string \<Rightarrow> goerr + string \<times> string" where
  "tasksInfoLoop tmpl pipelineName [] lastTask docker text = Inr (docker, text)"
| "tasksInfoLoop tmpl pipelineName (task # tasks) lastTask docker text =
     (if ptk_name task = GitClone then tasksInfoLoop tmpl pipelineName tasks lastTask docker text
      else if ptk_custom task = None \<and> ptk_predefined task = None \<or> ptk_custom task \<noteq> None \<and> ptk_predefined task \<noteq> None
      then Inl (EMsg (''only one of 'PredefinedTask' or 'CustomTask' must be set in 'PipelineTask'' @ [CHR 0x27]))
      else case execNodes (\<lambda>_. None) (taskInfoValue (taskInfo pipelineName lastTask task)) tmpl of
        Inl e \<Rightarrow> Inl e
      | Inr t \<Rightarrow> tasksInfoLoop tmpl pipelineName tasks (ptk_name task)
          (if ptk_name task = BuildPushImage then DockerCredentialsWorkspace else docker) (text @ t))"

definition generateTasksInfo :: "string \<Rightarrow> PipelineTask list \<Rightarrow> goerr + string \<times> string" where
  "generateTasksInfo pipelineName tasks = (case parseTemplate (\<lambda>_. False) taskTemplate of
     Inl e \<Rightarrow> Inl e
   | Inr tmpl \<Rightarrow> tasksInfoLoop tmpl pipelineName tasks GitClone [] [])"

definition PipelineTemplateContent :: string where
  "PipelineTemplateContent = joinS [nl] [
     ''apiVersion: tekton.dev/v1beta1'',
     ''kind: Pipeline'',
     ''metadata:'',
     ''  name: {{ .PipelineName}}'',
     ''  namespace: {{ .PipelineNamespace }}'',
     ''{{- if .OwnerReference }}'',
     ''  ownerReferences:'',
     ''  - apiVersion: \"{{ .OwnerReference.APIVersion }}\"'',
     ''    kind: \"{{ .OwnerReference.Kind }}\"'',
     ''    name: \"{{ .OwnerReference.Name }}\"'',
     ''    uid: \"{{ .OwnerReference.UID }}\"'',
     ''{{- end }}'',
     ''spec:'',
     ''  description: |'',
     ''    This is a universal pipeline with the following settings: '',
     ''      1. No parameters are passed because all user parameters have already been rendered into the corresponding tasks. '',
     ''      2. All tasks are strictly executed in the order defined by the user, with each task starting only after the previous one is completed. '',
     ''      3. There is only one workspace, which is used by all tasks. The PVC for this workspace will be configured in the trigger.'',
     ''  params:'',
     ''  - name: repo-url'',
     ''    type: string'',
     ''    description: The git repository URL to clone from.'',
     ''  - name: revision'',
     ''    type: string'',
     ''    description: The git branch to clone.'',
     ''  workspaces:'',
     ''  - name: kurator-pipeline-shared-data'',
     ''    description: |'',
     ''      This workspace is used by all tasks'',
     ''  - name: git-credentials'',
     ''    description: |'',
     ''      A Workspace containing a .gitconfig and .git-credentials file. These'',
     ''      will be copied to the user's home before any git commands are run. Any'',
     ''      other files in this Workspace are ignored.'',
     ''{{- if .DockerCredentials }}'',
     ''  - name: docker-credentials'',
     ''    description: |'',
     ''      This is the credentials for build and push image task.'',
     ''{{- end }}'',
     ''  tasks:'',
     ''  - name: git-clone'',
     ''    # Key points about 'git-clone':'',
     ''    # - Fundamental for all tasks.'',
     ''    # - Closely integrated with the trigger.'',
     ''    # - Always the first task in the pipeline.'',
     ''    # - Cannot be modified via templates.'',
     ''    taskRef:'',
     ''      name: git-clone-{{ .PipelineName }}'',
     ''    workspaces:'',
     ''    - name: source'',
     ''      workspace: kurator-pipeline-shared-data'',
     ''    - name: basic-auth'',
     ''      workspace: git-credentials'',
     ''    params:'',
     ''    - name: url'',
     ''      value: $(params.repo-url)'',
     ''    - name: revision'',
     ''      value: $(params.revision)'',
     ''{{ .TasksInfo }}'']"

definition RenderPipelineWithPipeline :: "funcMap \<Rightarrow> Pipeline \<Rightarrow> goerr + string" where
  "RenderPipelineWithPipeline F pipeline = (case generateTasksInfo (m_name (pl_meta pipeline)) (pls_tasks (pl_spec pipeline)) of
     Inl e \<Rightarrow> Inl e
   | Inr (dockerCredentials, tasksInfo) \<Rightarrow> renderTemplate F PipelineTemplateContent (VStruct [
       (''PipelineName'', VString (m_name (pl_meta pipeline))), (''PipelineNamespace'', VString (m_namespace (pl_meta pipeline))),
       (''TasksInfo'', VString tasksInfo), (''OwnerReference'', ownerValue (GeneratePipelineOwnerRef pipeline)),
       (''DockerCredentials'', VString dockerCredentials)]))"

section \<open>The trigger\<close>

definition TriggerTemplateContent :: string where
  "TriggerTemplateContent = linesOf [
     ''apiVersion: triggers.tekton.dev/v1alpha1'',
     ''kind: TriggerTemplate'',
     ''metadata:'',
     ''  name: {{ .PipelineName }}-triggertemplate'',
     ''  namespace: {{ .PipelineNamespace }}'',
     ''{{- if .OwnerReference }}'',
     ''  ownerReferences:'',
     ''  - apiVersion: \"{{ .OwnerReference.APIVersion }}\"'',
     ''    kind: \"{{ .OwnerReference.Kind }}\"'',
     ''    name: \"{{ .OwnerReference.Name }}\"'',
     ''    uid: \"{{ .OwnerReference.UID }}\"'',
     ''{{- end }}'',
     ''spec:'',
     ''  params:'',
     ''  - name: gitrevision'',
     ''    description: The git revision'',
     ''  - name: gitrepositoryurl'',
     ''    description: The git repository url'',
     ''  - name: namespace'',
     ''    description: The namespace to create the resources'',
     ''  resourceTemplates:'',
     ''  - apiVersion: tekton.dev/v1beta1'',
     ''    kind: PipelineRun'',
     ''    metadata:'',
     ''      generateName: {{ .PipelineName }}-run-'',
     ''      namespace: $(tt.params.namespace)'',
     ''    spec:'',
     ''      serviceAccountName: {{ .ServiceAccountName }}'',
     ''      pipelineRef:'',
     ''        name: {{ .PipelineName }}'',
     ''      params:'',
     ''      - name: revision'',
     ''        value: $(tt.params.gitrevision)'',
     ''      - name: repo-url'',
     ''        value: $(tt.params.gitrepositoryurl)'',
     ''      workspaces:'',
     ''      - name: kurator-pipeline-shared-data # there only one pvc workspace in each pipeline, and the name is kurator-pipeline-shared-data'',
     ''        volumeClaimTemplate:'',
     ''          spec:'',
     ''            accessModes:'',
     ''              - {{ default \"ReadWriteOnce\" .AccessMode }}'',
     ''            resources:'',
     ''              requests:'',
     ''                storage: {{ default \"1Gi\" .StorageRequest }}'',
     ''{{- if .VolumeMode }}'',
     ''            volumeMode: {{ .VolumeMode }}'',
     ''{{- end }}'',
     ''{{- if .StorageClassName }}'',
     ''            storageClassName: {{ .StorageClassName }}'',
     ''{{- end }}'',
     ''      - name: git-credentials'',
     ''        secret:'',
     ''          secretName: git-credentials'',
     ''      - name: docker-credentials'',
     ''        secret:'',
     ''          secretName: docker-credentials  # auth for task'',
     ''---'',
     ''apiVersion: triggers.tekton.dev/v1alpha1'',
     ''kind: TriggerBinding'',
     ''metadata:'',
     ''  name: {{ .PipelineName }}-triggerbinding'',
     ''  namespace: {{ .PipelineNamespace}}'',
     ''{{- if .OwnerReference }}'',
     ''  ownerReferences:'',
     ''  - apiVersion: \"{{ .OwnerReference.APIVersion }}\"'',
     ''    kind: \"{{ .OwnerReference.Kind }}\"'',
     ''    name: \"{{ .OwnerReference.Name }}\"'',
     ''    uid: \"{{ .OwnerReference.UID }}\"'',
     ''{{- end }}'',
     ''spec:'',
     ''  params:'',
     ''  - name: gitrevision'',
     ''    value: $(body.head_commit.id)'',
     ''  - name: namespace'',
     ''    value: {{ .PipelineNamespace}}'',
     ''  - name: gitrepositoryurl'',
     ''    value: \"https://github.com/$(body.repository.full_name)\"'',
     ''---'',
     ''apiVersion: triggers.tekton.dev/v1alpha1'',
     ''kind: EventListener'',
     ''metadata:'',
     ''  name: {{ .PipelineName }}-listener'',
     ''  namespace: {{ .PipelineNamespace}}'',
     ''{{- if .OwnerReference }}'',
     ''  ownerReferences:'',
     ''  - apiVersion: \"{{ .OwnerReference.APIVersion }}\"'',
     ''    kind: \"{{ .OwnerReference.Kind }}\"'',
     ''    name: \"{{ .OwnerReference.Name }}\"'',
     ''    uid: \"{{ .OwnerReference.UID }}\"'',
     ''{{- end }}'',
     ''spec:'',
     ''  serviceAccountName: {{ .ServiceAccountName }}'',
     ''  triggers:'',
     ''  - bindings:'',
     ''    - ref: {{ .PipelineName }}-triggerbinding'',
     ''    template:'',
     ''      ref: {{ .PipelineName }}-triggertemplate'']"

definition RenderTriggerWithPipeline :: "funcMap \<Rightarrow> Pipeline \<Rightarrow> goerr + string" where
  "RenderTriggerWithPipeline F pipeline =
     (let ws = pls_sharedWorkspace (pl_spec pipeline); part = (\<lambda>f. VString (case ws of None \<Rightarrow> [] | Some w \<Rightarrow> f w)) in
      renderTemplate F TriggerTemplateContent (VStruct [(''PipelineName'', VString (m_name (pl_meta pipeline))),
        (''PipelineNamespace'', VString (m_namespace (pl_meta pipeline))), (''OwnerReference'', ownerValue (GeneratePipelineOwnerRef pipeline)),
        (''AccessMode'', part vct_accessMode), (''StorageRequest'', part vct_storageRequest),
        (''StorageClassName'', part vct_storageClassName), (''VolumeMode'', part vct_volumeMode),
        (''ServiceAccountName'', VString (m_name (pl_meta pipeline)))]))"

end
