(* ===== verification/PipelineManager.thy ===== *)
theory PipelineManager
  imports PipelineRender FleetPlugins
begin

text \<open>
  The pipeline controller (\<open>pkg/fleet-manager/pipeline/controller.go\<close>). The resources it renders are
  handed to \<open>util.PatchResources\<close>, which applies them through the helm client; each application is
  recorded with the text that was applied.
\<close>

section \<open>Environment\<close>

record 'w plenv =
  pe_pipeline :: "('w, Pipeline) api"
  pe_pod :: "('w, Pod) api"
  pe_patchResources :: "string \<Rightarrow> 'w \<Rightarrow> (goerr + unit) \<times> 'w"
  pe_sprig :: funcMap
  pe_toYaml :: "gval \<Rightarrow> string"
  pe_lib :: capilib
  pe_containsFinalizer :: "string list \<Rightarrow> string \<Rightarrow> bool"

record 'w plstate = "'w kst" +
  s_pipeline :: Pipeline

type_synonym ('w, 'a) plproc = "('w plstate, 'a) proc"

definition PipelineFinalizer :: string where "PipelineFinalizer = ''pipeline.kurator.dev''"
definition TektonPipelineLabel :: string where "TektonPipelineLabel = ''tekton.dev/pipeline''"
definition DeletePropagationForeground :: string where "DeletePropagationForeground = ''Foreground''"
definition ChainCredentials :: string where "ChainCredentials = ''chain-credentials''"

abbreviation "funcsOf E \<equiv> funMap (pe_sprig E) (pe_toYaml E)"

definition patchResources :: "'w plenv \<Rightarrow> string \<Rightarrow> ('w, unit) plproc" where
  "patchResources E b = callO (RExternal ''PatchResources'' [b]) (\<lambda>w. apfst sumO (pe_patchResources E b w))"

definition applyRendered :: "'w plenv \<Rightarrow> string \<Rightarrow> goerr + string \<Rightarrow> ('w, unit) plproc" where
  "applyRendered E msg rendered = bindP (liftE rendered) (\<lambda>b. onErr (patchResources E b) (\<lambda>e. failP (EWrap msg e)))"

section \<open>Resources\<close>

text \<open>Without a custom task the predefined one is read: a panic when there is none.\<close>

fun needChainCredentials :: "PipelineTask list \<Rightarrow> bool outcome" where
  "needChainCredentials [] = Ok False"
| "needChainCredentials (task # tasks) =
     (if ptk_custom task \<noteq> None then needChainCredentials tasks
      else bindO (derefO (ptk_predefined task)) (\<lambda>p.
        if pt_name p = BuildPushImageContent then Ok True else needChainCredentials tasks))"

definition reconcileRBAC :: "'w plenv \<Rightarrow> ('w, Result) plproc" where
  "reconcileRBAC E = bindP (getP s_pipeline) (\<lambda>pipeline.
     bindP (liftO (needChainCredentials (pls_tasks (pl_spec pipeline)))) (\<lambda>need.
     let rbacConfig = \<lparr>rb_pipelineName = m_name (pl_meta pipeline), rb_pipelineNamespace = m_namespace (pl_meta pipeline),
           rb_ownerReference = GeneratePipelineOwnerRef pipeline, rb_chainCredentialsName = (if need then ChainCredentials else [])\<rparr> in
     seqP (applyRendered E ''failed to apply RBAC resources'' (RenderRBAC (funcsOf E) rbacConfig)) (retP noRequeue)))"

definition createPredefinedTask :: "'w plenv \<Rightarrow> Pipeline \<Rightarrow> PredefinedTask \<Rightarrow> ('w, unit) plproc" where
  "createPredefinedTask E pipeline task =
     applyRendered E ''failed to apply task resources'' (RenderPredefinedTask (funcsOf E) pipeline task)"

definition createCustomTask :: "'w plenv \<Rightarrow> Pipeline \<Rightarrow> PipelineTask \<Rightarrow> ('w, unit) plproc" where
  "createCustomTask E pipeline task = bindP (derefP (ptk_custom task)) (\<lambda>customTask.
     applyRendered E ''failed to apply custom task resources'' (RenderCustomTask (funcsOf E) pipeline (ptk_name task) customTask))"

definition reconcileTasks :: "'w plenv \<Rightarrow> ('w, Result) plproc" where
  "reconcileTasks E = bindP (getP s_pipeline) (\<lambda>pipeline.
     seqP (forEach (pls_tasks (pl_spec pipeline)) (\<lambda>task. case ptk_predefined task of
       Some p \<Rightarrow> createPredefinedTask E pipeline p
     | None \<Rightarrow> createCustomTask E pipeline task))
     (retP noRequeue))"

definition reconcilePipeline :: "'w plenv \<Rightarrow> ('w, Result) plproc" where
  "reconcilePipeline E = bindP (getP s_pipeline) (\<lambda>pipeline.
     seqP (applyRendered E ''failed to apply pipeline resources'' (RenderPipelineWithPipeline (funcsOf E) pipeline)) (retP noRequeue))"

definition reconcileTrigger :: "'w plenv \<Rightarrow> ('w, Result) plproc" where
  "reconcileTrigger E = bindP (getP s_pipeline) (\<lambda>pipeline.
     seqP (applyRendered E ''failed to apply trigger resources'' (RenderTriggerWithPipeline (funcsOf E) pipeline)) (retP noRequeue))"

definition getListenerServiceName :: "Pipeline \<Rightarrow> string" where
  "getListenerServiceName pipeline = ''el-'' @ m_name (pl_meta pipeline) @ ''-listener''"

definition reconcilePipelineStatus :: "'w plenv \<Rightarrow> ('w, Result) plproc" where
  "reconcilePipelineStatus E =
     seqP (modifyP (\<lambda>s. s\<lparr>s_pipeline := s_pipeline s\<lparr>pl_status := pl_status (s_pipeline s)\<lparr>
       plt_eventListenerServiceName := Some (getListenerServiceName (s_pipeline s))\<rparr>\<rparr>\<rparr>))
     (retP noRequeue)"

definition unlessRequeue :: "('w, Result) plproc \<Rightarrow> ('w, Result) plproc \<Rightarrow> ('w, Result) plproc" where
  "unlessRequeue m rest = bindP m (\<lambda>res. if requeues res then retP res else rest)"

definition reconcilePL :: "'w plenv \<Rightarrow> ('w, Result) plproc" where
  "reconcilePL E =
     unlessRequeue (reconcileRBAC E)
     (unlessRequeue (reconcileTasks E)
     (unlessRequeue (reconcilePipeline E)
     (unlessRequeue (reconcileTrigger E)
     (reconcilePipelineStatus E))))"

section \<open>Deletion\<close>

definition deletePod :: "'w plenv \<Rightarrow> Pod \<Rightarrow> ('w, unit) plproc" where
  "deletePod E pod = tryP (deleteWithK ''Pod'' pod_meta DeletePropagationForeground (pe_pod E) pod) (\<lambda>r. case r of
     Inl e \<Rightarrow> if \<not> isNotFound e then failP (EOpaque (''error deleting pod '' @ m_name (pod_meta pod)) e) else retP ()
   | Inr _ \<Rightarrow> retP ())"

definition deleteAssociatedPods :: "'w plenv \<Rightarrow> string \<Rightarrow> string \<Rightarrow> ('w, unit) plproc" where
  "deleteAssociatedPods E namespace pipelineName =
     bindP (onErr (listK ''Pod'' (pe_pod E) namespace [(TektonPipelineLabel, pipelineName)])
       (\<lambda>e. failP (EOpaque ''error listing pods: '' e))) (\<lambda>pods.
     forEach pods (deletePod E))"

definition setPipelineFinalizers :: "(string list \<Rightarrow> string list) \<Rightarrow> ('w, unit) plproc" where
  "setPipelineFinalizers f = modifyP (\<lambda>s. s\<lparr>s_pipeline := s_pipeline s\<lparr>pl_meta :=
     pl_meta (s_pipeline s)\<lparr>m_finalizers := f (m_finalizers (pl_meta (s_pipeline s)))\<rparr>\<rparr>\<rparr>)"

definition reconcileDeletePipeline :: "'w plenv \<Rightarrow> ('w, Result) plproc" where
  "reconcileDeletePipeline E = bindP (getP (\<lambda>s. pl_meta (s_pipeline s))) (\<lambda>meta.
     seqP (onErr (deleteAssociatedPods E (m_namespace meta) (m_name meta))
       (\<lambda>e. failP (EOpaque ''error deleting associated pods: '' e)))
     (seqP (setPipelineFinalizers (\<lambda>fs. removeFinalizer (pe_lib E) fs PipelineFinalizer)) (retP noRequeue)))"

section \<open>Reconciliation\<close>

definition reconcilePipelineBody :: "'w plenv \<Rightarrow> ('w, Result) plproc" where
  "reconcilePipelineBody E = bindP (getP (\<lambda>s. pl_meta (s_pipeline s))) (\<lambda>meta.
     if \<not> pe_containsFinalizer E (m_finalizers meta) PipelineFinalizer
     then seqP (setPipelineFinalizers (\<lambda>fs. addFinalizer (pe_lib E) fs PipelineFinalizer)) (retP noRequeue)
     else if m_deletionTimestamp meta \<noteq> None then reconcileDeletePipeline E
     else reconcilePL E)"

definition ReconcilePipeline :: "'w plenv \<Rightarrow> objkey \<Rightarrow> ('w, Result) plproc" where
  "ReconcilePipeline E req =
     tryP (getK ''Pipeline'' (pe_pipeline E) req) (\<lambda>r. case r of
       Inl e \<Rightarrow> if isNotFound e then retP noRequeue else failP e
     | Inr pipeline \<Rightarrow>
         seqP (modifyP (\<lambda>s. s\<lparr>s_pipeline := pipeline\<rparr>))
         (seqP (onErr (callP (RExternal ''NewHelper'' []) (api_newHelper (pe_pipeline E) pipeline))
           (\<lambda>e. failP (EWrap ''failed to init patch helper for pipeline'' e)))
         (deferErr (reconcilePipelineBody E)
           (bindP (getP s_pipeline) (\<lambda>after.
            onErr (patchK ''Pipeline'' pl_meta (pe_pipeline E) pipeline after) (\<lambda>e. failP (EWrap ''failed to patch pipeline'' e)))))))"

end
