(* ===== verification/PipelineProperties.thy ===== *)
theory PipelineProperties
  imports PipelineManager
begin

text \<open>
  Properties of the pipeline manager: the order of the tasks, what a reconciliation applies, when a
  Pipeline is released, and the credentials no pipeline is given.
\<close>

section \<open>The tasks of a pipeline\<close>

text \<open>The text of one task, as its template writes it.\<close>

definition workspaceText :: "string \<times> string \<Rightarrow> string" where
  "workspaceText = (\<lambda>(name, workspace). nl # ''    - name: '' @ name @ nl # ''      workspace: '' @ workspace)"

definition taskText :: "TaskInfo \<Rightarrow> string" where
  "taskText t = ''  - name: '' @ ti_name t @ nl # ''    taskRef:'' @ nl # ''      name: '' @ ti_taskRef t @
     nl # ''    runAfter: [\"'' @ ti_runAfter t @ ''\"]'' @ nl # ''    workspaces:'' @ concat (map workspaceText (ti_workspaces t)) @
     (if ti_retries t > 0 then nl # ''    retries: '' @ showInt (ti_retries t) else []) @ [nl]"

definition taskNodes :: "tnode list" where
  "taskNodes = [NText ''  - name: '', NCommand [AField [''Name'']], NText (nl # ''    taskRef:'' @ nl # ''      name: ''),
     NCommand [AField [''TaskRef'']], NText (nl # ''    runAfter: [\"''), NCommand [AField [''RunAfter'']],
     NText (''\"]'' @ nl # ''    workspaces:''),
     NRange [AField [''Workspaces'']] [NText (nl # ''    - name: ''), NCommand [AField [''Name'']], NText (nl # ''      workspace: ''),
       NCommand [AField [''Workspace'']], NText []],
     NText [], NIf [AFun ''gt'', AField [''Retries''], ANumber 0] [NText (nl # ''    retries: ''), NCommand [AField [''Retries'']], NText []],
     NText [nl]]"

lemma taskTemplate_parses: "parseTemplate (\<lambda>_. False) taskTemplate = Inr taskNodes"
  unfolding taskNodes_def by code_simp

lemma catE_Inr: "catE (map (\<lambda>x. Inr (f x)) xs) = Inr (concat (map f xs))"
  by (induction xs) simp_all

lemma taskNodes_exec: "execNodes (\<lambda>_. None) (taskInfoValue t) taskNodes = Inr (taskText t)"
proof -
  have "map (\<lambda>v. execNodes (\<lambda>_. None) v [NText (nl # ''    - name: ''), NCommand [AField [''Name'']], NText (nl # ''      workspace: ''),
       NCommand [AField [''Workspace'']], NText []]) (map (\<lambda>(n, w). VStruct [(''Name'', VString n), (''Workspace'', VString w)]) ws) =
     map (\<lambda>x. Inr (workspaceText x)) ws" for ws
    by (simp add: workspaceText_def split: prod.split)
  then show ?thesis
    by (simp add: taskNodes_def taskInfoValue_def taskText_def callBuiltin_def catE_Inr del: map_map)
qed

text \<open>The steps after cloning, each with the name of the step before it.\<close>

definition stepsOf :: "PipelineTask list \<Rightarrow> PipelineTask list" where
  "stepsOf tasks = filter (\<lambda>t. ptk_name t \<noteq> GitClone) tasks"

definition oneKind :: "PipelineTask \<Rightarrow> bool" where
  "oneKind t \<longleftrightarrow> (ptk_custom t = None) \<noteq> (ptk_predefined t = None)"

fun chainOf :: "string \<Rightarrow> string \<Rightarrow> PipelineTask list \<Rightarrow> TaskInfo list" where
  "chainOf p before [] = []"
| "chainOf p before (t # ts) = taskInfo p before t # chainOf p (ptk_name t) ts"

lemma tasksInfoLoop_chain:
  "tasksInfoLoop taskNodes p tasks before docker out =
     (if list_all oneKind (stepsOf tasks)
      then Inr (if list_ex (\<lambda>t. ptk_name t = BuildPushImage) (stepsOf tasks) then DockerCredentialsWorkspace else docker,
        out @ concat (map taskText (chainOf p before (stepsOf tasks))))
      else Inl (EMsg (''only one of 'PredefinedTask' or 'CustomTask' must be set in 'PipelineTask'' @ [CHR 0x27])))"
  by (induction tasks arbitrary: before docker out) (auto simp: stepsOf_def oneKind_def taskNodes_exec)

text \<open>C20. The tasks of a Tekton pipeline are those of the Pipeline other than git-clone, in the order of the
  Pipeline: each runs after the one before it and the first after git-clone, each refers to the Task
  named after it and the pipeline, and the workspace for registry credentials is asked for exactly when one
  of them is named build-and-push-image. The rendering fails exactly when one of them is not either
  predefined or custom.\<close>

theorem tasks_run_in_order:
  "generateTasksInfo p tasks =
     (if list_all oneKind (stepsOf tasks)
      then Inr (if list_ex (\<lambda>t. ptk_name t = BuildPushImage) (stepsOf tasks) then DockerCredentialsWorkspace else [],
        concat (map taskText (chainOf p GitClone (stepsOf tasks))))
      else Inl (EMsg (''only one of 'PredefinedTask' or 'CustomTask' must be set in 'PipelineTask'' @ [CHR 0x27]))) \<and>
   map ti_name (chainOf p GitClone (stepsOf tasks)) = map ptk_name (stepsOf tasks) \<and>
   map ti_runAfter (chainOf p GitClone (stepsOf tasks)) = take (length (stepsOf tasks)) (GitClone # map ptk_name (stepsOf tasks)) \<and>
   map ti_taskRef (chainOf p GitClone (stepsOf tasks)) = map (\<lambda>t. ptk_name t @ ''-'' @ p) (stepsOf tasks)"
proof -
  have "map ti_name (chainOf p before ts) = map ptk_name ts"
    "map ti_runAfter (chainOf p before ts) = take (length ts) (before # map ptk_name ts)"
    "map ti_taskRef (chainOf p before ts) = map (\<lambda>t. ptk_name t @ ''-'' @ p) ts" for before ts
    by (induction ts arbitrary: before) (simp_all add: taskInfo_def generatePipelineTaskName_def)
  then show ?thesis
    unfolding generateTasksInfo_def taskTemplate_parses by (simp add: tasksInfoLoop_chain)
qed

section \<open>Registry credentials\<close>

lemma content_unknown: "predefinedTaskTemplates BuildPushImageContent = None"
proof -
  have "hd BuildPushImageContent = CHR ''a''"
    unfolding BuildPushImageContent_def linesOf_def by simp
  moreover have "hd GitClone \<noteq> CHR ''a''" "hd GoTest \<noteq> CHR ''a''" "hd GoLint \<noteq> CHR ''a''" "hd BuildPushImage \<noteq> CHR ''a''"
    by (simp_all add: GitClone_def GoTest_def GoLint_def BuildPushImage_def)
  ultimately have "BuildPushImageContent \<noteq> GitClone" "BuildPushImageContent \<noteq> GoTest" "BuildPushImageContent \<noteq> GoLint"
      "BuildPushImageContent \<noteq> BuildPushImage"
    by metis+
  then show ?thesis
    by (simp add: predefinedTaskTemplates_def)
qed

text \<open>C39. No pipeline whose predefined tasks exist is given the credentials for signing images, not even one
  that builds and pushes an image: the name of the task is compared with the text of its template.\<close>

theorem chain_credentials_unused:
  assumes "list_all (\<lambda>t. ptk_custom t = None \<longrightarrow> (\<exists>p. ptk_predefined t = Some p \<and> predefinedTaskTemplates (pt_name p) \<noteq> None)) tasks"
  shows "needChainCredentials tasks = Ok False"
  using assms by (induction tasks) (auto simp: derefO_def content_unknown)

lemma task_without_kind_panics:
  assumes "t \<in> set tasks" and "ptk_custom t = None" and "ptk_predefined t = None"
    and "list_all (\<lambda>t. \<forall>p. ptk_predefined t = Some p \<longrightarrow> predefinedTaskTemplates (pt_name p) \<noteq> None) tasks"
  shows "needChainCredentials tasks = Panic"
  using assms by (induction tasks) (auto simp: derefO_def content_unknown split: option.split)

section \<open>Reconciliation\<close>

text \<open>The resources of a pipeline in the order they are applied, each with the message an error is wrapped in.\<close>

definition taskResource :: "'w plenv \<Rightarrow> Pipeline \<Rightarrow> PipelineTask \<Rightarrow> string \<times> string outcome" where
  "taskResource E pipeline t = (case ptk_predefined t of
     Some p \<Rightarrow> (''failed to apply task resources'', sumO (RenderPredefinedTask (funcsOf E) pipeline p))
   | None \<Rightarrow> (''failed to apply custom task resources'',
       bindO (derefO (ptk_custom t)) (\<lambda>c. sumO (RenderCustomTask (funcsOf E) pipeline (ptk_name t) c))))"

definition rbacResource :: "'w plenv \<Rightarrow> Pipeline \<Rightarrow> string outcome" where
  "rbacResource E pipeline = bindO (needChainCredentials (pls_tasks (pl_spec pipeline))) (\<lambda>need.
     sumO (RenderRBAC (funcsOf E) \<lparr>rb_pipelineName = m_name (pl_meta pipeline), rb_pipelineNamespace = m_namespace (pl_meta pipeline),
       rb_ownerReference = GeneratePipelineOwnerRef pipeline, rb_chainCredentialsName = (if need then ChainCredentials else [])\<rparr>))"

definition pipelineResources :: "'w plenv \<Rightarrow> Pipeline \<Rightarrow> (string \<times> string outcome) list" where
  "pipelineResources E pipeline =
     [(''failed to apply RBAC resources'', rbacResource E pipeline)] @
     map (taskResource E pipeline) (pls_tasks (pl_spec pipeline)) @
     [(''failed to apply pipeline resources'', sumO (RenderPipelineWithPipeline (funcsOf E) pipeline)),
      (''failed to apply trigger resources'', sumO (RenderTriggerWithPipeline (funcsOf E) pipeline))]"

definition applyResource :: "'w plenv \<Rightarrow> string \<times> string outcome \<Rightarrow> ('w, unit) plproc" where
  "applyResource E = (\<lambda>(msg, rendered). bindP (liftO rendered) (\<lambda>b. onErr (patchResources E b) (\<lambda>e. failP (EWrap msg e))))"

lemma applyRendered_resource: "applyRendered E msg r = applyResource E (msg, sumO r)"
  by (cases r) (simp_all add: applyRendered_def applyResource_def fun_eq_iff bindP_def liftE_def liftO_def sumO_def failP_def retP_def)

lemma taskResource_applied:
  "(case ptk_predefined t of Some p \<Rightarrow> createPredefinedTask E pipeline p | None \<Rightarrow> createCustomTask E pipeline t) =
   applyResource E (taskResource E pipeline t)"
  by (simp add: createPredefinedTask_def createCustomTask_def taskResource_def applyRendered_resource fun_eq_iff applyResource_def
      bindP_def derefP_def derefO_def panicP_def retP_def liftO_def split: option.split outcome.split)

lemma applyResource_keeps: "applyResource E x u = (r, t) \<Longrightarrow> s_pipeline t = s_pipeline u"
  by (auto simp: applyResource_def bindP_def liftO_def onErr_def patchResources_def callO_def failP_def
      split: prod.splits outcome.splits)

lemma applyAll_keeps: "forEach xs (applyResource E) u = (r, t) \<Longrightarrow> s_pipeline t = s_pipeline u"
  by (induction xs arbitrary: u) (auto simp: seqP_def bindP_def retP_def split: prod.splits outcome.splits dest: applyResource_keeps)

lemma forEach_map: "forEach (map g xs) f = forEach xs (\<lambda>x. f (g x))"
  by (induction xs) simp_all

lemma unlessRequeue_seq:
  assumes "m u = seqP a (retP noRequeue) u" and "\<And>r t. a u = (r, t) \<Longrightarrow> rest t = rest' t"
  shows "unlessRequeue m rest u = seqP a rest' u"
  using assms by (auto simp: unlessRequeue_def bindP_def seqP_def retP_def requeues_def noRequeue_def split: prod.split outcome.split)

lemma seqP_assoc: "seqP (seqP a b) c = seqP a (seqP b c)"
  by (auto simp: fun_eq_iff seqP_def bindP_def split: prod.split outcome.split)

lemma forEach_append: "forEach (xs @ ys) f = seqP (forEach xs f) (forEach ys f)"
  by (induction xs) (simp_all add: seqP_assoc, simp add: fun_eq_iff seqP_def bindP_def retP_def)

lemma seqP_unit: "seqP a (seqP (retP ()) b) = seqP a b"
  by (auto simp: fun_eq_iff seqP_def bindP_def retP_def split: prod.split outcome.split)

text \<open>C21. Reconciling a Pipeline is applying its resources one after the other: the access rights, the tasks in the
  order of the Pipeline, the Tekton pipeline and the trigger, each rendered from the Pipeline as it was
  read. The first that cannot be rendered or applied ends the run; the name of the event
  listener is recorded only after all of them have been applied.\<close>

theorem pipeline_applied_in_order:
  "reconcilePL E s = seqP (forEach (pipelineResources E (s_pipeline s)) (applyResource E)) (reconcilePipelineStatus E) s"
proof -
  let ?p = "s_pipeline s"
  let ?rbac = "(''failed to apply RBAC resources'', rbacResource E ?p)"
    and ?pipe = "(''failed to apply pipeline resources'', sumO (RenderPipelineWithPipeline (funcsOf E) ?p))"
    and ?trig = "(''failed to apply trigger resources'', sumO (RenderTriggerWithPipeline (funcsOf E) ?p))"
    and ?tasks = "map (taskResource E ?p) (pls_tasks (pl_spec ?p))"
  have rbac: "reconcileRBAC E u = seqP (applyResource E ?rbac) (retP noRequeue) u" if "s_pipeline u = ?p" for u
    using that by (simp add: reconcileRBAC_def applyRendered_resource applyResource_def rbacResource_def bindP_def getP_def seqP_def liftO_def
        split: outcome.split prod.split)
  have tasks: "reconcileTasks E u = seqP (forEach ?tasks (applyResource E)) (retP noRequeue) u" if "s_pipeline u = ?p" for u
    using that by (simp add: reconcileTasks_def taskResource_applied forEach_map bindP_def getP_def)
  have rest: "reconcilePipeline E u = seqP (applyResource E ?pipe) (retP noRequeue) u"
      "reconcileTrigger E u = seqP (applyResource E ?trig) (retP noRequeue) u" if "s_pipeline u = ?p" for u
    using that by (simp_all add: reconcilePipeline_def reconcileTrigger_def applyRendered_resource bindP_def getP_def)
  have "reconcilePL E s = seqP (applyResource E ?rbac) (seqP (forEach ?tasks (applyResource E))
      (seqP (applyResource E ?pipe) (seqP (applyResource E ?trig) (reconcilePipelineStatus E)))) s"
    unfolding reconcilePL_def
    by (intro unlessRequeue_seq rbac tasks rest) (auto dest!: applyResource_keeps applyAll_keeps)
  then show ?thesis
    by (simp add: pipelineResources_def forEach_append seqP_assoc seqP_unit)
qed

section \<open>Deletion\<close>

text \<open>
  The clean-up of a Pipeline: the pods of its runs were listed, and the deletion of each of them, in the
  foreground and in order, was accepted or found the pod gone.
\<close>

definition podsDeleted :: "'w plenv \<Rightarrow> ObjectMeta \<Rightarrow> 'w plstate \<Rightarrow> 'w plstate \<Rightarrow> bool" where
  "podsDeleted E meta s t \<longleftrightarrow> (\<exists>pods w.
     api_list (pe_pod E) (m_namespace meta) [(TektonPipelineLabel, m_name meta)] (world s) = (Inr pods, w) \<and>
     deletes (pe_pod E) (\<lambda>r. r = Inr () \<or> r = Inl NotFound) pods w (world t) \<and>
     reqs t = reqs s @ RList ''Pod'' (m_namespace meta) [(TektonPipelineLabel, m_name meta)] #
       map (\<lambda>pod. RDeleteWith ''Pod'' DeletePropagationForeground (pod_meta pod)) pods)"

lemma deletePods_run:
  "wp (forEach pods (deletePod E)) (\<lambda>r t. s_pipeline t = s_pipeline u \<and>
     (if r = Ok () then deletes (pe_pod E) (\<lambda>r. r = Inr () \<or> r = Inl NotFound) pods (world u) (world t) \<and>
        reqs t = reqs u @ map (\<lambda>pod. RDeleteWith ''Pod'' DeletePropagationForeground (pod_meta pod)) pods else \<exists>e. r = Err e)) u"
proof (induction pods arbitrary: u)
  case (Cons pod pods)
  have "isNotFound (EApi e) \<longleftrightarrow> e = NotFound" for e
    by (cases e) simp_all
  then have "wp (deletePod E pod) (\<lambda>r t. s_pipeline t = s_pipeline u \<and> (if r = Ok () then
      (\<exists>x. api_delete (pe_pod E) pod (world u) = (x, world t) \<and> (x = Inr () \<or> x = Inl NotFound)) \<and>
      reqs t = reqs u @ [RDeleteWith ''Pod'' DeletePropagationForeground (pod_meta pod)] else \<exists>e. r = Err e)) u"
    by (auto simp: deletePod_def wp_tryP deleteWithK_def wp_callP wp_failP wp_retP split: prod.split sum.split)
  then show ?case
    unfolding forEach.simps wp_seqP
    by (rule wp_mono) (auto split: outcome.split intro!: wp_mono [OF Cons.IH])
qed (simp add: wp_retP)

text \<open>C38. Deleting a Pipeline deletes every pod of its runs in its namespace before the finalizer goes, whatever the
  API server answers: a run that succeeds has listed the pods and had the deletion of each of them,
  in order and in the foreground, accepted or answered with NotFound, and then removes the finalizer; a
  run that fails, also one that cannot list the pods, leaves the Pipeline as it was.\<close>

theorem pipeline_released_after_pods:
  "wp (reconcileDeletePipeline E) (\<lambda>r t.
    if r = Ok noRequeue
    then podsDeleted E (pl_meta (s_pipeline s)) s t \<and>
      m_finalizers (pl_meta (s_pipeline t)) = removeFinalizer (pe_lib E) (m_finalizers (pl_meta (s_pipeline s))) PipelineFinalizer
    else (\<exists>e. r = Err e) \<and> s_pipeline t = s_pipeline s) s"
proof -
  have "wp (deleteAssociatedPods E (m_namespace meta) (m_name meta)) (\<lambda>r t. s_pipeline t = s_pipeline s \<and>
      (if r = Ok () then podsDeleted E meta s t else \<exists>e. r = Err e)) s" for meta
    unfolding deleteAssociatedPods_def listK_def wp_bindP wp_onErr wp_callP
    by (auto simp: wp_failP podsDeleted_def split: prod.split sum.split intro!: wp_mono [OF deletePods_run])
  then show ?thesis
    unfolding reconcileDeletePipeline_def wp_bindP wp_getP wp_seqP wp_onErr outcome.case
    by (rule wp_mono) (auto simp: setPipelineFinalizers_def podsDeleted_def wp_seqP wp_modifyP wp_retP wp_failP split: outcome.split if_splits)
qed

section \<open>Examples\<close>

definition demoPods :: "Pod list" where
  "demoPods = map (\<lambda>name. \<lparr>pod_meta = newMeta name ''default'', pod_spec = \<lparr>ps_containers = [], ps_volumes = [], ps_serviceAccountName = [],
     ps_restartPolicy = RestartPolicyNever\<rparr>, pod_phase = PodSucceeded\<rparr>) [''ci-run-1'', ''ci-run-2'']"

definition demoPipelineEnv :: "unit plenv" where
  "demoPipelineEnv = \<lparr>pe_pipeline = goneApi, pe_pod = goneApi\<lparr>api_list := (\<lambda>ns ls w. (Inr demoPods, w))\<rparr>,
     pe_patchResources = (\<lambda>b w. (Inr (), w)), pe_sprig = (\<lambda>f. None), pe_toYaml = (\<lambda>v. []), pe_lib = stdLib,
     pe_containsFinalizer = (\<lambda>fs f. f \<in> set fs)\<rparr>"

definition demoTasks :: "PipelineTask list" where
  "demoTasks = [\<lparr>ptk_name = ''git-clone'', ptk_predefined = Some \<lparr>pt_name = ''git-clone'', pt_params = []\<rparr>, ptk_custom = None, ptk_retries = 0\<rparr>,
     \<lparr>ptk_name = ''build-and-push-image'', ptk_predefined = Some \<lparr>pt_name = ''build-and-push-image'', pt_params = [(''image'', ''app'')]\<rparr>,
       ptk_custom = None, ptk_retries = 2\<rparr>]"

definition demoPipeline :: "unit plstate" where
  "demoPipeline = \<lparr>world = (), reqs = [], s_pipeline = \<lparr>pl_apiVersion = ''pipeline.kurator.dev/v1alpha1'', pl_kind = ''Pipeline'',
     pl_meta = (newMeta ''ci'' ''default'')\<lparr>m_finalizers := [PipelineFinalizer], m_deletionTimestamp := Some 1\<rparr>,
     pl_spec = \<lparr>pls_description = [], pls_tasks = demoTasks, pls_sharedWorkspace = None\<rparr>,
     pl_status = \<lparr>plt_phase = [], plt_eventListenerServiceName = None\<rparr>\<rparr>\<rparr>"

theorem chain_credentials_unused_witness: "needChainCredentials demoTasks = Ok False"
  by (rule chain_credentials_unused)
    (simp add: demoTasks_def predefinedTaskTemplates_def GitClone_def GoTest_def GoLint_def BuildPushImage_def)

theorem pipeline_released_after_pods_witness:
  "wp (reconcileDeletePipeline demoPipelineEnv) (\<lambda>r t. r = Ok noRequeue \<and> m_finalizers (pl_meta (s_pipeline t)) = [] \<and> length (reqs t) = 3) demoPipeline"
proof -
  have "wp (reconcileDeletePipeline demoPipelineEnv) (\<lambda>r t. r = Ok noRequeue) demoPipeline"
    by (simp add: reconcileDeletePipeline_def deleteAssociatedPods_def deletePod_def setPipelineFinalizers_def listK_def deleteWithK_def
        demoPipelineEnv_def goneApi_def demoPods_def wp_bindP wp_getP wp_seqP wp_onErr wp_callP wp_tryP wp_retP wp_modifyP)
  moreover have "wp (reconcileDeletePipeline demoPipelineEnv) (\<lambda>r t. r = Ok noRequeue \<longrightarrow> m_finalizers (pl_meta (s_pipeline t)) = [] \<and> length (reqs t) = 3) demoPipeline"
    by (rule wp_mono [OF pipeline_released_after_pods])
      (auto simp: podsDeleted_def demoPipelineEnv_def demoPipeline_def demoPods_def stdLib_def split: if_splits)
  ultimately show ?thesis
    by (auto simp: wp_def split: prod.splits)
qed

end
