(* ===== verification/Spec2Isabelle.thy ===== *)
theory Spec2Isabelle
  imports CustomClusterProperties AwsProperties MachineControllers FleetProperties ApplicationProperties BackupProperties PipelineProperties
begin

text \<open>
  Verification of Kurator: the cluster operator, the fleet manager and the admission webhooks.

  \<^bold>\<open>The program.\<close> Kurator runs two controller managers on a host cluster. The cluster operator
  (\<open>pkg/cluster-operator\<close>) provisions clusters: a CustomCluster on given machines with kubespray, a
  Cluster through an infrastructure provider and Cluster API, and attached clusters. The fleet
  manager (\<open>pkg/fleet-manager\<close>) groups clusters into fleets, installs plugins in them, distributes
  Applications to them, and backs up, restores and migrates what runs in them, and
  turns Pipelines into Tekton resources. Webhooks
  (\<open>pkg/webhooks\<close>) validate the objects users store. The parts interact through the objects of the
  API server: the webhooks decide which objects the controllers meet, the fleet manager reads the
  clusters the operator has made ready, applications and backups read the clusters of a fleet.

  \<^bold>\<open>Foundations.\<close>
  \<^item> \<open>Prelude\<close>: a Go function that may fail or panic is a \<open>proc\<close>, a function from a state to an outcome
    (\<open>Ok\<close>, \<open>Err\<close> or \<open>Panic\<close>) and the next state; the combinators follow the control flow of the sources
    (early return, \<open>defer\<close>, loops, wrapped errors). \<open>wp\<close> is its weakest precondition; \<open>pres R m\<close> says
    that \<open>m\<close> keeps the relation \<open>R\<close>, and the locale \<open>frame_rule\<close> derives it from the structure of a procedure.
  \<^item> \<open>Kube\<close>: objects and clients. A client is a record of functions over an arbitrary world, so every call
    may answer anything and change everything; requests are recorded in order. \<open>serves\<close> and \<open>upserts\<close>
    state what an API server documents, for the theorems that need it; \<open>memApi\<close> is an instance.
    \<open>client_frame\<close> extends \<open>frame_rule\<close> by the calls of a client.
  \<^item> \<open>GoStrings\<close>, \<open>GoNet\<close>, \<open>GoTemplate\<close>: the functions of Go's standard library the program uses, on byte strings.

  \<^bold>\<open>Cluster operator.\<close>
  \<^item> \<open>InfraTypes\<close>, \<open>ClusterTypes\<close>: the types of \<open>pkg/apis/infra\<close> and \<open>pkg/apis/cluster\<close>.
  \<^item> \<open>Inventory\<close>: the kubespray inventory as text (\<open>customcluster_helper.go\<close>, \<open>customcluster_scale.go\<close>). What is
    written can be read back, also after any number of scale-ups; the locale \<open>node_store\<close> is the contract.
  \<^item> \<open>ClusterConfig\<close>: the kubespray variables, versions and commands (\<open>customcluster_upgrade.go\<close>, the two
    template files). The version written is the version read (locale
    \<open>version_store\<close>); which upgrades are accepted.
  \<^item> \<open>CustomCluster\<close>: every handler of \<open>customcluster_controller.go\<close> and its helpers. \<open>CustomClusterPhases\<close>
    shows that the phase moves along a fixed machine and that deletion is guarded by the terminate
    worker; \<open>CustomClusterReady\<close> what holds when a cluster is reported provisioned, and that the status
    is patched last; \<open>CustomClusterProgress\<close> that scaling and upgrading complete against a server that
    keeps its promises; \<open>CustomClusterDemo\<close> has the samples, \<open>CustomClusterProperties\<close> the properties.
  \<^item> \<open>ClusterScope\<close> (\<open>pkg/infra/scope\<close>), \<open>ClusterController\<close>, \<open>MachineControllers\<close> (\<open>cluster_controller.go\<close>,
    \<open>custommachine_controller.go\<close>, \<open>attachedcluster_controller.go\<close>): readiness is checked with the provider,
    the finalizer goes after the infrastructure, device names are different. \<open>AwsProvider\<close> is the provider of
    \<open>pkg/infra/aws\<close>; \<open>AwsProperties\<close> shows that it keeps the contract the Cluster controller relies on
    and, for the two composed, that the finalizer goes after the stack and the identities of the Cluster are deleted.

  \<^bold>\<open>Webhooks.\<close> \<open>Webhooks\<close> has the validation and the defaulting of the five kinds, \<open>WebhookProperties\<close>
  what an admitted object satisfies, for every version of a stored object; the locale
  \<open>admission_webhook\<close> carries a validation over from creation and updates to stored objects.

  \<^bold>\<open>Fleet manager.\<close>
  \<^item> \<open>FleetTypes\<close>, \<open>FleetRender\<close> (\<open>plugin/\<close>), \<open>FleetManager\<close> (\<open>fleet.go\<close>, \<open>fleet_cluster.go\<close>, \<open>clusters.go\<close>,
    \<open>controlplane.go\<close>), \<open>FleetPlugins\<close> (\<open>fleet_plugin*.go\<close>). \<open>FleetMembership\<close> proves that reconciling the
    clusters implements an abstract relabelling of the stored clusters; \<open>FleetProperties\<close> that the order of
    the plugins is irrelevant, which releases are deleted and when a fleet is released.
  \<^item> \<open>AppTypes\<close>, \<open>ApplicationHelpers\<close>, \<open>Testloader\<close>, \<open>Rollout\<close>, \<open>ApplicationManager\<close> (\<open>application/\<close>):
    \<open>ApplicationProperties\<close> shows which clusters a policy reaches, that admission guarantees what the
    controller assumes of destinations, and what status and deletion get wrong.
  \<^item> \<open>BackupTypes\<close>, \<open>BackupShared\<close>, \<open>BackupControllers\<close> (\<open>backup/\<close>): \<open>BackupProperties\<close> shows the phases of a
    migration, that writing backups adds the missing ones, which backup is the most recent, and the
    failures of schedules, policies and deletion.
  \<^item> \<open>PipelineRender\<close>, \<open>PipelineManager\<close> (\<open>pipeline/\<close>): \<open>PipelineProperties\<close> shows that tasks run in their order, what a
    reconciliation applies and when, and that a pipeline is released after its pods.

  \<^bold>\<open>This theory\<close> holds the properties that span components: an admitted CustomMachine gives an inventory
  that can be read back, and when it makes its controller panic.

  \<^bold>\<open>Conventions and bounds.\<close> Definitions carry the names of the sources; a loop of the sources that is a
  function of its own is named after what it collects. No definition runs on fuel: the loops of the
  program range over lists or consume their text, and the recursions are structural or have a
  termination proof. The IPv6 parser makes at most eight rounds, one for every group of 16 bits, as in
  Go. Times and durations are whole seconds. Go integers that can overflow (the counters of a fleet
  status) are wrapped at 32 bits. A nil map and an empty map are different values where the sources
  tell them apart. A goroutine is one step; the order in which goroutines finish, the order of ranging
  over a map, of \<open>UnsortedList\<close> and of equal elements in \<open>sort.Slice\<close> are parameters. The module is built
  with Go 1.20, whose loop variables are shared by all rounds; where a pointer to one is kept, the
  model keeps the variable in a store and the pointer as its address. Writing to the log and the context argument are left out.

  \<^bold>\<open>Parameters.\<close> The API servers, controller-runtime (\<open>CreateOrUpdate\<close>, finalizers), Cluster API (conditions,
  patch helper), the AWS services, go-semver, karmada, helm, the YAML and JSON decoders, SSH and the cron parser are
  arguments of the definitions that call them. What a theorem assumes of one is a named predicate
  (\<open>serves\<close>, \<open>upserts\<close>, \<open>capilib_laws\<close>, \<open>semver_laws\<close>, \<open>provider_laws\<close>, \<open>sortsSlice\<close>, ...), and its witness
  instantiates it.

  \<^bold>\<open>Not modelled.\<close> The templates of the Cluster API resources and of the network plugin (\<open>pkg/infra/template\<close>,
  \<open>pkg/infra/plugin\<close>) are embedded files that are executed with variables and alternatives; their result is a
  parameter. Generating keys (\<open>openid/cert.go\<close>) is cryptography. The command line (\<open>cmd/kurator\<close>, \<open>pkg/plugin\<close>, \<open>pkg/pipeline\<close>, \<open>pkg/tool\<close>, \<open>pkg/util\<close>, \<open>pkg/client\<close>,
  \<open>pkg/istiocert\<close>, ...) downloads and installs third-party software with external programs and is input and output
  throughout. \<open>cmd/cluster-operator\<close>, \<open>cmd/fleet-manager\<close> and the \<open>SetupWithManager\<close> functions wire the
  controllers together. The clientsets, informers, listers and deep copies are generated.
\<close>

section \<open>Admission and the inventory\<close>

lemma addressed_goodNode:
  "addressed m \<Longrightarrow> HostName m \<noteq> [] \<Longrightarrow> goodWord (HostName m) \<Longrightarrow> goodNode (machineNode m)"
  using addressed_wordNode [of m] by (simp add: goodNode_def machineNode_def)

text \<open>C11. The inventory of an admitted CustomMachine can be read back: for every version of a stored
  CustomMachine whose host names are non-empty, pairwise different and free of white space and
  opening brackets, reading the cluster-hosts config map gives its worker machines. Nothing has
  to be assumed of the addresses, because the webhook has checked them.\<close>

theorem admitted_machines_roundtrip:
  assumes "admitted CustomMachineValidateCreate CustomMachineValidateUpdate obj news"
    and "RtCustomMachine m \<in> set (obj # news)"
    and "list_all (\<lambda>h. h \<noteq> [] \<and> goodWord h) (map HostName (Master (cmach_spec m) @ Nodes (cmach_spec m)))"
    and "distinct (map HostName (Master (cmach_spec m) @ Nodes (cmach_spec m)))"
  shows "getWorkerNodeInfoFromClusterHosts
      (templateConfigMap name namespace ClusterHostsName (renderHosts (GetHostsContent m))) =
    Some (getWorkerNodesFromCustomMachine m)"
proof -
  let ?ms = "Master (cmach_spec m) @ Nodes (cmach_spec m)"
  have "list_all addressed ?ms"
    using customMachine.stored_valid(1) [OF assms(1,2)] by (simp add: validateCustomMachine_None)
  then have "\<forall>n \<in> set (map machineNode ?ms). goodNode n"
    using assms(3) by (auto simp: list_all_iff intro!: addressed_goodNode)
  moreover have "NodeName \<circ> machineNode = HostName" by (simp add: fun_eq_iff machineNode_def)
  ultimately have "goodInventory (nodesOf (Master (cmach_spec m))) (nodesOf (Nodes (cmach_spec m)))"
    using assms(4) by (simp add: goodInventory_def nodesOf_def)
  from inventory.rewrite_converges [OF this] show ?thesis
    by (simp add: getWorkerNodeInfoFromClusterHosts_def templateConfigMap_def mapAt_def)
qed

lemma demo_addresses:
  "ParseIP ''200.1.1.1'' \<noteq> None" "ParseIP ''200.1.1.2'' \<noteq> None" "ParseIP ''200.1.1.3'' \<noteq> None"
proof -
  have "showNat 200 @ ''.'' @ showNat 1 @ ''.'' @ showNat 1 @ ''.'' @ showNat 1 = ''200.1.1.1''"
    "showNat 200 @ ''.'' @ showNat 1 @ ''.'' @ showNat 1 @ ''.'' @ showNat 2 = ''200.1.1.2''"
    "showNat 200 @ ''.'' @ showNat 1 @ ''.'' @ showNat 1 @ ''.'' @ showNat 3 = ''200.1.1.3''"
    by code_simp+
  then show "ParseIP ''200.1.1.1'' \<noteq> None" "ParseIP ''200.1.1.2'' \<noteq> None" "ParseIP ''200.1.1.3'' \<noteq> None"
    using ParseIP_dotted [of 200 1 1 1] ParseIP_dotted [of 200 1 1 2] ParseIP_dotted [of 200 1 1 3] by simp_all
qed

lemma demo_admitted: "admitted CustomMachineValidateCreate CustomMachineValidateUpdate (RtCustomMachine demoCustomMachine) []"
  using demo_addresses
  by (simp add: admitted_def CustomMachineValidateCreate_def validateCustomMachine_None addressed_def
      demoCustomMachine_def demoMachine_def)

theorem admitted_machines_roundtrip_witness:
  "admitted CustomMachineValidateCreate CustomMachineValidateUpdate (RtCustomMachine demoCustomMachine) [] \<and>
   getWorkerNodeInfoFromClusterHosts
      (templateConfigMap ''cc-cluster-hosts'' ''default'' ClusterHostsName (renderHosts (GetHostsContent demoCustomMachine))) =
    Some (getWorkerNodesFromCustomMachine demoCustomMachine)"
  using demo_admitted admitted_machines_roundtrip [OF demo_admitted, of demoCustomMachine]
  by (simp add: demoCustomMachine_def demoMachine_def goodWord_def isSpace_def)

text \<open>C31.
  The CustomMachine controller takes the SSH key of the first master machine, which would be a panic
  on a CustomMachine without masters, and reads the reference to it again when the key is not found.
  A version of a CustomMachine that went through its webhook makes it panic exactly when the first
  master has no reference to a key and looking up the missing reference is answered with NotFound;
  no other answer of the API server does, and no CustomMachine whose first master has a key.
\<close>

theorem admitted_machine_panics_iff:
  assumes "admitted CustomMachineValidateCreate CustomMachineValidateUpdate obj news"
    and "RtCustomMachine m \<in> set (obj # news)"
  shows "wp (reconcileCustomMachine E m) (\<lambda>r s'. r = Panic \<longleftrightarrow> unsetKeyNotFound E m (world s)) s"
proof -
  have "odd (length (Master (cmach_spec m)))"
    using customMachine.stored_valid(1) [OF assms] by (simp add: validateCustomMachine_None)
  then show ?thesis
    by (auto intro: reconcileCustomMachine_panics)
qed

definition demoMachineEnv :: "apierr \<Rightarrow> unit machineEnv" where
  "demoMachineEnv e = \<lparr>me_machine = goneApi, me_externalGet = (\<lambda>ref ns w. (Inl e, w)),
     me_setControllerReference = (\<lambda>m obj. Inr obj), me_watch = (\<lambda>obj w. (Inr (), w))\<rparr>"

theorem admitted_machine_panics_iff_witness:
  "wp (reconcileCustomMachine (demoMachineEnv NotFound) demoCustomMachine) (\<lambda>r s'. r = Panic) \<lparr>world = (), reqs = []\<rparr> \<and>
   wp (reconcileCustomMachine (demoMachineEnv (OtherApi ''not set'')) demoCustomMachine) (\<lambda>r s'. r \<noteq> Panic) \<lparr>world = (), reqs = []\<rparr>"
  using admitted_machine_panics_iff [OF demo_admitted, of demoCustomMachine "demoMachineEnv NotFound" "\<lparr>world = (), reqs = []\<rparr>"]
    admitted_machine_panics_iff [OF demo_admitted, of demoCustomMachine "demoMachineEnv (OtherApi ''not set'')" "\<lparr>world = (), reqs = []\<rparr>"]
  by (simp add: unsetKeyNotFound_def demoMachineEnv_def demoCustomMachine_def demoMachine_def)

end
